(* ===== verification/Prelude.thy ===== *)
theory Prelude
  imports Main "HOL-Library.Word" "HOL-Library.Monad_Syntax"
begin

text \<open>
  What the components share: bytes and byte strings as Go has them, the
  big-endian integers of \<^verbatim>\<open>encoding/binary\<close>, the decimal and hexadecimal
  renderings of \<^verbatim>\<open>fmt\<close> and \<^verbatim>\<open>encoding/hex\<close>, the base64 alphabet of
  \<^verbatim>\<open>encoding/base64\<close>, the string functions of \<^verbatim>\<open>strings\<close>, and results that are
  either an error or a value.  Each operation comes with the lemma that the
  component proofs use as a rewrite rule.
\<close>

section \<open>Names of the model's basic types\<close>

type_synonym byte = "8 word"
type_synonym bytes = "byte list"

text \<open>Points in time and durations are nanoseconds.\<close>

type_synonym time = int
type_synonym duration = int

abbreviation Second :: duration where "Second \<equiv> 1000000000"
abbreviation Millisecond :: duration where "Millisecond \<equiv> 1000000"
abbreviation Minute :: duration where "Minute \<equiv> 60000000000"

text \<open>The zero \<^verbatim>\<open>time.Time\<close>, as nanoseconds from the Unix epoch.\<close>

definition zero_time :: time where
  "zero_time = - 62135596800 * Second"

text \<open>A Go function that returns \<^verbatim>\<open>(T, error)\<close> returns \<^verbatim>\<open>Inl\<close> of the error or
  \<^verbatim>\<open>Inr\<close> of the value.\<close>

type_synonym ('e, 'a) result = "'e + 'a"

named_theorems bytes_simps \<open>integers and strings laid out as bytes\<close>
named_theorems codec_simps \<open>encode/decode equations of the wire formats\<close>
named_theorems store_simps \<open>what a keyed store returns after an update\<close>
named_theorems inv_intros \<open>preservation of the component invariants\<close>

section \<open>Results\<close>

fun rbind :: "('e, 'a) result \<Rightarrow> ('a \<Rightarrow> ('e, 'b) result) \<Rightarrow> ('e, 'b) result" where
  "rbind (Inl e) f = Inl e"
| "rbind (Inr x) f = f x"

lemma rbind_Inr_iff [simp]: "rbind r f = Inr y \<longleftrightarrow> (\<exists>x. r = Inr x \<and> f x = Inr y)"
  by (cases r) auto

lemma rbind_Inl_iff: "rbind r f = Inl e \<longleftrightarrow> r = Inl e \<or> (\<exists>x. r = Inr x \<and> f x = Inl e)"
  by (cases r) auto

definition isOk :: "('e, 'a) result \<Rightarrow> bool" where
  "isOk r = (case r of Inl _ \<Rightarrow> False | Inr _ \<Rightarrow> True)"

lemma isOk_simps [simp]: "isOk (Inr x)" "\<not> isOk (Inl e)"
  by (simp_all add: isOk_def)

section \<open>Integers in network byte order\<close>

fun to_be :: "nat \<Rightarrow> nat \<Rightarrow> bytes" where
  "to_be 0 n = []"
| "to_be (Suc k) n = to_be k (n div 256) @ [of_nat n]"

definition of_be :: "bytes \<Rightarrow> nat" where
  "of_be bs = foldl (\<lambda>a b. 256 * a + unat b) 0 bs"

lemma of_be_Nil [simp]: "of_be [] = 0"
  by (simp add: of_be_def)

lemma of_be_snoc [simp]: "of_be (bs @ [b]) = 256 * of_be bs + unat b"
  by (simp add: of_be_def)

lemma of_be_two [simp]: "of_be [a, b] = 256 * unat a + unat b"
  by (simp add: of_be_def)

lemma unat_byte_lt [simp]: "unat (b :: byte) < 256"
  using unsigned_less [of b] by simp

lemma unat_byte_le [simp]: "unat (b :: byte) \<le> 255"
  using unat_byte_lt [of b] by linarith

lemma unat_of_nat_byte [simp]: "unat (of_nat n :: byte) = n mod 256"
  by (simp add: unat_of_nat)

lemma of_nat_mod_byte: "(of_nat (n mod 256) :: byte) = of_nat n"
  by (metis of_nat_unat ucast_id unat_of_nat_byte)

lemma length_to_be [simp]: "length (to_be k n) = k"
  by (induction k arbitrary: n) auto

lemma of_be_to_be [bytes_simps]: "of_be (to_be k n) = n mod 256 ^ k"
proof (induction k arbitrary: n)
  case (Suc k)
  have "n mod 256 ^ Suc k = 256 * (n div 256 mod 256 ^ k) + n mod 256"
    by (metis mod_mult2_eq power_Suc)
  then show ?case using Suc by simp
qed simp

lemma of_be_less: "of_be bs < 256 ^ length bs"
proof (induction bs rule: rev_induct)
  case (snoc b bs)
  have "256 * of_be bs + unat b < 256 * of_be bs + 256" by simp
  also have "\<dots> = 256 * Suc (of_be bs)" by simp
  also have "\<dots> \<le> 256 * 256 ^ length bs" using snoc by (simp add: Suc_leI)
  finally show ?case by simp
qed simp

lemma to_be_of_be [bytes_simps]: "to_be (length bs) (of_be bs) = bs"
proof (induction bs rule: rev_induct)
  case (snoc b bs)
  have "(of_nat (256 * of_be bs + unat b) :: byte) = b"
    by (metis mod_mult_self4 of_nat_mod_byte of_nat_unat ucast_id unat_byte_lt mod_less)
  then show ?case using snoc by simp
qed simp

lemma to_be_inj:
  assumes "to_be k m = to_be k n" "m < 256 ^ k" "n < 256 ^ k"
  shows "m = n"
  using assms by (metis mod_less of_be_to_be)

lemma to_be_2: "to_be 2 n = [of_nat (n div 256), of_nat n]"
  by (simp add: numeral_2_eq_2)

section \<open>Slices\<close>

text \<open>\<^verbatim>\<open>xs[i:j]\<close> for \<^verbatim>\<open>i <= j <= len(xs)\<close>.\<close>

definition subslice :: "nat \<Rightarrow> nat \<Rightarrow> 'a list \<Rightarrow> 'a list" where
  "subslice i j xs = take (j - i) (drop i xs)"

lemma subslice_full [simp]: "subslice 0 (length xs) xs = xs"
  by (simp add: subslice_def)

lemma length_subslice [simp]: "length (subslice i j xs) = min (j - i) (length xs - i)"
  by (auto simp: subslice_def min_def)

lemma subslice_append_left: "j \<le> length xs \<Longrightarrow> subslice i j (xs @ ys) = subslice i j xs"
  by (simp add: subslice_def)

lemma subslice_drop: "j = length xs \<Longrightarrow> subslice i j xs = drop i xs"
  by (simp add: subslice_def)

section \<open>Characters and strings\<close>

abbreviation code :: "char \<Rightarrow> nat" where "code c \<equiv> of_char c"

definition is_digit :: "char \<Rightarrow> bool" where
  "is_digit c = (48 \<le> code c \<and> code c \<le> 57)"

definition is_hex :: "char \<Rightarrow> bool" where
  "is_hex c = (is_digit c \<or> (65 \<le> code c \<and> code c \<le> 70) \<or> (97 \<le> code c \<and> code c \<le> 102))"

text \<open>\<^verbatim>\<open>strings.ToUpper\<close> on the ASCII letters; the identifiers it is applied to
  are hexadecimal once validated.\<close>

definition upper_char :: "char \<Rightarrow> char" where
  "upper_char c = (if 97 \<le> code c \<and> code c \<le> 122 then char_of (code c - 32) else c)"

definition ToUpper :: "string \<Rightarrow> string" where
  "ToUpper s = map upper_char s"

definition HasPrefix :: "string \<Rightarrow> string \<Rightarrow> bool" where
  "HasPrefix s p = (take (length p) s = p)"

definition TrimPrefix :: "string \<Rightarrow> string \<Rightarrow> string" where
  "TrimPrefix s p = (if HasPrefix s p then drop (length p) s else s)"

definition HasSuffix :: "string \<Rightarrow> string \<Rightarrow> bool" where
  "HasSuffix s p = (length p \<le> length s \<and> drop (length s - length p) s = p)"

definition TrimSuffix :: "string \<Rightarrow> string \<Rightarrow> string" where
  "TrimSuffix s p = (if HasSuffix s p then take (length s - length p) s else s)"

lemma HasPrefix_append [simp]: "HasPrefix (p @ s) p"
  by (simp add: HasPrefix_def)

lemma HasPrefix_iff: "HasPrefix s p \<longleftrightarrow> (\<exists>t. s = p @ t)"
  by (metis HasPrefix_append HasPrefix_def append_take_drop_id)

lemma TrimPrefix_append [simp]: "TrimPrefix (p @ s) p = s"
  by (simp add: TrimPrefix_def)

text \<open>The section sign is two bytes in the UTF-8 source text.\<close>

definition sect :: string where
  "sect = [CHR 0xC2, CHR 0xA7]"

text \<open>Bytes of a string and back: a Go string is its bytes.\<close>

definition bytes_of :: "string \<Rightarrow> bytes" where
  "bytes_of s = map (\<lambda>c. of_nat (code c)) s"

definition string_of :: "bytes \<Rightarrow> string" where
  "string_of bs = map (\<lambda>b. char_of (unat b)) bs"

lemma code_less [simp]: "code c < 256"
  by (metis char_of_char of_char_of mod_less_divisor zero_less_numeral)

lemma string_of_bytes_of [simp]: "string_of (bytes_of s) = s"
  by (induction s) (simp_all add: string_of_def bytes_of_def)

lemma bytes_of_string_of [simp]: "bytes_of (string_of bs) = bs"
  by (induction bs) (simp_all add: string_of_def bytes_of_def)

lemma length_bytes_of [simp]: "length (bytes_of s) = length s"
  by (simp add: bytes_of_def)

lemma length_string_of [simp]: "length (string_of bs) = length bs"
  by (simp add: string_of_def)

lemma bytes_of_inj [simp]: "bytes_of s = bytes_of t \<longleftrightarrow> s = t"
  by (metis string_of_bytes_of)

text \<open>\<^verbatim>\<open>unicode.IsSpace\<close> on UTF-8 text: \<^verbatim>\<open>strings.TrimSpace(s) == ""\<close> holds when
  the string is a sequence of encoded white-space characters.\<close>

fun only_space :: "nat list \<Rightarrow> bool" where
  "only_space [] = True"
| "only_space (a # xs) =
    (if a \<in> {9, 10, 11, 12, 13, 32} then only_space xs
     else (case xs of
        b # ys \<Rightarrow>
          (if a = 0xC2 \<and> (b = 0x85 \<or> b = 0xA0) then only_space ys
           else (case ys of
              c # zs \<Rightarrow>
                (if (a = 0xE1 \<and> b = 0x9A \<and> c = 0x80)
                   \<or> (a = 0xE2 \<and> b = 0x80 \<and> ((0x80 \<le> c \<and> c \<le> 0x8A) \<or> c = 0xA8 \<or> c = 0xA9 \<or> c = 0xAF))
                   \<or> (a = 0xE2 \<and> b = 0x81 \<and> c = 0x9F)
                   \<or> (a = 0xE3 \<and> b = 0x80 \<and> c = 0x80)
                 then only_space zs else False)
            | [] \<Rightarrow> False))
      | [] \<Rightarrow> False))"

definition blank :: "string \<Rightarrow> bool" where
  "blank s = only_space (map of_char s)"

end
