(* ===== verification/Encodings.thy ===== *)
theory Encodings
  imports Prelude
begin

text \<open>
  The textual encodings of the Go standard library that the program relies on:
  \<^verbatim>\<open>%d\<close> and \<^verbatim>\<open>strconv.ParseUint\<close> for decimal numbers, \<^verbatim>\<open>encoding/hex\<close>, and
  \<^verbatim>\<open>base64.StdEncoding\<close>.  Each printer is shown to be inverted by its parser.
\<close>

section \<open>Decimal\<close>

definition digit_char :: "nat \<Rightarrow> char" where
  "digit_char d = char_of (48 + d)"

fun show_nat :: "nat \<Rightarrow> string" where
  "show_nat n = (if n < 10 then [digit_char n] else show_nat (n div 10) @ [digit_char (n mod 10)])"

declare show_nat.simps [simp del]

definition show_int :: "int \<Rightarrow> string" where
  "show_int i = (if i < 0 then ''-'' @ show_nat (nat (- i)) else show_nat (nat i))"

definition digit_val :: "char \<Rightarrow> nat" where
  "digit_val c = code c - 48"

definition read_nat :: "string \<Rightarrow> nat option" where
  "read_nat s = (if s \<noteq> [] \<and> list_all is_digit s
     then Some (foldl (\<lambda>a c. 10 * a + digit_val c) 0 s) else None)"

text \<open>\<^verbatim>\<open>strconv.ParseUint(s, 10, w)\<close>: a value beyond \<^verbatim>\<open>w\<close> bits is an error.\<close>

definition ParseUint :: "string \<Rightarrow> nat \<Rightarrow> nat option" where
  "ParseUint s w = (case read_nat s of None \<Rightarrow> None | Some n \<Rightarrow> if n < 2 ^ w then Some n else None)"

lemma digit_char_props [simp]:
  assumes "d < 10"
  shows "is_digit (digit_char d)" "digit_val (digit_char d) = d"
  using assms by (simp_all add: is_digit_def digit_val_def digit_char_def)

lemma show_nat_digits: "list_all is_digit (show_nat n)"
  by (induction n rule: show_nat.induct) (subst show_nat.simps, auto)

lemma show_nat_nonempty [simp]: "show_nat n \<noteq> []"
  by (subst show_nat.simps) simp

lemma foldl_show_nat: "foldl (\<lambda>a c. 10 * a + digit_val c) 0 (show_nat n) = n"
proof (induction n rule: show_nat.induct)
  case (1 n)
  show ?case
  proof (cases "n < 10")
    case True
    then show ?thesis by (subst show_nat.simps) simp
  next
    case False
    then show ?thesis using 1 by (subst show_nat.simps) simp
  qed
qed

lemma read_show_nat [simp]: "read_nat (show_nat n) = Some n"
  by (simp add: read_nat_def show_nat_digits foldl_show_nat)

lemma show_nat_inj [simp]: "show_nat m = show_nat n \<longleftrightarrow> m = n"
  by (metis option.inject read_show_nat)

lemma ParseUint_show_nat: "n < 2 ^ w \<Longrightarrow> ParseUint (show_nat n) w = Some n"
  by (simp add: ParseUint_def)

lemma colon_not_digit [simp]: "\<not> is_digit CHR '':''" "\<not> is_digit CHR ''-''"
  by (simp_all add: is_digit_def)

lemma nondigit_not_in_show_nat: "\<not> is_digit c \<Longrightarrow> c \<notin> set (show_nat n)"
  using show_nat_digits [of n] by (auto simp: list_all_iff)

lemma takeWhile_digits: "list_all is_digit s \<Longrightarrow> \<not> is_digit c \<Longrightarrow> takeWhile is_digit (s @ c # t) = s"
  by (induction s) auto

text \<open>A number followed by a separator that is not a digit can be read back.\<close>

lemma show_nat_sep_inj:
  assumes "show_nat m @ c # s = show_nat n @ c # t" "\<not> is_digit c"
  shows "m = n \<and> s = t"
proof -
  have m: "takeWhile is_digit (show_nat m @ c # s) = show_nat m"
    and n: "takeWhile is_digit (show_nat n @ c # t) = show_nat n"
    using assms(2) by (simp_all add: takeWhile_digits show_nat_digits)
  have "show_nat m = show_nat n" using m n assms(1) by argo
  then show ?thesis using assms(1) by simp
qed

section \<open>Hexadecimal\<close>

definition hex_digit :: "nat \<Rightarrow> char" where
  "hex_digit d = (if d < 10 then char_of (48 + d) else char_of (87 + d))"

definition hex_val :: "char \<Rightarrow> nat" where
  "hex_val c = (if code c \<le> 57 then code c - 48
     else if code c \<le> 70 then code c - 55 else code c - 87)"

definition EncodeToString :: "bytes \<Rightarrow> string" where
  "EncodeToString bs = concat (map (\<lambda>b. [hex_digit (unat b div 16), hex_digit (unat b mod 16)]) bs)"

text \<open>\<^verbatim>\<open>hex.DecodeString\<close>: an odd length or a character outside the alphabet is
  an error.\<close>

fun DecodeString :: "string \<Rightarrow> bytes option" where
  "DecodeString [] = Some []"
| "DecodeString [c] = None"
| "DecodeString (c # d # s) =
    (if is_hex c \<and> is_hex d
     then map_option ((#) (of_nat (16 * hex_val c + hex_val d))) (DecodeString s)
     else None)"

lemma hex_digit_props [simp]:
  assumes "d < 16"
  shows "is_hex (hex_digit d)" "hex_val (hex_digit d) = d"
  using assms by (auto simp: is_hex_def is_digit_def hex_val_def hex_digit_def)

lemma byte_nibbles [simp]: "(of_nat (16 * (unat b div 16) + unat b mod 16) :: byte) = b"
  by simp

lemma byte_hi_less [simp]: "unat (b :: byte) div 16 < 16"
  using unat_byte_lt [of b] by linarith

lemma Decode_EncodeToString [simp]: "DecodeString (EncodeToString bs) = Some bs"
  by (induction bs) (simp_all add: EncodeToString_def)

lemma length_EncodeToString [simp]: "length (EncodeToString bs) = 2 * length bs"
  by (induction bs) (simp_all add: EncodeToString_def)

lemma DecodeString_length: "DecodeString s = Some bs \<Longrightarrow> length s = 2 * length bs"
  by (induction s arbitrary: bs rule: DecodeString.induct) (auto split: if_splits)

lemma DecodeString_hex_iff:
  "(\<exists>bs. DecodeString s = Some bs) \<longleftrightarrow> even (length s) \<and> list_all is_hex s"
  by (induction s rule: DecodeString.induct) auto

section \<open>Base64\<close>

definition b64_char :: "nat \<Rightarrow> char" where
  "b64_char d = (if d < 26 then char_of (65 + d) else if d < 52 then char_of (71 + d)
     else if d < 62 then char_of (d - 4) else if d = 62 then CHR ''+'' else CHR ''/'')"

definition b64_val :: "char \<Rightarrow> nat option" where
  "b64_val c = (let n = code c in
     if 65 \<le> n \<and> n \<le> 90 then Some (n - 65)
     else if 97 \<le> n \<and> n \<le> 122 then Some (n - 71)
     else if 48 \<le> n \<and> n \<le> 57 then Some (n + 4)
     else if n = 43 then Some 62 else if n = 47 then Some 63 else None)"

fun b64_encode :: "bytes \<Rightarrow> string" where
  "b64_encode [] = []"
| "b64_encode [a] = [b64_char (unat a div 4), b64_char (unat a mod 4 * 16), CHR ''='', CHR ''='']"
| "b64_encode [a, b] =
    [b64_char (unat a div 4), b64_char (unat a mod 4 * 16 + unat b div 16),
     b64_char (unat b mod 16 * 4), CHR ''='']"
| "b64_encode (a # b # c # bs) =
    b64_char (unat a div 4) # b64_char (unat a mod 4 * 16 + unat b div 16)
    # b64_char (unat b mod 16 * 4 + unat c div 64) # b64_char (unat c mod 64) # b64_encode bs"

text \<open>The decoder skips \<^verbatim>\<open>'\r'\<close> and \<^verbatim>\<open>'\n'\<close> and does not look at the bits that
  padding leaves over.\<close>

fun b64_quanta :: "string \<Rightarrow> bytes option" where
  "b64_quanta [] = Some []"
| "b64_quanta (p # q # r # s # rest) =
    (case (b64_val p, b64_val q) of
      (Some x, Some y) \<Rightarrow>
        (if r = CHR ''='' then
           (if s = CHR ''='' \<and> rest = [] then Some [of_nat (x * 4 + y div 16)] else None)
         else (case b64_val r of
           None \<Rightarrow> None
         | Some z \<Rightarrow>
             (if s = CHR ''='' then
                (if rest = [] then Some [of_nat (x * 4 + y div 16), of_nat (y mod 16 * 16 + z div 4)]
                 else None)
              else (case b64_val s of
                None \<Rightarrow> None
              | Some w \<Rightarrow>
                  map_option (\<lambda>bs. of_nat (x * 4 + y div 16) # of_nat (y mod 16 * 16 + z div 4)
                    # of_nat (z mod 4 * 64 + w) # bs) (b64_quanta rest)))))
    | _ \<Rightarrow> None)"
| "b64_quanta _ = None"

definition b64_decode :: "string \<Rightarrow> bytes option" where
  "b64_decode s = b64_quanta (filter (\<lambda>c. code c \<noteq> 10 \<and> code c \<noteq> 13) s)"

lemma b64_val_char [simp]: "d < 64 \<Longrightarrow> b64_val (b64_char d) = Some d"
  by (auto simp: b64_val_def b64_char_def Let_def)

lemma b64_val_special: "b64_val CHR ''='' = None" "b64_val (char_of (10 :: nat)) = None"
  "b64_val (char_of (13 :: nat)) = None"
  by (simp_all add: b64_val_def)

lemma b64_char_cases:
  assumes "d < 64"
  shows "b64_val (b64_char d) = Some d" "b64_char d \<noteq> CHR ''=''"
    "code (b64_char d) \<noteq> 10" "code (b64_char d) \<noteq> 13"
  using b64_val_char [OF assms] b64_val_special
  by (simp, metis option.simps(3), (metis char_of_char option.simps(3))+)

lemma b64_bounds [simp]:
  "unat (a :: byte) div 4 < 64" "unat (a :: byte) mod 4 * 16 + unat (b :: byte) div 16 < 64"
  "unat (b :: byte) mod 16 * 4 + unat (c :: byte) div 64 < 64" "unat (c :: byte) mod 64 < 64"
  "unat (a :: byte) mod 4 * 16 < 64" "unat (b :: byte) mod 16 * 4 < 64"
  using unat_byte_lt [of a] unat_byte_lt [of b] unat_byte_lt [of c] by linarith+

lemma b64_first: "(of_nat (unat a div 4 * 4 + (unat (a :: byte) mod 4 * 16 + k) div 16) :: byte) = a"
  if "k < 16"
proof -
  have "unat a div 4 * 4 + (unat a mod 4 * 16 + k) div 16 = unat a"
    using that by simp
  then show ?thesis by simp
qed

lemma b64_second:
  "(of_nat ((m * 16 + unat (b :: byte) div 16) mod 16 * 16 + (unat b mod 16 * 4 + k) div 4) :: byte) = b"
  if "k < 4"
proof -
  have "(m * 16 + unat b div 16) mod 16 = unat b div 16"
    using byte_hi_less [of b] by simp
  moreover have "(unat b mod 16 * 4 + k) div 4 = unat b mod 16" using that by simp
  ultimately show ?thesis by (simp add: mult.commute)
qed

lemma b64_third:
  "(of_nat ((m * 4 + unat (c :: byte) div 64) mod 4 * 64 + unat c mod 64) :: byte) = c"
proof -
  have "unat c div 64 < 4" using unat_byte_lt [of c] by linarith
  then have "(m * 4 + unat c div 64) mod 4 = unat c div 64" by simp
  then show ?thesis by (simp add: mult.commute)
qed

lemma b64_quanta_encode: "b64_quanta (b64_encode bs) = Some bs"
proof (induction bs rule: b64_encode.induct)
  case (2 a)
  show ?case using b64_first [of 0 a] by (simp add: b64_char_cases)
next
  case (3 a b)
  have "unat b div 16 < 16" by simp
  then show ?case using b64_first [of "unat b div 16" a] b64_second [of 0 "unat a mod 4" b]
    by (simp add: b64_char_cases)
next
  case (4 a b c bs)
  have "unat c div 64 < 4" using unat_byte_lt [of c] by linarith
  then show ?case using 4 b64_first [of "unat b div 16" a] b64_second [of "unat c div 64" "unat a mod 4" b]
      b64_third [of "unat b mod 16" c]
    by (simp add: b64_char_cases)
qed simp

lemma b64_encode_no_newline: "filter (\<lambda>c. code c \<noteq> 10 \<and> code c \<noteq> 13) (b64_encode bs) = b64_encode bs"
  by (induction bs rule: b64_encode.induct) (simp_all add: b64_char_cases)

lemma b64_decode_encode [simp]: "b64_decode (b64_encode bs) = Some bs"
  by (simp add: b64_decode_def b64_encode_no_newline b64_quanta_encode)

lemma b64_encode_eq_Nil [simp]: "b64_encode bs = [] \<longleftrightarrow> bs = []"
  by (cases bs rule: b64_encode.cases) auto

end
