(* ===== verification/Common.thy ===== *)
theory Common
  imports Encodings
begin

text \<open>
  \<^verbatim>\<open>internal/api/common\<close>: the RFC 7807 problem documents (\<^verbatim>\<open>problem.go\<close>) and the
  input validators (\<^verbatim>\<open>validator.go\<close>) that every handler runs before it touches
  state.  A regular expression of the source is a Boolean function on the bytes
  of the string; Go matches \<^verbatim>\<open>.\<close> against every character but a line feed.
\<close>

section \<open>Problem documents\<close>

record ProblemDetails =
  pd_Type :: string
  pd_Title :: string
  pd_Detail :: string
  pd_Instance :: string
  pd_Cause :: string
  pd_Status :: int

definition ProblemDetails_Error :: "ProblemDetails \<Rightarrow> string" where
  "ProblemDetails_Error p =
    (if pd_Title p \<noteq> '''' then pd_Title p @ '': '' @ pd_Detail p else pd_Detail p)"

definition NewProblem :: "int \<Rightarrow> string \<Rightarrow> string \<Rightarrow> ProblemDetails" where
  "NewProblem status cause detail =
    \<lparr>pd_Type = '''', pd_Title = '''', pd_Detail = detail, pd_Instance = '''',
     pd_Cause = cause, pd_Status = status\<rparr>"

definition ValidationProblem :: "string \<Rightarrow> string \<Rightarrow> ProblemDetails" where
  "ValidationProblem field reason =
    \<lparr>pd_Type = ''https://nssAAF.operator.com/probs/validation-error'',
     pd_Title = ''Input Validation Failed'', pd_Detail = field @ '': '' @ reason,
     pd_Instance = '''', pd_Cause = ''VALIDATION_ERROR'', pd_Status = 400\<rparr>"

definition UnauthorizedProblem :: "string \<Rightarrow> ProblemDetails" where
  "UnauthorizedProblem detail =
    \<lparr>pd_Type = ''https://nssAAF.operator.com/probs/unauthorized'',
     pd_Title = ''Authentication Required'', pd_Detail = detail, pd_Instance = '''',
     pd_Cause = ''AUTHENTICATION_REQUIRED'', pd_Status = 401\<rparr>"

definition ForbiddenProblem :: "string \<Rightarrow> ProblemDetails" where
  "ForbiddenProblem detail =
    \<lparr>pd_Type = ''https://nssAAF.operator.com/probs/forbidden'',
     pd_Title = ''Slice Authentication Rejected'', pd_Detail = detail, pd_Instance = '''',
     pd_Cause = ''SLICE_AUTH_REJECTED'', pd_Status = 403\<rparr>"

definition NotFoundProblem :: "string \<Rightarrow> ProblemDetails" where
  "NotFoundProblem detail =
    \<lparr>pd_Type = ''https://nssAAF.operator.com/probs/not-found'',
     pd_Title = ''Resource Not Found'', pd_Detail = detail, pd_Instance = '''',
     pd_Cause = ''NOT_FOUND'', pd_Status = 404\<rparr>"

definition ConflictProblem :: "string \<Rightarrow> ProblemDetails" where
  "ConflictProblem detail =
    \<lparr>pd_Type = ''https://nssAAF.operator.com/probs/conflict'',
     pd_Title = ''Resource State Conflict'', pd_Detail = detail, pd_Instance = '''',
     pd_Cause = ''CONFLICT'', pd_Status = 409\<rparr>"

definition GoneProblem :: "string \<Rightarrow> ProblemDetails" where
  "GoneProblem detail =
    \<lparr>pd_Type = ''https://nssAAF.operator.com/probs/gone'',
     pd_Title = ''Resource No Longer Available'', pd_Detail = detail, pd_Instance = '''',
     pd_Cause = ''RESOURCE_GONE'', pd_Status = 410\<rparr>"

definition BadGatewayProblem :: "string \<Rightarrow> ProblemDetails" where
  "BadGatewayProblem detail =
    \<lparr>pd_Type = ''https://nssAAF.operator.com/probs/bad-gateway'',
     pd_Title = ''AAA Server Unreachable'', pd_Detail = detail, pd_Instance = '''',
     pd_Cause = ''AAA_UNREACHABLE'', pd_Status = 502\<rparr>"

definition ServiceUnavailableProblem :: "string \<Rightarrow> ProblemDetails" where
  "ServiceUnavailableProblem detail =
    \<lparr>pd_Type = ''https://nssAAF.operator.com/probs/service-unavailable'',
     pd_Title = ''AAA Server Temporarily Unavailable'', pd_Detail = detail, pd_Instance = '''',
     pd_Cause = ''AAA_UNAVAILABLE'', pd_Status = 503\<rparr>"

definition GatewayTimeoutProblem :: "string \<Rightarrow> ProblemDetails" where
  "GatewayTimeoutProblem detail =
    \<lparr>pd_Type = ''https://nssAAF.operator.com/probs/gateway-timeout'',
     pd_Title = ''AAA Server Timeout'', pd_Detail = detail, pd_Instance = '''',
     pd_Cause = ''AAA_TIMEOUT'', pd_Status = 504\<rparr>"

definition InternalServerProblem :: "string \<Rightarrow> ProblemDetails" where
  "InternalServerProblem detail =
    \<lparr>pd_Type = ''https://nssAAF.operator.com/probs/internal-server-error'',
     pd_Title = ''Internal Server Error'', pd_Detail = detail, pd_Instance = '''',
     pd_Cause = ''INTERNAL_ERROR'', pd_Status = 500\<rparr>"

lemmas problem_defs = NewProblem_def ValidationProblem_def UnauthorizedProblem_def
  ForbiddenProblem_def NotFoundProblem_def ConflictProblem_def GoneProblem_def
  BadGatewayProblem_def ServiceUnavailableProblem_def GatewayTimeoutProblem_def
  InternalServerProblem_def

section \<open>Regular expressions\<close>

text \<open>\<^verbatim>\<open>[0-9]{5,15}\<close> on a whole string\<close>

definition digits_5_15 :: "string \<Rightarrow> bool" where
  "digits_5_15 s = (5 \<le> length s \<and> length s \<le> 15 \<and> list_all is_digit s)"

text \<open>\<^verbatim>\<open>[^@]+@[^@]+\<close> on a whole string\<close>

definition id_at_realm :: "string \<Rightarrow> bool" where
  "id_at_realm s = (let p = takeWhile (\<lambda>c. c \<noteq> CHR ''@'') s; q = drop (length p) s in
     p \<noteq> [] \<and> (case q of [] \<Rightarrow> False | _ # r \<Rightarrow> r \<noteq> [] \<and> CHR ''@'' \<notin> set r))"

definition gpsiRegex :: "string \<Rightarrow> bool" where
  "gpsiRegex s =
    ((HasPrefix s ''msisdn-'' \<and> digits_5_15 (TrimPrefix s ''msisdn-''))
     \<or> (HasPrefix s ''extid-'' \<and> id_at_realm (TrimPrefix s ''extid-''))
     \<or> (s \<noteq> [] \<and> list_all (\<lambda>c. code c \<noteq> 10) s))"

definition supiRegex :: "string \<Rightarrow> bool" where
  "supiRegex s = (HasPrefix s ''imsi-'' \<and> digits_5_15 (TrimPrefix s ''imsi-''))"

definition sdRegex :: "string \<Rightarrow> bool" where
  "sdRegex s = (length s = 6 \<and> list_all is_hex s)"

section \<open>Validators\<close>

text \<open>\<^verbatim>\<open>nil\<close> is \<^verbatim>\<open>None\<close>.\<close>

definition ValidateGPSI :: "string \<Rightarrow> ProblemDetails option" where
  "ValidateGPSI gpsi =
    (if gpsi = '''' then Some (ValidationProblem ''gpsi'' ''GPSI is required'')
     else if \<not> gpsiRegex gpsi then
       Some (ValidationProblem ''gpsi''
         (''must match pattern ^(msisdn-[0-9]{5,15}|extid-[^@]+@[^@]+|.+)$ (TS 29.571 '' @ sect @ ''5.2.2)''))
     else None)"

definition ValidateSUPI :: "string \<Rightarrow> ProblemDetails option" where
  "ValidateSUPI supi =
    (if supi = '''' then Some (ValidationProblem ''supi'' ''SUPI is required'')
     else if \<not> supiRegex supi then
       Some (ValidationProblem ''supi''
         (''must match pattern ^imsi-[0-9]{5,15}$ (IMSI-based SUPI, TS 29.571 '' @ sect @ ''5.4.4.2)''))
     else None)"

definition ValidateSnssai :: "int \<Rightarrow> string \<Rightarrow> bool \<Rightarrow> ProblemDetails option" where
  "ValidateSnssai sst sd missing =
    (if missing then
       Some (ValidationProblem ''snssai'' (''snssai is required (TS 29.526 '' @ sect @ ''7.2.2)''))
     else if sst = 0 \<and> sd = '''' then
       Some (ValidationProblem ''snssai'' ''snssai.sst or snssai.sd must be provided'')
     else if sst < 0 \<or> sst > 255 then
       Some (ValidationProblem ''snssai.sst''
         (''SST must be in range 0-255 (TS 29.571 '' @ sect @ ''5.4.4.60)''))
     else if sd \<noteq> '''' \<and> \<not> sdRegex sd then
       Some (ValidationProblem ''snssai.sd''
         (''SD must be exactly 6 hex characters if present (TS 29.571 '' @ sect @ ''5.4.4.60)''))
     else None)"

definition ValidateNssai :: "int \<Rightarrow> string \<Rightarrow> ProblemDetails option" where
  "ValidateNssai sst sd = ValidateSnssai sst sd False"

definition ValidateAuthCtxID :: "string \<Rightarrow> ProblemDetails option" where
  "ValidateAuthCtxID i =
    (if blank i then Some (ValidationProblem ''authCtxId'' ''authCtxId is required'')
     else if list_ex (\<lambda>r. code r < 0x20 \<or> code r = 0x7F) i then
       Some (ValidationProblem ''authCtxId'' ''authCtxId contains invalid control characters'')
     else None)"

definition ValidatePlmnID :: "string \<Rightarrow> string \<Rightarrow> ProblemDetails option" where
  "ValidatePlmnID mcc mnc =
    (if length mcc \<noteq> 3 then
       Some (ValidationProblem ''plmnId.mcc'' (''MCC must be exactly 3 digits (TS 29.571 '' @ sect @ ''5.4.4.6)''))
     else if length mnc \<noteq> 2 \<and> length mnc \<noteq> 3 then
       Some (ValidationProblem ''plmnId.mnc'' (''MNC must be 2 or 3 digits (TS 29.571 '' @ sect @ ''5.4.4.6)''))
     else if list_ex (\<lambda>c. \<not> is_digit c) (mcc @ mnc) then
       Some (ValidationProblem ''plmnId'' ''PLMN ID must contain only digits'')
     else None)"

lemmas validator_defs = ValidateGPSI_def ValidateSUPI_def ValidateSnssai_def ValidateNssai_def
  ValidateAuthCtxID_def ValidatePlmnID_def

lemma ValidateSnssai_None:
  "ValidateSnssai sst sd missing = None \<longleftrightarrow>
    \<not> missing \<and> 0 \<le> sst \<and> sst \<le> 255 \<and> (sst = 0 \<longrightarrow> sd \<noteq> '''') \<and> (sd \<noteq> '''' \<longrightarrow> sdRegex sd)"
  by (auto simp: ValidateSnssai_def)

lemma validators_status:
  "ValidateGPSI g = Some p \<Longrightarrow> pd_Status p = 400"
  "ValidateSUPI s = Some p \<Longrightarrow> pd_Status p = 400"
  "ValidateSnssai sst sd m = Some p \<Longrightarrow> pd_Status p = 400"
  "ValidateAuthCtxID i = Some p \<Longrightarrow> pd_Status p = 400"
  "ValidatePlmnID mcc mnc = Some p \<Longrightarrow> pd_Status p = 400"
  by (auto simp: validator_defs ValidationProblem_def split: if_splits)

lemma no_at_takeWhile: "CHR ''@'' \<notin> set p \<Longrightarrow> takeWhile (\<lambda>c. c \<noteq> CHR ''@'') (p @ CHR ''@'' # r) = p"
  by (induction p) auto

lemma id_at_realm_iff:
  "id_at_realm s \<longleftrightarrow> (\<exists>p r. s = p @ CHR ''@'' # r \<and> p \<noteq> [] \<and> r \<noteq> [] \<and> CHR ''@'' \<notin> set p \<and> CHR ''@'' \<notin> set r)"
proof
  let ?p = "takeWhile (\<lambda>c. c \<noteq> CHR ''@'') s"
  assume a: "id_at_realm s"
  then obtain x r where q: "drop (length ?p) s = x # r" and r: "r \<noteq> []" "CHR ''@'' \<notin> set r" and p: "?p \<noteq> []"
    by (auto simp: id_at_realm_def Let_def split: list.splits)
  have d: "dropWhile (\<lambda>c. c \<noteq> CHR ''@'') s = x # r"
    using q by (simp add: dropWhile_eq_drop)
  then have "x = CHR ''@''" using hd_dropWhile [of "\<lambda>c. c \<noteq> CHR ''@''" s] by simp
  moreover have "s = ?p @ x # r" using d by (metis takeWhile_dropWhile_id)
  moreover have "CHR ''@'' \<notin> set ?p" by (auto dest: set_takeWhileD)
  ultimately show "\<exists>p r. s = p @ CHR ''@'' # r \<and> p \<noteq> [] \<and> r \<noteq> [] \<and> CHR ''@'' \<notin> set p \<and> CHR ''@'' \<notin> set r"
    using p r by blast
next
  assume "\<exists>p r. s = p @ CHR ''@'' # r \<and> p \<noteq> [] \<and> r \<noteq> [] \<and> CHR ''@'' \<notin> set p \<and> CHR ''@'' \<notin> set r"
  then show "id_at_realm s"
    by (auto simp: id_at_realm_def Let_def no_at_takeWhile)
qed

end
