(* ===== verification/Types.thy ===== *)
theory Types
  imports Common
begin

text \<open>
  \<^verbatim>\<open>internal/types\<close> and \<^verbatim>\<open>internal/domain\<close>: the identifiers of the interfaces
  (S-NSSAI, SUPI, GPSI), the base64 EAP payload, the error values with their
  problem documents, and the NSSAA status with its transition function.  The
  last section reads the transition function as an automaton over events and
  shows which event histories lead to a successful authentication.
\<close>

section \<open>Errors\<close>

record ValidationError =
  ve_HTTPStatus :: int
  ve_Field :: string
  ve_Reason :: string
  ve_Cause :: string

definition ValidationError_ToProblemDetails :: "ValidationError \<Rightarrow> ProblemDetails" where
  "ValidationError_ToProblemDetails e =
    (if ve_Cause e \<noteq> '''' \<and> ve_Cause e \<noteq> ''VALIDATION_ERROR'' then
       \<lparr>pd_Type = ''https://nssAAF.operator.com/probs/validation-error'',
        pd_Title = ''Input Validation Failed'',
        pd_Detail = ve_Field e @ '': '' @ ve_Reason e, pd_Instance = '''',
        pd_Cause = ve_Cause e, pd_Status = ve_HTTPStatus e\<rparr>
     else ValidationProblem (ve_Field e) (ve_Reason e))"

definition ValidationError_StatusCode :: "ValidationError \<Rightarrow> int" where
  "ValidationError_StatusCode e = (if ve_HTTPStatus e = 0 then 400 else ve_HTTPStatus e)"

record NssaaError =
  ne_HTTPStatus :: int
  ne_Err :: "string option"
  ne_Cause :: string
  ne_Detail :: string

definition NssaaError_Error :: "NssaaError \<Rightarrow> string" where
  "NssaaError_Error e =
    (if ne_Detail e \<noteq> '''' then ''['' @ ne_Cause e @ ''] '' @ ne_Detail e else ne_Cause e)"

definition NssaaError_ToProblemDetails :: "NssaaError \<Rightarrow> ProblemDetails" where
  "NssaaError_ToProblemDetails e =
    (let st = ne_HTTPStatus e; d = ne_Detail e in
     if st = 400 then NewProblem st (ne_Cause e) d
     else if st = 403 then ForbiddenProblem d
     else if st = 404 then NotFoundProblem d
     else if st = 409 then ConflictProblem d
     else if st = 410 then GoneProblem d
     else if st = 502 then BadGatewayProblem d
     else if st = 503 then ServiceUnavailableProblem d
     else if st = 504 then GatewayTimeoutProblem d
     else InternalServerProblem d)"

definition nssaa_error :: "int \<Rightarrow> string \<Rightarrow> string \<Rightarrow> NssaaError" where
  "nssaa_error st c d = \<lparr>ne_HTTPStatus = st, ne_Err = None, ne_Cause = c, ne_Detail = d\<rparr>"

text \<open>The sentinel \<^verbatim>\<open>NssaaError\<close> values of the package, in source order.\<close>

definition sentinel_errors :: "NssaaError list" where
  "sentinel_errors =
    [nssaa_error 404 ''AUTH_CONTEXT_NOT_FOUND'' ''Authentication context not found'',
     nssaa_error 410 ''AUTH_CONTEXT_EXPIRED'' ''Authentication context has expired'',
     nssaa_error 400 ''MAX_EAP_ROUNDS_EXCEEDED'' ''Maximum number of EAP rounds exceeded'',
     nssaa_error 409 ''AUTH_ALREADY_COMPLETED'' ''Authentication has already completed'',
     nssaa_error 404 ''AAA_SERVER_NOT_CONFIGURED'' ''No AAA server configuration found for this S-NSSAI'',
     nssaa_error 502 ''AAA_UNREACHABLE'' ''Cannot reach AAA server'',
     nssaa_error 504 ''AAA_TIMEOUT'' ''AAA server response timeout'',
     nssaa_error 403 ''AAA_AUTH_REJECTED'' ''AAA server rejected authentication'']"

section \<open>S-NSSAI\<close>

record Snssai =
  SST :: "8 word"
  SD :: string

definition Snssai_Validate :: "Snssai \<Rightarrow> ValidationError option" where
  "Snssai_Validate s =
    (if unat (SST s) > 255 then
       Some \<lparr>ve_HTTPStatus = 400, ve_Field = ''snssai.sst'',
         ve_Reason = ''SST must be in range 0-255 (TS 29.571 '' @ sect @ ''5.4.4.60)'',
         ve_Cause = ''INVALID_SNSSAI_SST''\<rparr>
     else if SD s \<noteq> '''' \<and> \<not> sdRegex (SD s) then
       Some \<lparr>ve_HTTPStatus = 400, ve_Field = ''snssai.sd'',
         ve_Reason = ''SD must be exactly 6 hexadecimal characters (TS 29.571 '' @ sect @ ''5.4.4.60)'',
         ve_Cause = ''INVALID_SNSSAI_SD''\<rparr>
     else None)"

definition Snssai_String :: "Snssai \<Rightarrow> string" where
  "Snssai_String s =
    (if SD s = '''' then ''S-NSSAI{'' @ show_nat (unat (SST s)) @ ''}''
     else ''S-NSSAI{'' @ show_nat (unat (SST s)) @ '':'' @ SD s @ ''}'')"

definition Snssai_Key :: "Snssai \<Rightarrow> string" where
  "Snssai_Key s =
    (let sd = (if SD s = '''' then ''*'' else SD s)
     in show_nat (unat (SST s)) @ '':'' @ ToUpper sd)"

definition Snssai_Equal :: "Snssai \<Rightarrow> Snssai \<Rightarrow> bool" where
  "Snssai_Equal s other = (SST s = SST other \<and> SD s = SD other)"

lemma Snssai_Validate_None: "Snssai_Validate s = None \<longleftrightarrow> SD s = '''' \<or> sdRegex (SD s)"
  using unat_byte_le [of "SST s"] by (auto simp: Snssai_Validate_def simp del: unat_byte_le)

lemma Snssai_Key_inj:
  "Snssai_Key s = Snssai_Key t \<Longrightarrow>
    SST s = SST t \<and> ToUpper (if SD s = '''' then ''*'' else SD s) = ToUpper (if SD t = '''' then ''*'' else SD t)"
  unfolding Snssai_Key_def Let_def
  by (auto simp: word_unat_eq_iff dest!: show_nat_sep_inj)

lemma ToUpper_star: "ToUpper ''*'' = ''*''"
  by (simp add: ToUpper_def upper_char_def)

lemma ToUpper_length [simp]: "length (ToUpper s) = length s"
  by (simp add: ToUpper_def)

section \<open>SUPI and GPSI\<close>

type_synonym Supi = string
type_synonym Gpsi = string

definition Supi_Validate :: "Supi \<Rightarrow> ValidationError option" where
  "Supi_Validate s =
    (if s = '''' then
       Some \<lparr>ve_HTTPStatus = 400, ve_Field = ''supi'', ve_Reason = ''SUPI is required'',
         ve_Cause = ''INVALID_SUPI''\<rparr>
     else if \<not> supiRegex s then
       Some \<lparr>ve_HTTPStatus = 400, ve_Field = ''supi'',
         ve_Reason = ''SUPI must match pattern ^imsi-[0-9]{5,15}$ (IMSI-based SUPI, TS 29.571 '' @ sect @ ''5.4.4.2)'',
         ve_Cause = ''INVALID_SUPI''\<rparr>
     else None)"

definition Supi_IsIMSI :: "Supi \<Rightarrow> bool" where
  "Supi_IsIMSI s = HasPrefix s ''imsi-''"

definition Supi_IMSI :: "Supi \<Rightarrow> string" where
  "Supi_IMSI s = (if \<not> Supi_IsIMSI s then '''' else TrimPrefix s ''imsi-'')"

definition Gpsi_Validate :: "Gpsi \<Rightarrow> ValidationError option" where
  "Gpsi_Validate g =
    (if g = '''' then
       Some \<lparr>ve_HTTPStatus = 400, ve_Field = ''gpsi'',
         ve_Reason = ''GPSI is required for NSSAA (TS 23.502 '' @ sect @ ''4.2.9.1)'',
         ve_Cause = ''INVALID_GPSI''\<rparr>
     else if \<not> gpsiRegex g then
       Some \<lparr>ve_HTTPStatus = 400, ve_Field = ''gpsi'',
         ve_Reason = ''GPSI must match pattern ^(msisdn-[0-9]{5,15}|extid-[^@]+@[^@]+|.+)$ (TS 29.571 '' @ sect @ ''5.2.2)'',
         ve_Cause = ''INVALID_GPSI''\<rparr>
     else None)"

section \<open>EAP message payloads\<close>

type_synonym EapMessage = string

definition EapMessage_Validate :: "EapMessage \<Rightarrow> ValidationError option" where
  "EapMessage_Validate m =
    (if m = '''' then
       Some \<lparr>ve_HTTPStatus = 400, ve_Field = ''eapMessage'', ve_Reason = ''EAP message is required'',
         ve_Cause = ''MISSING_EAP_MESSAGE''\<rparr>
     else if b64_decode m = None then
       Some \<lparr>ve_HTTPStatus = 400, ve_Field = ''eapMessage'',
         ve_Reason = ''EAP message must be valid Base64 (RFC 3748)'',
         ve_Cause = ''INVALID_EAP_MESSAGE''\<rparr>
     else None)"

definition EapMessage_Bytes :: "EapMessage \<Rightarrow> bytes option" where
  "EapMessage_Bytes m = b64_decode m"

definition NewEapMessage :: "bytes \<Rightarrow> EapMessage" where
  "NewEapMessage data = b64_encode data"

section \<open>Status values\<close>

type_synonym NssaaStatus = string

definition NssaaStatusNotExecuted :: NssaaStatus where "NssaaStatusNotExecuted = ''NOT_EXECUTED''"
definition NssaaStatusPending :: NssaaStatus where "NssaaStatusPending = ''PENDING''"
definition NssaaStatusEapSuccess :: NssaaStatus where "NssaaStatusEapSuccess = ''EAP_SUCCESS''"
definition NssaaStatusEapFailure :: NssaaStatus where "NssaaStatusEapFailure = ''EAP_FAILURE''"

lemmas status_defs = NssaaStatusNotExecuted_def NssaaStatusPending_def
  NssaaStatusEapSuccess_def NssaaStatusEapFailure_def

definition NssaaStatus_Validate :: "NssaaStatus \<Rightarrow> bool" where
  "NssaaStatus_Validate s =
    (s = NssaaStatusNotExecuted \<or> s = NssaaStatusPending
     \<or> s = NssaaStatusEapSuccess \<or> s = NssaaStatusEapFailure)"

definition NssaaStatus_IsTerminal :: "NssaaStatus \<Rightarrow> bool" where
  "NssaaStatus_IsTerminal s = (s = NssaaStatusEapSuccess \<or> s = NssaaStatusEapFailure)"

definition NssaaStatus_IsPending :: "NssaaStatus \<Rightarrow> bool" where
  "NssaaStatus_IsPending s = (s = NssaaStatusPending)"

type_synonym AuthResult = string

definition AuthResultSuccess :: AuthResult where "AuthResultSuccess = ''EAP_SUCCESS''"
definition AuthResultFailure :: AuthResult where "AuthResultFailure = ''EAP_FAILURE''"
definition AuthResultPending :: AuthResult where "AuthResultPending = ''PENDING''"

lemma AuthResult_distinct [simp]:
  "AuthResultSuccess \<noteq> AuthResultFailure" "AuthResultSuccess \<noteq> AuthResultPending"
  "AuthResultFailure \<noteq> AuthResultPending" "AuthResultFailure \<noteq> AuthResultSuccess"
  "AuthResultPending \<noteq> AuthResultSuccess" "AuthResultPending \<noteq> AuthResultFailure"
  by (simp_all add: AuthResultSuccess_def AuthResultFailure_def AuthResultPending_def)

section \<open>The NSSAA status machine\<close>

datatype AuthEvent = EventAuthStarted | EventEAPRound | EventAAAComplete | EventAAAFailed
  | AuthEventOther int

definition AuthEvent_String :: "AuthEvent \<Rightarrow> string" where
  "AuthEvent_String e =
    (case e of
       EventAuthStarted \<Rightarrow> ''EventAuthStarted''
     | EventEAPRound \<Rightarrow> ''EventEAPRound''
     | EventAAAComplete \<Rightarrow> ''EventAAAComplete''
     | EventAAAFailed \<Rightarrow> ''EventAAAFailed''
     | AuthEventOther n \<Rightarrow> ''AuthEvent('' @ (if n < 0 then ''-'' @ show_nat (nat (- n)) else show_nat (nat n)) @ '')'')"

record TransitionError =
  te_From :: NssaaStatus
  te_To :: string

text \<open>The function returns the next status together with an error or \<^verbatim>\<open>nil\<close>.\<close>

definition TransitionTo :: "NssaaStatus \<Rightarrow> AuthEvent \<Rightarrow> NssaaStatus \<times> TransitionError option" where
  "TransitionTo current event =
    (let err = Some \<lparr>te_From = current, te_To = AuthEvent_String event\<rparr> in
     if current = NssaaStatusNotExecuted then
       (if event = EventAuthStarted then (NssaaStatusPending, None) else (current, err))
     else if current = NssaaStatusPending then
       (case event of
          EventAAAComplete \<Rightarrow> (NssaaStatusEapSuccess, None)
        | EventAAAFailed \<Rightarrow> (NssaaStatusEapFailure, None)
        | EventEAPRound \<Rightarrow> (NssaaStatusPending, None)
        | _ \<Rightarrow> (current, err))
     else if current = NssaaStatusEapSuccess \<or> current = NssaaStatusEapFailure then (current, None)
     else (current, err))"

text \<open>A status after a history of events; a rejected event leaves it as it is,
  since the function returns the current status with the error.\<close>

definition status_after :: "NssaaStatus \<Rightarrow> AuthEvent list \<Rightarrow> NssaaStatus" where
  "status_after s evs = foldl (\<lambda>st e. fst (TransitionTo st e)) s evs"

text \<open>The accepted transitions as a step relation.\<close>

inductive nssaa_step :: "NssaaStatus \<Rightarrow> AuthEvent \<Rightarrow> NssaaStatus \<Rightarrow> bool" where
  accept: "TransitionTo s e = (s', None) \<Longrightarrow> nssaa_step s e s'"

inductive nssaa_reach :: "NssaaStatus \<Rightarrow> NssaaStatus \<Rightarrow> bool" for s0 where
  start: "nssaa_reach s0 s0"
| step: "nssaa_reach s0 s \<Longrightarrow> nssaa_step s e s' \<Longrightarrow> nssaa_reach s0 s'"

inductive_cases nssaa_stepE [elim!]: "nssaa_step s e s'"
inductive_simps nssaa_step_iff: "nssaa_step s e s'"

lemma status_distinct [simp]:
  "NssaaStatusNotExecuted \<noteq> NssaaStatusPending" "NssaaStatusNotExecuted \<noteq> NssaaStatusEapSuccess"
  "NssaaStatusNotExecuted \<noteq> NssaaStatusEapFailure" "NssaaStatusPending \<noteq> NssaaStatusEapSuccess"
  "NssaaStatusPending \<noteq> NssaaStatusEapFailure" "NssaaStatusEapSuccess \<noteq> NssaaStatusEapFailure"
  by (simp_all add: status_defs)

lemmas status_distinct' [simp] = status_distinct [symmetric]

lemma TransitionTo_terminal:
  "NssaaStatus_IsTerminal s \<Longrightarrow> TransitionTo s e = (s, None)"
  by (auto simp: TransitionTo_def NssaaStatus_IsTerminal_def Let_def)

lemma TransitionTo_not_executed:
  "TransitionTo NssaaStatusNotExecuted e =
    (if e = EventAuthStarted then (NssaaStatusPending, None)
     else (NssaaStatusNotExecuted, Some \<lparr>te_From = NssaaStatusNotExecuted, te_To = AuthEvent_String e\<rparr>))"
  by (simp add: TransitionTo_def Let_def)

lemma TransitionTo_pending_fst:
  "fst (TransitionTo NssaaStatusPending e) =
    (if e = EventAAAComplete then NssaaStatusEapSuccess
     else if e = EventAAAFailed then NssaaStatusEapFailure else NssaaStatusPending)"
  by (simp add: TransitionTo_def Let_def split: AuthEvent.split)

lemma status_after_Nil [simp]: "status_after s [] = s"
  by (simp add: status_after_def)

lemma status_after_Cons [simp]: "status_after s (e # evs) = status_after (fst (TransitionTo s e)) evs"
  by (simp add: status_after_def)

lemma status_after_terminal: "NssaaStatus_IsTerminal s \<Longrightarrow> status_after s evs = s"
  by (induction evs) (simp_all add: TransitionTo_terminal)

lemma terminal_values [simp]:
  "NssaaStatus_IsTerminal NssaaStatusEapSuccess" "NssaaStatus_IsTerminal NssaaStatusEapFailure"
  "\<not> NssaaStatus_IsTerminal NssaaStatusPending" "\<not> NssaaStatus_IsTerminal NssaaStatusNotExecuted"
  by (simp_all add: NssaaStatus_IsTerminal_def)

text \<open>The first event that satisfies \<open>P\<close>, with what precedes and follows it.\<close>

lemma split_first_Cons:
  "(\<exists>xs ys. e # evs = xs @ x # ys \<and> (\<forall>y\<in>set xs. \<not> P y) \<and> Q ys) \<longleftrightarrow>
    (e = x \<and> Q evs) \<or> (\<not> P e \<and> (\<exists>xs ys. evs = xs @ x # ys \<and> (\<forall>y\<in>set xs. \<not> P y) \<and> Q ys))"
proof
  assume "\<exists>xs ys. e # evs = xs @ x # ys \<and> (\<forall>y\<in>set xs. \<not> P y) \<and> Q ys"
  then obtain xs ys where a: "e # evs = xs @ x # ys" "\<forall>y\<in>set xs. \<not> P y" "Q ys" by blast
  then show "(e = x \<and> Q evs) \<or> (\<not> P e \<and> (\<exists>xs ys. evs = xs @ x # ys \<and> (\<forall>y\<in>set xs. \<not> P y) \<and> Q ys))"
    by (cases xs) auto
next
  assume "(e = x \<and> Q evs) \<or> (\<not> P e \<and> (\<exists>xs ys. evs = xs @ x # ys \<and> (\<forall>y\<in>set xs. \<not> P y) \<and> Q ys))"
  then show "\<exists>xs ys. e # evs = xs @ x # ys \<and> (\<forall>y\<in>set xs. \<not> P y) \<and> Q ys"
  proof
    assume "e = x \<and> Q evs"
    then show ?thesis by (intro exI [of _ "[]"] exI [of _ evs]) simp
  next
    assume "\<not> P e \<and> (\<exists>xs ys. evs = xs @ x # ys \<and> (\<forall>y\<in>set xs. \<not> P y) \<and> Q ys)"
    then obtain xs ys where "\<not> P e" "evs = xs @ x # ys" "\<forall>y\<in>set xs. \<not> P y" "Q ys" by blast
    then show ?thesis by (intro exI [of _ "e # xs"] exI [of _ ys]) simp
  qed
qed

lemma pending_success_iff:
  "status_after NssaaStatusPending evs = NssaaStatusEapSuccess \<longleftrightarrow>
    (\<exists>mid post. evs = mid @ EventAAAComplete # post
       \<and> (\<forall>e\<in>set mid. \<not> (e = EventAAAComplete \<or> e = EventAAAFailed)) \<and> True)"
proof (induction evs)
  case (Cons e evs)
  show ?case
    unfolding split_first_Cons [where P = "\<lambda>e. e = EventAAAComplete \<or> e = EventAAAFailed" and Q = "\<lambda>_. True"]
    by (simp add: TransitionTo_pending_fst status_after_terminal Cons)
qed simp

lemma not_executed_success_iff:
  "status_after NssaaStatusNotExecuted evs = NssaaStatusEapSuccess \<longleftrightarrow>
    (\<exists>pre rest. evs = pre @ EventAuthStarted # rest \<and> (\<forall>e\<in>set pre. \<not> e = EventAuthStarted)
       \<and> status_after NssaaStatusPending rest = NssaaStatusEapSuccess)"
proof (induction evs)
  case (Cons e evs)
  show ?case
    unfolding split_first_Cons [where P = "\<lambda>e. e = EventAuthStarted"
        and Q = "\<lambda>ys. status_after NssaaStatusPending ys = NssaaStatusEapSuccess"]
    by (simp add: TransitionTo_not_executed Cons)
qed simp

lemma nssaa_reach_valid:
  assumes "nssaa_reach NssaaStatusNotExecuted s"
  shows "NssaaStatus_Validate s"
  using assms
  by (induction rule: nssaa_reach.induct)
    (auto simp: NssaaStatus_Validate_def TransitionTo_def Let_def split: AuthEvent.splits if_splits)

section \<open>Properties of the data types\<close>

text \<open>An authentication that starts as not executed reaches \<^verbatim>\<open>EAP_SUCCESS\<close> exactly for
  the histories in which authentication is started and the first decisive answer of the AAA
  side after that is a completion.  No failure can be turned into success and nothing can
  take success back.\<close>

theorem success_histories:
  "status_after NssaaStatusNotExecuted evs = NssaaStatusEapSuccess \<longleftrightarrow>
    (\<exists>pre mid post. evs = pre @ EventAuthStarted # mid @ EventAAAComplete # post
       \<and> EventAuthStarted \<notin> set pre \<and> EventAAAComplete \<notin> set mid \<and> EventAAAFailed \<notin> set mid)"
  unfolding not_executed_success_iff pending_success_iff by blast

text \<open>The composite key of an S-NSSAI identifies the slice: two valid S-NSSAIs have the
  same key exactly when they have the same SST and the same SD up to letter case.\<close>

theorem snssai_key_identifies:
  assumes "Snssai_Validate s = None" "Snssai_Validate t = None"
  shows "Snssai_Key s = Snssai_Key t \<longleftrightarrow> SST s = SST t \<and> ToUpper (SD s) = ToUpper (SD t)"
proof
  assume k: "Snssai_Key s = Snssai_Key t"
  have len: "length (if SD u = '''' then ''*'' else SD u) = (if SD u = '''' then 1 else 6)"
    if "Snssai_Validate u = None" for u
    using that by (auto simp: Snssai_Validate_None sdRegex_def)
  note inj = Snssai_Key_inj [OF k]
  have "(SD s = '''') = (SD t = '''')"
    using arg_cong [OF conjunct2 [OF inj], of length] len [OF assms(1)] len [OF assms(2)]
    by (simp only: ToUpper_length) (auto split: if_splits)
  then show "SST s = SST t \<and> ToUpper (SD s) = ToUpper (SD t)"
    using inj by (cases "SD s = ''''") auto
next
  assume e: "SST s = SST t \<and> ToUpper (SD s) = ToUpper (SD t)"
  then have "(SD s = '''') = (SD t = '''')" by (metis ToUpper_length length_0_conv)
  then show "Snssai_Key s = Snssai_Key t" using e by (simp add: Snssai_Key_def)
qed

text \<open>Every byte string put into an EAP message is read back unchanged, and the message
  is accepted by the validator exactly when the byte string is not empty.\<close>

theorem eap_message_roundtrip:
  "EapMessage_Bytes (NewEapMessage data) = Some data
   \<and> (EapMessage_Validate (NewEapMessage data) = None \<longleftrightarrow> data \<noteq> [])"
  by (simp add: EapMessage_Bytes_def NewEapMessage_def EapMessage_Validate_def)

end
