(* ===== verification/Stores.thy ===== *)
theory Stores
  imports Prelude "HOL-Library.AList"
begin

text \<open>
  Keyed stores.  The program keeps sessions, fragment buffers, pending requests,
  breakers, alarms and cached values in Go maps and in Redis; what their clients
  rely on is the same contract, stated here once as a locale and interpreted in
  the component that provides the store.  A Go map is an association list with
  distinct keys, so that its size and a sweep over its entries compute.
\<close>

section \<open>Sequences of store operations\<close>

datatype ('k, 'v) store_op = OpPut 'k 'v | OpDel 'k

fun spec_op :: "('k, 'v) store_op \<Rightarrow> ('k \<rightharpoonup> 'v) \<Rightarrow> ('k \<rightharpoonup> 'v)" where
  "spec_op (OpPut k v) m = m(k \<mapsto> v)"
| "spec_op (OpDel k) m = m(k := None)"

section \<open>The contract\<close>

locale keyed_store =
  fixes get :: "'s \<Rightarrow> 'k \<Rightarrow> 'v option"
    and put :: "'k \<Rightarrow> 'v \<Rightarrow> 's \<Rightarrow> 's"
    and del :: "'k \<Rightarrow> 's \<Rightarrow> 's"
    and inv :: "'s \<Rightarrow> bool"
  assumes get_put: "inv s \<Longrightarrow> get (put k v s) = (get s)(k \<mapsto> v)"
    and get_del: "inv s \<Longrightarrow> get (del k s) = (get s)(k := None)"
    and inv_put: "inv s \<Longrightarrow> inv (put k v s)"
    and inv_del: "inv s \<Longrightarrow> inv (del k s)"
begin

fun exec_op :: "('k, 'v) store_op \<Rightarrow> 's \<Rightarrow> 's" where
  "exec_op (OpPut k v) s = put k v s"
| "exec_op (OpDel k) s = del k s"

lemma inv_exec_op: "inv s \<Longrightarrow> inv (exec_op c s)"
  by (cases c) (simp_all add: inv_put inv_del)

lemma get_exec_op: "inv s \<Longrightarrow> get (exec_op c s) = spec_op c (get s)"
  by (cases c) (simp_all add: get_put get_del)

text \<open>Refinement: the store after any history is the map after that history.\<close>

lemma exec_ops_refines:
  "inv s \<Longrightarrow> inv (fold exec_op ops s) \<and> get (fold exec_op ops s) = fold spec_op ops (get s)"
  by (induction ops arbitrary: s) (simp_all add: inv_exec_op get_exec_op)

lemma put_other: "inv s \<Longrightarrow> k' \<noteq> k \<Longrightarrow> get (put k v s) k' = get s k'"
  by (simp add: get_put)

lemma put_overwrites: "inv s \<Longrightarrow> get (put k w (put k v s)) = get (put k w s)"
  by (simp add: get_put inv_put)

lemma del_put: "inv s \<Longrightarrow> get (del k (put k v s)) = get (del k s)"
  by (simp add: get_put get_del inv_put)

end

section \<open>Go maps\<close>

type_synonym ('k, 'v) gomap = "('k \<times> 'v) list"

definition gm_ok :: "('k, 'v) gomap \<Rightarrow> bool" where
  "gm_ok m = distinct (map fst m)"

definition gm_get :: "('k, 'v) gomap \<Rightarrow> 'k \<Rightarrow> 'v option" where
  "gm_get m k = map_of m k"

definition gm_put :: "'k \<Rightarrow> 'v \<Rightarrow> ('k, 'v) gomap \<Rightarrow> ('k, 'v) gomap" where
  "gm_put k v m = AList.update k v m"

definition gm_del :: "'k \<Rightarrow> ('k, 'v) gomap \<Rightarrow> ('k, 'v) gomap" where
  "gm_del k m = AList.delete k m"

text \<open>\<^verbatim>\<open>for k, v := range m { if P { delete(m, k) } }\<close>\<close>

definition gm_sweep :: "('k \<Rightarrow> 'v \<Rightarrow> bool) \<Rightarrow> ('k, 'v) gomap \<Rightarrow> ('k, 'v) gomap" where
  "gm_sweep dead m = filter (\<lambda>(k, v). \<not> dead k v) m"

interpretation gm: keyed_store gm_get gm_put gm_del gm_ok
  by unfold_locales
    (auto simp: gm_get_def gm_put_def gm_del_def gm_ok_def update_conv' delete_conv'
      intro: distinct_update distinct_delete)

lemmas gm_simps [store_simps] = gm.get_put gm.get_del gm.inv_put gm.inv_del

lemma gm_ok_Nil [simp]: "gm_ok []"
  by (simp add: gm_ok_def)

lemma gm_get_Nil [simp]: "gm_get [] k = None"
  by (simp add: gm_get_def)

lemma gm_ok_sweep [store_simps]: "gm_ok m \<Longrightarrow> gm_ok (gm_sweep dead m)"
  unfolding gm_ok_def gm_sweep_def by (rule distinct_map_filter)

lemma gm_get_sweep [store_simps]:
  assumes "gm_ok m"
  shows "gm_get (gm_sweep dead m) k =
    (case gm_get m k of None \<Rightarrow> None | Some v \<Rightarrow> if dead k v then None else Some v)"
  using assms unfolding gm_ok_def gm_sweep_def gm_get_def
proof (induction m)
  case (Cons x m)
  have "map_of (filter (\<lambda>(k, v). \<not> dead k v) m) (fst x) = None"
    using Cons.prems by (force simp: map_of_eq_None_iff)
  then show ?case using Cons by (cases x) auto
qed simp

lemma gm_sweep_length: "length (gm_sweep dead m) \<le> length m"
  by (simp add: gm_sweep_def)

lemma gm_put_new_length: "gm_get m k = None \<Longrightarrow> length (gm_put k v m) = Suc (length m)"
  unfolding gm_get_def gm_put_def by (induction m) (auto split: if_splits)

lemma gm_dom_put: "gm_ok m \<Longrightarrow> length (gm_put k v m) \<le> Suc (length m)"
  unfolding gm_put_def by (induction m) (auto simp: gm_ok_def)

end
