(* ===== verification/Eap_Codec.thy ===== *)
theory Eap_Codec
  imports Types
begin

text \<open>
  \<^verbatim>\<open>internal/eap/state.go\<close> and \<^verbatim>\<open>internal/eap/codec.go\<close>: EAP codes, methods and
  results, and the packet codec.  \<^verbatim>\<open>Parse\<close> and \<^verbatim>\<open>Encode\<close> are shown to be inverse
  to each other on the packets that fit the 16-bit length field; an error that
  wraps a sentinel (\<^verbatim>\<open>fmt.Errorf("%w: ...")\<close>) is the sentinel.
\<close>

section \<open>Codes, methods and results\<close>

type_synonym Code = byte
type_synonym Method = byte

abbreviation CodeRequest :: Code where "CodeRequest \<equiv> 1"
abbreviation CodeResponse :: Code where "CodeResponse \<equiv> 2"
abbreviation CodeSuccess :: Code where "CodeSuccess \<equiv> 3"
abbreviation CodeFailure :: Code where "CodeFailure \<equiv> 4"

definition Code_String :: "Code \<Rightarrow> string" where
  "Code_String c =
    (if c = CodeRequest then ''REQUEST'' else if c = CodeResponse then ''RESPONSE''
     else if c = CodeSuccess then ''SUCCESS'' else if c = CodeFailure then ''FAILURE''
     else ''UNKNOWN('' @ show_nat (unat c) @ '')'')"

definition Code_IsValid :: "Code \<Rightarrow> bool" where
  "Code_IsValid c = (CodeRequest \<le> c \<and> c \<le> CodeFailure)"

abbreviation MethodIdentity :: Method where "MethodIdentity \<equiv> 1"
abbreviation MethodNotification :: Method where "MethodNotification \<equiv> 2"
abbreviation MethodNak :: Method where "MethodNak \<equiv> 3"
abbreviation MethodTLS :: Method where "MethodTLS \<equiv> 13"
abbreviation MethodTTLS :: Method where "MethodTTLS \<equiv> 21"
abbreviation MethodPEAP :: Method where "MethodPEAP \<equiv> 26"
abbreviation MethodAKAPrime :: Method where "MethodAKAPrime \<equiv> 50"

definition Method_IsValid :: "Method \<Rightarrow> bool" where
  "Method_IsValid m = (m \<in> {MethodIdentity, MethodNotification, MethodNak, MethodTLS, MethodTTLS,
     MethodPEAP, MethodAKAPrime})"

definition Method_IsTunneled :: "Method \<Rightarrow> bool" where
  "Method_IsTunneled m = (m = MethodTTLS \<or> m = MethodPEAP)"

unbundle bit_operations_syntax

definition TLSFlags_HasMoreFragments :: "byte \<Rightarrow> bool" where
  "TLSFlags_HasMoreFragments f = (f AND 0x40 \<noteq> 0)"

definition TLSFlags_HasLength :: "byte \<Rightarrow> bool" where
  "TLSFlags_HasLength f = (f AND 0x20 \<noteq> 0)"

datatype Result = ResultContinue | ResultSuccess | ResultFailure | ResultIgnored | ResultTimeout

definition Result_String :: "Result \<Rightarrow> string" where
  "Result_String r =
    (case r of ResultContinue \<Rightarrow> ''CONTINUE'' | ResultSuccess \<Rightarrow> ''SUCCESS''
     | ResultFailure \<Rightarrow> ''FAILURE'' | ResultIgnored \<Rightarrow> ''IGNORED'' | ResultTimeout \<Rightarrow> ''TIMEOUT'')"

section \<open>Packets\<close>

record Packet =
  pkt_Code :: Code
  pkt_ID :: byte
  pkt_Length :: "16 word"
  pkt_Type :: byte
  pkt_Data :: bytes
  pkt_RawData :: bytes

datatype CodecError = ErrInvalidPacket | ErrUnexpectedLength

abbreviation MaxEAPSize :: nat where "MaxEAPSize \<equiv> 65535"

definition typed :: "Code \<Rightarrow> bool" where
  "typed c = (c = CodeRequest \<or> c = CodeResponse)"

definition Parse :: "bytes \<Rightarrow> (CodecError, Packet) result" where
  "Parse data =
    (if length data < 4 then Inl ErrInvalidPacket
     else
       let code = data ! 0; i = data ! 1;
           len = (of_nat (of_be [data ! 2, data ! 3]) :: 16 word)
       in
       if unat len \<noteq> length data then Inl ErrUnexpectedLength
       else if unat len > MaxEAPSize then Inl ErrInvalidPacket
       else if \<not> Code_IsValid code then Inl ErrInvalidPacket
       else
         let p = \<lparr>pkt_Code = code, pkt_ID = i, pkt_Length = len, pkt_Type = 0,
                  pkt_Data = [], pkt_RawData = data\<rparr>
         in
         if typed code then
           (if length data < 5 then Inl ErrInvalidPacket
            else Inr (p\<lparr>pkt_Type := data ! 4, pkt_Data := drop 5 data\<rparr>))
         else Inr (p\<lparr>pkt_Data := drop 4 data\<rparr>))"

definition Encode :: "Packet \<Rightarrow> bytes" where
  "Encode p =
    (let hdr = (if typed (pkt_Code p) then 5 else 4);
         len = hdr + length (pkt_Data p);
         len = (if len > MaxEAPSize then MaxEAPSize else len)
     in [pkt_Code p, pkt_ID p] @ to_be 2 len
        @ (if typed (pkt_Code p) then [pkt_Type p] else [])
        @ take (len - hdr) (pkt_Data p))"

definition BuildRequest :: "byte \<Rightarrow> Method \<Rightarrow> bytes \<Rightarrow> Packet" where
  "BuildRequest i method data =
    (let p = \<lparr>pkt_Code = CodeRequest, pkt_ID = i, pkt_Length = 5 + of_nat (length data),
              pkt_Type = method, pkt_Data = data, pkt_RawData = []\<rparr>
     in p\<lparr>pkt_RawData := Encode p\<rparr>)"

definition BuildResponse :: "byte \<Rightarrow> Method \<Rightarrow> bytes \<Rightarrow> Packet" where
  "BuildResponse i method data =
    (let p = \<lparr>pkt_Code = CodeResponse, pkt_ID = i, pkt_Length = 5 + of_nat (length data),
              pkt_Type = method, pkt_Data = data, pkt_RawData = []\<rparr>
     in p\<lparr>pkt_RawData := Encode p\<rparr>)"

definition BuildSuccess :: "byte \<Rightarrow> Packet" where
  "BuildSuccess i =
    (let p = \<lparr>pkt_Code = CodeSuccess, pkt_ID = i, pkt_Length = 4, pkt_Type = 0,
              pkt_Data = [], pkt_RawData = []\<rparr>
     in p\<lparr>pkt_RawData := Encode p\<rparr>)"

definition BuildFailure :: "byte \<Rightarrow> Packet" where
  "BuildFailure i =
    (let p = \<lparr>pkt_Code = CodeFailure, pkt_ID = i, pkt_Length = 4, pkt_Type = 0,
              pkt_Data = [], pkt_RawData = []\<rparr>
     in p\<lparr>pkt_RawData := Encode p\<rparr>)"

definition Packet_Clone :: "Packet \<Rightarrow> Packet" where
  "Packet_Clone p =
    \<lparr>pkt_Code = pkt_Code p, pkt_ID = pkt_ID p, pkt_Length = pkt_Length p,
     pkt_Type = pkt_Type p, pkt_Data = pkt_Data p, pkt_RawData = pkt_RawData p\<rparr>"

lemmas build_defs = BuildRequest_def BuildResponse_def BuildSuccess_def BuildFailure_def

section \<open>The codec is a bijection on well-formed packets\<close>

text \<open>Header length of a packet with the given code.\<close>

abbreviation hdr_len :: "Code \<Rightarrow> nat" where "hdr_len c \<equiv> (if typed c then 5 else 4)"

text \<open>What a parsed packet carries beyond the fields a sender sets.\<close>

definition as_received :: "Packet \<Rightarrow> Packet" where
  "as_received p = p\<lparr>pkt_Length := of_nat (hdr_len (pkt_Code p) + length (pkt_Data p)),
     pkt_Type := (if typed (pkt_Code p) then pkt_Type p else 0), pkt_RawData := Encode p\<rparr>"

lemma unat_of_nat_16 [simp]: "unat (of_nat n :: 16 word) = n mod 65536"
  by (simp add: unat_of_nat)

lemma length_Encode [codec_simps]:
  "length (Encode p) = min (hdr_len (pkt_Code p) + length (pkt_Data p)) MaxEAPSize"
  by (simp add: Encode_def Let_def min_def)

lemma Encode_fits:
  assumes "hdr_len (pkt_Code p) + length (pkt_Data p) \<le> MaxEAPSize"
  shows "Encode p = [pkt_Code p, pkt_ID p]
    @ to_be 2 (hdr_len (pkt_Code p) + length (pkt_Data p))
    @ (if typed (pkt_Code p) then [pkt_Type p] else []) @ pkt_Data p"
  using assms by (auto simp: Encode_def Let_def)

lemma Parse_Encode [codec_simps]:
  assumes "Code_IsValid (pkt_Code p)" "hdr_len (pkt_Code p) + length (pkt_Data p) \<le> MaxEAPSize"
  shows "Parse (Encode p) = Inr (as_received p)"
proof -
  define n where "n = hdr_len (pkt_Code p) + length (pkt_Data p)"
  have enc: "Encode p = [pkt_Code p, pkt_ID p, of_nat (n div 256), of_nat n]
      @ (if typed (pkt_Code p) then [pkt_Type p] else []) @ pkt_Data p"
    unfolding n_def using Encode_fits [OF assms(2)] by (simp add: to_be_2)
  have len: "length (Encode p) = n" using assms(2) by (simp add: length_Encode n_def)
  have n: "n < 65536" "4 \<le> n" using assms(2) by (simp_all add: n_def)
  have be: "of_be [of_nat (n div 256), of_nat n] = n"
    using n(1) of_be_to_be [of 2 n] by (simp add: to_be_2)
  have ty5: "typed (pkt_Code p) \<Longrightarrow> 5 \<le> n" by (simp add: n_def)
  have recv: "as_received p = p\<lparr>pkt_Length := of_nat n,
     pkt_Type := (if typed (pkt_Code p) then pkt_Type p else 0), pkt_RawData := Encode p\<rparr>"
    by (simp add: as_received_def n_def)
  show ?thesis
    unfolding Parse_def len recv using assms(1) n be ty5
    by (auto simp: enc Let_def simp del: of_be_two)
qed

lemma Parse_Inr_iff:
  "Parse data = Inr p \<longleftrightarrow>
    4 \<le> length data \<and> 256 * unat (data ! 2) + unat (data ! 3) = length data
    \<and> Code_IsValid (data ! 0) \<and> (typed (data ! 0) \<longrightarrow> 5 \<le> length data)
    \<and> p = \<lparr>pkt_Code = data ! 0, pkt_ID = data ! 1, pkt_Length = of_nat (length data),
           pkt_Type = (if typed (data ! 0) then data ! 4 else 0),
           pkt_Data = drop (hdr_len (data ! 0)) data, pkt_RawData = data\<rparr>"
proof -
  define m where "m = of_be [data ! 2, data ! 3]"
  have m: "256 * unat (data ! 2) + unat (data ! 3) = m" by (simp add: m_def)
  have b: "m < 65536"
    using unat_byte_lt [of "data ! 2"] unat_byte_lt [of "data ! 3"] m by linarith
  show ?thesis
    unfolding Parse_def Let_def m_def [symmetric] m using b by (auto simp: not_less)
qed

lemma Encode_Parse [codec_simps]:
  assumes "Parse data = Inr p"
  shows "Encode p = data"
proof -
  note iff = assms [unfolded Parse_Inr_iff]
  obtain a b c d rest where data: "data = a # b # c # d # rest"
    using iff by (auto simp: numeral_eq_Suc Suc_le_length_iff)
  have len: "256 * unat c + unat d = length data" using iff data by simp
  have be: "to_be 2 (length data) = [c, d]"
    using to_be_of_be [of "[c, d]"] len by (simp add: numeral_2_eq_2)
  have small: "length data \<le> MaxEAPSize"
    using len unat_byte_le [of c] unat_byte_le [of d] by linarith
  have code: "pkt_Code p = a" and pid: "pkt_ID p = b" and dat: "pkt_Data p = drop (hdr_len a) data"
    and ty: "typed a \<Longrightarrow> pkt_Type p = data ! 4"
    using iff data by auto
  have l: "hdr_len a + length (pkt_Data p) = length data"
    using iff data dat by auto
  then have "Encode p = [a, b] @ to_be 2 (length data) @ (if typed a then [pkt_Type p] else []) @ pkt_Data p"
    using Encode_fits [of p] small code pid by simp
  also have "\<dots> = data"
    using iff data dat ty be by (cases rest) (auto simp: code)
  finally show ?thesis .
qed

section \<open>Properties of the codec\<close>

text \<open>C7. A packet with a valid code that fits the length field survives encoding: the
  parser accepts the octets and returns the code, identifier, type and data that were sent.\<close>

theorem packet_roundtrip:
  assumes "Code_IsValid (pkt_Code p)" "hdr_len (pkt_Code p) + length (pkt_Data p) \<le> MaxEAPSize"
  shows "\<exists>q. Parse (Encode p) = Inr q \<and> pkt_Code q = pkt_Code p \<and> pkt_ID q = pkt_ID p
    \<and> pkt_Data q = pkt_Data p \<and> pkt_Type q = (if typed (pkt_Code p) then pkt_Type p else 0)
    \<and> unat (pkt_Length q) = length (Encode p)"
proof (intro exI conjI)
  show "Parse (Encode p) = Inr (as_received p)" by (rule Parse_Encode [OF assms])
  have "unat (of_nat (hdr_len (pkt_Code p) + length (pkt_Data p)) :: 16 word) = length (Encode p)"
    using assms(2) unfolding unat_of_nat_16 by (simp add: length_Encode)
  then show "unat (pkt_Length (as_received p)) = length (Encode p)" by (simp add: as_received_def)
qed (simp_all add: as_received_def)

theorem packet_roundtrip_witness:
  "\<exists>q. Parse (Encode (BuildRequest 9 MethodTLS [1, 2, 3])) = Inr q \<and> pkt_Data q = [1, 2, 3] \<and> pkt_ID q = 9"
  using packet_roundtrip [of "BuildRequest 9 MethodTLS [1, 2, 3]"]
  by (auto simp: BuildRequest_def Code_IsValid_def typed_def Let_def)

text \<open>The wire format is canonical: the parser accepts an octet string exactly when it is
  the encoding of the packet it returns, so no two octet strings give the same packet.\<close>

theorem parse_canonical:
  assumes "Parse data = Inr p"
  shows "Encode p = data \<and> Code_IsValid (pkt_Code p) \<and> unat (pkt_Length p) = length data \<and> pkt_RawData p = data"
proof -
  note iff = assms [unfolded Parse_Inr_iff]
  have "length data < 65536"
    using iff unat_byte_lt [of "data ! 2"] unat_byte_lt [of "data ! 3"] by linarith
  then show ?thesis using iff Encode_Parse [OF assms] by auto
qed

end
