(* ===== verification/Eap_Fragment.thy ===== *)
theory Eap_Fragment
  imports Eap_Codec Stores
begin

text \<open>
  \<^verbatim>\<open>internal/eap/fragment.go\<close>: reassembly buffers, the manager that keeps one per
  session and EAP identifier, and the splitter.  Sequence numbers are 16 bits and
  byte counts 32 bits wide, as in the source.  The main result is that feeding
  the fragments of a split payload to a fresh buffer returns the payload.
\<close>

section \<open>Buffers\<close>

datatype FragmentError = ErrFragmentIncomplete | ErrFragmentOverflow | ErrFragmentNotFound
  | ErrBufferAlreadyComplete | ErrTotalLengthAfterData

record FragmentBuffer =
  fb_AuthCtxID :: string
  fb_ExpectedID :: byte
  fb_FragmentSeq :: "16 word"
  fb_TotalLength :: "32 word"
  fb_Received :: "32 word"
  fb_Fragments :: "16 word \<rightharpoonup> bytes"
  fb_Complete :: bool
  fb_CreatedAt :: int

definition NewFragmentBuffer :: "string \<Rightarrow> byte \<Rightarrow> int \<Rightarrow> FragmentBuffer" where
  "NewFragmentBuffer authCtxID i nowUnix =
    \<lparr>fb_AuthCtxID = authCtxID, fb_ExpectedID = i, fb_FragmentSeq = 0, fb_TotalLength = 0,
     fb_Received = 0, fb_Fragments = (\<lambda>_. None), fb_Complete = False, fb_CreatedAt = nowUnix\<rparr>"

text \<open>The values of \<^verbatim>\<open>for seq := uint16(0); seq < n; seq++\<close>.\<close>

definition seqs :: "16 word \<Rightarrow> 16 word list" where
  "seqs n = map of_nat [0..<unat n]"

definition Reassemble :: "FragmentBuffer \<Rightarrow> (FragmentError, bytes) result" where
  "Reassemble fb =
    (if \<not> fb_Complete fb then Inl ErrFragmentIncomplete
     else if list_ex (\<lambda>q. fb_Fragments fb q = None) (seqs (fb_FragmentSeq fb))
       then Inl ErrFragmentNotFound
     else Inr (concat (map (\<lambda>q. the (fb_Fragments fb q)) (seqs (fb_FragmentSeq fb)))))"

text \<open>\<^verbatim>\<open>nil, nil\<close> (more fragments are expected) is \<^verbatim>\<open>Inr None\<close>.\<close>

definition AddFragment ::
  "FragmentBuffer \<Rightarrow> 16 word \<Rightarrow> bytes \<Rightarrow> bool \<Rightarrow> FragmentBuffer \<times> (FragmentError, bytes option) result" where
  "AddFragment fb seq data moreFragments =
    (if fb_Complete fb then (fb, Inl ErrBufferAlreadyComplete)
     else if seq \<noteq> fb_FragmentSeq fb then (fb, Inl ErrFragmentNotFound)
     else
       let fb = fb\<lparr>fb_Fragments := (fb_Fragments fb)(fb_FragmentSeq fb \<mapsto> data),
                   fb_Received := fb_Received fb + of_nat (length data),
                   fb_FragmentSeq := fb_FragmentSeq fb + 1\<rparr>;
           done = fb\<lparr>fb_Complete := True\<rparr>
       in
       if \<not> moreFragments then
         (if fb_TotalLength fb > 0 \<and> fb_Received fb > fb_TotalLength fb
            then (fb, Inl ErrFragmentOverflow)
          else if fb_TotalLength fb > 0 \<and> fb_Received fb < fb_TotalLength fb
            then (fb, Inl ErrFragmentIncomplete)
          else (done, map_sum id Some (Reassemble done)))
       else if fb_TotalLength fb > 0 \<and> fb_Received fb \<ge> fb_TotalLength fb
         then (done, map_sum id Some (Reassemble done))
       else (fb, Inr None))"

definition SetTotalLength :: "FragmentBuffer \<Rightarrow> 32 word \<Rightarrow> (FragmentError, FragmentBuffer) result" where
  "SetTotalLength fb len =
    (if fb_Received fb > 0 then Inl ErrTotalLengthAfterData
     else Inr (fb\<lparr>fb_TotalLength := len\<rparr>))"

definition FragmentBuffer_Reset :: "FragmentBuffer \<Rightarrow> FragmentBuffer" where
  "FragmentBuffer_Reset fb =
    fb\<lparr>fb_FragmentSeq := 0, fb_Received := 0, fb_TotalLength := 0, fb_Complete := False,
       fb_Fragments := (\<lambda>_. None)\<rparr>"

section \<open>Splitting\<close>

record Fragment =
  fr_Seq :: "16 word"
  fr_Data :: bytes
  fr_MoreComing :: bool

definition Fragment_IsLast :: "Fragment \<Rightarrow> bool" where
  "Fragment_IsLast f = (\<not> fr_MoreComing f)"

function split_loop :: "bytes \<Rightarrow> nat \<Rightarrow> nat \<Rightarrow> nat \<Rightarrow> 16 word \<Rightarrow> Fragment list" where
  "split_loop packet maxSize offset remaining seq =
    (if remaining = 0 \<or> maxSize = 0 then []
     else
       let size = (if maxSize > remaining then remaining else maxSize) in
       \<lparr>fr_Seq = seq, fr_Data = subslice offset (offset + size) packet,
        fr_MoreComing = (remaining - size > 0)\<rparr>
       # split_loop packet maxSize (offset + size) (remaining - size) (seq + 1))"
  by pat_completeness auto
termination
  by (relation "measure (\<lambda>(_, _, _, remaining, _). remaining)") (auto simp: Let_def)

declare split_loop.simps [simp del]

text \<open>\<^verbatim>\<open>None\<close> is the run-time panic of a size that is not positive: a division by
  zero in the capacity, a negative capacity, or a slice with a negative bound.\<close>

definition SplitPacket :: "bytes \<Rightarrow> int \<Rightarrow> Fragment list option" where
  "SplitPacket packet maxSize =
    (if int (length packet) \<le> maxSize
       then Some [\<lparr>fr_Seq = 0, fr_Data = packet, fr_MoreComing = False\<rparr>]
     else if maxSize \<le> 0 then None
     else Some (split_loop packet (nat maxSize) 0 (length packet) 0))"

section \<open>The manager\<close>

record FragmentManager =
  fm_buffers :: "(string, FragmentBuffer) gomap"
  fm_ttl :: int
  fm_maxAge :: int

definition NewFragmentManager :: "int \<Rightarrow> FragmentManager" where
  "NewFragmentManager ttlSeconds =
    \<lparr>fm_buffers = [], fm_ttl = ttlSeconds, fm_maxAge = ttlSeconds\<rparr>"

definition fragmentKey :: "string \<Rightarrow> byte \<Rightarrow> string" where
  "fragmentKey authCtxID i = authCtxID @ '':'' @ show_nat (unat i)"

definition FragmentManager_GetOrCreate ::
  "FragmentManager \<Rightarrow> string \<Rightarrow> byte \<Rightarrow> int \<Rightarrow> FragmentManager \<times> FragmentBuffer \<times> bool" where
  "FragmentManager_GetOrCreate m authCtxID i nowUnix =
    (let key = fragmentKey authCtxID i in
     case gm_get (fm_buffers m) key of
       Some buf \<Rightarrow> (m, buf, False)
     | None \<Rightarrow>
         let buf = (NewFragmentBuffer authCtxID i nowUnix)\<lparr>fb_CreatedAt := nowUnix\<rparr>
         in (m\<lparr>fm_buffers := gm_put key buf (fm_buffers m)\<rparr>, buf, True))"

definition FragmentManager_Get :: "FragmentManager \<Rightarrow> string \<Rightarrow> byte \<Rightarrow> FragmentBuffer option" where
  "FragmentManager_Get m authCtxID i = gm_get (fm_buffers m) (fragmentKey authCtxID i)"

definition FragmentManager_Delete :: "FragmentManager \<Rightarrow> string \<Rightarrow> byte \<Rightarrow> FragmentManager" where
  "FragmentManager_Delete m authCtxID i =
    m\<lparr>fm_buffers := gm_del (fragmentKey authCtxID i) (fm_buffers m)\<rparr>"

definition FragmentManager_Cleanup :: "FragmentManager \<Rightarrow> int \<Rightarrow> FragmentManager \<times> nat" where
  "FragmentManager_Cleanup m now =
    (let kept = gm_sweep (\<lambda>_ buf. now - fb_CreatedAt buf > fm_maxAge m) (fm_buffers m)
     in (m\<lparr>fm_buffers := kept\<rparr>, length (fm_buffers m) - length kept))"

definition FragmentManager_Size :: "FragmentManager \<Rightarrow> nat" where
  "FragmentManager_Size m = length (fm_buffers m)"

section \<open>The buffer invariant\<close>

text \<open>Bytes received so far, in order.\<close>

definition fb_payload :: "FragmentBuffer \<Rightarrow> bytes" where
  "fb_payload fb = concat (map (\<lambda>q. the (fb_Fragments fb q)) (seqs (fb_FragmentSeq fb)))"

definition fb_inv :: "FragmentBuffer \<Rightarrow> bool" where
  "fb_inv fb \<longleftrightarrow>
    (\<forall>q. fb_Fragments fb q \<noteq> None \<longleftrightarrow> q < fb_FragmentSeq fb)
    \<and> fb_Received fb = of_nat (length (fb_payload fb))"

lemma seqs_0 [simp]: "seqs 0 = []"
  by (simp add: seqs_def)

lemma set_seqs: "set (seqs n) = {q. q < n}"
proof -
  have "q \<in> of_nat ` {0..<unat n}" if "q < n" for q :: "16 word"
    using that by (intro image_eqI [of _ _ "unat q"]) (simp_all add: word_less_nat_alt)
  moreover have "of_nat k < n" if "k < unat n" for k
    using that by (metis le_less_trans less_imp_le not_less unat_of_nat_16 word_less_nat_alt mod_less_eq_dividend)
  ultimately show ?thesis by (auto simp: seqs_def)
qed

lemma unat_minus_one_16: "unat (- 1 :: 16 word) = 65535"
  by (simp add: unsigned_minus_1_eq_mask mask_eq_exp_minus_1)

lemma unat_plus_one: "n \<noteq> - 1 \<Longrightarrow> unat (n + 1 :: 16 word) = Suc (unat n)"
proof -
  assume "n \<noteq> - 1"
  then have "unat n \<noteq> 65535" by (metis unat_minus_one_16 word_unat_eq_iff)
  then have "Suc (unat n) < 65536" using unsigned_less [of n, where ?'a = nat] by simp
  then show ?thesis by (simp add: unat_word_ariths(1))
qed

lemma seqs_Suc: "n \<noteq> - 1 \<Longrightarrow> seqs (n + 1) = seqs n @ [n]"
  by (simp add: seqs_def unat_plus_one)

lemma seqs_upd: "concat (map (\<lambda>q. the ((m(n \<mapsto> d)) q)) (seqs n)) = concat (map (\<lambda>q. the (m q)) (seqs n))"
  by (rule arg_cong [where f = concat], rule map_cong) (auto simp: set_seqs)

lemma less_plus_one: "n \<noteq> - 1 \<Longrightarrow> (q < (n + 1 :: 16 word)) \<longleftrightarrow> q < n \<or> q = n"
  by (simp add: word_less_nat_alt unat_plus_one less_Suc_eq word_unat_eq_iff)

lemma fb_inv_New [simp]: "fb_inv (NewFragmentBuffer a i now)"
  by (simp add: fb_inv_def NewFragmentBuffer_def fb_payload_def)

lemma fb_payload_New [simp]: "fb_payload (NewFragmentBuffer a i now) = []"
  by (simp add: NewFragmentBuffer_def fb_payload_def)

lemma fb_payload_Complete [simp]: "fb_payload (fb\<lparr>fb_Complete := c\<rparr>) = fb_payload fb"
  by (simp add: fb_payload_def)

lemma fb_inv_Complete [simp]: "fb_inv (fb\<lparr>fb_Complete := c\<rparr>) = fb_inv fb"
  by (simp add: fb_inv_def)

text \<open>Storing one more fragment.\<close>

definition fb_store :: "FragmentBuffer \<Rightarrow> bytes \<Rightarrow> FragmentBuffer" where
  "fb_store fb data = fb\<lparr>fb_Fragments := (fb_Fragments fb)(fb_FragmentSeq fb \<mapsto> data),
     fb_Received := fb_Received fb + of_nat (length data),
     fb_FragmentSeq := fb_FragmentSeq fb + 1\<rparr>"

lemma fb_store_payload:
  "fb_FragmentSeq fb \<noteq> - 1 \<Longrightarrow> fb_payload (fb_store fb data) = fb_payload fb @ data"
  by (simp add: fb_payload_def fb_store_def seqs_Suc seqs_upd del: fun_upd_apply) simp

lemma fb_store_inv: "fb_inv fb \<Longrightarrow> fb_FragmentSeq fb \<noteq> - 1 \<Longrightarrow> fb_inv (fb_store fb data)"
  unfolding fb_inv_def by (simp add: fb_store_payload, auto simp: fb_store_def less_plus_one)

lemma fb_store_fields [simp]:
  "fb_TotalLength (fb_store fb d) = fb_TotalLength fb" "fb_Complete (fb_store fb d) = fb_Complete fb"
  "fb_FragmentSeq (fb_store fb d) = fb_FragmentSeq fb + 1"
  by (simp_all add: fb_store_def)

lemma Reassemble_inv: "fb_inv fb \<Longrightarrow> fb_Complete fb \<Longrightarrow> Reassemble fb = Inr (fb_payload fb)"
  by (auto simp: Reassemble_def fb_inv_def fb_payload_def list_ex_iff set_seqs)

lemma AddFragment_in_order:
  "\<not> fb_Complete fb \<Longrightarrow> AddFragment fb (fb_FragmentSeq fb) data mf =
    (let fb' = fb_store fb data; fin = fb'\<lparr>fb_Complete := True\<rparr> in
     if \<not> mf then
       (if fb_TotalLength fb > 0 \<and> fb_Received fb' > fb_TotalLength fb then (fb', Inl ErrFragmentOverflow)
        else if fb_TotalLength fb > 0 \<and> fb_Received fb' < fb_TotalLength fb then (fb', Inl ErrFragmentIncomplete)
        else (fin, map_sum id Some (Reassemble fin)))
     else if fb_TotalLength fb > 0 \<and> fb_Received fb' \<ge> fb_TotalLength fb
       then (fin, map_sum id Some (Reassemble fin))
     else (fb', Inr None))"
  by (simp add: AddFragment_def fb_store_def Let_def)

lemma AddFragment_inv [inv_intros]:
  assumes "fb_inv fb" "fb_FragmentSeq fb \<noteq> - 1"
  shows "fb_inv (fst (AddFragment fb seq data mf))"
proof (cases "fb_Complete fb \<or> seq \<noteq> fb_FragmentSeq fb")
  case True
  then show ?thesis using assms by (auto simp: AddFragment_def)
next
  case False
  then show ?thesis using fb_store_inv [OF assms, of data]
    by (simp add: AddFragment_in_order Let_def)
qed

section \<open>Feeding fragments to a buffer\<close>

text \<open>A receiver adds fragments until it gets a payload or an error.\<close>

fun feed :: "FragmentBuffer \<Rightarrow> Fragment list \<Rightarrow> FragmentBuffer \<times> (FragmentError, bytes option) result" where
  "feed fb [] = (fb, Inr None)"
| "feed fb (f # fs) =
    (case AddFragment fb (fr_Seq f) (fr_Data f) (fr_MoreComing f) of
       (fb', Inr None) \<Rightarrow> feed fb' fs
     | r \<Rightarrow> r)"

text \<open>A payload cut into pieces, numbered from \<open>q\<close>.\<close>

fun numbered :: "16 word \<Rightarrow> bytes list \<Rightarrow> Fragment list" where
  "numbered q [] = []"
| "numbered q (d # ds) = \<lparr>fr_Seq = q, fr_Data = d, fr_MoreComing = (ds \<noteq> [])\<rparr> # numbered (q + 1) ds"

lemma unat_of_nat_32: "unat (of_nat n :: 32 word) = n mod 4294967296"
  by (simp add: unat_of_nat)

lemma Received_less:
  assumes "fb_inv fb" "length (fb_payload fb) < n" "n < 2 ^ 32"
  shows "fb_Received fb < of_nat n"
  using assms by (simp add: fb_inv_def word_less_nat_alt unat_of_nat_32)

lemma not_minus_one: "unat q + Suc k \<le> 65535 \<Longrightarrow> q \<noteq> (- 1 :: 16 word)"
  by (auto simp: unat_minus_one_16)

lemma feed_numbered:
  assumes "fb_inv fb" "\<not> fb_Complete fb" "ds \<noteq> []" "[] \<notin> set (tl ds)"
    and "unat (fb_FragmentSeq fb) + length ds \<le> 65535"
    and "fb_TotalLength fb = 0 \<or>
      (fb_TotalLength fb = of_nat (length (fb_payload fb @ concat ds)) \<and> length (fb_payload fb @ concat ds) < 2 ^ 32)"
  shows "snd (feed fb (numbered (fb_FragmentSeq fb) ds)) = Inr (Some (fb_payload fb @ concat ds))"
  using assms
proof (induction ds arbitrary: fb)
  case (Cons d ds)
  let ?fb = "fb_store fb d"
  have seq: "fb_FragmentSeq fb \<noteq> - 1"
    using Cons.prems(5) by (intro not_minus_one [of _ "length ds"]) simp
  have inv: "fb_inv ?fb" by (rule fb_store_inv [OF Cons.prems(1) seq])
  have pay: "fb_payload ?fb = fb_payload fb @ d" by (rule fb_store_payload [OF seq])
  show ?case
  proof (cases "ds = []")
    case True
    have "fb_TotalLength fb > 0 \<Longrightarrow> fb_Received ?fb = fb_TotalLength fb"
      using Cons.prems(6) inv pay True by (auto simp: fb_inv_def)
    then show ?thesis
      using True Cons.prems(2) Reassemble_inv [of "?fb\<lparr>fb_Complete := True\<rparr>"] inv pay
      by (auto simp: AddFragment_in_order Let_def)
  next
    case False
    have more: "length (fb_payload ?fb) < length (fb_payload fb @ concat (d # ds))"
      using False Cons.prems(4) pay by (cases ds) auto
    have wait: "\<not> (fb_TotalLength fb > 0 \<and> fb_Received ?fb \<ge> fb_TotalLength fb)"
      using Cons.prems(6) Received_less [OF inv more] by (auto simp: not_le)
    have "snd (feed ?fb (numbered (fb_FragmentSeq ?fb) ds)) = Inr (Some (fb_payload ?fb @ concat ds))"
    proof (rule Cons.IH)
      show "[] \<notin> set (tl ds)" using Cons.prems(4) by (cases ds) auto
      show "unat (fb_FragmentSeq ?fb) + length ds \<le> 65535"
        using Cons.prems(5) by (simp add: unat_plus_one [OF seq])
    qed (use Cons.prems inv False pay in auto)
    then show ?thesis
      using False Cons.prems(2) wait pay by (auto simp: AddFragment_in_order Let_def)
  qed
qed simp

section \<open>What the splitter produces\<close>

function chunks :: "nat \<Rightarrow> 'a list \<Rightarrow> 'a list list" where
  "chunks n xs = (if xs = [] \<or> n = 0 then [] else take n xs # chunks n (drop n xs))"
  by pat_completeness auto
termination
  by (relation "measure (\<lambda>(n, xs). length xs)") auto

declare chunks.simps [simp del]

lemma chunks_Nil [simp]: "chunks n [] = []"
  by (simp add: chunks.simps)

lemma concat_chunks: "0 < n \<Longrightarrow> concat (chunks n xs) = xs"
  by (induction n xs rule: chunks.induct) (subst chunks.simps, auto)

lemma chunks_nonempty: "[] \<notin> set (chunks n xs)"
  by (induction n xs rule: chunks.induct) (subst chunks.simps, auto)

lemma chunks_sizes: "0 < n \<Longrightarrow> d \<in> set (chunks n xs) \<Longrightarrow> length d \<le> n"
  by (induction n xs rule: chunks.induct) (subst (asm) (2) chunks.simps, auto split: if_splits)

lemma chunks_eq_Nil [simp]: "chunks n xs = [] \<longleftrightarrow> xs = [] \<or> n = 0"
  by (subst chunks.simps) simp

lemma split_loop_numbered:
  assumes "offset + remaining = length packet" "0 < maxSize"
  shows "split_loop packet maxSize offset remaining seq = numbered seq (chunks maxSize (drop offset packet))"
  using assms
proof (induction packet maxSize offset remaining seq rule: split_loop.induct)
  case (1 packet maxSize offset remaining seq)
  show ?case
  proof (cases "remaining = 0")
    case True
    then show ?thesis using 1 by (subst split_loop.simps) simp
  next
    case False
    define size where "size = (if maxSize > remaining then remaining else maxSize)"
    have IH: "split_loop packet maxSize (offset + size) (remaining - size) (seq + 1)
        = numbered (seq + 1) (chunks maxSize (drop (offset + size) packet))"
      unfolding size_def using 1 False by (intro "1.IH") auto
    have ne: "drop offset packet \<noteq> []" using 1(2) False by auto
    have tk: "subslice offset (offset + size) packet = take maxSize (drop offset packet)"
      using 1(2) by (auto simp: subslice_def size_def)
    have dr: "drop maxSize (drop offset packet) = drop (offset + size) packet"
      using 1(2) by (auto simp: size_def add.commute)
    have mc: "(remaining - size > 0) = (chunks maxSize (drop (offset + size) packet) \<noteq> [])"
      using 1(2,3) by auto
    have "chunks maxSize (drop offset packet)
        = take maxSize (drop offset packet) # chunks maxSize (drop (offset + size) packet)"
      using ne 1(3) dr by (subst chunks.simps) simp
    then show ?thesis
      using False 1(3) IH tk mc by (subst split_loop.simps) (simp add: size_def [symmetric] Let_def)
  qed
qed

lemma SplitPacket_numbered:
  assumes "SplitPacket packet maxSize = Some fs"
  obtains ds where "fs = numbered 0 ds" "concat ds = packet" "ds \<noteq> []" "[] \<notin> set (tl ds)"
proof (cases "int (length packet) \<le> maxSize")
  case True
  then show ?thesis using assms that [of "[packet]"] by (simp add: SplitPacket_def)
next
  case False
  then have pos: "0 < nat maxSize" and fs: "fs = split_loop packet (nat maxSize) 0 (length packet) 0"
    using assms by (auto simp: SplitPacket_def split: if_splits)
  have "fs = numbered 0 (chunks (nat maxSize) packet)"
    using split_loop_numbered [of 0 "length packet" packet "nat maxSize" 0] fs pos by simp
  moreover have "packet \<noteq> []" using False pos by auto
  moreover have "[] \<notin> set (tl (chunks (nat maxSize) packet))"
    using chunks_nonempty [of "nat maxSize" packet] by (metis list.set_sel(2) tl_Nil)
  ultimately show ?thesis using that pos by (simp add: concat_chunks)
qed

lemma length_numbered [simp]: "length (numbered q ds) = length ds"
  by (induction ds arbitrary: q) auto

lemma SetTotalLength_New [simp]:
  "SetTotalLength (NewFragmentBuffer a i now) n = Inr ((NewFragmentBuffer a i now)\<lparr>fb_TotalLength := n\<rparr>)"
  by (simp add: SetTotalLength_def NewFragmentBuffer_def)

section \<open>The manager is a keyed store\<close>

lemma fragmentKey_inj:
  assumes "fragmentKey a i = fragmentKey b j"
  shows "a = b \<and> i = j"
proof -
  have "rev (show_nat (unat i)) @ CHR '':'' # rev a = rev (show_nat (unat j)) @ CHR '':'' # rev b"
    using arg_cong [OF assms, of rev] by (simp add: fragmentKey_def)
  moreover have "takeWhile is_digit (rev (show_nat (unat i)) @ CHR '':'' # rev a) = rev (show_nat (unat i))"
    "takeWhile is_digit (rev (show_nat (unat j)) @ CHR '':'' # rev b) = rev (show_nat (unat j))"
    by (simp_all add: takeWhile_digits show_nat_digits)
  ultimately have "rev (show_nat (unat i)) = rev (show_nat (unat j))" by metis
  then have "i = j" by (simp add: word_unat_eq_iff)
  then show ?thesis using assms by (simp add: fragmentKey_def)
qed

text \<open>Writing through the pointer that \<^verbatim>\<open>Get\<close> and \<^verbatim>\<open>GetOrCreate\<close> return.\<close>

definition fm_write :: "string \<times> byte \<Rightarrow> FragmentBuffer \<Rightarrow> FragmentManager \<Rightarrow> FragmentManager" where
  "fm_write k buf m = m\<lparr>fm_buffers := gm_put (fragmentKey (fst k) (snd k)) buf (fm_buffers m)\<rparr>"

definition fm_ok :: "FragmentManager \<Rightarrow> bool" where
  "fm_ok m = gm_ok (fm_buffers m)"

interpretation fm: keyed_store "\<lambda>m k. FragmentManager_Get m (fst k) (snd k)" fm_write
  "\<lambda>k m. FragmentManager_Delete m (fst k) (snd k)" fm_ok
  by unfold_locales
    (auto simp: FragmentManager_Get_def fm_write_def FragmentManager_Delete_def fm_ok_def fun_eq_iff
      store_simps dest: fragmentKey_inj)

lemma GetOrCreate_spec:
  assumes "fm_ok m" "FragmentManager_GetOrCreate m a i now = (m', buf, created)"
  shows "fm_ok m' \<and> FragmentManager_Get m' a i = Some buf
    \<and> created = (FragmentManager_Get m a i = None)
    \<and> (\<forall>b j. (b, j) \<noteq> (a, i) \<longrightarrow> FragmentManager_Get m' b j = FragmentManager_Get m b j)"
  using assms
  by (auto simp: FragmentManager_GetOrCreate_def FragmentManager_Get_def fm_ok_def Let_def store_simps
      dest: fragmentKey_inj split: option.splits)

lemma Cleanup_Get:
  assumes "fm_ok m"
  shows "FragmentManager_Get (fst (FragmentManager_Cleanup m now)) a i =
    (case FragmentManager_Get m a i of None \<Rightarrow> None
     | Some buf \<Rightarrow> if now - fb_CreatedAt buf > fm_maxAge m then None else Some buf)"
  using assms
  by (simp add: FragmentManager_Get_def FragmentManager_Cleanup_def fm_ok_def Let_def gm_get_sweep)

section \<open>Histories of the manager\<close>

datatype fm_cmd = FmGetOrCreate string byte int | FmWrite string byte FragmentBuffer
  | FmDelete string byte | FmCleanup int

text \<open>A command on the manager, and on the map from session and identifier to buffer
  that the manager stands for.\<close>

fun fm_exec :: "fm_cmd \<Rightarrow> FragmentManager \<Rightarrow> FragmentManager" where
  "fm_exec (FmGetOrCreate a i now) m = fst (FragmentManager_GetOrCreate m a i now)"
| "fm_exec (FmWrite a i buf) m = fm_write (a, i) buf m"
| "fm_exec (FmDelete a i) m = FragmentManager_Delete m a i"
| "fm_exec (FmCleanup now) m = fst (FragmentManager_Cleanup m now)"

fun fm_spec :: "int \<Rightarrow> fm_cmd \<Rightarrow> (string \<times> byte \<rightharpoonup> FragmentBuffer) \<Rightarrow> (string \<times> byte \<rightharpoonup> FragmentBuffer)" where
  "fm_spec maxAge (FmGetOrCreate a i now) f =
    (if f (a, i) = None then f((a, i) \<mapsto> NewFragmentBuffer a i now) else f)"
| "fm_spec maxAge (FmWrite a i buf) f = f((a, i) \<mapsto> buf)"
| "fm_spec maxAge (FmDelete a i) f = f((a, i) := None)"
| "fm_spec maxAge (FmCleanup now) f =
    (\<lambda>k. case f k of None \<Rightarrow> None | Some buf \<Rightarrow> if now - fb_CreatedAt buf > maxAge then None else Some buf)"

definition fm_abs :: "FragmentManager \<Rightarrow> (string \<times> byte \<rightharpoonup> FragmentBuffer)" where
  "fm_abs m = (\<lambda>k. FragmentManager_Get m (fst k) (snd k))"

lemma GetOrCreate_abs:
  "fm_ok m \<Longrightarrow> fm_abs (fm_exec (FmGetOrCreate a i now) m) = fm_spec (fm_maxAge m) (FmGetOrCreate a i now) (fm_abs m)"
  by (auto simp: fm_abs_def fm_ok_def FragmentManager_GetOrCreate_def FragmentManager_Get_def Let_def fun_eq_iff
      NewFragmentBuffer_def store_simps dest: fragmentKey_inj split: option.split)

lemma fm_exec_refines:
  assumes "fm_ok m"
  shows "fm_ok (fm_exec c m)" "fm_maxAge (fm_exec c m) = fm_maxAge m"
    "fm_abs (fm_exec c m) = fm_spec (fm_maxAge m) c (fm_abs m)"
proof -
  show "fm_ok (fm_exec c m)"
    using assms fm.inv_put [OF assms] fm.inv_del [OF assms]
    by (cases c) (auto simp: fm_ok_def FragmentManager_GetOrCreate_def FragmentManager_Cleanup_def
        FragmentManager_Delete_def fm_write_def Let_def store_simps split: option.split)
  show "fm_maxAge (fm_exec c m) = fm_maxAge m"
    by (cases c) (auto simp: FragmentManager_GetOrCreate_def FragmentManager_Cleanup_def
        FragmentManager_Delete_def fm_write_def Let_def split: option.split)
  show "fm_abs (fm_exec c m) = fm_spec (fm_maxAge m) c (fm_abs m)"
  proof (cases c)
    case (FmWrite a i buf)
    then show ?thesis using fm.get_put [OF assms, of "(a, i)" buf] by (simp add: fm_abs_def)
  next
    case (FmDelete a i)
    then show ?thesis using fm.get_del [OF assms, of "(a, i)"] by (simp add: fm_abs_def)
  next
    case (FmGetOrCreate a i now)
    then show ?thesis using GetOrCreate_abs [OF assms] by simp
  next
    case (FmCleanup now)
    then show ?thesis using assms by (simp add: fm_abs_def Cleanup_Get)
  qed
qed

section \<open>Properties of fragmentation\<close>

text \<open>C5. Splitting and reassembly are inverse: the fragments of a payload, added in order
  to a fresh buffer whose total length is unknown or announced correctly, give exactly the
  payload, as long as the 16-bit sequence numbers suffice.\<close>

theorem split_reassemble:
  assumes "SplitPacket packet maxSize = Some fs" "length fs \<le> 65535"
    and "SetTotalLength (NewFragmentBuffer a i now) tl_announced = Inr fb"
    and "tl_announced = 0 \<or> tl_announced = of_nat (length packet) \<and> length packet < 2 ^ 32"
  shows "snd (feed fb fs) = Inr (Some packet)"
proof -
  obtain ds where ds: "fs = numbered 0 ds" "concat ds = packet" "ds \<noteq> []" "[] \<notin> set (tl ds)"
    using SplitPacket_numbered [OF assms(1)] by blast
  have fb: "fb = (NewFragmentBuffer a i now)\<lparr>fb_TotalLength := tl_announced\<rparr>" using assms(3) by simp
  have "snd (feed fb (numbered (fb_FragmentSeq fb) ds)) = Inr (Some (fb_payload fb @ concat ds))"
    by (rule feed_numbered)
      (use assms(2,4) ds fb in \<open>auto simp: fb_inv_def fb_payload_def NewFragmentBuffer_def\<close>)
  then show ?thesis using ds fb by (simp add: fb_payload_def NewFragmentBuffer_def)
qed

theorem split_reassemble_witness:
  "snd (feed (NewFragmentBuffer ''ctx'' 7 0) (the (SplitPacket [1, 2, 3, 4, 5] 2))) = Inr (Some [1, 2, 3, 4, 5])"
proof -
  have s: "SplitPacket [1, 2, 3, 4, 5] 2 = Some (numbered 0 [[1, 2], [3, 4], [5]])"
    by (simp add: SplitPacket_def split_loop.simps subslice_def Let_def)
  have "SetTotalLength (NewFragmentBuffer ''ctx'' 7 0) 0 = Inr (NewFragmentBuffer ''ctx'' 7 0)"
    by (simp add: NewFragmentBuffer_def SetTotalLength_def)
  from split_reassemble [OF s _ this] s show ?thesis by simp
qed

text \<open>C6. The fragment manager implements a map from session and EAP identifier to buffer:
  every history of lookups with creation, writes through the returned buffer, deletions and
  clean-ups has the effect it has on the map, and no two sessions or identifiers share a
  buffer.\<close>

theorem fragment_manager_refines_map:
  assumes "fm_ok m"
  shows "fm_abs (fold fm_exec cmds m) = fold (fm_spec (fm_maxAge m)) cmds (fm_abs m)"
  using assms
proof (induction cmds arbitrary: m)
  case (Cons c cmds)
  then show ?case using fm_exec_refines [OF Cons.prems, of c] by simp
qed simp

theorem fragment_manager_refines_map_witness:
  "FragmentManager_Get (fold fm_exec [FmGetOrCreate ''c'' 1 5, FmGetOrCreate ''c'' 2 5, FmDelete ''c'' 2]
     (NewFragmentManager 60)) ''c'' 1 = Some (NewFragmentBuffer ''c'' 1 5)"
proof -
  have "fm_ok (NewFragmentManager 60)" by (simp add: fm_ok_def NewFragmentManager_def)
  from fragment_manager_refines_map [OF this, of "[FmGetOrCreate ''c'' 1 5, FmGetOrCreate ''c'' 2 5, FmDelete ''c'' 2]"]
  have "fm_abs (fold fm_exec [FmGetOrCreate ''c'' 1 5, FmGetOrCreate ''c'' 2 5, FmDelete ''c'' 2] (NewFragmentManager 60))
      (''c'', 1) = Some (NewFragmentBuffer ''c'' 1 5)"
    by (simp add: fm_abs_def FragmentManager_Get_def NewFragmentManager_def del: fm_exec.simps)
  then show ?thesis by (simp add: fm_abs_def)
qed

end
