(* ===== verification/Eap_Session.thy ===== *)
theory Eap_Session
  imports Eap_Codec Stores
begin

text \<open>
  \<^verbatim>\<open>internal/eap/session.go\<close>, the in-memory session manager of
  \<^verbatim>\<open>engine_client.go\<close> and the Redis representation of \<^verbatim>\<open>session_redis.go\<close>.  The
  \<^verbatim>\<open>SessionStore\<close> interface is the locale \<^verbatim>\<open>session_store\<close>; the in-memory manager
  is shown to implement it.  A method reads the clock through its \<^verbatim>\<open>now\<close>
  argument.
\<close>

section \<open>Sessions\<close>

datatype SessionState = SessionStateIdle | SessionStateInit | SessionStateEapExchange
  | SessionStateCompleting | SessionStateDone | SessionStateFailed | SessionStateTimeout

text \<open>The states are ordered as the constants are declared (\<^verbatim>\<open>iota\<close>).\<close>

primrec state_index :: "SessionState \<Rightarrow> nat" where
  "state_index SessionStateIdle = 0"
| "state_index SessionStateInit = 1"
| "state_index SessionStateEapExchange = 2"
| "state_index SessionStateCompleting = 3"
| "state_index SessionStateDone = 4"
| "state_index SessionStateFailed = 5"
| "state_index SessionStateTimeout = 6"

lemma state_index_inj: "state_index s = state_index t \<Longrightarrow> s = t"
  by (cases s; cases t) simp_all

instantiation SessionState :: linorder
begin

definition less_eq_SessionState :: "SessionState \<Rightarrow> SessionState \<Rightarrow> bool" where
  "less_eq_SessionState s t = (state_index s \<le> state_index t)"

definition less_SessionState :: "SessionState \<Rightarrow> SessionState \<Rightarrow> bool" where
  "less_SessionState s t = (state_index s < state_index t)"

instance
  by standard (auto simp: less_eq_SessionState_def less_SessionState_def dest: state_index_inj)

end

definition SessionState_IsTerminal :: "SessionState \<Rightarrow> bool" where
  "SessionState_IsTerminal s = (s = SessionStateDone \<or> s = SessionStateFailed \<or> s = SessionStateTimeout)"

record TLSSessionState =
  tls_TLSVersion :: "16 word"
  tls_HandshakeComplete :: bool
  tls_ClientRandom :: bytes
  tls_ServerCertificate :: bytes
  tls_ServerCertVerified :: bool
  tls_MSK :: bytes
  tls_Flags :: byte
  tls_TLSData :: bytes

definition NewTLSSessionState :: TLSSessionState where
  "NewTLSSessionState = \<lparr>tls_TLSVersion = 0, tls_HandshakeComplete = False, tls_ClientRandom = [],
     tls_ServerCertificate = [], tls_ServerCertVerified = False, tls_MSK = [], tls_Flags = 0,
     tls_TLSData = []\<rparr>"

definition AppendTLSData :: "TLSSessionState \<Rightarrow> bytes \<Rightarrow> TLSSessionState" where
  "AppendTLSData s data = s\<lparr>tls_TLSData := tls_TLSData s @ data\<rparr>"

definition ResetTLSData :: "TLSSessionState \<Rightarrow> TLSSessionState" where
  "ResetTLSData s = s\<lparr>tls_TLSData := []\<rparr>"

record Session =
  es_AuthCtxID :: string
  es_Gpsi :: string
  es_Supi :: string
  es_SnssaiKey :: string
  es_State :: SessionState
  es_Method :: Method
  es_Rounds :: int
  es_MaxRounds :: int
  es_ExpectedID :: byte
  es_LastNonce :: bytes
  es_CachedResponse :: "bytes option"
  es_CreatedAt :: time
  es_LastActivity :: time
  es_Timeout :: duration
  es_TLSState :: "TLSSessionState option"

datatype EapError = ErrSessionNotFound | ErrSessionAlreadyDone | ErrEapIDMismatch
  | ErrMaxRoundsExceeded | ErrSessionTimeout | ErrInvalidStateTransition | ErrMissingAuthCtxID
  | ErrExpectedResponse Code | ErrNilResponse | ErrNoAAAClient | ErrAAAClient string
  | ErrCodec CodecError | ErrStoreSession string

abbreviation DefaultMaxRounds :: int where "DefaultMaxRounds \<equiv> 20"
abbreviation DefaultRoundTimeout :: duration where "DefaultRoundTimeout \<equiv> 30 * Second"
abbreviation DefaultSessionTTL :: duration where "DefaultSessionTTL \<equiv> 10 * Minute"

definition NewSession :: "string \<Rightarrow> string \<Rightarrow> time \<Rightarrow> Session" where
  "NewSession authCtxID gpsi now =
    \<lparr>es_AuthCtxID = authCtxID, es_Gpsi = gpsi, es_Supi = '''', es_SnssaiKey = '''',
     es_State = SessionStateInit, es_Method = 0, es_Rounds = 0, es_MaxRounds = DefaultMaxRounds,
     es_ExpectedID = 0, es_LastNonce = [], es_CachedResponse = None, es_CreatedAt = now,
     es_LastActivity = now, es_Timeout = DefaultRoundTimeout, es_TLSState = None\<rparr>"

definition WithSnssai :: "Session \<Rightarrow> string \<Rightarrow> Session" where
  "WithSnssai s snssaiKey = s\<lparr>es_SnssaiKey := snssaiKey\<rparr>"

definition WithMaxRounds :: "Session \<Rightarrow> int \<Rightarrow> Session" where
  "WithMaxRounds s n = s\<lparr>es_MaxRounds := n\<rparr>"

definition WithTimeout :: "Session \<Rightarrow> duration \<Rightarrow> Session" where
  "WithTimeout s d = s\<lparr>es_Timeout := d\<rparr>"

definition AdvanceToExchange :: "Session \<Rightarrow> time \<Rightarrow> (EapError, Session) result" where
  "AdvanceToExchange s now =
    (if es_State s \<noteq> SessionStateInit \<and> es_State s \<noteq> SessionStateIdle
       then Inl ErrInvalidStateTransition
     else Inr (s\<lparr>es_State := SessionStateEapExchange, es_Rounds := 1, es_LastActivity := now\<rparr>))"

definition RecordResponse :: "(bytes \<Rightarrow> bytes) \<Rightarrow> Session \<Rightarrow> byte \<Rightarrow> bytes \<Rightarrow> time \<Rightarrow> Session" where
  "RecordResponse sha256 s i payload now =
    s\<lparr>es_ExpectedID := i + 1, es_Rounds := es_Rounds s + 1, es_LastActivity := now,
      es_LastNonce := sha256 payload\<rparr>"

definition CacheResponse :: "Session \<Rightarrow> bytes \<Rightarrow> Session" where
  "CacheResponse s response = s\<lparr>es_CachedResponse := Some response\<rparr>"

definition MarkDone :: "Session \<Rightarrow> time \<Rightarrow> Session" where
  "MarkDone s now = s\<lparr>es_State := SessionStateDone, es_LastActivity := now\<rparr>"

definition MarkFailed :: "Session \<Rightarrow> time \<Rightarrow> Session" where
  "MarkFailed s now = s\<lparr>es_State := SessionStateFailed, es_LastActivity := now\<rparr>"

definition MarkTimeout :: "Session \<Rightarrow> time \<Rightarrow> Session" where
  "MarkTimeout s now = s\<lparr>es_State := SessionStateTimeout, es_LastActivity := now\<rparr>"

definition IsExpired :: "Session \<Rightarrow> duration \<Rightarrow> time \<Rightarrow> bool" where
  "IsExpired s ttl now = (now - es_CreatedAt s > ttl)"

definition IsTimedOut :: "Session \<Rightarrow> time \<Rightarrow> bool" where
  "IsTimedOut s now = (now - es_LastActivity s > es_Timeout s)"

section \<open>The composite S-NSSAI key\<close>

text \<open>\<^verbatim>\<open>fmt.Sscanf\<close> with \<^verbatim>\<open>%s\<close>: skip blanks, then read up to the next white space;
  a line feed before the token is an error.  White space is that of ASCII.\<close>

definition scan_blank :: "char \<Rightarrow> bool" where
  "scan_blank c = (code c \<in> {9, 11, 12, 13, 32})"

definition scan_space :: "char \<Rightarrow> bool" where
  "scan_space c = (code c \<in> {9, 10, 11, 12, 13, 32})"

definition scan_token :: "string \<Rightarrow> string" where
  "scan_token s = takeWhile (\<lambda>c. \<not> scan_space c) (dropWhile scan_blank s)"

text \<open>What follows the token is the end of the input or white space, so the
  colon of the format \<^verbatim>\<open>"%s:%s"\<close> never matches and the second operand is left
  untouched.\<close>

definition Sscanf_s_colon_s :: "string \<Rightarrow> string \<times> string" where
  "Sscanf_s_colon_s s = (scan_token s, '''')"

text \<open>\<^verbatim>\<open>fmt.Sscanf(tok, "%d", &x)\<close> for a \<^verbatim>\<open>uint8\<close>: the longest prefix of digits; no
  digit or a value beyond 255 is an error, which leaves the operand at 0.\<close>

definition Sscanf_d_uint8 :: "string \<Rightarrow> byte" where
  "Sscanf_d_uint8 tok =
    (case read_nat (takeWhile is_digit (dropWhile scan_blank tok)) of
       None \<Rightarrow> 0
     | Some n \<Rightarrow> if n \<le> 255 then of_nat n else 0)"

definition Session_DecodeSnssaiKey :: "Session \<Rightarrow> byte \<times> string" where
  "Session_DecodeSnssaiKey s =
    (if es_SnssaiKey s = '''' then (0, '''')
     else
       let (sstStr, sdStr) = Sscanf_s_colon_s (es_SnssaiKey s);
           sst = (if sstStr \<noteq> '''' then Sscanf_d_uint8 sstStr else 0)
       in (sst, sdStr))"

lemma digit_not_space: "is_digit c \<Longrightarrow> \<not> scan_space c \<and> \<not> scan_blank c"
  by (auto simp: is_digit_def scan_space_def scan_blank_def)

lemma dropWhile_id: "s \<noteq> [] \<Longrightarrow> \<not> P (hd s) \<Longrightarrow> dropWhile P s = s"
  by (cases s) auto

lemma show_nat_hd: "is_digit (hd (show_nat n))"
  using show_nat_digits [of n] show_nat_nonempty [of n] by (cases "show_nat n") auto

lemma takeWhile_prefix_all: "\<forall>x\<in>set xs. P x \<Longrightarrow> takeWhile P (xs @ ys) = xs @ takeWhile P ys"
  by (induction xs) auto

lemma scan_token_key: "scan_token (show_nat n @ CHR '':'' # t) = show_nat n @ CHR '':'' # takeWhile (\<lambda>c. \<not> scan_space c) t"
proof -
  have "\<not> scan_blank (hd (show_nat n @ CHR '':'' # t))"
    using show_nat_hd [of n] by (simp add: digit_not_space)
  then have "dropWhile scan_blank (show_nat n @ CHR '':'' # t) = show_nat n @ CHR '':'' # t"
    by (intro dropWhile_id) simp_all
  moreover have "\<forall>c\<in>set (show_nat n). \<not> scan_space c"
    using show_nat_digits [of n] by (auto simp: list_all_iff digit_not_space)
  moreover have "\<not> scan_space CHR '':''" by (simp add: scan_space_def)
  ultimately show ?thesis by (simp add: scan_token_def takeWhile_prefix_all)
qed

lemma Sscanf_d_key: "n \<le> 255 \<Longrightarrow> Sscanf_d_uint8 (show_nat n @ CHR '':'' # t) = of_nat n"
proof -
  have "\<not> scan_blank (hd (show_nat n @ CHR '':'' # t))"
    using show_nat_hd [of n] by (simp add: digit_not_space)
  then have "dropWhile scan_blank (show_nat n @ CHR '':'' # t) = show_nat n @ CHR '':'' # t"
    by (intro dropWhile_id) simp_all
  moreover assume "n \<le> 255"
  ultimately show ?thesis by (simp add: Sscanf_d_uint8_def takeWhile_digits show_nat_digits)
qed

lemma DecodeSnssaiKey_key:
  assumes "es_SnssaiKey s = show_nat (unat (b :: byte)) @ CHR '':'' # t"
  shows "Session_DecodeSnssaiKey s = (b, '''')"
  using assms by (simp add: Session_DecodeSnssaiKey_def Sscanf_s_colon_s_def scan_token_key Sscanf_d_key)

section \<open>The store interface\<close>

text \<open>
  \<^verbatim>\<open>get now st id\<close> and \<^verbatim>\<open>put now x st\<close> take the instant of the call, \<^verbatim>\<open>peek\<close> is what
  the store holds for an identifier whether or not it has expired.  A put that
  reports an error may or may not have taken effect.
\<close>

locale session_store =
  fixes get :: "time \<Rightarrow> 's \<Rightarrow> string \<Rightarrow> (EapError, Session) result"
    and put :: "time \<Rightarrow> Session \<Rightarrow> 's \<Rightarrow> 's \<times> string option"
    and peek :: "'s \<Rightarrow> string \<Rightarrow> Session option"
    and inv :: "'s \<Rightarrow> bool"
  assumes get_peek: "inv st \<Longrightarrow> get now st i = Inr x \<Longrightarrow> peek st i = Some x"
    and peek_id: "inv st \<Longrightarrow> peek st i = Some x \<Longrightarrow> es_AuthCtxID x = i"
    and put_ok: "inv st \<Longrightarrow> put t x st = (st', None) \<Longrightarrow> peek st' = (peek st)(es_AuthCtxID x \<mapsto> x)"
    and put_err: "inv st \<Longrightarrow> put t x st = (st', Some e) \<Longrightarrow>
          peek st' = peek st \<or> peek st' = (peek st)(es_AuthCtxID x \<mapsto> x)"
    and put_inv: "inv st \<Longrightarrow> put t x st = (st', er) \<Longrightarrow> inv st'"
begin

lemma put_cases:
  assumes "inv st"
  shows "inv (fst (put t x st))"
    and "peek (fst (put t x st)) = peek st \<or> peek (fst (put t x st)) = (peek st)(es_AuthCtxID x \<mapsto> x)"
proof -
  obtain st' e where p: "put t x st = (st', e)" by fastforce
  show "inv (fst (put t x st))" using put_inv [OF assms p] p by simp
  show "peek (fst (put t x st)) = peek st \<or> peek (fst (put t x st)) = (peek st)(es_AuthCtxID x \<mapsto> x)"
    using put_ok [OF assms] put_err [OF assms] p by (cases e) auto
qed

end

section \<open>The in-memory session manager\<close>

record sessionManager =
  sm_sessions :: "(string, Session) gomap"
  sm_ttl :: duration

definition newSessionManager :: "duration \<Rightarrow> sessionManager" where
  "newSessionManager ttl = \<lparr>sm_sessions = [], sm_ttl = ttl\<rparr>"

definition sessionManager_get :: "time \<Rightarrow> sessionManager \<Rightarrow> string \<Rightarrow> (EapError, Session) result" where
  "sessionManager_get now m authCtxID =
    (case gm_get (sm_sessions m) authCtxID of
       None \<Rightarrow> Inl ErrSessionNotFound
     | Some session \<Rightarrow>
         if IsExpired session (sm_ttl m) now then Inl ErrSessionNotFound else Inr session)"

definition sessionManager_put :: "time \<Rightarrow> Session \<Rightarrow> sessionManager \<Rightarrow> sessionManager \<times> string option" where
  "sessionManager_put now session m =
    (m\<lparr>sm_sessions := gm_put (es_AuthCtxID session) session (sm_sessions m)\<rparr>, None)"

definition sessionManager_delete :: "string \<Rightarrow> sessionManager \<Rightarrow> sessionManager \<times> string option" where
  "sessionManager_delete authCtxID m = (m\<lparr>sm_sessions := gm_del authCtxID (sm_sessions m)\<rparr>, None)"

definition sessionManager_Size :: "sessionManager \<Rightarrow> nat" where
  "sessionManager_Size m = length (sm_sessions m)"

definition sessionManager_cleanup :: "sessionManager \<Rightarrow> time \<Rightarrow> sessionManager \<times> nat" where
  "sessionManager_cleanup m now =
    (let cutoff = now - sm_ttl m;
         kept = gm_sweep (\<lambda>_ session. es_CreatedAt session < cutoff) (sm_sessions m)
     in (m\<lparr>sm_sessions := kept\<rparr>, length (sm_sessions m) - length kept))"

definition sm_inv :: "sessionManager \<Rightarrow> bool" where
  "sm_inv m \<longleftrightarrow> gm_ok (sm_sessions m) \<and> (\<forall>i x. gm_get (sm_sessions m) i = Some x \<longrightarrow> es_AuthCtxID x = i)"

definition sm_peek :: "sessionManager \<Rightarrow> string \<Rightarrow> Session option" where
  "sm_peek m i = gm_get (sm_sessions m) i"

interpretation sm: session_store sessionManager_get sessionManager_put sm_peek sm_inv
proof unfold_locales
  fix st :: sessionManager and now i x
  assume "sessionManager_get now st i = Inr x"
  then show "sm_peek st i = Some x"
    by (auto simp: sm_peek_def sessionManager_get_def split: option.splits if_splits)
next
  fix st st' :: sessionManager and t x
  assume "sm_inv st" "sessionManager_put t x st = (st', None)"
  then show "sm_peek st' = (sm_peek st)(es_AuthCtxID x \<mapsto> x)"
    by (auto simp: sm_peek_def sm_inv_def sessionManager_put_def fun_eq_iff store_simps)
qed (auto simp: sm_peek_def sm_inv_def sessionManager_put_def store_simps split: if_splits)

lemma sm_inv_new [simp]: "sm_inv (newSessionManager ttl)"
  by (simp add: sm_inv_def newSessionManager_def)

lemma sm_delete_inv [inv_intros]: "sm_inv m \<Longrightarrow> sm_inv (fst (sessionManager_delete i m))"
  by (auto simp: sm_inv_def sessionManager_delete_def store_simps split: if_splits)

lemma sm_cleanup_inv [inv_intros]: "sm_inv m \<Longrightarrow> sm_inv (fst (sessionManager_cleanup m now))"
  by (auto simp: sm_inv_def sessionManager_cleanup_def Let_def store_simps split: option.splits if_splits)

lemma sm_cleanup_keeps:
  assumes "sm_inv m" "0 \<le> sm_ttl m"
  shows "sessionManager_get now (fst (sessionManager_cleanup m now)) i = sessionManager_get now m i"
  using assms
  by (auto simp: sessionManager_get_def sessionManager_cleanup_def sm_inv_def Let_def store_simps
      IsExpired_def split: option.splits)

section \<open>The Redis representation\<close>

record redisSession =
  rs_AuthCtxID :: string
  rs_Gpsi :: string
  rs_Supi :: string
  rs_SnssaiKey :: string
  rs_State :: SessionState
  rs_Method :: Method
  rs_Rounds :: int
  rs_MaxRounds :: int
  rs_ExpectedID :: byte
  rs_LastNonce :: bytes
  rs_CachedResponse :: "bytes option"
  rs_CreatedAt :: time
  rs_LastActivity :: time
  rs_Timeout :: duration
  rs_TLSState :: "TLSSessionState option"

definition toSession :: "redisSession \<Rightarrow> Session" where
  "toSession rs =
    \<lparr>es_AuthCtxID = rs_AuthCtxID rs, es_Gpsi = rs_Gpsi rs, es_Supi = rs_Supi rs,
     es_SnssaiKey = rs_SnssaiKey rs, es_State = rs_State rs, es_Method = rs_Method rs,
     es_Rounds = rs_Rounds rs, es_MaxRounds = rs_MaxRounds rs, es_ExpectedID = rs_ExpectedID rs,
     es_LastNonce = rs_LastNonce rs, es_CachedResponse = rs_CachedResponse rs,
     es_CreatedAt = rs_CreatedAt rs, es_LastActivity = rs_LastActivity rs,
     es_Timeout = rs_Timeout rs, es_TLSState = rs_TLSState rs\<rparr>"

definition fromSession :: "Session \<Rightarrow> redisSession" where
  "fromSession s =
    \<lparr>rs_AuthCtxID = es_AuthCtxID s, rs_Gpsi = es_Gpsi s, rs_Supi = es_Supi s,
     rs_SnssaiKey = es_SnssaiKey s, rs_State = es_State s, rs_Method = es_Method s,
     rs_Rounds = es_Rounds s, rs_MaxRounds = es_MaxRounds s, rs_ExpectedID = es_ExpectedID s,
     rs_LastNonce = es_LastNonce s, rs_CachedResponse = es_CachedResponse s,
     rs_CreatedAt = es_CreatedAt s, rs_LastActivity = es_LastActivity s,
     rs_Timeout = es_Timeout s, rs_TLSState = es_TLSState s\<rparr>"

lemma toSession_fromSession [simp]: "toSession (fromSession s) = s"
  by (simp add: toSession_def fromSession_def)

lemma fromSession_toSession [simp]: "fromSession (toSession rs) = rs"
  by (simp add: toSession_def fromSession_def)

end
