(* ===== verification/Eap_Engine.thy ===== *)
theory Eap_Engine
  imports Eap_Session Eap_Fragment
begin

text \<open>
  \<^verbatim>\<open>internal/eap/engine.go\<close>: the engine that drives one EAP exchange per
  authentication context.  The AAA side is an argument (\<^verbatim>\<open>AAARouter\<close> of
  \<^verbatim>\<open>aaa_router.go\<close>), as is the digest that detects retries.  \<^verbatim>\<open>Process\<close> is given the
  store operations it calls, so that it runs on every \<^verbatim>\<open>session_store\<close>; it also
  returns the payloads it handed to the AAA side.  \<^verbatim>\<open>t0\<close> is the instant at which a
  message is taken up and \<^verbatim>\<open>t1\<close> the instant at which its processing ends.
\<close>

section \<open>Comparison of digests\<close>

unbundle bit_operations_syntax

definition bytesEqual :: "bytes \<Rightarrow> bytes \<Rightarrow> bool" where
  "bytesEqual a b =
    (if length a \<noteq> length b then False
     else foldl (\<lambda>diff (x, y). diff OR (x XOR y)) 0 (zip a b) = 0)"

lemma foldl_or_zero:
  "foldl (\<lambda>diff (x, y). diff OR (x XOR y)) d ps = 0 \<longleftrightarrow> d = (0 :: byte) \<and> (\<forall>(x, y) \<in> set ps. x = y)"
proof (induction ps arbitrary: d)
  case (Cons p ps)
  have xor0: "x XOR y = 0 \<longleftrightarrow> x = y" for x y :: byte
  proof
    assume "x XOR y = 0"
    then have "x XOR (x XOR y) = x" by simp
    then show "x = y" by (simp add: xor.assoc [symmetric])
  qed simp
  have or0: "u OR v = 0 \<longleftrightarrow> u = 0 \<and> v = 0" for u v :: byte by (rule or_eq_0_iff)
  show ?case using Cons by (cases p) (auto simp: xor0 or0)
qed simp

lemma bytesEqual_iff: "bytesEqual a b \<longleftrightarrow> a = b"
proof
  assume "bytesEqual a b"
  then have l: "length a = length b" and e: "\<forall>(x, y) \<in> set (zip a b). x = y"
    by (auto simp: bytesEqual_def foldl_or_zero split: if_splits)
  show "a = b" using l e
  proof (induction a b rule: list_induct2)
    case (Cons x xs y ys)
    then show ?case by auto
  qed simp
next
  assume "a = b"
  then show "bytesEqual a b" by (auto simp: bytesEqual_def foldl_or_zero in_set_zip)
qed

section \<open>Configuration and the AAA side\<close>

record Config =
  cfg_MaxRounds :: int
  cfg_RoundTimeout :: duration
  cfg_SessionTTL :: duration
  cfg_FragmentTTLSeconds :: int
  cfg_TLSSessionCacheSize :: int

definition DefaultConfig :: Config where
  "DefaultConfig = \<lparr>cfg_MaxRounds = DefaultMaxRounds, cfg_RoundTimeout = DefaultRoundTimeout,
     cfg_SessionTTL = DefaultSessionTTL, cfg_FragmentTTLSeconds = 60, cfg_TLSSessionCacheSize = 1024\<rparr>"

text \<open>The defaults that every constructor of an engine applies.\<close>

definition NewEngine_config :: "Config \<Rightarrow> Config" where
  "NewEngine_config cfg =
    (let cfg = (if cfg_MaxRounds cfg = 0 then cfg\<lparr>cfg_MaxRounds := DefaultMaxRounds\<rparr> else cfg);
         cfg = (if cfg_RoundTimeout cfg = 0 then cfg\<lparr>cfg_RoundTimeout := DefaultRoundTimeout\<rparr> else cfg);
         cfg = (if cfg_SessionTTL cfg = 0 then cfg\<lparr>cfg_SessionTTL := DefaultSessionTTL\<rparr> else cfg)
     in if cfg_FragmentTTLSeconds cfg = 0 then cfg\<lparr>cfg_FragmentTTLSeconds := 60\<rparr> else cfg)"

record RoutingContext =
  rc_GPSI :: string
  rc_Sst :: byte
  rc_Sd :: string
  rc_AuthCtxID :: string

record AAARouter =
  ar_RoutingContext :: "Session \<Rightarrow> RoutingContext"
  ar_SendEAP :: "Session \<Rightarrow> RoutingContext \<Rightarrow> bytes \<Rightarrow> (string, bytes option) result"

section \<open>Handlers\<close>

text \<open>What a handler returns: the mutated session, \<^verbatim>\<open>([]byte, Result, error)\<close>, and the
  payloads sent to the AAA side.\<close>

record Outcome =
  oc_session :: Session
  oc_response :: "bytes option"
  oc_result :: Result
  oc_err :: "EapError option"
  oc_sent :: "bytes list"

definition forwardToAAA :: "AAARouter option \<Rightarrow> Session \<Rightarrow> bytes \<Rightarrow> (EapError, bytes option) result \<times> bytes list" where
  "forwardToAAA aaaClient session eapPayload =
    (case aaaClient of
       None \<Rightarrow> (Inl ErrNoAAAClient, [])
     | Some c \<Rightarrow>
         let routing = ar_RoutingContext c session in
         (case ar_SendEAP c session routing eapPayload of
            Inl err \<Rightarrow> Inl (ErrAAAClient err)
          | Inr response \<Rightarrow> Inr response, [eapPayload]))"

definition detectEapMethodFromIdentity :: "bytes \<Rightarrow> Method" where
  "detectEapMethodFromIdentity data = (if length data = 0 then MethodIdentity else MethodTLS)"

definition handleInit :: "AAARouter option \<Rightarrow> time \<Rightarrow> Session \<Rightarrow> Packet \<Rightarrow> bytes \<Rightarrow> Outcome" where
  "handleInit aaaClient now session packet rawPayload =
    (if pkt_Code packet \<noteq> CodeResponse then
       \<lparr>oc_session = session, oc_response = None, oc_result = ResultIgnored,
        oc_err = Some (ErrExpectedResponse (pkt_Code packet)), oc_sent = []\<rparr>
     else
       let session = session\<lparr>es_ExpectedID := pkt_ID packet + 1, es_Rounds := 1,
             es_State := SessionStateEapExchange, es_LastActivity := now\<rparr>;
           session = (if pkt_Type packet = MethodIdentity
             then session\<lparr>es_Method := detectEapMethodFromIdentity (pkt_Data packet)\<rparr> else session)
       in case forwardToAAA aaaClient session rawPayload of
         (Inr (Some resp), sent) \<Rightarrow>
           \<lparr>oc_session = session, oc_response = Some resp, oc_result = ResultContinue,
            oc_err = None, oc_sent = sent\<rparr>
       | (_, sent) \<Rightarrow>
           \<lparr>oc_session = session, oc_response = None, oc_result = ResultFailure,
            oc_err = Some ErrNilResponse, oc_sent = sent\<rparr>)"

definition handleExchange ::
  "(bytes \<Rightarrow> bytes) \<Rightarrow> AAARouter option \<Rightarrow> time \<Rightarrow> Session \<Rightarrow> Packet \<Rightarrow> bytes \<Rightarrow> Outcome" where
  "handleExchange sha256 aaaClient now session packet rawPayload =
    (if pkt_ID packet \<noteq> es_ExpectedID session then
       \<lparr>oc_session = session, oc_response = None, oc_result = ResultIgnored,
        oc_err = Some ErrEapIDMismatch, oc_sent = []\<rparr>
     else if es_Rounds session \<ge> es_MaxRounds session then
       \<lparr>oc_session = MarkFailed session now, oc_response = None, oc_result = ResultFailure,
        oc_err = Some ErrMaxRoundsExceeded, oc_sent = []\<rparr>
     else
       let session = session\<lparr>es_Rounds := es_Rounds session + 1,
             es_ExpectedID := pkt_ID packet + 1, es_LastActivity := now\<rparr>
       in case forwardToAAA aaaClient session rawPayload of
         (Inl err, sent) \<Rightarrow>
           \<lparr>oc_session = session, oc_response = None, oc_result = ResultFailure,
            oc_err = Some err, oc_sent = sent\<rparr>
       | (Inr None, sent) \<Rightarrow>
           \<lparr>oc_session = session, oc_response = None, oc_result = ResultFailure,
            oc_err = Some ErrNilResponse, oc_sent = sent\<rparr>
       | (Inr (Some response), sent) \<Rightarrow>
           (case Parse response of
              Inl parseErr \<Rightarrow>
                \<lparr>oc_session = session, oc_response = None, oc_result = ResultFailure,
                 oc_err = Some (ErrCodec parseErr), oc_sent = sent\<rparr>
            | Inr respPacket \<Rightarrow>
                let session = CacheResponse (session\<lparr>es_LastNonce := sha256 rawPayload\<rparr>) response in
                if pkt_Code respPacket = CodeSuccess then
                  \<lparr>oc_session = MarkDone session now, oc_response = Some response,
                   oc_result = ResultSuccess, oc_err = None, oc_sent = sent\<rparr>
                else if pkt_Code respPacket = CodeFailure then
                  \<lparr>oc_session = MarkFailed session now, oc_response = Some response,
                   oc_result = ResultFailure, oc_err = None, oc_sent = sent\<rparr>
                else
                  \<lparr>oc_session = session, oc_response = Some response,
                   oc_result = ResultContinue, oc_err = None, oc_sent = sent\<rparr>))"

definition handleCompleting :: "AAARouter option \<Rightarrow> Session \<Rightarrow> Packet \<Rightarrow> bytes \<Rightarrow> Outcome" where
  "handleCompleting aaaClient session packet rawPayload =
    (let session = session\<lparr>es_Rounds := es_Rounds session + 1, es_ExpectedID := pkt_ID packet + 1\<rparr> in
     case forwardToAAA aaaClient session rawPayload of
       (Inr (Some resp), sent) \<Rightarrow>
         \<lparr>oc_session = session, oc_response = Some resp, oc_result = ResultContinue,
          oc_err = None, oc_sent = sent\<rparr>
     | (_, sent) \<Rightarrow>
         \<lparr>oc_session = session, oc_response = None, oc_result = ResultFailure,
          oc_err = Some ErrNilResponse, oc_sent = sent\<rparr>)"

definition advanceState ::
  "(bytes \<Rightarrow> bytes) \<Rightarrow> AAARouter option \<Rightarrow> time \<Rightarrow> Session \<Rightarrow> Packet \<Rightarrow> bytes \<Rightarrow> Outcome" where
  "advanceState sha256 aaaClient now session packet rawPayload =
    (let stay = (\<lambda>r e. \<lparr>oc_session = session, oc_response = None, oc_result = r,
                        oc_err = Some e, oc_sent = []\<rparr>) in
     case es_State session of
       SessionStateInit \<Rightarrow> handleInit aaaClient now session packet rawPayload
     | SessionStateEapExchange \<Rightarrow> handleExchange sha256 aaaClient now session packet rawPayload
     | SessionStateCompleting \<Rightarrow> handleCompleting aaaClient session packet rawPayload
     | SessionStateDone \<Rightarrow> stay ResultIgnored ErrSessionAlreadyDone
     | SessionStateFailed \<Rightarrow> stay ResultIgnored ErrSessionAlreadyDone
     | SessionStateTimeout \<Rightarrow> stay ResultTimeout ErrSessionTimeout
     | SessionStateIdle \<Rightarrow> stay ResultIgnored ErrInvalidStateTransition)"

definition authResultFromEapResult :: "Result \<Rightarrow> AuthResult" where
  "authResultFromEapResult r =
    (case r of ResultSuccess \<Rightarrow> AuthResultSuccess | ResultFailure \<Rightarrow> AuthResultFailure
     | ResultContinue \<Rightarrow> AuthResultPending | ResultIgnored \<Rightarrow> AuthResultPending
     | ResultTimeout \<Rightarrow> AuthResultFailure)"

section \<open>The engine\<close>

record 's ProcessOut =
  po_store :: 's
  po_msg :: "EapMessage option"
  po_result :: AuthResult
  po_err :: "EapError option"
  po_sent :: "bytes list"

definition StartSession ::
  "(time \<Rightarrow> Session \<Rightarrow> 's \<Rightarrow> 's \<times> string option) \<Rightarrow> Config \<Rightarrow> time \<Rightarrow> 's \<Rightarrow> string \<Rightarrow> string \<Rightarrow>
   's \<times> (EapError, Session) result" where
  "StartSession put cfg now st authCtxID gpsi =
    (if authCtxID = '''' then (st, Inl ErrMissingAuthCtxID)
     else
       let session = (NewSession authCtxID gpsi now)\<lparr>es_MaxRounds := cfg_MaxRounds cfg,
             es_Timeout := cfg_RoundTimeout cfg\<rparr>
       in case put now session st of
         (st', Some e) \<Rightarrow> (st', Inl (ErrStoreSession e))
       | (st', None) \<Rightarrow> (st', Inr session))"

definition Process ::
  "(time \<Rightarrow> 's \<Rightarrow> string \<Rightarrow> (EapError, Session) result) \<Rightarrow>
   (time \<Rightarrow> Session \<Rightarrow> 's \<Rightarrow> 's \<times> string option) \<Rightarrow>
   (bytes \<Rightarrow> bytes) \<Rightarrow> AAARouter option \<Rightarrow> time \<Rightarrow> time \<Rightarrow> 's \<Rightarrow> string \<Rightarrow> bytes \<Rightarrow> 's ProcessOut" where
  "Process get put sha256 aaaClient t0 t1 st authCtxID eapPayload =
    (case get t0 st authCtxID of
       Inl err \<Rightarrow>
         \<lparr>po_store = st, po_msg = None, po_result = AuthResultFailure, po_err = Some err, po_sent = []\<rparr>
     | Inr session \<Rightarrow>
         if IsTimedOut session t0 then
           \<lparr>po_store = fst (put t0 (MarkTimeout session t0) st), po_msg = None,
            po_result = AuthResultFailure, po_err = Some ErrSessionTimeout, po_sent = []\<rparr>
         else
           (case Parse eapPayload of
              Inl err \<Rightarrow>
                \<lparr>po_store = st, po_msg = None, po_result = AuthResultFailure,
                 po_err = Some (ErrCodec err), po_sent = []\<rparr>
            | Inr packet \<Rightarrow>
                let msgHash = sha256 eapPayload in
                (case (bytesEqual (es_LastNonce session) msgHash, es_CachedResponse session) of
                   (True, Some cached) \<Rightarrow>
                     \<lparr>po_store = st, po_msg = Some (NewEapMessage cached),
                      po_result = AuthResultPending, po_err = None, po_sent = []\<rparr>
                 | _ \<Rightarrow>
                     let oc = advanceState sha256 aaaClient t0 session packet eapPayload;
                         session = (oc_session oc)\<lparr>es_LastNonce := msgHash, es_LastActivity := t1\<rparr>;
                         session = (case oc_response oc of
                            Some response \<Rightarrow> CacheResponse session response | None \<Rightarrow> session);
                         st = fst (put t1 session st)
                     in case oc_err oc of
                       Some err \<Rightarrow>
                         \<lparr>po_store = st, po_msg = None, po_result = AuthResultFailure,
                          po_err = Some err, po_sent = oc_sent oc\<rparr>
                     | None \<Rightarrow>
                         \<lparr>po_store = st, po_msg = map_option NewEapMessage (oc_response oc),
                          po_result = authResultFromEapResult (oc_result oc), po_err = None,
                          po_sent = oc_sent oc\<rparr>)))"

lemmas handler_defs = handleInit_def handleExchange_def handleCompleting_def forwardToAAA_def

section \<open>One message seen by one session\<close>

text \<open>Retry detection: the message is the last one and a response is cached.\<close>

definition is_retry :: "(bytes \<Rightarrow> bytes) \<Rightarrow> Session \<Rightarrow> bytes \<Rightarrow> bool" where
  "is_retry sha256 x payload = (es_LastNonce x = sha256 payload \<and> es_CachedResponse x \<noteq> None)"

text \<open>The session that is stored after the state machine has advanced.\<close>

definition stored_session :: "(bytes \<Rightarrow> bytes) \<Rightarrow> time \<Rightarrow> bytes \<Rightarrow> Outcome \<Rightarrow> Session" where
  "stored_session sha256 t1 payload oc =
    (let session = (oc_session oc)\<lparr>es_LastNonce := sha256 payload, es_LastActivity := t1\<rparr> in
     case oc_response oc of Some response \<Rightarrow> CacheResponse session response | None \<Rightarrow> session)"

lemma stored_session_eq:
  "stored_session sha256 t1 payload oc =
    (oc_session oc)\<lparr>es_LastNonce := sha256 payload, es_LastActivity := t1,
       es_CachedResponse := (case oc_response oc of Some r \<Rightarrow> Some r | None \<Rightarrow> es_CachedResponse (oc_session oc))\<rparr>"
  by (cases "oc_response oc") (simp_all add: stored_session_def CacheResponse_def)

lemma Process_found:
  assumes "get t0 st i = Inr x"
  shows "Process get put sha256 c t0 t1 st i payload =
    (if IsTimedOut x t0 then
       \<lparr>po_store = fst (put t0 (MarkTimeout x t0) st), po_msg = None, po_result = AuthResultFailure,
        po_err = Some ErrSessionTimeout, po_sent = []\<rparr>
     else case Parse payload of
       Inl err \<Rightarrow> \<lparr>po_store = st, po_msg = None, po_result = AuthResultFailure,
                   po_err = Some (ErrCodec err), po_sent = []\<rparr>
     | Inr packet \<Rightarrow>
         if is_retry sha256 x payload then
           \<lparr>po_store = st, po_msg = Some (NewEapMessage (the (es_CachedResponse x))),
            po_result = AuthResultPending, po_err = None, po_sent = []\<rparr>
         else
           let oc = advanceState sha256 c t0 x packet payload;
               st' = fst (put t1 (stored_session sha256 t1 payload oc) st)
           in case oc_err oc of
             Some err \<Rightarrow> \<lparr>po_store = st', po_msg = None, po_result = AuthResultFailure,
                          po_err = Some err, po_sent = oc_sent oc\<rparr>
           | None \<Rightarrow> \<lparr>po_store = st', po_msg = map_option NewEapMessage (oc_response oc),
                      po_result = authResultFromEapResult (oc_result oc), po_err = None,
                      po_sent = oc_sent oc\<rparr>)"
proof (cases "Parse payload")
  case (Inr packet)
  show ?thesis
  proof (cases "is_retry sha256 x payload")
    case True
    then obtain r where "es_LastNonce x = sha256 payload" "es_CachedResponse x = Some r"
      by (auto simp: is_retry_def)
    then show ?thesis using Inr True by (simp add: Process_def assms bytesEqual_iff Let_def)
  next
    case False
    then show ?thesis
      using Inr
      by (cases "es_LastNonce x = sha256 payload"; cases "es_CachedResponse x")
        (simp_all add: is_retry_def Process_def assms bytesEqual_iff Let_def stored_session_def)
  qed
qed (simp add: Process_def assms)

lemma Process_missing:
  "get t0 st i = Inl e \<Longrightarrow> Process get put sha256 c t0 t1 st i payload =
    \<lparr>po_store = st, po_msg = None, po_result = AuthResultFailure, po_err = Some e, po_sent = []\<rparr>"
  by (simp add: Process_def)

text \<open>What a reachable session satisfies.\<close>

definition session_ok :: "Session \<Rightarrow> bool" where
  "session_ok x \<longleftrightarrow> 1 \<le> es_MaxRounds x \<and> 0 \<le> es_Rounds x \<and> es_Rounds x \<le> es_MaxRounds x
     \<and> es_State x \<noteq> SessionStateIdle \<and> es_State x \<noteq> SessionStateCompleting
     \<and> (es_State x = SessionStateInit \<longrightarrow> es_Rounds x = 0)"

text \<open>Steps keep the identity of the session and its limits.\<close>

definition same_context :: "Session \<Rightarrow> Session \<Rightarrow> bool" where
  "same_context x y \<longleftrightarrow> es_AuthCtxID y = es_AuthCtxID x \<and> es_Gpsi y = es_Gpsi x
     \<and> es_MaxRounds y = es_MaxRounds x \<and> es_Timeout y = es_Timeout x \<and> es_CreatedAt y = es_CreatedAt x
     \<and> es_SnssaiKey y = es_SnssaiKey x"

lemma forwardToAAA_sent: "forwardToAAA c x p = (r, sent) \<Longrightarrow> length sent \<le> 1"
  by (auto simp: forwardToAAA_def Let_def split: option.splits sum.splits)

lemma handleInit_step:
  assumes "handleInit c now x pk p = oc"
  shows "same_context x (oc_session oc)
    \<and> (oc_session oc = x \<and> oc_sent oc = [] \<or>
       es_State (oc_session oc) = SessionStateEapExchange \<and> es_Rounds (oc_session oc) = 1 \<and> length (oc_sent oc) \<le> 1)
    \<and> (oc_err oc = None \<longrightarrow> oc_response oc \<noteq> None \<and> oc_result oc = ResultContinue)"
  unfolding assms [symmetric] handleInit_def Let_def same_context_def
  by (simp split: prod.split sum.split option.split) (auto dest: forwardToAAA_sent)

lemma handleExchange_step:
  assumes "handleExchange sha c now x pk p = oc" "es_State x = SessionStateEapExchange"
  shows "same_context x (oc_session oc)
    \<and> (es_Rounds (oc_session oc) = es_Rounds x \<and> oc_sent oc = [] \<or>
       es_Rounds x < es_MaxRounds x \<and> es_Rounds (oc_session oc) = es_Rounds x + 1 \<and> length (oc_sent oc) \<le> 1)
    \<and> es_State (oc_session oc) \<in> {SessionStateEapExchange, SessionStateDone, SessionStateFailed}
    \<and> (oc_err oc = None \<longrightarrow> oc_response oc \<noteq> None)"
  unfolding assms(1) [symmetric] handleExchange_def Let_def same_context_def MarkFailed_def MarkDone_def
    CacheResponse_def
  by (simp add: assms(2) split: prod.split sum.split option.split) (auto dest: forwardToAAA_sent)

lemma handleCompleting_step:
  assumes "handleCompleting c x pk p = oc"
  shows "same_context x (oc_session oc) \<and> es_State (oc_session oc) = es_State x
    \<and> (oc_err oc = None \<longrightarrow> oc_response oc \<noteq> None)"
  unfolding assms [symmetric] handleCompleting_def Let_def same_context_def
  by (simp split: prod.split sum.split option.split)

text \<open>What a step of the state machine guarantees.\<close>

definition step_ok :: "Session \<Rightarrow> Outcome \<Rightarrow> bool" where
  "step_ok x oc \<longleftrightarrow> same_context x (oc_session oc) \<and> es_State x \<le> es_State (oc_session oc)
     \<and> (oc_err oc = None \<longrightarrow> oc_response oc \<noteq> None)
     \<and> (session_ok x \<longrightarrow> session_ok (oc_session oc)
          \<and> es_Rounds x + int (length (oc_sent oc)) \<le> es_Rounds (oc_session oc))"

lemma step_ok_stay: "step_ok x \<lparr>oc_session = x, oc_response = None, oc_result = r, oc_err = Some e, oc_sent = []\<rparr>"
  by (simp add: step_ok_def same_context_def)

lemma advanceState_step: "step_ok x (advanceState sha c now x pk p)"
proof (cases "es_State x")
  case SessionStateInit
  define oc where "oc = handleInit c now x pk p"
  have "step_ok x oc"
    using handleInit_step [OF oc_def [symmetric]] SessionStateInit
    by (auto simp: step_ok_def same_context_def session_ok_def less_eq_SessionState_def)
  then show ?thesis using SessionStateInit by (simp add: advanceState_def oc_def)
next
  case SessionStateEapExchange
  define oc where "oc = handleExchange sha c now x pk p"
  have "step_ok x oc"
    using handleExchange_step [OF oc_def [symmetric] SessionStateEapExchange] SessionStateEapExchange
    by (auto simp: step_ok_def same_context_def session_ok_def less_eq_SessionState_def)
  then show ?thesis using SessionStateEapExchange by (simp add: advanceState_def oc_def)
next
  case SessionStateCompleting
  define oc where "oc = handleCompleting c x pk p"
  have "step_ok x oc"
    using handleCompleting_step [OF oc_def [symmetric]] SessionStateCompleting
    by (simp add: step_ok_def session_ok_def)
  then show ?thesis using SessionStateCompleting by (simp add: advanceState_def oc_def)
qed (simp_all add: advanceState_def Let_def step_ok_stay)

section \<open>Messages and the store\<close>

text \<open>How one message may change the stored session; \<open>n\<close> counts the payloads that
  were sent to the AAA side.\<close>

definition moves :: "Session \<Rightarrow> nat \<Rightarrow> Session \<Rightarrow> bool" where
  "moves x n y \<longleftrightarrow> same_context x y \<and> es_State x \<le> es_State y
     \<and> (session_ok x \<longrightarrow> session_ok y \<and> es_Rounds x + int n \<le> es_Rounds y)"

lemma moves_refl [simp]: "moves x 0 x"
  by (simp add: moves_def same_context_def)

lemma moves_trans: "moves x m y \<Longrightarrow> moves y n z \<Longrightarrow> moves x (m + n) z"
  by (auto simp: moves_def same_context_def)

lemma moves_MarkTimeout: "moves x 0 (MarkTimeout x now)"
  by (cases "es_State x")
    (auto simp: moves_def same_context_def session_ok_def MarkTimeout_def less_eq_SessionState_def)

lemma session_ok_nonce [simp]:
  "session_ok (y\<lparr>es_LastNonce := h, es_LastActivity := t, es_CachedResponse := r\<rparr>) = session_ok y"
  by (simp add: session_ok_def)

lemma moves_stored: "step_ok x oc \<Longrightarrow> moves x (length (oc_sent oc)) (stored_session sha t p oc)"
  by (auto simp: moves_def step_ok_def same_context_def stored_session_eq)

lemma Process_effect:
  assumes "get t0 st i = Inr x"
  assumes r_def: "r = Process get put sha c t0 t1 st i p"
  shows "(po_store r = st \<and> po_sent r = []) \<or>
    (\<exists>t y. po_store r = fst (put t y st) \<and> moves x (length (po_sent r)) y)"
proof (cases "IsTimedOut x t0")
  case True
  have "po_store r = fst (put t0 (MarkTimeout x t0) st) \<and> moves x (length (po_sent r)) (MarkTimeout x t0)"
    unfolding r_def Process_found [where get = get, OF assms(1)] using True by (simp add: moves_MarkTimeout)
  then show ?thesis by blast
next
  case False
  show ?thesis
  proof (cases "Parse p")
    case (Inl e)
    then show ?thesis unfolding r_def Process_found [where get = get, OF assms(1)] using False by simp
  next
    case (Inr packet)
    show ?thesis
    proof (cases "is_retry sha x p")
      case True
      then show ?thesis unfolding r_def Process_found [where get = get, OF assms(1)] using False Inr by simp
    next
      case no_retry: False
      define oc where "oc = advanceState sha c t0 x packet p"
      have "po_store r = fst (put t1 (stored_session sha t1 p oc) st) \<and> po_sent r = oc_sent oc"
        unfolding r_def Process_found [where get = get, OF assms(1)] using False Inr no_retry
        by (cases "oc_err oc") (simp_all add: Let_def oc_def [symmetric])
      then show ?thesis
        using moves_stored [OF advanceState_step, of x sha c t0 packet p sha t1 p] oc_def by metis
    qed
  qed
qed

record Message =
  m_id :: string
  m_router :: "AAARouter option"
  m_t0 :: time
  m_t1 :: time
  m_payload :: bytes

text \<open>A sequence of messages, for any mix of authentication contexts; the second
  component lists what was sent to the AAA side on behalf of whom.\<close>

fun run_messages ::
  "(time \<Rightarrow> 's \<Rightarrow> string \<Rightarrow> (EapError, Session) result) \<Rightarrow>
   (time \<Rightarrow> Session \<Rightarrow> 's \<Rightarrow> 's \<times> string option) \<Rightarrow> (bytes \<Rightarrow> bytes) \<Rightarrow>
   Message list \<Rightarrow> 's \<Rightarrow> 's \<times> (string \<times> bytes) list" where
  "run_messages get put sha256 [] st = (st, [])"
| "run_messages get put sha256 (m # ms) st =
    (let r = Process get put sha256 (m_router m) (m_t0 m) (m_t1 m) st (m_id m) (m_payload m);
         (st', sent) = run_messages get put sha256 ms (po_store r)
     in (st', map (Pair (m_id m)) (po_sent r) @ sent))"

context session_store
begin

lemma process_inv: "inv st \<Longrightarrow> inv (po_store (Process get put sha c t0 t1 st i p))"
proof (cases "get t0 st i")
  case (Inr x)
  then show "inv st \<Longrightarrow> ?thesis"
    using Process_effect [where get = get, OF Inr refl, of put sha c t1 p] put_cases(1) by force
qed (simp add: Process_missing)

lemma process_isolated:
  assumes "inv st" "j \<noteq> i"
  shows "peek (po_store (Process get put sha c t0 t1 st i p)) j = peek st j"
proof (cases "get t0 st i")
  case (Inr x)
  have x: "es_AuthCtxID x = i" using assms(1) Inr get_peek peek_id by blast
  have upd: "peek (fst (put t y st)) j = peek st j" if "moves x n y" for t y n
  proof -
    have "es_AuthCtxID y = i" using that x by (simp add: moves_def same_context_def)
    then show ?thesis using put_cases(2) [OF assms(1), of t y] assms(2) by auto
  qed
  show ?thesis using Process_effect [where get = get, OF Inr refl, of put sha c t1 p] upd by force
qed (simp add: Process_missing)

end

text \<open>A store whose writes never fail.\<close>

locale reliable_store = session_store +
  assumes put_succeeds: "snd (put t x st) = None"
begin

lemma process_peek:
  assumes "inv st" "peek st i = Some x"
  assumes r_def: "r = Process get put sha c t0 t1 st i p"
  shows "\<exists>y. peek (po_store r) i = Some y \<and> moves x (length (po_sent r)) y"
proof (cases "get t0 st i")
  case (Inl e)
  then show ?thesis using assms(2) by (simp add: r_def Process_missing)
next
  case (Inr x')
  have x: "x' = x" using assms(1,2) Inr get_peek by fastforce
  have id: "es_AuthCtxID x = i" by (rule peek_id [OF assms(1,2)])
  have upd: "peek (fst (put t y st)) i = Some y" if "moves x n y" for t y n
  proof -
    have "es_AuthCtxID y = i" using that id by (simp add: moves_def same_context_def)
    moreover have "put t y st = (fst (put t y st), None)" using put_succeeds [of t y st] by (metis prod.collapse)
    ultimately show ?thesis using put_ok [OF assms(1)] by fastforce
  qed
  show ?thesis
    using Process_effect [where get = get, OF Inr r_def] upd assms(2) unfolding x by fastforce
qed

lemma run_peek:
  assumes "inv st" "peek st i = Some x"
  shows "\<exists>y. peek (fst (run_messages get put sha ms st)) i = Some y
    \<and> moves x (length (filter (\<lambda>s. fst s = i) (snd (run_messages get put sha ms st)))) y"
  using assms
proof (induction ms arbitrary: st x)
  case Nil
  then show ?case by simp
next
  case (Cons m ms)
  define r where "r = Process get put sha (m_router m) (m_t0 m) (m_t1 m) st (m_id m) (m_payload m)"
  have inv': "inv (po_store r)" unfolding r_def by (rule process_inv [OF Cons.prems(1)])
  define k where "k = length (filter (\<lambda>s. fst s = i) (map (Pair (m_id m)) (po_sent r)))"
  have "\<exists>y. peek (po_store r) i = Some y \<and> moves x k y"
  proof (cases "m_id m = i")
    case True
    have "k = length (po_sent r)" by (simp add: k_def True comp_def)
    then show ?thesis using process_peek [OF Cons.prems r_def [unfolded True]] by simp
  next
    case False
    have "k = 0" using False by (simp add: k_def filter_empty_conv)
    then show ?thesis using process_isolated [OF Cons.prems(1), of i "m_id m"] False Cons.prems(2)
      unfolding r_def by auto
  qed
  then obtain y where y: "peek (po_store r) i = Some y" "moves x k y" by blast
  obtain z where z: "peek (fst (run_messages get put sha ms (po_store r))) i = Some z"
    "moves y (length (filter (\<lambda>s. fst s = i) (snd (run_messages get put sha ms (po_store r))))) z"
    using Cons.IH [OF inv' y(1)] by blast
  show ?case
    using z(1) moves_trans [OF y(2) z(2)]
    by (simp add: r_def [symmetric] k_def Let_def case_prod_unfold)
qed

end

interpretation sm: reliable_store sessionManager_get sessionManager_put sm_peek sm_inv
  by unfold_locales (simp add: sessionManager_put_def)

section \<open>Where success and cached answers come from\<close>

lemma handler_no_success:
  "oc_result (handleInit c now x pk p) \<noteq> ResultSuccess"
  "oc_result (handleCompleting c x pk p) \<noteq> ResultSuccess"
  by (auto simp: handleInit_def handleCompleting_def Let_def split: prod.splits sum.splits option.splits)

lemma handleExchange_success:
  assumes "oc_result (handleExchange sha c now x pk p) = ResultSuccess"
  shows "pkt_ID pk = es_ExpectedID x \<and> es_Rounds x < es_MaxRounds x
    \<and> (\<exists>r x' resp rp. c = Some r \<and> ar_SendEAP r x' (ar_RoutingContext r x') p = Inr (Some resp)
         \<and> same_context x x' \<and> Parse resp = Inr rp \<and> pkt_Code rp = CodeSuccess
         \<and> oc_response (handleExchange sha c now x pk p) = Some resp
         \<and> es_State (oc_session (handleExchange sha c now x pk p)) = SessionStateDone)"
proof -
  have g: "pkt_ID pk = es_ExpectedID x" "es_Rounds x < es_MaxRounds x"
    using assms by (auto simp: handleExchange_def split: if_splits)
  define x' where "x' = x\<lparr>es_Rounds := es_Rounds x + 1, es_ExpectedID := pkt_ID pk + 1, es_LastActivity := now\<rparr>"
  have ctx: "same_context x x'" by (simp add: x'_def same_context_def)
  from assms g obtain r where r: "c = Some r"
    by (cases c) (auto simp: handleExchange_def forwardToAAA_def Let_def)
  from assms g r obtain resp where s: "ar_SendEAP r x' (ar_RoutingContext r x') p = Inr (Some resp)"
    unfolding x'_def by (auto simp: handleExchange_def forwardToAAA_def Let_def split: sum.splits option.splits)
  from assms g r s obtain rp where "Parse resp = Inr rp" "pkt_Code rp = CodeSuccess"
    unfolding x'_def
    by (auto simp: handleExchange_def forwardToAAA_def Let_def split: sum.splits option.splits if_splits)
  with g r s ctx show ?thesis
    unfolding x'_def by (auto simp: handleExchange_def forwardToAAA_def Let_def MarkDone_def)
qed

lemma Process_answered:
  assumes "get t0 st i = Inr x" "po_err (Process get put sha c t0 t1 st i p) = None"
  obtains (retry) pk where "\<not> IsTimedOut x t0" "Parse p = Inr pk" "is_retry sha x p"
      "Process get put sha c t0 t1 st i p = \<lparr>po_store = st, po_msg = Some (NewEapMessage (the (es_CachedResponse x))),
         po_result = AuthResultPending, po_err = None, po_sent = []\<rparr>"
  | (step) pk oc resp where "\<not> IsTimedOut x t0" "Parse p = Inr pk" "\<not> is_retry sha x p"
      "oc = advanceState sha c t0 x pk p" "oc_response oc = Some resp"
      "Process get put sha c t0 t1 st i p = \<lparr>po_store = fst (put t1 (stored_session sha t1 p oc) st),
         po_msg = Some (NewEapMessage resp), po_result = authResultFromEapResult (oc_result oc),
         po_err = None, po_sent = oc_sent oc\<rparr>"
proof -
  note P = Process_found [where get = get, OF assms(1), of put sha c t1 p]
  have to: "\<not> IsTimedOut x t0" using assms(2) P by auto
  obtain pk where pk: "Parse p = Inr pk" using assms(2) P to by (cases "Parse p") auto
  define oc where "oc = advanceState sha c t0 x pk p"
  show thesis
  proof (cases "is_retry sha x p")
    case True
    then show thesis using retry to pk P by simp
  next
    case False
    have err: "oc_err oc = None"
      using assms(2) P to pk False by (cases "oc_err oc") (simp_all add: oc_def Let_def)
    then obtain resp where resp: "oc_response oc = Some resp"
      using advanceState_step [of x sha c t0 pk p] by (auto simp: step_ok_def oc_def)
    show thesis
      by (rule step [OF to pk False oc_def resp])
        (use P to pk False err resp in \<open>simp add: oc_def [symmetric] Let_def\<close>)
  qed
qed

lemma IsTimedOut_stored [simp]:
  "IsTimedOut (stored_session sha t1 p oc) t \<longleftrightarrow> t - t1 > es_Timeout (oc_session oc)"
  by (simp add: IsTimedOut_def stored_session_eq)

lemma Process_success:
  assumes "po_result (Process get put sha c t0 t1 st i p) = AuthResultSuccess"
  shows "\<exists>x pk r x' resp rp. get t0 st i = Inr x \<and> \<not> IsTimedOut x t0 \<and> es_State x = SessionStateEapExchange
    \<and> Parse p = Inr pk \<and> pkt_ID pk = es_ExpectedID x \<and> es_Rounds x < es_MaxRounds x
    \<and> c = Some r \<and> same_context x x' \<and> ar_SendEAP r x' (ar_RoutingContext r x') p = Inr (Some resp)
    \<and> Parse resp = Inr rp \<and> pkt_Code rp = CodeSuccess
    \<and> po_msg (Process get put sha c t0 t1 st i p) = Some (NewEapMessage resp)"
proof -
  obtain x where x: "get t0 st i = Inr x"
    using assms by (cases "get t0 st i") (auto simp: Process_missing)
  have e: "po_err (Process get put sha c t0 t1 st i p) = None"
    using assms by (auto simp: Process_found [where get = get, OF x] Let_def split: if_splits sum.splits option.splits)
  from x e show ?thesis
  proof (cases rule: Process_answered)
    case (retry pk)
    then show ?thesis using assms by simp
  next
    case (step pk oc resp)
    have res: "oc_result oc = ResultSuccess"
      using assms step by (cases "oc_result oc") (auto simp: authResultFromEapResult_def)
    then have st: "es_State x = SessionStateEapExchange"
      using handler_no_success step(4) by (cases "es_State x") (auto simp: advanceState_def Let_def)
    then have oc: "oc = handleExchange sha c t0 x pk p" using step(4) by (simp add: advanceState_def Let_def)
    show ?thesis
      using handleExchange_success [OF res [unfolded oc]] x st step(1,2,5,6)
      by (auto simp: oc [symmetric])
  qed
qed

context session_store
begin

lemma get_unique: "inv st \<Longrightarrow> get t st i = Inr x \<Longrightarrow> get t' st i = Inr y \<Longrightarrow> x = y"
  by (metis get_peek option.inject)

lemma retry_answers_again:
  assumes "inv st" "get t0 st i = Inr x" "po_err (Process get put sha c t0 t1 st i p) = None"
    and again: "get t2 (po_store (Process get put sha c t0 t1 st i p)) i = Inr y" "\<not> IsTimedOut y t2"
    and stored: "\<And>t z. snd (put t z st) = None"
  shows "Process get put sha c' t2 t3 (po_store (Process get put sha c t0 t1 st i p)) i p =
    \<lparr>po_store = po_store (Process get put sha c t0 t1 st i p), po_msg = po_msg (Process get put sha c t0 t1 st i p),
     po_result = AuthResultPending, po_err = None, po_sent = []\<rparr>"
  using assms(2,3)
proof (cases rule: Process_answered)
  case (retry pk)
  have "get t2 st i = Inr y" using again(1) retry(4) by simp
  then have "y = x" using get_unique [OF assms(1)] assms(2) by blast
  then show ?thesis using Process_found [where get = get, OF again(1)] retry again(2) by simp
next
  case (step pk oc resp)
  define z where "z = stored_session sha t1 p oc"
  have "es_AuthCtxID z = i"
    using advanceState_step [of x sha c t0 pk p] peek_id [OF assms(1) get_peek [OF assms(1,2)]] step(4)
    by (auto simp: z_def stored_session_eq step_ok_def same_context_def)
  moreover have "put t1 z st = (fst (put t1 z st), None)" using stored by (metis prod.collapse)
  ultimately have "peek (fst (put t1 z st)) i = Some z" "inv (fst (put t1 z st))"
    using put_ok [OF assms(1)] put_inv [OF assms(1)] by fastforce+
  moreover have "get t2 (fst (put t1 z st)) i = Inr y" using again(1) step(6) by (simp add: z_def)
  ultimately have "y = z" by (metis get_peek option.inject)
  then have "is_retry sha y p" "es_CachedResponse y = Some resp"
    using step(5) by (auto simp: z_def is_retry_def stored_session_eq)
  then show ?thesis using Process_found [where get = get, OF again(1)] again(2) step(2,6) by simp
qed

end

lemma StartSession_ok:
  assumes "sm_inv m" "i \<noteq> ''''" "1 \<le> cfg_MaxRounds cfg"
  shows "\<exists>x. sm_peek (fst (StartSession sessionManager_put cfg now m i gpsi)) i = Some x \<and> session_ok x
    \<and> es_MaxRounds x = cfg_MaxRounds cfg \<and> es_Rounds x = 0"
    and "sm_inv (fst (StartSession sessionManager_put cfg now m i gpsi))"
  using assms
  by (auto simp: StartSession_def sessionManager_put_def sm_peek_def sm_inv_def store_simps session_ok_def
      NewSession_def Let_def split: if_splits)

section \<open>Properties of the engine\<close>

lemma terminal_silent:
  assumes "get t0 st i = Inr x" "SessionState_IsTerminal (es_State x)"
  shows "po_sent (Process get put sha c t0 t1 st i p) = []
    \<and> po_result (Process get put sha c t0 t1 st i p) \<noteq> AuthResultSuccess"
proof
  have "oc_sent (advanceState sha c t0 x pk p) = []" for pk
    using assms(2) by (auto simp: SessionState_IsTerminal_def advanceState_def Let_def)
  then show "po_sent (Process get put sha c t0 t1 st i p) = []"
    by (simp add: Process_found [where get = get, OF assms(1)] Let_def split: sum.split option.split)
  show "po_result (Process get put sha c t0 t1 st i p) \<noteq> AuthResultSuccess"
  proof
    assume "po_result (Process get put sha c t0 t1 st i p) = AuthResultSuccess"
    from Process_success [OF this] assms show False by (auto simp: SessionState_IsTerminal_def)
  qed
qed

text \<open>A session in the middle of an exchange, a router that answers every payload
  with EAP-Success, and a Response packet: the inputs of the examples below.\<close>

definition ex_session :: Session where
  "ex_session = (NewSession ''ctx'' ''5-1'' 0)\<lparr>es_State := SessionStateEapExchange, es_Rounds := 1,
     es_ExpectedID := 7, es_LastNonce := [9], es_CachedResponse := Some [1, 6, 0, 5, 13]\<rparr>"

definition ex_manager :: sessionManager where
  "ex_manager = fst (sessionManager_put 0 ex_session (newSessionManager DefaultSessionTTL))"

definition ex_router :: AAARouter where
  "ex_router = \<lparr>ar_RoutingContext = \<lambda>x. \<lparr>rc_GPSI = es_Gpsi x, rc_Sst = 1, rc_Sd = '''', rc_AuthCtxID = es_AuthCtxID x\<rparr>,
     ar_SendEAP = \<lambda>_ _ _. Inr (Some [3, 7, 0, 4])\<rparr>"

definition ex_payload :: bytes where
  "ex_payload = [2, 7, 0, 6, 13, 0]"

lemma ex_manager_inv: "sm_inv ex_manager"
  using sm.put_cases(1) [OF sm_inv_new] by (simp add: ex_manager_def)

lemma ex_manager_get: "0 \<le> t \<Longrightarrow> t \<le> 100 \<Longrightarrow> sessionManager_get t ex_manager ''ctx'' = Inr ex_session"
  by (simp add: ex_manager_def sessionManager_get_def sessionManager_put_def newSessionManager_def
      ex_session_def NewSession_def IsExpired_def gm_simps)

lemma ex_payload_parse:
  "Parse ex_payload = Inr \<lparr>pkt_Code = 2, pkt_ID = 7, pkt_Length = 6, pkt_Type = 13, pkt_Data = [0],
     pkt_RawData = ex_payload\<rparr>"
  by (simp add: Parse_def ex_payload_def Code_IsValid_def typed_def Let_def)

lemma ex_reply_parse:
  "Parse [3, 7, 0, 4] = Inr \<lparr>pkt_Code = 3, pkt_ID = 7, pkt_Length = 4, pkt_Type = 0, pkt_Data = [],
     pkt_RawData = [3, 7, 0, 4]\<rparr>"
  by (simp add: Parse_def Code_IsValid_def typed_def Let_def)

lemma ex_payload_new [simp]: "[9] \<noteq> ex_payload"
  by (simp add: ex_payload_def)

lemmas ex_eval = ex_payload_parse ex_reply_parse ex_session_def NewSession_def IsTimedOut_def is_retry_def
  advanceState_def handleExchange_def forwardToAAA_def ex_router_def Let_def CacheResponse_def MarkDone_def
  authResultFromEapResult_def

lemma ex_success:
  "po_result (Process sessionManager_get sessionManager_put (\<lambda>b. b) (Some ex_router) 10 11 ex_manager ''ctx'' ex_payload)
     = AuthResultSuccess"
  "po_err (Process sessionManager_get sessionManager_put (\<lambda>b. b) (Some ex_router) 10 11 ex_manager ''ctx'' ex_payload)
     = None"
  by (simp_all add: Process_found [where get = sessionManager_get, OF ex_manager_get] ex_eval)

text \<open>C1. Whatever the AAA side answers and whatever messages arrive, for any mix of
  authentication contexts and in any order, an engine on the in-memory store forwards at
  most \<^verbatim>\<open>MaxRounds\<close> payloads to the AAA side for a session it started.\<close>

theorem aaa_calls_bounded:
  assumes "sm_inv m" "authCtxID \<noteq> ''''" "1 \<le> cfg_MaxRounds cfg"
  shows "int (length (filter (\<lambda>s. fst s = authCtxID)
      (snd (run_messages sessionManager_get sessionManager_put sha256 ms
         (fst (StartSession sessionManager_put cfg now m authCtxID gpsi)))))) \<le> cfg_MaxRounds cfg"
proof -
  obtain x where x: "sm_peek (fst (StartSession sessionManager_put cfg now m authCtxID gpsi)) authCtxID = Some x"
    "session_ok x" "es_MaxRounds x = cfg_MaxRounds cfg" "es_Rounds x = 0"
    using StartSession_ok(1) [OF assms] by blast
  show ?thesis
    using sm.run_peek [OF StartSession_ok(2) [OF assms] x(1), of sha256 ms] x(2-4)
    by (auto simp: moves_def session_ok_def same_context_def)
qed

theorem aaa_calls_bounded_witness:
  "int (length (filter (\<lambda>s. fst s = ''ctx'')
      (snd (run_messages sessionManager_get sessionManager_put (\<lambda>b. b)
         [\<lparr>m_id = ''ctx'', m_router = Some ex_router, m_t0 = 1, m_t1 = 2, m_payload = ex_payload\<rparr>]
         (fst (StartSession sessionManager_put DefaultConfig 0 (newSessionManager Minute) ''ctx'' ''5-1'')))))) \<le> 20"
  using aaa_calls_bounded [of "newSessionManager Minute" "''ctx''" DefaultConfig "\<lambda>b. b"
      "[\<lparr>m_id = ''ctx'', m_router = Some ex_router, m_t0 = 1, m_t1 = 2, m_payload = ex_payload\<rparr>]" 0 "''5-1''"]
  by (simp add: DefaultConfig_def)

text \<open>C2. On every store, a message is answered with \<^verbatim>\<open>AuthResultSuccess\<close> only when its
  session is live and in the exchange state, the packet carries the expected identifier, the
  round limit is not reached, and the AAA side answered this very payload with a well-formed
  EAP-Success packet, which is what the caller receives.\<close>

theorem success_needs_aaa_success:
  assumes "po_result (Process get put sha256 c t0 t1 st i p) = AuthResultSuccess"
  shows "\<exists>x pk r x' resp rp. get t0 st i = Inr x \<and> \<not> IsTimedOut x t0 \<and> es_State x = SessionStateEapExchange
    \<and> Parse p = Inr pk \<and> pkt_ID pk = es_ExpectedID x \<and> es_Rounds x < es_MaxRounds x
    \<and> c = Some r \<and> same_context x x' \<and> ar_SendEAP r x' (ar_RoutingContext r x') p = Inr (Some resp)
    \<and> Parse resp = Inr rp \<and> pkt_Code rp = CodeSuccess
    \<and> po_msg (Process get put sha256 c t0 t1 st i p) = Some (NewEapMessage resp)"
  by (rule Process_success [OF assms])

theorem success_needs_aaa_success_witness:
  "\<exists>x resp rp x'. sessionManager_get 10 ex_manager ''ctx'' = Inr x \<and> es_State x = SessionStateEapExchange
    \<and> ar_SendEAP ex_router x' (ar_RoutingContext ex_router x') ex_payload = Inr (Some resp)
    \<and> Parse resp = Inr rp \<and> pkt_Code rp = CodeSuccess"
  using success_needs_aaa_success [OF ex_success(1)] by auto

text \<open>A message for one authentication context leaves the session of every other
  context of the in-memory store as it was.\<close>

theorem message_isolation:
  assumes "sm_inv m" "j \<noteq> i"
  shows "sessionManager_get now (po_store (Process sessionManager_get sessionManager_put sha256 c t0 t1 m i p)) j
    = sessionManager_get now m j"
proof -
  let ?m = "po_store (Process sessionManager_get sessionManager_put sha256 c t0 t1 m i p)"
  have "sm_ttl ?m = sm_ttl m"
  proof (cases "sessionManager_get t0 m i")
    case (Inr x)
    then show ?thesis
      using Process_effect [where get = sessionManager_get, OF Inr refl, of sessionManager_put sha256 c t1 p]
      by (auto simp: sessionManager_put_def)
  qed (simp add: Process_missing)
  then show ?thesis
    using sm.process_isolated [OF assms, of sha256 c t0 t1 p]
    by (simp add: sessionManager_get_def sm_peek_def split: option.split)
qed

text \<open>C3. Retries are idempotent: after a message was answered without error, the same
  payload, sent again while the session is alive, gets the same EAP message, changes nothing
  in the store and is not forwarded to the AAA side, whatever that side would answer now.\<close>

theorem retry_idempotent:
  assumes "sm_inv m" "sessionManager_get t0 m i = Inr x"
    and r: "r = Process sessionManager_get sessionManager_put sha256 c t0 t1 m i p" "po_err r = None"
    and alive: "sessionManager_get t2 (po_store r) i = Inr y" "\<not> IsTimedOut y t2"
  shows "Process sessionManager_get sessionManager_put sha256 c' t2 t3 (po_store r) i p =
    \<lparr>po_store = po_store r, po_msg = po_msg r, po_result = AuthResultPending, po_err = None, po_sent = []\<rparr>"
  using sm.retry_answers_again [OF assms(1,2), of sha256 c t1 p t2 y c' t3] r alive sm.put_succeeds by simp

theorem retry_idempotent_witness:
  "po_msg (Process sessionManager_get sessionManager_put (\<lambda>b. b) None 12 13
     (po_store (Process sessionManager_get sessionManager_put (\<lambda>b. b) (Some ex_router) 10 11 ex_manager ''ctx'' ex_payload))
     ''ctx'' ex_payload)
   = po_msg (Process sessionManager_get sessionManager_put (\<lambda>b. b) (Some ex_router) 10 11 ex_manager ''ctx'' ex_payload)"
proof -
  define r where "r = Process sessionManager_get sessionManager_put (\<lambda>b. b) (Some ex_router) 10 11 ex_manager ''ctx'' ex_payload"
  have g: "sessionManager_get 10 ex_manager ''ctx'' = Inr ex_session" by (rule ex_manager_get) simp_all
  have "\<exists>z. po_store r = fst (sessionManager_put 11 z ex_manager) \<and> es_AuthCtxID z = ''ctx'' \<and> es_CreatedAt z = 0
      \<and> es_LastActivity z = 11 \<and> es_Timeout z = 30 * Second"
    unfolding r_def
    by (intro exI conjI, simp add: Process_found [where get = sessionManager_get, OF g] ex_eval)
      (simp_all add: ex_eval stored_session_eq)
  then have "\<exists>y. sessionManager_get 12 (po_store r) ''ctx'' = Inr y \<and> \<not> IsTimedOut y 12"
    by (auto simp: sessionManager_put_def sessionManager_get_def ex_manager_def newSessionManager_def IsExpired_def
        IsTimedOut_def gm_simps)
  then obtain y where "sessionManager_get 12 (po_store r) ''ctx'' = Inr y" "\<not> IsTimedOut y 12" by blast
  from retry_idempotent [OF ex_manager_inv g r_def _ this, of None 13] show ?thesis
    using ex_success(2) by (simp add: r_def)
qed

text \<open>C4. Sessions only move forward: over any sequence of messages the state of a stored
  session never decreases in the order of the constants, its identity and limits stay, the
  round counter stays within the limit, and a session never enters the states that the
  engine does not use.\<close>

theorem sessions_progress:
  assumes "sm_inv m" "sm_peek m i = Some x" "session_ok x"
  shows "\<exists>y. sm_peek (fst (run_messages sessionManager_get sessionManager_put sha256 ms m)) i = Some y
    \<and> same_context x y \<and> es_State x \<le> es_State y \<and> session_ok y"
  using sm.run_peek [OF assms(1,2), of sha256 ms] assms(3) by (auto simp: moves_def)

theorem sessions_progress_witness:
  "\<exists>y. sm_peek (fst (run_messages sessionManager_get sessionManager_put (\<lambda>b. b) [] ex_manager)) ''ctx'' = Some y
    \<and> SessionStateEapExchange \<le> es_State y"
proof -
  have p: "sm_peek ex_manager ''ctx'' = Some ex_session"
    using sm.get_peek [OF ex_manager_inv ex_manager_get [of 1]] by simp
  have ok: "session_ok ex_session" by (simp add: session_ok_def ex_session_def NewSession_def)
  have "es_State ex_session = SessionStateEapExchange" by (simp add: ex_session_def)
  then show ?thesis using sessions_progress [OF ex_manager_inv p ok, of "\<lambda>b. b" "[]"] by force
qed

text \<open>A session that is done, failed or timed out never causes another call to the AAA
  side and is never answered with success, on every store.\<close>

theorem terminal_sessions_silent:
  assumes "get t0 st i = Inr x" "SessionState_IsTerminal (es_State x)"
  shows "po_sent (Process get put sha256 c t0 t1 st i p) = []
    \<and> po_result (Process get put sha256 c t0 t1 st i p) \<noteq> AuthResultSuccess"
  by (rule terminal_silent [where get = get, OF assms])

text \<open>The digest comparison of the engine, which accumulates the differences of all
  bytes, decides equality.\<close>

theorem bytesEqual_correct: "bytesEqual a b \<longleftrightarrow> a = b"
  by (rule bytesEqual_iff)

end
