(* ===== verification/Resilience.thy ===== *)
theory Resilience
  imports Stores
begin

text \<open>
  \<^verbatim>\<open>internal/resilience\<close>: the circuit breaker, the registry of breakers keyed by
  \<^verbatim>\<open>host:port\<close>, and the retry loop.  A method that reads the clock takes the instant
  as an argument.  The retried function is a state transformer that returns an
  error or nothing.
\<close>

section \<open>The circuit breaker\<close>

datatype State = StateClosed | StateOpen | StateHalfOpen

definition State_String :: "State \<Rightarrow> string" where
  "State_String s = (case s of StateClosed \<Rightarrow> ''CLOSED'' | StateOpen \<Rightarrow> ''OPEN'' | StateHalfOpen \<Rightarrow> ''HALF_OPEN'')"

record CircuitBreaker =
  cb_state :: State
  cb_failures :: int
  cb_successes :: int
  cb_lastFailure :: time
  cb_openedAt :: time
  cb_failureThreshold :: int
  cb_recoveryTimeout :: duration
  cb_successThreshold :: int

text \<open>The zero \<^verbatim>\<open>time.Time\<close> of the two time stamps is never read before it is set; it
  is represented by 0.\<close>

definition NewCircuitBreaker :: "int \<Rightarrow> duration \<Rightarrow> int \<Rightarrow> CircuitBreaker" where
  "NewCircuitBreaker failureThreshold recoveryTimeout successThreshold =
    (let failureThreshold = (if failureThreshold = 0 then 5 else failureThreshold);
         recoveryTimeout = (if recoveryTimeout = 0 then 30 * Second else recoveryTimeout);
         successThreshold = (if successThreshold = 0 then 3 else successThreshold)
     in \<lparr>cb_state = StateClosed, cb_failures = 0, cb_successes = 0, cb_lastFailure = 0, cb_openedAt = 0,
         cb_failureThreshold = failureThreshold, cb_recoveryTimeout = recoveryTimeout,
         cb_successThreshold = successThreshold\<rparr>)"

definition Allow :: "CircuitBreaker \<Rightarrow> time \<Rightarrow> CircuitBreaker \<times> bool" where
  "Allow cb now =
    (case cb_state cb of
       StateClosed \<Rightarrow> (cb, True)
     | StateOpen \<Rightarrow>
         if now - cb_openedAt cb \<ge> cb_recoveryTimeout cb
         then (cb\<lparr>cb_state := StateHalfOpen, cb_successes := 0\<rparr>, True)
         else (cb, False)
     | StateHalfOpen \<Rightarrow> (cb, True))"

definition RecordSuccess :: "CircuitBreaker \<Rightarrow> CircuitBreaker" where
  "RecordSuccess cb =
    (case cb_state cb of
       StateHalfOpen \<Rightarrow>
         let cb = cb\<lparr>cb_successes := cb_successes cb + 1\<rparr> in
         if cb_successes cb \<ge> cb_successThreshold cb
         then cb\<lparr>cb_state := StateClosed, cb_failures := 0\<rparr> else cb
     | StateClosed \<Rightarrow> cb\<lparr>cb_failures := 0\<rparr>
     | StateOpen \<Rightarrow> cb)"

definition RecordFailure :: "CircuitBreaker \<Rightarrow> time \<Rightarrow> CircuitBreaker" where
  "RecordFailure cb now =
    (let cb = cb\<lparr>cb_lastFailure := now, cb_failures := cb_failures cb + 1\<rparr> in
     case cb_state cb of
       StateClosed \<Rightarrow>
         if cb_failures cb \<ge> cb_failureThreshold cb
         then cb\<lparr>cb_state := StateOpen, cb_openedAt := now\<rparr> else cb
     | StateHalfOpen \<Rightarrow> cb\<lparr>cb_state := StateOpen, cb_openedAt := now\<rparr>
     | StateOpen \<Rightarrow> cb)"

definition CircuitBreaker_Reset :: "CircuitBreaker \<Rightarrow> CircuitBreaker" where
  "CircuitBreaker_Reset cb = cb\<lparr>cb_state := StateClosed, cb_failures := 0, cb_successes := 0\<rparr>"

lemmas cb_defs = Allow_def RecordSuccess_def RecordFailure_def CircuitBreaker_Reset_def

section \<open>The registry\<close>

record Registry =
  reg_breakers :: "(string, CircuitBreaker) gomap"
  reg_defaultFailureThreshold :: int
  reg_defaultRecoveryTimeout :: duration
  reg_defaultSuccessThreshold :: int

definition NewRegistry :: "int \<Rightarrow> duration \<Rightarrow> int \<Rightarrow> Registry" where
  "NewRegistry failureThreshold recoveryTimeout successThreshold =
    \<lparr>reg_breakers = [],
     reg_defaultFailureThreshold = (if failureThreshold = 0 then 5 else failureThreshold),
     reg_defaultRecoveryTimeout = (if recoveryTimeout = 0 then 30 * Second else recoveryTimeout),
     reg_defaultSuccessThreshold = (if successThreshold = 0 then 3 else successThreshold)\<rparr>"

definition Registry_Get :: "Registry \<Rightarrow> string \<Rightarrow> Registry \<times> CircuitBreaker" where
  "Registry_Get r key =
    (case gm_get (reg_breakers r) key of
       Some cb \<Rightarrow> (r, cb)
     | None \<Rightarrow>
         let cb = NewCircuitBreaker (reg_defaultFailureThreshold r) (reg_defaultRecoveryTimeout r)
                    (reg_defaultSuccessThreshold r)
         in (r\<lparr>reg_breakers := gm_put key cb (reg_breakers r)\<rparr>, cb))"

text \<open>A method call through the pointer that \<^verbatim>\<open>Get\<close> returned.\<close>

definition Registry_update :: "string \<Rightarrow> (CircuitBreaker \<Rightarrow> CircuitBreaker) \<Rightarrow> Registry \<Rightarrow> Registry" where
  "Registry_update key f r =
    (let (r, cb) = Registry_Get r key in r\<lparr>reg_breakers := gm_put key (f cb) (reg_breakers r)\<rparr>)"

section \<open>Retries\<close>

record RetryConfig =
  rt_MaxAttempts :: int
  rt_BaseDelay :: duration
  rt_MaxDelay :: duration

definition DefaultRetryConfig :: RetryConfig where
  "DefaultRetryConfig = \<lparr>rt_MaxAttempts = 3, rt_BaseDelay = 1 * Second, rt_MaxDelay = 4 * Second\<rparr>"

datatype 'e DoResult = DoOk | DoCancelled | DoMaxRetriesExceeded "'e option"

text \<open>\<^verbatim>\<open>cfg.BaseDelay * time.Duration(1<<attempt)\<close> on 64-bit integers, capped.\<close>

definition retry_delay :: "RetryConfig \<Rightarrow> nat \<Rightarrow> duration" where
  "retry_delay cfg attempt =
    (let delay = sint (of_int (rt_BaseDelay cfg) * push_bit attempt 1 :: 64 word)
     in if delay > rt_MaxDelay cfg then rt_MaxDelay cfg else delay)"

text \<open>\<^verbatim>\<open>left\<close> attempts remain, \<^verbatim>\<open>attempt\<close> were made; \<^verbatim>\<open>cancelled k\<close> tells whether the context
  ends during the pause after attempt \<^verbatim>\<open>k\<close>.  The result lists the pauses.\<close>

fun retry_loop ::
  "RetryConfig \<Rightarrow> (nat \<Rightarrow> bool) \<Rightarrow> ('w \<Rightarrow> 'w \<times> 'e option) \<Rightarrow> nat \<Rightarrow> nat \<Rightarrow> 'e option \<Rightarrow> 'w \<Rightarrow>
   'w \<times> 'e DoResult \<times> duration list" where
  "retry_loop cfg cancelled fn 0 attempt lastErr w = (w, DoMaxRetriesExceeded lastErr, [])"
| "retry_loop cfg cancelled fn (Suc left) attempt lastErr w =
    (case fn w of
       (w', None) \<Rightarrow> (w', DoOk, [])
     | (w', Some err) \<Rightarrow>
         if left = 0 then (w', DoMaxRetriesExceeded (Some err), [])
         else if cancelled attempt then (w', DoCancelled, [retry_delay cfg attempt])
         else
           let (w'', r, pauses) = retry_loop cfg cancelled fn left (Suc attempt) (Some err) w'
           in (w'', r, retry_delay cfg attempt # pauses))"

definition Do_config :: "RetryConfig \<Rightarrow> RetryConfig" where
  "Do_config cfg =
    (let cfg = (if rt_MaxAttempts cfg = 0 then cfg\<lparr>rt_MaxAttempts := rt_MaxAttempts DefaultRetryConfig\<rparr> else cfg);
         cfg = (if rt_BaseDelay cfg = 0 then cfg\<lparr>rt_BaseDelay := rt_BaseDelay DefaultRetryConfig\<rparr> else cfg)
     in if rt_MaxDelay cfg = 0 then cfg\<lparr>rt_MaxDelay := rt_MaxDelay DefaultRetryConfig\<rparr> else cfg)"

definition Do ::
  "(nat \<Rightarrow> bool) \<Rightarrow> RetryConfig \<Rightarrow> ('w \<Rightarrow> 'w \<times> 'e option) \<Rightarrow> 'w \<Rightarrow> 'w \<times> 'e DoResult \<times> duration list" where
  "Do cancelled cfg fn w =
    (let cfg = Do_config cfg in retry_loop cfg cancelled fn (nat (rt_MaxAttempts cfg)) 0 None w)"

definition IsRetryable :: "int \<Rightarrow> bool" where
  "IsRetryable statusCode = (statusCode \<ge> 500 \<or> statusCode = 429)"

section \<open>Histories of a breaker\<close>

datatype cb_event = CbAllow time | CbSuccess | CbFailure time | CbReset

fun cb_step :: "CircuitBreaker \<Rightarrow> cb_event \<Rightarrow> CircuitBreaker" where
  "cb_step cb (CbAllow now) = fst (Allow cb now)"
| "cb_step cb CbSuccess = RecordSuccess cb"
| "cb_step cb (CbFailure now) = RecordFailure cb now"
| "cb_step cb CbReset = CircuitBreaker_Reset cb"

definition cb_run :: "CircuitBreaker \<Rightarrow> cb_event list \<Rightarrow> CircuitBreaker" where
  "cb_run cb evs = foldl cb_step cb evs"

lemma cb_run_simps [simp]: "cb_run cb [] = cb" "cb_run cb (e # evs) = cb_run (cb_step cb e) evs"
  "cb_run cb (evs @ [e]) = cb_step (cb_run cb evs) e"
  by (simp_all add: cb_run_def)

definition cb_inv :: "CircuitBreaker \<Rightarrow> bool" where
  "cb_inv cb \<longleftrightarrow> 1 \<le> cb_failureThreshold cb \<and> 1 \<le> cb_successThreshold cb \<and> 0 \<le> cb_failures cb \<and> 0 \<le> cb_successes cb
     \<and> (cb_state cb = StateClosed \<longrightarrow> cb_failures cb < cb_failureThreshold cb)
     \<and> (cb_state cb = StateHalfOpen \<longrightarrow> cb_successes cb < cb_successThreshold cb)"

lemma cb_inv_new:
  "0 \<le> ft \<Longrightarrow> 0 \<le> st \<Longrightarrow> cb_inv (NewCircuitBreaker ft rt st)"
  by (simp add: cb_inv_def NewCircuitBreaker_def Let_def)

lemma cb_step_inv [inv_intros]: "cb_inv cb \<Longrightarrow> cb_inv (cb_step cb e)"
  by (cases e; cases "cb_state cb") (auto simp: cb_inv_def cb_defs Let_def)

lemma cb_run_inv [inv_intros]: "cb_inv cb \<Longrightarrow> cb_inv (cb_run cb evs)"
  by (induction evs arbitrary: cb) (simp_all add: cb_step_inv)

lemma cb_step_limits [simp]:
  "cb_failureThreshold (cb_step cb e) = cb_failureThreshold cb"
  "cb_recoveryTimeout (cb_step cb e) = cb_recoveryTimeout cb"
  "cb_successThreshold (cb_step cb e) = cb_successThreshold cb"
  by (cases e; cases "cb_state cb"; auto simp: cb_defs Let_def)+

text \<open>The number of failures at the end of a history.\<close>

definition is_failure :: "cb_event \<Rightarrow> bool" where
  "is_failure e = (case e of CbFailure _ \<Rightarrow> True | _ \<Rightarrow> False)"

definition trailing_failures :: "cb_event list \<Rightarrow> nat" where
  "trailing_failures evs = length (takeWhile is_failure (rev evs))"

lemma trailing_failures_simps [simp]:
  "trailing_failures [] = 0" "trailing_failures (evs @ [CbFailure t]) = Suc (trailing_failures evs)"
  "trailing_failures (evs @ [CbSuccess]) = 0"
  by (simp_all add: trailing_failures_def is_failure_def)

lemma results_only:
  assumes "cb_inv cb" "cb_state cb = StateClosed" "cb_failures cb = 0"
    and "\<forall>e\<in>set evs. is_failure e \<or> e = CbSuccess"
  shows "(cb_state (cb_run cb evs) = StateClosed
        \<and> cb_failures (cb_run cb evs) = int (trailing_failures evs)
        \<and> (\<forall>k \<le> length evs. int (trailing_failures (take k evs)) < cb_failureThreshold cb))
    \<or> (cb_state (cb_run cb evs) = StateOpen
        \<and> (\<exists>k \<le> length evs. int (trailing_failures (take k evs)) = cb_failureThreshold cb))"
  using assms(4)
proof (induction evs rule: rev_induct)
  case Nil
  then show ?case using assms(1-3) by (simp add: cb_inv_def)
next
  case (snoc e evs)
  have ev: "e = CbSuccess \<or> (\<exists>t. e = CbFailure t)"
    using snoc.prems by (cases e) (auto simp: is_failure_def)
  have ft: "cb_failureThreshold (cb_run cb evs) = cb_failureThreshold cb"
    by (induction evs rule: rev_induct) simp_all
  have pos: "1 \<le> cb_failureThreshold cb" using assms(1) by (simp add: cb_inv_def)
  have IH: "(cb_state (cb_run cb evs) = StateClosed \<and> cb_failures (cb_run cb evs) = int (trailing_failures evs)
        \<and> (\<forall>k \<le> length evs. int (trailing_failures (take k evs)) < cb_failureThreshold cb))
    \<or> (cb_state (cb_run cb evs) = StateOpen
        \<and> (\<exists>k \<le> length evs. int (trailing_failures (take k evs)) = cb_failureThreshold cb))"
    using snoc by simp
  show ?case
  proof (cases "cb_state (cb_run cb evs) = StateOpen")
    case True
    then have "cb_state (cb_run cb (evs @ [e])) = StateOpen" using ev by (auto simp: cb_defs Let_def)
    moreover obtain k where "k \<le> length evs" "int (trailing_failures (take k evs)) = cb_failureThreshold cb"
      using IH True by auto
    then have "\<exists>k \<le> length (evs @ [e]). int (trailing_failures (take k (evs @ [e]))) = cb_failureThreshold cb"
      by (intro exI [of _ k]) simp
    ultimately show ?thesis by blast
  next
    case False
    have c: "cb_state (cb_run cb evs) = StateClosed" "cb_failures (cb_run cb evs) = int (trailing_failures evs)"
      and all: "\<And>k. k \<le> length evs \<Longrightarrow> int (trailing_failures (take k evs)) < cb_failureThreshold cb"
      using IH False by auto
    have all': "int (trailing_failures (take k (evs @ [e]))) < cb_failureThreshold cb"
      if "k \<le> length evs" for k using all [OF that] that by simp
    have split: "k \<le> length evs \<or> k = Suc (length evs)" if "k \<le> length (evs @ [e])" for k
      using that by auto
    from ev show ?thesis
    proof
      assume e: "e = CbSuccess"
      have "\<forall>k \<le> length (evs @ [e]). int (trailing_failures (take k (evs @ [e]))) < cb_failureThreshold cb"
        using all' split pos e by fastforce
      then show ?thesis using c e by (simp add: cb_defs)
    next
      assume "\<exists>t. e = CbFailure t"
      then obtain t where e: "e = CbFailure t" by blast
      show ?thesis
      proof (cases "cb_failureThreshold cb \<le> int (trailing_failures evs) + 1")
        case True
        have "int (trailing_failures evs) < cb_failureThreshold cb" using all [of "length evs"] by simp
        then have "int (trailing_failures (take (Suc (length evs)) (evs @ [e]))) = cb_failureThreshold cb"
          using True e by simp
        moreover have "cb_state (cb_run cb (evs @ [e])) = StateOpen"
          using c e ft True by (simp add: cb_defs Let_def)
        ultimately show ?thesis by (intro disjI2 conjI exI [of _ "Suc (length evs)"]) simp_all
      next
        case False
        have "\<forall>k \<le> length (evs @ [e]). int (trailing_failures (take k (evs @ [e]))) < cb_failureThreshold cb"
          using all' split e False by fastforce
        then show ?thesis using c e ft False by (simp add: cb_defs Let_def)
      qed
    qed
  qed
qed

lemma open_stays:
  assumes "cb_state cb = StateOpen" "CbReset \<notin> set evs"
    and "\<forall>t. CbAllow t \<in> set evs \<longrightarrow> t - cb_openedAt cb < cb_recoveryTimeout cb"
  shows "cb_state (cb_run cb evs) = StateOpen \<and> cb_openedAt (cb_run cb evs) = cb_openedAt cb
    \<and> cb_recoveryTimeout (cb_run cb evs) = cb_recoveryTimeout cb"
  using assms
proof (induction evs arbitrary: cb)
  case (Cons e evs)
  have "cb_state (cb_step cb e) = StateOpen \<and> cb_openedAt (cb_step cb e) = cb_openedAt cb"
    using Cons.prems by (cases e) (auto simp: cb_defs Let_def not_le)
  then show ?case using Cons.IH [of "cb_step cb e"] Cons.prems by simp
qed simp

section \<open>The registry as a keyed store\<close>

definition reg_get :: "Registry \<Rightarrow> string \<Rightarrow> CircuitBreaker option" where
  "reg_get r = gm_get (reg_breakers r)"

definition reg_ok :: "Registry \<Rightarrow> bool" where
  "reg_ok r = gm_ok (reg_breakers r)"

interpretation reg: keyed_store reg_get "\<lambda>key cb r. r\<lparr>reg_breakers := gm_put key cb (reg_breakers r)\<rparr>"
  "\<lambda>key r. r\<lparr>reg_breakers := gm_del key (reg_breakers r)\<rparr>" reg_ok
  by unfold_locales (simp_all add: reg_get_def reg_ok_def store_simps fun_eq_iff)

text \<open>What a client sees under a key: the stored breaker or a fresh one.\<close>

definition reg_view :: "Registry \<Rightarrow> string \<Rightarrow> CircuitBreaker" where
  "reg_view r key = snd (Registry_Get r key)"

lemma reg_view_update:
  assumes "reg_ok r"
  shows "reg_view (Registry_update key f r) k = (if k = key then f (reg_view r k) else reg_view r k)"
    "reg_ok (Registry_update key f r)"
  using assms
  by (auto simp: reg_view_def Registry_update_def Registry_Get_def reg_ok_def Let_def store_simps
      split: option.splits)

section \<open>The retry loop\<close>

text \<open>The world after \<open>k\<close> calls and the outcome of call \<open>k\<close>.\<close>

definition after_calls :: "('w \<Rightarrow> 'w \<times> 'e option) \<Rightarrow> nat \<Rightarrow> 'w \<Rightarrow> 'w" where
  "after_calls fn k w = ((\<lambda>x. fst (fn x)) ^^ k) w"

definition call_result :: "('w \<Rightarrow> 'w \<times> 'e option) \<Rightarrow> nat \<Rightarrow> 'w \<Rightarrow> 'e option" where
  "call_result fn k w = snd (fn (after_calls fn k w))"

lemma after_calls_simps [simp]: "after_calls fn 0 w = w" "after_calls fn (Suc k) w = after_calls fn k (fst (fn w))"
  by (simp_all add: after_calls_def funpow_swap1 funpow_Suc_right del: funpow.simps(2))

lemma call_result_simps [simp]: "call_result fn 0 w = snd (fn w)" "call_result fn (Suc k) w = call_result fn k (fst (fn w))"
  by (simp_all add: call_result_def)

lemma map_upt_Suc: "map f [a..<a + Suc k] = f a # map f [Suc a..<Suc a + k]"
  by (simp add: upt_conv_Cons del: upt_Suc)

lemma retry_loop_Suc:
  "fn w = (w', Some err) \<Longrightarrow> retry_loop cfg (\<lambda>_. False) fn (Suc (Suc n)) a le w =
    (case retry_loop cfg (\<lambda>_. False) fn (Suc n) (Suc a) (Some err) w' of
       (w'', r, pauses) \<Rightarrow> (w'', r, retry_delay cfg a # pauses))"
  by (simp add: Let_def)

declare retry_loop.simps [simp del]

text \<open>Without cancellation the loop stops at the first call that succeeds, or after the
  last attempt.\<close>

lemma retry_loop_uncancelled:
  "(\<exists>k < Suc n. (\<forall>j < k. call_result fn j w \<noteq> None) \<and> call_result fn k w = None
      \<and> retry_loop cfg (\<lambda>_. False) fn (Suc n) a le w =
          (after_calls fn (Suc k) w, DoOk, map (retry_delay cfg) [a..<a + k]))
    \<or> (\<forall>j < Suc n. call_result fn j w \<noteq> None)
      \<and> retry_loop cfg (\<lambda>_. False) fn (Suc n) a le w =
          (after_calls fn (Suc n) w, DoMaxRetriesExceeded (call_result fn n w), map (retry_delay cfg) [a..<a + n])"
proof (induction n arbitrary: a le w)
  case 0
  obtain w' r where "fn w = (w', r)" by fastforce
  then show ?case by (cases r) (simp_all add: retry_loop.simps)
next
  case (Suc n)
  obtain w' r where fn: "fn w = (w', r)" by fastforce
  show ?case
  proof (cases r)
    case None
    then show ?thesis using fn by (intro disjI1 exI [of _ 0]) (simp add: retry_loop.simps)
  next
    case (Some err)
    note loop = retry_loop_Suc [of fn w w' err cfg n a le, OF fn [unfolded Some]]
    from Suc.IH [of w' "Suc a" "Some err"] show ?thesis
    proof (elim disjE exE conjE)
      fix k
      assume k: "k < Suc n" "\<forall>j<k. call_result fn j w' \<noteq> None" "call_result fn k w' = None"
        "retry_loop cfg (\<lambda>_. False) fn (Suc n) (Suc a) (Some err) w' =
           (after_calls fn (Suc k) w', DoOk, map (retry_delay cfg) [Suc a..<Suc a + k])"
      have "\<forall>j < Suc k. call_result fn j w \<noteq> None"
        using k(2) fn Some by (auto simp: less_Suc_eq_0_disj)
      moreover have "retry_loop cfg (\<lambda>_. False) fn (Suc (Suc n)) a le w =
          (after_calls fn (Suc (Suc k)) w, DoOk, map (retry_delay cfg) [a..<a + Suc k])"
        unfolding loop k(4) map_upt_Suc using fn by simp
      ultimately show ?thesis using k(1,3) fn by (intro disjI1 exI [of _ "Suc k"]) simp
    next
      assume k: "\<forall>j<Suc n. call_result fn j w' \<noteq> None"
        "retry_loop cfg (\<lambda>_. False) fn (Suc n) (Suc a) (Some err) w' = (after_calls fn (Suc n) w',
           DoMaxRetriesExceeded (call_result fn n w'), map (retry_delay cfg) [Suc a..<Suc a + n])"
      have "\<forall>j < Suc (Suc n). call_result fn j w \<noteq> None"
        using k(1) fn Some by (auto simp: less_Suc_eq_0_disj)
      moreover have "retry_loop cfg (\<lambda>_. False) fn (Suc (Suc n)) a le w =
          (after_calls fn (Suc (Suc n)) w, DoMaxRetriesExceeded (call_result fn (Suc n) w),
           map (retry_delay cfg) [a..<a + Suc n])"
        unfolding loop k(2) map_upt_Suc using fn by simp
      ultimately show ?thesis by blast
    qed
  qed
qed

lemma default_pauses:
  "map (retry_delay DefaultRetryConfig) [0..<2] = [1 * Second, 2 * Second]"
  by (simp add: retry_delay_def DefaultRetryConfig_def numeral_2_eq_2)

lemma trailing_failures_append:
  "list_all is_failure fs \<Longrightarrow> trailing_failures (evs @ fs) = trailing_failures evs + length fs"
proof -
  assume "list_all is_failure fs"
  then have "takeWhile is_failure (rev fs @ rev evs) = rev fs @ takeWhile is_failure (rev evs)"
    by (intro takeWhile_append2) (simp add: list_all_iff)
  then show ?thesis by (simp add: trailing_failures_def)
qed

lemma trailing_failures_split:
  "\<exists>pre fs. evs = pre @ fs \<and> list_all is_failure fs \<and> length fs = trailing_failures evs"
proof (intro exI conjI)
  let ?n = "trailing_failures evs"
  show "evs = rev (dropWhile is_failure (rev evs)) @ rev (takeWhile is_failure (rev evs))"
    by (metis rev_append rev_rev_ident takeWhile_dropWhile_id)
  show "list_all is_failure (rev (takeWhile is_failure (rev evs)))"
    by (auto simp: list_all_iff dest: set_takeWhileD)
  show "length (rev (takeWhile is_failure (rev evs))) = ?n" by (simp add: trailing_failures_def)
qed

lemma half_open_successes:
  assumes "cb_state cb = StateHalfOpen" "0 \<le> cb_successes cb" "cb_successes cb + int n < cb_successThreshold cb"
  shows "cb_state (cb_run cb (replicate n CbSuccess)) = StateHalfOpen
    \<and> cb_successes (cb_run cb (replicate n CbSuccess)) = cb_successes cb + int n"
  using assms
proof (induction n arbitrary: cb)
  case (Suc n)
  have "cb_state (cb_step cb CbSuccess) = StateHalfOpen" "cb_successes (cb_step cb CbSuccess) = cb_successes cb + 1"
    using Suc.prems by (simp_all add: RecordSuccess_def Let_def)
  then show ?case
    using Suc.IH [of "cb_step cb CbSuccess"] Suc.prems cb_step_limits(3) [of cb CbSuccess] by simp
qed simp

lemma cb_run_append: "cb_run cb (xs @ ys) = cb_run (cb_run cb xs) ys"
  by (simp add: cb_run_def)

lemma cb_run_successThreshold [simp]: "cb_successThreshold (cb_run cb evs) = cb_successThreshold cb"
  by (induction evs arbitrary: cb) simp_all

lemma closed_stays: "cb_state cb = StateClosed \<Longrightarrow> cb_state (cb_run cb (replicate r CbSuccess)) = StateClosed"
  by (induction r arbitrary: cb) (simp_all add: RecordSuccess_def)

lemma half_open_closes:
  assumes "cb_state h = StateHalfOpen" "cb_successes h = 0" "1 \<le> cb_successThreshold h"
  shows "cb_state (cb_run h (replicate n CbSuccess)) =
    (if int n \<ge> cb_successThreshold h then StateClosed else StateHalfOpen)"
proof (cases "int n \<ge> cb_successThreshold h")
  case False
  then show ?thesis using half_open_successes [of h n] assms by simp
next
  case True
  define m where "m = nat (cb_successThreshold h - 1)"
  define r where "r = n - Suc m"
  have n: "n = m + Suc r" using True assms(3) by (simp add: m_def r_def)
  have hm: "cb_state (cb_run h (replicate m CbSuccess)) = StateHalfOpen"
    "cb_successes (cb_run h (replicate m CbSuccess)) = cb_successThreshold h - 1"
    using half_open_successes [of h m] assms by (simp_all add: m_def)
  have "cb_state (cb_step (cb_run h (replicate m CbSuccess)) CbSuccess) = StateClosed"
    using hm by (simp add: RecordSuccess_def Let_def)
  then have "cb_state (cb_run (cb_step (cb_run h (replicate m CbSuccess)) CbSuccess) (replicate r CbSuccess)) = StateClosed"
    by (rule closed_stays)
  then show ?thesis using True by (simp only: n replicate_add cb_run_append) simp
qed

section \<open>Properties of the breaker and the retry loop\<close>



text \<open>C9. While a breaker is open it refuses every request until the recovery time has
  passed since it opened, whatever results of requests still in flight are recorded in the
  meantime; the first request after that is let through as a trial, and from there exactly
  the configured number of consecutive successes closes the breaker.\<close>

theorem breaker_recovery:
  assumes "cb_inv cb" "cb_state cb = StateOpen" "CbReset \<notin> set evs"
    and "\<forall>t. CbAllow t \<in> set evs \<longrightarrow> t - cb_openedAt cb < cb_recoveryTimeout cb"
  shows "(snd (Allow (cb_run cb evs) now) \<longleftrightarrow> now - cb_openedAt cb \<ge> cb_recoveryTimeout cb)
    \<and> (now - cb_openedAt cb \<ge> cb_recoveryTimeout cb \<longrightarrow>
        cb_state (cb_run (fst (Allow (cb_run cb evs) now)) (replicate n CbSuccess)) =
          (if int n \<ge> cb_successThreshold cb then StateClosed else StateHalfOpen))"
proof -
  define b where "b = cb_run cb evs"
  have b: "cb_state b = StateOpen" "cb_openedAt b = cb_openedAt cb" "cb_recoveryTimeout b = cb_recoveryTimeout cb"
    "cb_successThreshold b = cb_successThreshold cb" "1 \<le> cb_successThreshold cb"
    using open_stays [OF assms(2-4)] assms(1) by (simp_all add: b_def cb_inv_def)
  show ?thesis
    unfolding b_def [symmetric] using b half_open_closes [of "b\<lparr>cb_state := StateHalfOpen, cb_successes := 0\<rparr>" n]
    by (simp add: Allow_def)
qed

theorem breaker_recovery_witness:
  "\<not> snd (Allow (cb_run (NewCircuitBreaker 1 100 2) [CbFailure 7, CbFailure 9]) 106)
   \<and> snd (Allow (cb_run (NewCircuitBreaker 1 100 2) [CbFailure 7, CbFailure 9]) 107)"
proof -
  have i: "cb_inv (cb_run (NewCircuitBreaker 1 100 2) [CbFailure 7])" by (intro cb_run_inv cb_inv_new) simp_all
  have o: "cb_state (cb_run (NewCircuitBreaker 1 100 2) [CbFailure 7]) = StateOpen"
    by (simp add: NewCircuitBreaker_def RecordFailure_def Let_def)
  show ?thesis
    using breaker_recovery [OF i o, of "[CbFailure 9]" 106] breaker_recovery [OF i o, of "[CbFailure 9]" 107]
    by (simp add: NewCircuitBreaker_def RecordFailure_def Let_def)
qed

text \<open>Unless the context is cancelled, the retry loop calls the function until its first
  success and at most \<^verbatim>\<open>MaxAttempts\<close> times, pauses between two calls for the capped
  exponential delay, and reports the last error when every attempt fails.\<close>

theorem retry_until_success:
  assumes "Do_config cfg = c" "rt_MaxAttempts c = int (Suc n)"
  shows "(\<exists>k \<le> n. (\<forall>j < k. call_result fn j w \<noteq> None) \<and> call_result fn k w = None
      \<and> Do (\<lambda>_. False) cfg fn w = (after_calls fn (Suc k) w, DoOk, map (retry_delay c) [0..<k]))
    \<or> (\<forall>j \<le> n. call_result fn j w \<noteq> None)
      \<and> Do (\<lambda>_. False) cfg fn w =
          (after_calls fn (Suc n) w, DoMaxRetriesExceeded (call_result fn n w), map (retry_delay c) [0..<n])"
proof -
  have "nat (rt_MaxAttempts c) = Suc n" unfolding assms(2) by (rule nat_int)
  then show ?thesis
    using retry_loop_uncancelled [of n fn w c 0 None] unfolding Do_def assms(1) Let_def by (simp add: less_Suc_eq_le)
qed

end
