(* ===== verification/Radius.thy ===== *)
theory Radius
  imports Encodings Eap_Fragment
begin

text \<open>
  \<^verbatim>\<open>internal/radius\<close>: attributes and their wire format (\<^verbatim>\<open>attribute.go\<close>),
  vendor-specific attributes and the 3GPP S-NSSAI (\<^verbatim>\<open>vsa.go\<close>, \<^verbatim>\<open>layeh/gen/vendor_3gpp.go\<close>),
  the Message-Authenticator (\<^verbatim>\<open>message_auth.go\<close>, \<^verbatim>\<open>layeh/client.go\<close>) and the adapter that
  turns attributes into a request of the RADIUS client library
  (\<^verbatim>\<open>adapter/client.go\<close>).  HMAC-MD5 and the library client are arguments; a Go
  run-time panic is \<^verbatim>\<open>None\<close>.
\<close>

section \<open>Attributes\<close>

abbreviation AttrUserName :: byte where "AttrUserName \<equiv> 1"
abbreviation AttrServiceType :: byte where "AttrServiceType \<equiv> 6"
abbreviation AttrState :: byte where "AttrState \<equiv> 24"
abbreviation AttrVendorSpecific :: byte where "AttrVendorSpecific \<equiv> 26"
abbreviation AttrCallingStationID :: byte where "AttrCallingStationID \<equiv> 31"
abbreviation AttrNASIdentifier :: byte where "AttrNASIdentifier \<equiv> 32"
abbreviation AttrNASPortType :: byte where "AttrNASPortType \<equiv> 61"
abbreviation AttrEAPMessage :: byte where "AttrEAPMessage \<equiv> 79"
abbreviation AttrMessageAuthenticator :: byte where "AttrMessageAuthenticator \<equiv> 80"
abbreviation Attr3GPPSNSSAI :: byte where "Attr3GPPSNSSAI \<equiv> 200"

record Attribute =
  at_Type :: byte
  at_Value :: bytes

datatype RadiusError = ErrAttributeTruncated nat | ErrAttributeLength byte nat
  | ErrAttributeBeyondData byte nat nat | ErrInvalidVSA | ErrSNSSAITooShort nat | ErrNotSNSSAI

function decode_loop :: "bytes \<Rightarrow> nat \<Rightarrow> Attribute list \<Rightarrow> (RadiusError, Attribute list) result" where
  "decode_loop data offset attrs =
    (if offset < length data then
       (if offset + 2 > length data then Inl (ErrAttributeTruncated offset)
        else
          let attrType = data ! offset; attrLen = unat (data ! (offset + 1)) in
          if attrLen < 2 then Inl (ErrAttributeLength attrType attrLen)
          else if offset + attrLen > length data
            then Inl (ErrAttributeBeyondData attrType attrLen (length data - offset))
          else decode_loop data (offset + attrLen)
                 (attrs @ [\<lparr>at_Type = attrType, at_Value = subslice (offset + 2) (offset + attrLen) data\<rparr>]))
     else Inr attrs)"
  by pat_completeness auto
termination
  by (relation "measure (\<lambda>(data, offset, _). length data - offset)") auto

declare decode_loop.simps [simp del]

definition DecodeAttributes :: "bytes \<Rightarrow> (RadiusError, Attribute list) result" where
  "DecodeAttributes data = decode_loop data 0 []"

definition encode_attr :: "Attribute \<Rightarrow> bytes" where
  "encode_attr attr =
    (let attrLen = 2 + length (at_Value attr) in [at_Type attr, of_nat attrLen] @ at_Value attr)"

definition EncodeAttributes :: "Attribute list \<Rightarrow> bytes" where
  "EncodeAttributes attrs = concat (map encode_attr attrs)"

definition MakeAttribute :: "byte \<Rightarrow> bytes \<Rightarrow> Attribute" where
  "MakeAttribute attrType v = \<lparr>at_Type = attrType, at_Value = v\<rparr>"

definition MakeStringAttribute :: "byte \<Rightarrow> string \<Rightarrow> Attribute" where
  "MakeStringAttribute attrType v = \<lparr>at_Type = attrType, at_Value = bytes_of v\<rparr>"

definition MakeIntegerAttribute :: "byte \<Rightarrow> 32 word \<Rightarrow> Attribute" where
  "MakeIntegerAttribute attrType v = \<lparr>at_Type = attrType, at_Value = to_be 4 (unat v)\<rparr>"

definition MakeIPv4Attribute :: "byte \<Rightarrow> bytes \<Rightarrow> Attribute" where
  "MakeIPv4Attribute attrType ip =
    \<lparr>at_Type = attrType, at_Value = (if length ip \<noteq> 4 then [0, 0, 0, 0] else ip)\<rparr>"

definition GetAttribute :: "Attribute list \<Rightarrow> byte \<Rightarrow> Attribute option" where
  "GetAttribute attrs attrType = find (\<lambda>a. at_Type a = attrType) attrs"

definition GetAttributes :: "Attribute list \<Rightarrow> byte \<Rightarrow> Attribute list" where
  "GetAttributes attrs attrType = filter (\<lambda>a. at_Type a = attrType) attrs"

definition GetString :: "Attribute option \<Rightarrow> string" where
  "GetString attr = (case attr of None \<Rightarrow> '''' | Some a \<Rightarrow> string_of (at_Value a))"

definition GetInteger :: "Attribute option \<Rightarrow> 32 word" where
  "GetInteger attr =
    (case attr of None \<Rightarrow> 0
     | Some a \<Rightarrow> if length (at_Value a) < 4 then 0 else of_nat (of_be (take 4 (at_Value a))))"

definition GetIPv4 :: "Attribute option \<Rightarrow> bytes option" where
  "GetIPv4 attr =
    (case attr of None \<Rightarrow> None
     | Some a \<Rightarrow> if length (at_Value a) < 4 then None else Some (take 4 (at_Value a)))"

text \<open>\<^verbatim>\<open>None\<close>: with a size that is not positive the capacity computation divides by zero
  or is negative, or a slice bound is negative.\<close>

function frag_loop :: "bytes \<Rightarrow> nat \<Rightarrow> nat \<Rightarrow> bytes list" where
  "frag_loop payload maxSize i =
    (if i < length payload \<and> maxSize \<noteq> 0 then
       (let end' = (if i + maxSize > length payload then length payload else i + maxSize)
        in subslice i end' payload # frag_loop payload maxSize (i + maxSize))
     else [])"
  by pat_completeness auto
termination
  by (relation "measure (\<lambda>(payload, _, i). length payload - i)") auto

declare frag_loop.simps [simp del]

definition FragmentEAPMessage :: "bytes \<Rightarrow> int \<Rightarrow> bytes list option" where
  "FragmentEAPMessage payload maxSize =
    (if int (length payload) \<le> maxSize then Some [payload]
     else if maxSize \<le> 0 then None
     else Some (frag_loop payload (nat maxSize) 0))"

definition AssembleEAPMessage :: "Attribute list \<Rightarrow> bytes" where
  "AssembleEAPMessage attrs =
    foldl (\<lambda>payload attr. if at_Type attr = AttrEAPMessage then payload @ at_Value attr else payload) [] attrs"

section \<open>Vendor-specific attributes\<close>

abbreviation VendorID3GPP :: "32 word" where "VendorID3GPP \<equiv> 10415"
abbreviation VendorTypeSNSSAI :: byte where "VendorTypeSNSSAI \<equiv> 200"

record VSA =
  vsa_VendorID :: "32 word"
  vsa_VendorType :: byte
  vsa_Data :: bytes

definition DecodeVSA :: "Attribute option \<Rightarrow> (RadiusError, VSA) result" where
  "DecodeVSA attr =
    (case attr of None \<Rightarrow> Inl ErrInvalidVSA
     | Some a \<Rightarrow>
         if at_Type a \<noteq> AttrVendorSpecific then Inl ErrInvalidVSA
         else
           let data = at_Value a in
           if length data < 5 then Inl ErrInvalidVSA
           else
             Inr \<lparr>vsa_VendorID = or (or (ucast (data ! 0)) (push_bit 8 (ucast (data ! 1)))) (push_bit 16 (ucast (data ! 2))),
                  vsa_VendorType = data ! 3, vsa_Data = drop 4 data\<rparr>)"

definition EncodeVSA :: "32 word \<Rightarrow> byte \<Rightarrow> bytes \<Rightarrow> Attribute" where
  "EncodeVSA vendorID vendorType data =
    \<lparr>at_Type = AttrVendorSpecific,
     at_Value = [ucast vendorID, ucast (drop_bit 8 vendorID), ucast (drop_bit 16 vendorID), vendorType] @ data\<rparr>"

definition EncodeSnssaiVSA :: "byte \<Rightarrow> string \<Rightarrow> bytes" where
  "EncodeSnssaiVSA sst sd =
    (case (if sd \<noteq> '''' then DecodeString sd else None) of
       Some sdBytes \<Rightarrow> if length sdBytes = 3 then sst # sdBytes else [sst, 0, 0, 0]
     | None \<Rightarrow> [sst, 0, 0, 0])"

definition DecodeSnssaiVSA :: "bytes \<Rightarrow> (RadiusError, byte \<times> string) result" where
  "DecodeSnssaiVSA data =
    (if length data < 1 then Inl (ErrSNSSAITooShort (length data))
     else Inr (data ! 0, if length data \<ge> 4 then ToUpper (EncodeToString (subslice 1 4 data)) else ''''))"

definition Make3GPPSNSSAIAttribute :: "byte \<Rightarrow> string \<Rightarrow> Attribute" where
  "Make3GPPSNSSAIAttribute sst sd = EncodeVSA VendorID3GPP VendorTypeSNSSAI (EncodeSnssaiVSA sst sd)"

definition Is3GPPSNSSAI :: "VSA \<Rightarrow> bool" where
  "Is3GPPSNSSAI v = (vsa_VendorID v = VendorID3GPP \<and> vsa_VendorType v = VendorTypeSNSSAI)"

definition Parse3GPPSNSSAI :: "VSA \<Rightarrow> (RadiusError, byte \<times> string) result" where
  "Parse3GPPSNSSAI v = (if \<not> Is3GPPSNSSAI v then Inl ErrNotSNSSAI else DecodeSnssaiVSA (vsa_Data v))"

text \<open>The S-NSSAI of the library's dictionary.\<close>

record NSSAI =
  ns_SST :: byte
  ns_SD :: "byte \<times> byte \<times> byte"

definition NSSAI_Pack :: "NSSAI \<Rightarrow> bytes" where
  "NSSAI_Pack n = (case ns_SD n of (a, b, c) \<Rightarrow> [ns_SST n, a, b, c])"

text \<open>\<^verbatim>\<open>Unpack\<close> writes into its receiver; a single octet leaves the SD there as it was.\<close>

definition NSSAI_Unpack :: "NSSAI \<Rightarrow> bytes \<Rightarrow> NSSAI option" where
  "NSSAI_Unpack n b =
    (if length b = 0 then None
     else
       let n = n\<lparr>ns_SST := b ! 0\<rparr> in
       Some (if length b \<ge> 4 then n\<lparr>ns_SD := (b ! 1, b ! 2, b ! 3)\<rparr>
             else if length b > 1 then n\<lparr>ns_SD := (0, 0, 0)\<rparr> else n))"

text \<open>\<^verbatim>\<open>raw\<close> is what the generated dictionary helper returns for the packet.\<close>

definition GetNSSAIAttributes :: "('e, bytes list) result \<Rightarrow> ('e, NSSAI list) result" where
  "GetNSSAIAttributes raw =
    (case raw of Inl err \<Rightarrow> Inl err
     | Inr bs \<Rightarrow> Inr (List.map_filter (NSSAI_Unpack \<lparr>ns_SST = 0, ns_SD = (0, 0, 0)\<rparr>) bs))"

section \<open>Message-Authenticator\<close>

type_synonym hmac = "bytes \<Rightarrow> bytes \<Rightarrow> bytes"

function find_ma :: "bytes \<Rightarrow> nat \<Rightarrow> nat option" where
  "find_ma packet offset =
    (if offset + 1 < length packet then
       (let attrType = packet ! offset; attrLen = unat (packet ! (offset + 1)) in
        if attrLen < 2 then None
        else if attrType = AttrMessageAuthenticator then Some offset
        else find_ma packet (offset + attrLen))
     else None)"
  by pat_completeness auto
termination
  by (relation "measure (\<lambda>(packet, offset). length packet - offset)") auto

declare find_ma.simps [simp del]

text \<open>\<^verbatim>\<open>-1\<close> is \<^verbatim>\<open>None\<close>.\<close>

definition FindMessageAuthenticator :: "bytes \<Rightarrow> nat option" where
  "FindMessageAuthenticator packet = find_ma packet 20"

definition HasMessageAuthenticator :: "bytes \<Rightarrow> bool" where
  "HasMessageAuthenticator packet = (FindMessageAuthenticator packet \<noteq> None)"

text \<open>The octets \<^verbatim>\<open>[i, i+16)\<close> replaced by \<^verbatim>\<open>v\<close>.\<close>

definition patch16 :: "nat \<Rightarrow> bytes \<Rightarrow> bytes \<Rightarrow> bytes" where
  "patch16 i v packet = take i packet @ v @ drop (i + 16) packet"

definition ZeroMessageAuthenticator :: "bytes \<Rightarrow> bytes" where
  "ZeroMessageAuthenticator packet =
    (case FindMessageAuthenticator packet of
       None \<Rightarrow> packet
     | Some offset \<Rightarrow> take (length packet) (patch16 (offset + 2) (replicate 16 0) packet))"

definition ComputeMessageAuthenticator :: "hmac \<Rightarrow> bytes \<Rightarrow> string \<Rightarrow> bytes" where
  "ComputeMessageAuthenticator hmac_md5 packet secret =
    hmac_md5 (bytes_of secret) (ZeroMessageAuthenticator packet)"

definition VerifyMessageAuthenticator :: "hmac \<Rightarrow> bytes \<Rightarrow> string \<Rightarrow> bool" where
  "VerifyMessageAuthenticator hmac_md5 packet secret =
    (case FindMessageAuthenticator packet of
       None \<Rightarrow> False
     | Some offset \<Rightarrow>
         if offset + 18 > length packet then False
         else
           let storedMA = subslice (offset + 2) (offset + 18) packet;
               zeroed = patch16 (offset + 2) (replicate 16 0) packet;
               expectedMA = hmac_md5 (bytes_of secret) zeroed
           in storedMA = take 16 expectedMA)"

definition AddMessageAuthenticator :: "hmac \<Rightarrow> bytes \<Rightarrow> string \<Rightarrow> bytes option" where
  "AddMessageAuthenticator hmac_md5 packet secret =
    (case FindMessageAuthenticator packet of
       Some offset \<Rightarrow>
         if offset + 18 > length packet then None
         else
           let result = patch16 (offset + 2) (replicate 16 0) packet;
               ma = hmac_md5 (bytes_of secret) result
           in Some (patch16 (offset + 2) (take 16 ma) result)
     | None \<Rightarrow>
         Some (packet @ [AttrMessageAuthenticator, 18] @ take 16 (hmac_md5 (bytes_of secret) packet)))"

definition RemoveMessageAuthenticator :: "bytes \<Rightarrow> bytes option" where
  "RemoveMessageAuthenticator packet =
    (case FindMessageAuthenticator packet of
       None \<Rightarrow> Some packet
     | Some offset \<Rightarrow>
         let attrLen = unat (packet ! (offset + 1)) in
         if offset + attrLen > length packet then None
         else Some (take offset packet @ drop (offset + attrLen) packet))"

section \<open>The adapter\<close>

record AccessRequest =
  rq_UserName :: string
  rq_NSSAI :: NSSAI
  rq_NASIdentifier :: string
  rq_CallingStationID :: string
  rq_State :: bytes
  rq_EAPMessage :: bytes

definition empty_request :: AccessRequest where
  "empty_request = \<lparr>rq_UserName = '''', rq_NSSAI = \<lparr>ns_SST = 0, ns_SD = (0, 0, 0)\<rparr>, rq_NASIdentifier = '''',
     rq_CallingStationID = '''', rq_State = [], rq_EAPMessage = []\<rparr>"

definition sd_array :: "string \<Rightarrow> byte \<times> byte \<times> byte" where
  "sd_array sd =
    (case (if sd \<noteq> '''' then DecodeString sd else None) of
       Some b \<Rightarrow> if length b \<ge> 3 then (b ! 0, b ! 1, b ! 2) else (0, 0, 0)
     | None \<Rightarrow> (0, 0, 0))"

text \<open>The loop body; on an error \<^verbatim>\<open>DecodeSnssaiVSA\<close> returns zero values, which are used.\<close>

definition apply_attr :: "AccessRequest \<Rightarrow> Attribute \<Rightarrow> AccessRequest" where
  "apply_attr req attr =
    (let t = at_Type attr; v = at_Value attr in
     if t = AttrUserName then req\<lparr>rq_UserName := string_of v\<rparr>
     else if t = AttrCallingStationID then req\<lparr>rq_CallingStationID := string_of v\<rparr>
     else if t = AttrNASIdentifier then req\<lparr>rq_NASIdentifier := string_of v\<rparr>
     else if t = AttrState then req\<lparr>rq_State := v\<rparr>
     else if t = AttrEAPMessage then req\<lparr>rq_EAPMessage := rq_EAPMessage req @ v\<rparr>
     else if t = Attr3GPPSNSSAI then
       (case DecodeSnssaiVSA v of
          Inr (sst, sd) \<Rightarrow> req\<lparr>rq_NSSAI := \<lparr>ns_SST = sst, ns_SD = sd_array sd\<rparr>\<rparr>
        | Inl _ \<Rightarrow> req\<lparr>rq_NSSAI := \<lparr>ns_SST = 0, ns_SD = (0, 0, 0)\<rparr>\<rparr>)
     else req)"

text \<open>\<^verbatim>\<open>exchange\<close> sends the request through the client library; its result is the encoded
  response packet, \<^verbatim>\<open>None\<close> when there is none.\<close>

definition SendAccessRequest ::
  "(AccessRequest \<Rightarrow> (string, bytes option) result) \<Rightarrow> Attribute list \<Rightarrow> (string, bytes) result" where
  "SendAccessRequest exchange attrs =
    (case exchange (foldl apply_attr empty_request attrs) of
       Inl err \<Rightarrow> Inl err
     | Inr None \<Rightarrow> Inl ''radius/adapter: no underlying packet to re-encode''
     | Inr (Some pkt) \<Rightarrow> Inr pkt)"

definition SendEAP_attrs :: "string \<Rightarrow> bytes \<Rightarrow> byte \<Rightarrow> string \<Rightarrow> Attribute list" where
  "SendEAP_attrs gpsi eapPayload snssaiSst snssaiSd =
    [MakeStringAttribute AttrUserName gpsi, MakeIntegerAttribute AttrServiceType 8,
     MakeIntegerAttribute AttrNASPortType 5, Make3GPPSNSSAIAttribute snssaiSst snssaiSd]
    @ map (MakeAttribute AttrEAPMessage) (the (FragmentEAPMessage eapPayload 253))"

definition SendEAP ::
  "(AccessRequest \<Rightarrow> (string, bytes option) result) \<Rightarrow> string \<Rightarrow> bytes \<Rightarrow> byte \<Rightarrow> string \<Rightarrow> (string, bytes) result" where
  "SendEAP exchange gpsi eapPayload snssaiSst snssaiSd =
    SendAccessRequest exchange (SendEAP_attrs gpsi eapPayload snssaiSst snssaiSd)"

section \<open>The attribute codec\<close>

lemma EncodeAttributes_simps [simp]:
  "EncodeAttributes [] = []" "EncodeAttributes (a # attrs) = encode_attr a @ EncodeAttributes attrs"
  "EncodeAttributes (xs @ ys) = EncodeAttributes xs @ EncodeAttributes ys"
  by (simp_all add: EncodeAttributes_def)

definition fits :: "Attribute \<Rightarrow> bool" where
  "fits a = (length (at_Value a) \<le> 253)"

lemma length_encode_attr [simp]: "length (encode_attr a) = 2 + length (at_Value a)"
  by (simp add: encode_attr_def)

lemma encode_attr_at:
  assumes "fits a"
  shows "(pre @ encode_attr a @ rest) ! length pre = at_Type a"
    "unat ((pre @ encode_attr a @ rest) ! Suc (length pre)) = 2 + length (at_Value a)"
    "subslice (length pre + 2) (length pre + (2 + length (at_Value a))) (pre @ encode_attr a @ rest) = at_Value a"
  using assms
  by (simp_all add: encode_attr_def nth_append fits_def subslice_def unat_word_ariths(1) unat_of_nat)

lemma decode_loop_encoded:
  assumes "list_all fits attrs"
  shows "decode_loop (pre @ EncodeAttributes attrs) (length pre) acc = Inr (acc @ attrs)"
  using assms
proof (induction attrs arbitrary: pre acc)
  case Nil
  then show ?case by (simp add: decode_loop.simps)
next
  case (Cons a attrs)
  have f: "fits a" using Cons.prems by simp
  have IH: "decode_loop (pre @ encode_attr a @ EncodeAttributes attrs) (length pre + (2 + length (at_Value a))) (acc @ [a])
      = Inr (acc @ a # attrs)"
    using Cons.IH [of "pre @ encode_attr a" "acc @ [a]"] Cons.prems by simp
  have rec_a: "\<lparr>at_Type = at_Type a, at_Value = at_Value a\<rparr> = a" by simp
  show ?case
    using IH encode_attr_at [OF f, of pre "EncodeAttributes attrs"]
    by (simp only: EncodeAttributes_simps) (subst decode_loop.simps, simp add: Let_def rec_a)
qed

lemma encode_attr_slice:
  assumes "off + 2 \<le> length data" "unat (data ! (off + 1)) = n" "2 \<le> n" "off + n \<le> length data"
  shows "encode_attr \<lparr>at_Type = data ! off, at_Value = subslice (off + 2) (off + n) data\<rparr> = take n (drop off data)"
proof -
  have "length (subslice (off + 2) (off + n) data) = n - 2" using assms by simp
  moreover have "take n (drop off data) = [data ! off, data ! (off + 1)] @ take (n - 2) (drop (off + 2) data)"
  proof -
    have "drop off data = data ! off # data ! (off + 1) # drop (off + 2) data"
      using assms(1) by (simp add: Cons_nth_drop_Suc)
    then show ?thesis using assms(3) by (cases n; cases "n - 1") auto
  qed
  moreover have "(of_nat n :: byte) = data ! (off + 1)" using assms(2) by auto
  ultimately show ?thesis using assms(3) by (simp add: encode_attr_def subslice_def)
qed

lemma decode_loop_canonical:
  assumes "decode_loop data off acc = Inr attrs" "off \<le> length data"
  shows "\<exists>new. attrs = acc @ new \<and> EncodeAttributes new = drop off data \<and> list_all fits new"
  using assms
proof (induction data off acc rule: decode_loop.induct)
  case (1 data off acc)
  show ?case
  proof (cases "off < length data")
    case False
    then show ?thesis using 1(2,3) by (simp add: decode_loop.simps)
  next
    case True
    define n where "n = unat (data ! (off + 1))"
    define a where "a = \<lparr>at_Type = data ! off, at_Value = subslice (off + 2) (off + n) data\<rparr>"
    have c: "off + 2 \<le> length data" "2 \<le> n" "off + n \<le> length data"
      "decode_loop data (off + n) (acc @ [a]) = Inr attrs"
      using 1(2) True by (auto simp: decode_loop.simps [of data off acc] Let_def n_def a_def split: if_splits)
    obtain new where new: "attrs = (acc @ [a]) @ new" "EncodeAttributes new = drop (off + n) data" "list_all fits new"
      using "1.IH" [OF True _ refl refl] c by (auto simp: n_def a_def not_less)
    have "encode_attr a @ drop (off + n) data = drop off data"
      using encode_attr_slice [OF c(1) n_def [symmetric] c(2,3)] append_take_drop_id [of n "drop off data"]
      by (simp add: a_def add.commute)
    moreover have "n \<le> 255" by (simp add: n_def)
    then have "fits a" by (simp add: fits_def a_def)
    ultimately show ?thesis using new by (intro exI [of _ "a # new"]) simp
  qed
qed

section \<open>EAP payloads over attributes\<close>

lemma foldl_assemble:
  "foldl (\<lambda>payload attr. if at_Type attr = AttrEAPMessage then payload @ at_Value attr else payload) acc attrs
    = acc @ concat (map at_Value (GetAttributes attrs AttrEAPMessage))"
  by (induction attrs arbitrary: acc) (simp_all add: GetAttributes_def)

lemma AssembleEAPMessage_eq: "AssembleEAPMessage attrs = concat (map at_Value (GetAttributes attrs AttrEAPMessage))"
  by (simp add: AssembleEAPMessage_def foldl_assemble)

lemma frag_loop_chunks: "0 < n \<Longrightarrow> frag_loop payload n i = chunks n (drop i payload)"
proof (induction payload n i rule: frag_loop.induct)
  case (1 payload n i)
  show ?case
  proof (cases "i < length payload")
    case True
    have "subslice i (if i + n > length payload then length payload else i + n) payload = take n (drop i payload)"
      by (simp add: subslice_def)
    then show ?thesis
      using 1 True by (subst frag_loop.simps, subst chunks.simps) (simp add: add.commute)
  qed (simp add: frag_loop.simps)
qed

lemma FragmentEAPMessage_pieces:
  assumes "FragmentEAPMessage payload maxSize = Some frags"
  shows "concat frags = payload" "0 < maxSize \<Longrightarrow> \<forall>f\<in>set frags. int (length f) \<le> maxSize"
proof -
  show "concat frags = payload"
    using assms by (auto simp: FragmentEAPMessage_def frag_loop_chunks concat_chunks split: if_splits)
  show "0 < maxSize \<Longrightarrow> \<forall>f\<in>set frags. int (length f) \<le> maxSize"
    using assms chunks_sizes [of "nat maxSize"]
    by (fastforce simp: FragmentEAPMessage_def frag_loop_chunks split: if_splits)
qed

lemma GetAttributes_made [simp]:
  "GetAttributes (map (MakeAttribute t) vs) t = map (MakeAttribute t) vs"
  by (simp add: GetAttributes_def MakeAttribute_def filter_map comp_def)

lemma MakeAttribute_fields [simp]: "at_Value (MakeAttribute t v) = v" "at_Type (MakeAttribute t v) = t"
  by (simp_all add: MakeAttribute_def)

section \<open>Message-Authenticator lemmas\<close>

lemma length_patch16: "i + 16 \<le> length packet \<Longrightarrow> length v = 16 \<Longrightarrow> length (patch16 i v packet) = length packet"
  by (simp add: patch16_def)

lemma patch16_patch16:
  assumes "i + 16 \<le> length packet" "length u = 16"
  shows "patch16 i v (patch16 i u packet) = patch16 i v packet"
  using assms by (simp add: patch16_def)

lemma subslice_patch16:
  assumes "i + 16 \<le> length packet" "length v = 16"
  shows "subslice i (i + 16) (patch16 i v packet) = v"
  using assms by (simp add: patch16_def subslice_def)

lemma find_ma_bound: "find_ma packet off = Some k \<Longrightarrow> off \<le> k \<and> k + 1 < length packet"
proof (induction packet off rule: find_ma.induct)
  case (1 packet off)
  then show ?case
    by (subst (asm) (2) find_ma.simps) (fastforce simp: Let_def split: if_splits)
qed

text \<open>The search depends only on the octets before the value it finds.\<close>

lemma find_ma_patch:
  assumes "find_ma packet off = Some k" "k + 18 \<le> length packet" "length v = 16"
  shows "find_ma (patch16 (k + 2) v packet) off = Some k"
  using assms
proof (induction packet off rule: find_ma.induct)
  case (1 packet off)
  have b: "off \<le> k" "k + 1 < length packet" using find_ma_bound [OF 1(2)] by auto
  have nth: "patch16 (k + 2) v packet ! j = packet ! j" if "j < k + 2" for j
    using that 1(3) by (simp add: patch16_def nth_append)
  have len: "length (patch16 (k + 2) v packet) = length packet" using 1(3,4) by (simp add: length_patch16)
  define n where "n = unat (packet ! (off + 1))"
  have c: "off + 1 < length packet" "2 \<le> n"
    "k = off \<and> packet ! off = AttrMessageAuthenticator \<or> packet ! off \<noteq> AttrMessageAuthenticator \<and> find_ma packet (off + n) = Some k"
    using 1(2) by (auto simp: find_ma.simps [of packet off] Let_def n_def split: if_splits)
  have "patch16 (k + 2) v packet ! off = packet ! off" "patch16 (k + 2) v packet ! (off + 1) = packet ! (off + 1)"
    using b nth by simp_all
  then show ?case
    using c "1.IH" [OF c(1) refl refl] 1(3,4) len by (subst find_ma.simps) (auto simp: Let_def n_def not_less)
qed

lemma find_ma_skip:
  assumes "list_all fits attrs" "\<forall>a\<in>set attrs. at_Type a \<noteq> AttrMessageAuthenticator"
  shows "find_ma (pre @ EncodeAttributes attrs @ rest) (length pre)
    = find_ma (pre @ EncodeAttributes attrs @ rest) (length pre + length (EncodeAttributes attrs))"
  using assms
proof (induction attrs arbitrary: pre)
  case (Cons a attrs)
  have f: "fits a" using Cons.prems by simp
  note at = encode_attr_at [OF f, of pre "EncodeAttributes attrs @ rest"]
  have "find_ma (pre @ encode_attr a @ EncodeAttributes attrs @ rest) (length pre)
      = find_ma (pre @ encode_attr a @ EncodeAttributes attrs @ rest) (length pre + (2 + length (at_Value a)))"
    using at(1,2) Cons.prems(2) by (subst find_ma.simps) (simp add: Let_def)
  also have "\<dots> = find_ma (pre @ encode_attr a @ EncodeAttributes attrs @ rest)
      (length pre + (2 + length (at_Value a)) + length (EncodeAttributes attrs))"
    using Cons.IH [of "pre @ encode_attr a"] Cons.prems by simp
  finally show ?case by (simp add: add.assoc)
qed simp

lemma Verify_patched:
  assumes "FindMessageAuthenticator packet = Some k" "k + 18 \<le> length packet"
    and "\<And>s d. length (hmac_md5 s d) = 16" and that: "length v = 16"
    and z_def: "z = patch16 (k + 2) (replicate 16 0) packet"
  shows "VerifyMessageAuthenticator hmac_md5 (patch16 (k + 2) v packet) secret \<longleftrightarrow> v = hmac_md5 (bytes_of secret) z"
proof -
  have f: "FindMessageAuthenticator (patch16 (k + 2) v packet) = Some k"
    using assms(1,2) that find_ma_patch by (simp add: FindMessageAuthenticator_def)
  have l: "length (patch16 (k + 2) v packet) = length packet" using assms(2) that by (simp add: length_patch16)
  have s: "subslice (k + 2) (k + 18) (patch16 (k + 2) v packet) = v"
    using subslice_patch16 [of "k + 2" packet v] assms(2) that by (simp add: add.commute)
  show ?thesis
    using assms(2,3) l s f patch16_patch16 [of "k + 2" packet v "replicate 16 0"] that
    by (simp add: VerifyMessageAuthenticator_def z_def Let_def)
qed

section \<open>The S-NSSAI attribute\<close>

lemma upper_hex: "is_hex c \<Longrightarrow> upper_char (hex_digit (hex_val c)) = upper_char c"
  by (auto simp: is_hex_def is_digit_def hex_val_def hex_digit_def upper_char_def)

lemma hex_val_less: "is_hex c \<Longrightarrow> hex_val c < 16"
  by (auto simp: is_hex_def is_digit_def hex_val_def)

lemma ToUpper_EncodeToString: "DecodeString s = Some bs \<Longrightarrow> ToUpper (EncodeToString bs) = ToUpper s"
proof (induction s arbitrary: bs rule: DecodeString.induct)
  case (3 c d s)
  then obtain bs' where h: "is_hex c" "is_hex d" "DecodeString s = Some bs'"
    "bs = of_nat (16 * hex_val c + hex_val d) # bs'"
    by (auto split: if_splits)
  have "(16 * hex_val c + hex_val d) mod 256 = 16 * hex_val c + hex_val d"
    using hex_val_less [OF h(1)] hex_val_less [OF h(2)] by simp
  then have "unat (of_nat (16 * hex_val c + hex_val d) :: byte) = 16 * hex_val c + hex_val d"
    unfolding unat_of_nat_byte .
  then have "EncodeToString bs = [hex_digit (hex_val c), hex_digit (hex_val d)] @ EncodeToString bs'"
    unfolding h(4) using hex_val_less [OF h(2)] by (simp add: EncodeToString_def del: of_nat_add of_nat_mult)
  then show ?case using 3(1) [OF _ h(3)] h(1,2) by (simp add: ToUpper_def upper_hex)
qed (simp_all add: EncodeToString_def)

lemma EncodeSnssaiVSA_valid:
  assumes "sdRegex sd"
  obtains bs where "DecodeString sd = Some bs" "length bs = 3" "EncodeSnssaiVSA sst sd = sst # bs"
proof -
  have l: "length sd = 6" "list_all is_hex sd" using assms by (simp_all add: sdRegex_def)
  then obtain bs where bs: "DecodeString sd = Some bs" using DecodeString_hex_iff [of sd] by auto
  then have "length bs = 3" using DecodeString_length [OF bs] l(1) by simp
  moreover have "sd \<noteq> []" using l(1) by auto
  ultimately show ?thesis using that bs by (simp add: EncodeSnssaiVSA_def)
qed

lemma length_EncodeSnssaiVSA [simp]: "length (EncodeSnssaiVSA sst sd) = 4"
  by (auto simp: EncodeSnssaiVSA_def split: option.split)

lemma vendor_3gpp_octets:
  "(ucast (10415 :: 32 word) :: byte) = 175" "(ucast (drop_bit 8 (10415 :: 32 word)) :: byte) = 40"
  "(ucast (drop_bit 16 (10415 :: 32 word)) :: byte) = 0"
  "or (or (ucast (175 :: byte)) (push_bit 8 (ucast (40 :: byte)))) (push_bit 16 (ucast (0 :: byte))) = (10415 :: 32 word)"
  by simp_all

lemma DecodeVSA_Make3GPP:
  "DecodeVSA (Some (Make3GPPSNSSAIAttribute sst sd)) =
    Inr \<lparr>vsa_VendorID = VendorID3GPP, vsa_VendorType = VendorTypeSNSSAI, vsa_Data = EncodeSnssaiVSA sst sd\<rparr>"
  by (simp add: DecodeVSA_def Make3GPPSNSSAIAttribute_def EncodeVSA_def Let_def vendor_3gpp_octets numeral_3_eq_3)

section \<open>The request built by the adapter\<close>

lemma foldl_apply_eap:
  "foldl apply_attr req (map (MakeAttribute AttrEAPMessage) vs) = req\<lparr>rq_EAPMessage := rq_EAPMessage req @ concat vs\<rparr>"
  by (induction vs arbitrary: req) (simp_all add: apply_attr_def Let_def)

lemma FragmentEAPMessage_253: "\<exists>fs. FragmentEAPMessage payload 253 = Some fs"
  by (simp add: FragmentEAPMessage_def)

lemma SendEAP_request:
  "foldl apply_attr empty_request (SendEAP_attrs gpsi payload sst sd) =
    empty_request\<lparr>rq_UserName := gpsi, rq_EAPMessage := payload\<rparr>"
proof -
  obtain fs where fs: "FragmentEAPMessage payload 253 = Some fs" using FragmentEAPMessage_253 by blast
  show ?thesis
    using FragmentEAPMessage_pieces(1) [OF fs]
    by (simp add: SendEAP_attrs_def fs foldl_apply_eap)
      (simp add: apply_attr_def Let_def MakeStringAttribute_def MakeIntegerAttribute_def
        Make3GPPSNSSAIAttribute_def EncodeVSA_def empty_request_def)
qed

section \<open>Properties of RADIUS\<close>

text \<open>The attribute codec is exact in both directions: attribute lists whose values fit
  the length octet are decoded from their encoding, and whatever the decoder accepts is the
  encoding of the attributes it returns.\<close>

theorem attributes_codec:
  "(list_all fits attrs \<longrightarrow> DecodeAttributes (EncodeAttributes attrs) = Inr attrs)
   \<and> (DecodeAttributes data = Inr attrs \<longrightarrow> EncodeAttributes attrs = data \<and> list_all fits attrs)"
proof (intro conjI impI)
  assume "list_all fits attrs"
  then show "DecodeAttributes (EncodeAttributes attrs) = Inr attrs"
    using decode_loop_encoded [of attrs "[]" "[]"] by (simp add: DecodeAttributes_def)
next
  assume "DecodeAttributes data = Inr attrs"
  then obtain new where "attrs = [] @ new" "EncodeAttributes new = drop 0 data" "list_all fits new"
    unfolding DecodeAttributes_def using decode_loop_canonical [of data 0 "[]" attrs] by auto
  then show "EncodeAttributes attrs = data" "list_all fits attrs" by auto
qed

text \<open>C10. An EAP payload of any length crosses RADIUS unchanged: cut into pieces of at most
  253 octets, sent as EAP-Message attributes among others, encoded, decoded and reassembled,
  it is the same payload.\<close>

theorem eap_over_radius_roundtrip:
  assumes "0 < maxSize" "maxSize \<le> 253" "FragmentEAPMessage payload maxSize = Some frags"
    and "list_all (\<lambda>a. fits a \<and> at_Type a \<noteq> AttrEAPMessage) (before @ after)"
  shows "\<exists>attrs. DecodeAttributes (EncodeAttributes (before @ map (MakeAttribute AttrEAPMessage) frags @ after)) = Inr attrs
    \<and> AssembleEAPMessage attrs = payload"
proof (intro exI conjI)
  let ?attrs = "before @ map (MakeAttribute AttrEAPMessage) frags @ after"
  have "list_all fits ?attrs"
    using assms(2,4) FragmentEAPMessage_pieces(2) [OF assms(3,1)] by (auto simp: list_all_iff fits_def)
  then show "DecodeAttributes (EncodeAttributes ?attrs) = Inr ?attrs"
    using decode_loop_encoded [of ?attrs "[]" "[]"] by (simp add: DecodeAttributes_def)
  have "GetAttributes before AttrEAPMessage = []" "GetAttributes after AttrEAPMessage = []"
    using assms(4) by (auto simp: GetAttributes_def filter_empty_conv list_all_iff)
  then have "GetAttributes ?attrs AttrEAPMessage = map (MakeAttribute AttrEAPMessage) frags"
    using GetAttributes_made [of AttrEAPMessage frags] by (simp add: GetAttributes_def)
  then show "AssembleEAPMessage ?attrs = payload"
    using FragmentEAPMessage_pieces(1) [OF assms(3)] by (simp add: AssembleEAPMessage_eq comp_def)
qed

theorem eap_over_radius_roundtrip_witness:
  "\<exists>attrs. DecodeAttributes (EncodeAttributes ([MakeStringAttribute AttrUserName ''bob'']
      @ map (MakeAttribute AttrEAPMessage) [[1, 2], [3]] @ [])) = Inr attrs \<and> AssembleEAPMessage attrs = [1, 2, 3]"
proof -
  have "FragmentEAPMessage [1, 2, 3] 2 = Some [[1, 2], [3]]"
    by (simp add: FragmentEAPMessage_def frag_loop.simps subslice_def Let_def)
  from eap_over_radius_roundtrip [OF _ _ this, of "[MakeStringAttribute AttrUserName ''bob'']" "[]"]
  show ?thesis by (simp add: fits_def MakeStringAttribute_def)
qed

text \<open>A valid S-NSSAI survives the vendor-specific attribute: SST and SD are read back,
  the SD in upper case; an absent SD is read back as \<^verbatim>\<open>000000\<close>.\<close>

theorem snssai_vsa_roundtrip:
  assumes "sd = '''' \<or> sdRegex sd"
  shows "rbind (DecodeVSA (Some (Make3GPPSNSSAIAttribute sst sd))) Parse3GPPSNSSAI =
    Inr (sst, if sd = '''' then ''000000'' else ToUpper sd)"
proof (cases "sd = ''''")
  case True
  then show ?thesis
    by (simp add: DecodeVSA_Make3GPP Parse3GPPSNSSAI_def Is3GPPSNSSAI_def DecodeSnssaiVSA_def EncodeSnssaiVSA_def
        subslice_def EncodeToString_def hex_digit_def ToUpper_def upper_char_def char_of_def bit_Suc_0_iff)
next
  case False
  then have "sdRegex sd" using assms by simp
  from this obtain bs where bs: "DecodeString sd = Some bs" "length bs = 3" "EncodeSnssaiVSA sst sd = sst # bs"
    by (rule EncodeSnssaiVSA_valid)
  then show ?thesis using False ToUpper_EncodeToString [OF bs(1)]
    by (simp add: DecodeVSA_Make3GPP Parse3GPPSNSSAI_def Is3GPPSNSSAI_def DecodeSnssaiVSA_def subslice_def)
qed

text \<open>A packet whose Message-Authenticator attribute is complete verifies under the
  same secret once \<^verbatim>\<open>AddMessageAuthenticator\<close> has replaced the value.\<close>

theorem message_authenticator_replaced:
  assumes "\<And>s d. length (hmac_md5 s d) = 16"
    and "FindMessageAuthenticator packet = Some k" "k + 18 \<le> length packet"
  shows "\<exists>p. AddMessageAuthenticator hmac_md5 packet secret = Some p \<and> length p = length packet
    \<and> VerifyMessageAuthenticator hmac_md5 p secret"
proof -
  define z where "z = patch16 (k + 2) (replicate 16 0) packet"
  have "AddMessageAuthenticator hmac_md5 packet secret
      = Some (patch16 (k + 2) (hmac_md5 (bytes_of secret) z) packet)"
    using assms patch16_patch16 [of "k + 2" packet "replicate 16 0"]
    by (simp add: AddMessageAuthenticator_def z_def Let_def)
  then show ?thesis
    using Verify_patched [OF assms(2,3,1) assms(1) z_def] assms by (simp add: length_patch16)
qed

text \<open>Where the packet has no Message-Authenticator, the value that is appended was computed
  over the packet without the attribute, so the result verifies only if HMAC-MD5 gives the
  same value for two different inputs.\<close>

theorem message_authenticator_appended:
  assumes "\<And>s d. length (hmac_md5 s d) = 16"
    and "length hdr = 20" "list_all (\<lambda>a. fits a \<and> at_Type a \<noteq> AttrMessageAuthenticator) attrs"
    and packet: "packet = hdr @ EncodeAttributes attrs"
  shows "\<exists>p. AddMessageAuthenticator hmac_md5 packet secret = Some p
    \<and> (VerifyMessageAuthenticator hmac_md5 p secret \<longleftrightarrow>
         hmac_md5 (bytes_of secret) packet =
         hmac_md5 (bytes_of secret) (packet @ [AttrMessageAuthenticator, 18] @ replicate 16 0))"
proof -
  let ?ma = "\<lambda>v :: bytes. packet @ [AttrMessageAuthenticator, 18] @ v"
  have skip: "find_ma (packet @ rest) 20 = find_ma (packet @ rest) (length packet)" for rest
    using find_ma_skip [of attrs hdr rest] assms(2,3) by (auto simp: packet list_all_iff)
  have none: "FindMessageAuthenticator packet = None"
    using skip [of "[]"] find_ma.simps [of packet "length packet"] by (simp add: FindMessageAuthenticator_def)
  have some: "FindMessageAuthenticator (?ma v) = Some (length packet)" if "length v = 16" for v
    using skip [of "[AttrMessageAuthenticator, 18] @ v"] that
    by (simp add: FindMessageAuthenticator_def find_ma.simps [of _ "length packet"] nth_append Let_def)
  have patch: "patch16 (length packet + 2) v (?ma u) = ?ma v" if "length u = 16" for u v
    using that by (simp add: patch16_def)
  let ?z = "replicate 16 (0 :: byte)" and ?h = "hmac_md5 (bytes_of secret) packet"
  have "VerifyMessageAuthenticator hmac_md5 (patch16 (length packet + 2) ?h (?ma ?z)) secret \<longleftrightarrow>
      ?h = hmac_md5 (bytes_of secret) (?ma ?z)"
    by (rule Verify_patched [OF some _ assms(1) assms(1) patch [symmetric]]) simp_all
  moreover have "patch16 (length packet + 2) ?h (?ma ?z) = ?ma ?h" by (rule patch) simp
  moreover have "AddMessageAuthenticator hmac_md5 packet secret = Some (?ma ?h)"
    using none assms(1) by (simp add: AddMessageAuthenticator_def)
  ultimately show ?thesis by simp
qed

end
