(* ===== verification/Gateway_Registry.thy ===== *)
theory Gateway_Registry
  imports Stores Encodings
begin

text \<open>
  \<^verbatim>\<open>internal/aaa/gateway/server_initiated.go\<close>: the registry of requests that the AAA
  server initiated and for which an answer of a Biz Pod is awaited.  A Go channel of
  capacity one is a cell, addressed by a number that is fresh for each \<^verbatim>\<open>Register\<close>;
  \<^verbatim>\<open>Wait\<close> is split into its two outcomes.
\<close>

section \<open>State\<close>

abbreviation ResultCodeSuccess :: "32 word" where "ResultCodeSuccess \<equiv> 2001"
abbreviation ResultCodeUnableToDeliver :: "32 word" where "ResultCodeUnableToDeliver \<equiv> 3002"

record ServerInitiatedResponse =
  sr_AuthCtxID :: string
  sr_ResultCode :: "32 word"
  sr_Payload :: bytes
  sr_ErrorCause :: string

record ResponseChannel =
  rc_ChanAuthCtxID :: string
  rc_SessionID :: string
  rc_MessageType :: string
  rc_Response :: nat
  rc_CreatedAt :: time
  rc_ExpiresAt :: time

record ServerInitiatedRegistry =
  si_pending :: "(string, ResponseChannel) gomap"
  si_timeout :: duration
  si_cells :: "nat \<Rightarrow> ServerInitiatedResponse option"
  si_next :: nat

definition NewServerInitiatedRegistry :: "duration \<Rightarrow> ServerInitiatedRegistry" where
  "NewServerInitiatedRegistry defaultTimeout =
    \<lparr>si_pending = [], si_timeout = defaultTimeout, si_cells = (\<lambda>_. None), si_next = 0\<rparr>"

definition registryKey :: "string \<Rightarrow> string \<Rightarrow> string" where
  "registryKey sessionID messageType = sessionID @ '':'' @ messageType"

text \<open>A send that does not block: it is dropped when the cell is full.\<close>

definition chan_offer :: "nat \<Rightarrow> ServerInitiatedResponse \<Rightarrow> ServerInitiatedRegistry \<Rightarrow> ServerInitiatedRegistry" where
  "chan_offer c resp r =
    (case si_cells r c of None \<Rightarrow> r\<lparr>si_cells := (si_cells r)(c := Some resp)\<rparr> | Some _ \<Rightarrow> r)"

section \<open>Operations\<close>

text \<open>The goroutine that answers a duplicate writes to a channel nobody else holds, so its
  send is placed at the end of \<^verbatim>\<open>Register\<close>.\<close>

definition Register ::
  "ServerInitiatedRegistry \<Rightarrow> string \<Rightarrow> string \<Rightarrow> string \<Rightarrow> duration \<Rightarrow> time \<Rightarrow>
   ServerInitiatedRegistry \<times> ResponseChannel" where
  "Register r sessionID authCtxID messageType timeout now =
    (let key = registryKey sessionID messageType;
         timeout = (if timeout = 0 then si_timeout r else timeout);
         rc = \<lparr>rc_ChanAuthCtxID = authCtxID, rc_SessionID = sessionID, rc_MessageType = messageType,
               rc_Response = si_next r, rc_CreatedAt = now, rc_ExpiresAt = now + timeout\<rparr>;
         r = r\<lparr>si_next := Suc (si_next r)\<rparr>
     in
     if gm_get (si_pending r) key \<noteq> None then
       (chan_offer (rc_Response rc)
          \<lparr>sr_AuthCtxID = '''', sr_ResultCode = ResultCodeUnableToDeliver, sr_Payload = [], sr_ErrorCause = ''duplicate''\<rparr>
          (r\<lparr>si_pending := gm_del key (si_pending r)\<rparr>), rc)
     else (r\<lparr>si_pending := gm_put key rc (si_pending r)\<rparr>, rc))"

definition Complete ::
  "ServerInitiatedRegistry \<Rightarrow> string \<Rightarrow> string \<Rightarrow> ServerInitiatedResponse \<Rightarrow> ServerInitiatedRegistry" where
  "Complete r sessionID messageType resp =
    (let key = registryKey sessionID messageType in
     case gm_get (si_pending r) key of
       None \<Rightarrow> r
     | Some rc \<Rightarrow> chan_offer (rc_Response rc) resp (r\<lparr>si_pending := gm_del key (si_pending r)\<rparr>))"

definition Expire :: "ServerInitiatedRegistry \<Rightarrow> string \<Rightarrow> string \<Rightarrow> ServerInitiatedRegistry" where
  "Expire r sessionID messageType =
    r\<lparr>si_pending := gm_del (registryKey sessionID messageType) (si_pending r)\<rparr>"

text \<open>\<^verbatim>\<open>Wait\<close>: what is received when a response is there, and the outcome of the
  time-out branch.\<close>

definition Wait_receive ::
  "ServerInitiatedRegistry \<Rightarrow> ResponseChannel \<Rightarrow> (ServerInitiatedRegistry \<times> ServerInitiatedResponse) option" where
  "Wait_receive r rc =
    (case si_cells r (rc_Response rc) of
       None \<Rightarrow> None
     | Some resp \<Rightarrow> Some (r\<lparr>si_cells := (si_cells r)(rc_Response rc := None)\<rparr>, resp))"

definition Wait_timeout ::
  "ServerInitiatedRegistry \<Rightarrow> ResponseChannel \<Rightarrow> ServerInitiatedRegistry \<times> ServerInitiatedResponse" where
  "Wait_timeout r rc =
    (Expire r (rc_SessionID rc) (rc_MessageType rc),
     \<lparr>sr_AuthCtxID = '''', sr_ResultCode = ResultCodeUnableToDeliver, sr_Payload = [], sr_ErrorCause = ''timeout''\<rparr>)"

section \<open>Histories\<close>

datatype si_cmd = SiRegister string string string duration time
  | SiComplete string string ServerInitiatedResponse | SiExpire string string

fun si_exec :: "si_cmd \<Rightarrow> ServerInitiatedRegistry \<Rightarrow> ServerInitiatedRegistry" where
  "si_exec (SiRegister s a t d now) r = fst (Register r s a t d now)"
| "si_exec (SiComplete s t resp) r = Complete r s t resp"
| "si_exec (SiExpire s t) r = Expire r s t"

fun si_target :: "si_cmd \<Rightarrow> string" where
  "si_target (SiRegister s a t d now) = registryKey s t"
| "si_target (SiComplete s t resp) = registryKey s t"
| "si_target (SiExpire s t) = registryKey s t"

text \<open>Pending channels have cells of their own that are still empty.\<close>

definition si_inv :: "ServerInitiatedRegistry \<Rightarrow> bool" where
  "si_inv r \<longleftrightarrow> gm_ok (si_pending r)
     \<and> (\<forall>k rc. gm_get (si_pending r) k = Some rc \<longrightarrow>
          rc_Response rc < si_next r \<and> si_cells r (rc_Response rc) = None
          \<and> k = registryKey (rc_SessionID rc) (rc_MessageType rc))
     \<and> (\<forall>k k' rc rc'. gm_get (si_pending r) k = Some rc \<longrightarrow> gm_get (si_pending r) k' = Some rc' \<longrightarrow>
          rc_Response rc = rc_Response rc' \<longrightarrow> k = k')
     \<and> (\<forall>c. si_next r \<le> c \<longrightarrow> si_cells r c = None)"

lemma si_inv_new [simp]: "si_inv (NewServerInitiatedRegistry t)"
  by (simp add: si_inv_def NewServerInitiatedRegistry_def)

interpretation si: keyed_store "\<lambda>r. gm_get (si_pending r)" "\<lambda>k rc r. r\<lparr>si_pending := gm_put k rc (si_pending r)\<rparr>"
  "\<lambda>k r. r\<lparr>si_pending := gm_del k (si_pending r)\<rparr>" "\<lambda>r. gm_ok (si_pending r)"
  by unfold_locales (simp_all add: store_simps fun_eq_iff)

lemma Register_inv [inv_intros]:
  assumes "si_inv r"
  shows "si_inv (fst (Register r s a t d now))"
proof -
  have fresh: "si_cells r (si_next r) = None" using assms by (simp add: si_inv_def)
  have lt: "\<And>k rc. gm_get (si_pending r) k = Some rc \<Longrightarrow> rc_Response rc \<noteq> si_next r"
    using assms unfolding si_inv_def by (metis less_irrefl)
  show ?thesis
  proof (cases "gm_get (si_pending r) (registryKey s t)")
    case None
    then show ?thesis using assms lt fresh
      by (auto simp: si_inv_def Register_def Let_def store_simps less_SucI split: if_splits) (metis less_irrefl)+
  next
    case (Some rc)
    then show ?thesis using assms lt fresh
      by (auto simp: si_inv_def Register_def Let_def store_simps chan_offer_def less_SucI split: if_splits)
  qed
qed

lemma Complete_inv [inv_intros]:
  assumes "si_inv r"
  shows "si_inv (Complete r s t resp)"
proof (cases "gm_get (si_pending r) (registryKey s t)")
  case None
  then show ?thesis using assms by (simp add: Complete_def Let_def)
next
  case (Some rc)
  have "rc_Response rc < si_next r" using assms Some by (simp add: si_inv_def)
  then show ?thesis using assms Some
    by (auto simp: si_inv_def Complete_def Let_def chan_offer_def store_simps split: if_splits) (metis leD)+
qed

lemma Expire_inv [inv_intros]: "si_inv r \<Longrightarrow> si_inv (Expire r s t)"
  by (auto simp: si_inv_def Expire_def store_simps split: if_splits)

lemma si_exec_inv [inv_intros]: "si_inv r \<Longrightarrow> si_inv (si_exec c r)"
  by (cases c) (simp_all add: inv_intros)

text \<open>Commands on other keys leave a pending channel and its cell alone.\<close>

lemma si_exec_other:
  assumes "si_inv r" "gm_get (si_pending r) k = Some rc" "si_target c \<noteq> k"
  shows "gm_get (si_pending (si_exec c r)) k = Some rc"
proof (cases c)
  case (SiRegister s a t d now)
  then show ?thesis using assms
    by (auto simp: Register_def Let_def chan_offer_def si_inv_def store_simps split: option.split)
next
  case (SiComplete s t resp)
  then show ?thesis using assms
    by (auto simp: Complete_def Let_def chan_offer_def si_inv_def store_simps split: option.split)
next
  case (SiExpire s t)
  then show ?thesis using assms by (auto simp: Expire_def si_inv_def store_simps)
qed

lemma si_execs_other:
  assumes "si_inv r" "gm_get (si_pending r) k = Some rc" "\<forall>c\<in>set cmds. si_target c \<noteq> k"
  shows "gm_get (si_pending (fold si_exec cmds r)) k = Some rc \<and> si_inv (fold si_exec cmds r)"
  using assms
proof (induction cmds arbitrary: r)
  case (Cons c cmds)
  then show ?case using Cons.IH [of "si_exec c r"] si_exec_inv si_exec_other by simp
qed simp

lemma Complete_delivers:
  assumes "si_inv r" "gm_get (si_pending r) (registryKey s t) = Some rc"
  shows "si_cells (Complete r s t resp) (rc_Response rc) = Some resp"
    "gm_get (si_pending (Complete r s t resp)) (registryKey s t) = None"
  using assms by (auto simp: Complete_def Let_def chan_offer_def si_inv_def store_simps)

lemma Register_pending:
  assumes "si_inv r" "gm_get (si_pending r) (registryKey s t) = None" "Register r s a t d now = (r', rc)"
  shows "gm_get (si_pending r') (registryKey s t) = Some rc"
  using assms by (auto simp: Register_def Let_def si_inv_def store_simps)

text \<open>Message types of the protocol contain no colon, so keys are unambiguous.\<close>

lemma registryKey_inj:
  assumes "registryKey s t = registryKey s' t'" "CHR '':'' \<notin> set t" "CHR '':'' \<notin> set t'"
  shows "s = s' \<and> t = t'"
proof -
  have "rev t @ CHR '':'' # rev s = rev t' @ CHR '':'' # rev s'"
    using arg_cong [OF assms(1), of rev] by (simp add: registryKey_def)
  moreover have "takeWhile (\<lambda>c. c \<noteq> CHR '':'') (rev u @ CHR '':'' # v) = rev u" if "CHR '':'' \<notin> set u" for u v
    using that by (subst takeWhile_append2) auto
  ultimately have "rev t = rev t'" using assms(2,3) by metis
  then show ?thesis using assms(1) by (simp add: registryKey_def)
qed

section \<open>Properties of the registry\<close>

text \<open>The answer of a Biz Pod reaches the waiter: after a request is registered under a
  free key, and whatever happens to other requests in between, completing it makes \<^verbatim>\<open>Wait\<close>
  return exactly that response, and the request is no longer pending.\<close>

theorem registered_request_answered:
  assumes "si_inv r" "gm_get (si_pending r) (registryKey s t) = None" "Register r s a t d now = (r', rc)"
    and "\<forall>c\<in>set cmds. si_target c \<noteq> registryKey s t"
  shows "\<exists>r''. Wait_receive (Complete (fold si_exec cmds r') s t resp) rc = Some (r'', resp)
    \<and> gm_get (si_pending r'') (registryKey s t) = None"
proof -
  have inv': "si_inv r'" using Register_inv [OF assms(1), of s a t d now] assms(3) by simp
  note st = si_execs_other [OF inv' Register_pending [OF assms(1-3)] assms(4)]
  show ?thesis
    using Complete_delivers [of "fold si_exec cmds r'" s t rc resp] st by (simp add: Wait_receive_def)
qed

text \<open>A second registration under a key that is still pending costs both requests their
  answer: the second waiter is told it is a duplicate, and a later completion changes
  nothing, so the first waiter can only time out.\<close>

theorem duplicate_registration_loses_answer:
  assumes "si_inv r" "gm_get (si_pending r) (registryKey s t) = Some rc\<^sub>1"
    and "Register r s a t d now = (r', rc\<^sub>2)"
  shows "Complete r' s t resp = r'
    \<and> Wait_receive (Complete r' s t resp) rc\<^sub>1 = None
    \<and> (\<exists>r''. Wait_receive (Complete r' s t resp) rc\<^sub>2 =
        Some (r'', \<lparr>sr_AuthCtxID = '''', sr_ResultCode = ResultCodeUnableToDeliver, sr_Payload = [],
          sr_ErrorCause = ''duplicate''\<rparr>))"
proof -
  have r': "gm_get (si_pending r') (registryKey s t) = None" "rc_Response rc\<^sub>2 = si_next r"
    "si_cells r' = (si_cells r)(si_next r := Some \<lparr>sr_AuthCtxID = '''', sr_ResultCode = ResultCodeUnableToDeliver,
        sr_Payload = [], sr_ErrorCause = ''duplicate''\<rparr>)"
    using assms by (auto simp: Register_def Let_def chan_offer_def si_inv_def store_simps)
  then have c: "Complete r' s t resp = r'" by (simp add: Complete_def Let_def)
  have "rc_Response rc\<^sub>1 < si_next r" "si_cells r (rc_Response rc\<^sub>1) = None"
    using assms(1,2) by (auto simp: si_inv_def)
  then show ?thesis unfolding c using r' by (simp add: Wait_receive_def)
qed

definition ex_response :: ServerInitiatedResponse where
  "ex_response = \<lparr>sr_AuthCtxID = ''ctx'', sr_ResultCode = 0, sr_Payload = [1], sr_ErrorCause = ''''\<rparr>"

end
