(* ===== verification/Gateway_Radius.thy ===== *)
theory Gateway_Radius
  imports Radius Gateway_Registry
begin

text \<open>
  \<^verbatim>\<open>internal/aaa/gateway/radius_handler.go\<close> and \<^verbatim>\<open>radius_forward.go\<close>: RADIUS packets that
  arrive from the AAA server (CoA and Disconnect requests), the answers to them, and
  the Access-Request that carries an EAP payload to the server.  MD5 and HMAC-MD5 are
  arguments.  What a packet causes is returned as a value.
\<close>

section \<open>Session identifiers\<close>

function session_loop :: "bytes \<Rightarrow> nat \<Rightarrow> string" where
  "session_loop raw pos =
    (if pos + 2 \<le> length raw then
       (let attrType = raw ! pos; attrLen = unat (raw ! (pos + 1)) in
        if attrLen < 2 \<or> pos + attrLen > length raw then ''''
        else if attrType = AttrState then string_of (subslice (pos + 2) (pos + attrLen) raw)
        else session_loop raw (pos + attrLen))
     else '''')"
  by pat_completeness auto
termination
  by (relation "measure (\<lambda>(raw, pos). length raw - pos)") auto

declare session_loop.simps [simp del]

definition extractSessionID :: "bytes \<Rightarrow> string" where
  "extractSessionID raw = (if length raw < 20 then '''' else session_loop raw 20)"

text \<open>The loop runs from the end of the string.\<close>

fun contains_port_rev :: "string \<Rightarrow> bool" where
  "contains_port_rev [] = False"
| "contains_port_rev (c # cs) =
    (if c = CHR '':'' then True else if \<not> is_digit c then False else contains_port_rev cs)"

definition containsPort :: "string \<Rightarrow> bool" where
  "containsPort addr = contains_port_rev (rev addr)"

definition extractAuthID :: "string \<Rightarrow> string" where
  "extractAuthID sessionID =
    (if CHR '';'' \<in> set sessionID
     then rev (takeWhile (\<lambda>c. c \<noteq> CHR '';'') (rev sessionID)) else sessionID)"

section \<open>Server-initiated requests\<close>

abbreviation radiusCoARequest :: byte where "radiusCoARequest \<equiv> 43"
abbreviation radiusCoAACK :: byte where "radiusCoAACK \<equiv> 44"
abbreviation radiusCoANAK :: byte where "radiusCoANAK \<equiv> 45"
abbreviation radiusDisconnectRequest :: byte where "radiusDisconnectRequest \<equiv> 40"

datatype packet_action = PacketDropped | PacketResponse string
  | PacketForwarded string string ResponseChannel

definition handleServerInitiated ::
  "hmac \<Rightarrow> string \<Rightarrow> ServerInitiatedRegistry \<Rightarrow> time \<Rightarrow> bytes \<Rightarrow> ServerInitiatedRegistry \<times> packet_action" where
  "handleServerInitiated hmac_md5 sharedSecret registry now raw =
    (let sessionID = extractSessionID raw in
     if sessionID = '''' then (registry, PacketDropped)
     else
       let msgType = (if raw ! 0 = radiusCoARequest then ''COA'' else ''DM'') in
       if sharedSecret \<noteq> '''' \<and> \<not> HasMessageAuthenticator raw then (registry, PacketDropped)
       else if sharedSecret \<noteq> '''' \<and> \<not> VerifyMessageAuthenticator hmac_md5 raw sharedSecret
         then (registry, PacketDropped)
       else
         let (registry, respCh) = Register registry sessionID '''' msgType (10 * Second) now
         in (registry, PacketForwarded sessionID msgType respCh))"

definition handlePacket ::
  "hmac \<Rightarrow> string \<Rightarrow> ServerInitiatedRegistry \<Rightarrow> time \<Rightarrow> bytes \<Rightarrow> ServerInitiatedRegistry \<times> packet_action" where
  "handlePacket hmac_md5 sharedSecret registry now raw =
    (if length raw < 4 then (registry, PacketDropped)
     else
       let msgType = raw ! 0 in
       if msgType = 2 \<or> msgType = 3 \<or> msgType = 11 then (registry, PacketResponse (extractSessionID raw))
       else if msgType = radiusCoARequest \<or> msgType = radiusDisconnectRequest
         then handleServerInitiated hmac_md5 sharedSecret registry now raw
       else (registry, PacketDropped))"

section \<open>Answers\<close>

definition le16 :: "byte \<Rightarrow> byte \<Rightarrow> nat" where
  "le16 a b = unat a + 256 * unat b"

text \<open>The search for the attribute to patch reads its two-octet fields little-endian.
  It is given fuel: the first component tells whether it came to an end.\<close>

fun coa_scan :: "nat \<Rightarrow> bytes \<Rightarrow> nat \<Rightarrow> bool \<times> nat option" where
  "coa_scan 0 reqRaw i = (False, None)"
| "coa_scan (Suc fuel) reqRaw i =
    (if i + 26 \<le> length reqRaw then
       (let avpCode = le16 (reqRaw ! i) (reqRaw ! (i + 1));
            avpLen = le16 (reqRaw ! (i + 2)) (reqRaw ! (i + 3))
        in if avpCode = 80 then (True, Some i) else coa_scan fuel reqRaw (i + avpLen))
     else (True, None))"

text \<open>\<^verbatim>\<open>None\<close> when the search does not end within the fuel, or when the request is too
  short to be answered (\<^verbatim>\<open>Some None\<close>).\<close>

definition coa_packet ::
  "hmac \<Rightarrow> (bytes \<Rightarrow> bytes) \<Rightarrow> string \<Rightarrow> nat \<Rightarrow> bytes \<Rightarrow> ServerInitiatedResponse \<Rightarrow> bytes option option" where
  "coa_packet hmac_md5 md5 sharedSecret fuel reqRaw resp =
    (if length reqRaw < 20 then Some None
     else
       let respPkt = reqRaw[0 := (if sr_ResultCode resp = 0 then radiusCoAACK else radiusCoANAK)];
           reqAuth = subslice 4 20 reqRaw;
           scanned =
             (if HasMessageAuthenticator reqRaw then
                let computedMA = hmac_md5 (bytes_of sharedSecret)
                      ([respPkt ! 0, respPkt ! 1] @ subslice 2 4 respPkt @ [0, 0, 0, 0] @ reqAuth @ drop 20 reqRaw)
                in case coa_scan fuel reqRaw 20 of
                     (False, _) \<Rightarrow> None
                   | (True, None) \<Rightarrow> Some respPkt
                   | (True, Some i) \<Rightarrow> Some (patch16 (i + 6) (take 16 computedMA) respPkt)
              else Some respPkt)
       in case scanned of
         None \<Rightarrow> None
       | Some respPkt \<Rightarrow>
           Some (Some (if sharedSecret \<noteq> '''' then
             take 4 respPkt @ md5 ([respPkt ! 0, respPkt ! 1] @ subslice 2 4 respPkt @ reqAuth @ drop 20 respPkt
               @ bytes_of sharedSecret) @ drop 20 respPkt
            else respPkt)))"

section \<open>The client-initiated path\<close>

definition Forward_attrs :: "bytes \<Rightarrow> byte \<Rightarrow> string \<Rightarrow> string \<Rightarrow> Attribute list" where
  "Forward_attrs eapPayload sst sd gpsi =
    [MakeStringAttribute AttrUserName gpsi, MakeStringAttribute AttrCallingStationID gpsi,
     MakeIntegerAttribute AttrServiceType 8, MakeIntegerAttribute AttrNASPortType 5,
     Make3GPPSNSSAIAttribute sst sd]
    @ map (MakeAttribute AttrEAPMessage) (the (FragmentEAPMessage eapPayload 253))"

definition radiusForwarder_Forward ::
  "(AccessRequest \<Rightarrow> (string, bytes option) result) option \<Rightarrow> bytes \<Rightarrow> string \<Rightarrow> byte \<Rightarrow> string \<Rightarrow> string \<Rightarrow>
   (string, bytes) result" where
  "radiusForwarder_Forward client eapPayload sessionID sst sd gpsi =
    (case client of
       None \<Rightarrow> Inl ''radius_forward: client not configured''
     | Some exchange \<Rightarrow> SendAccessRequest exchange (Forward_attrs eapPayload sst sd gpsi))"

section \<open>Lemmas\<close>

text \<open>The identifier is the value of the first State attribute.\<close>

lemma session_loop_encoded:
  assumes "list_all fits attrs"
  shows "session_loop (pre @ EncodeAttributes attrs) (length pre) = GetString (GetAttribute attrs AttrState)"
  using assms
proof (induction attrs arbitrary: pre)
  case Nil
  then show ?case by (simp add: session_loop.simps GetString_def GetAttribute_def)
next
  case (Cons a attrs)
  have f: "fits a" using Cons.prems by simp
  note at = encode_attr_at [OF f, of pre "EncodeAttributes attrs"]
  have IH: "session_loop (pre @ encode_attr a @ EncodeAttributes attrs) (length pre + (2 + length (at_Value a)))
      = GetString (GetAttribute attrs AttrState)"
    using Cons.IH [of "pre @ encode_attr a"] Cons.prems by simp
  show ?case
    using at IH by (simp only: EncodeAttributes_simps)
      (subst session_loop.simps, simp add: Let_def GetString_def GetAttribute_def)
qed

lemma forwarded_request:
  "foldl apply_attr empty_request (Forward_attrs payload sst sd gpsi) =
    empty_request\<lparr>rq_UserName := gpsi, rq_CallingStationID := gpsi, rq_EAPMessage := payload\<rparr>"
proof -
  obtain fs where fs: "FragmentEAPMessage payload 253 = Some fs" using FragmentEAPMessage_253 by blast
  show ?thesis
    using FragmentEAPMessage_pieces(1) [OF fs]
    by (simp add: Forward_attrs_def fs foldl_apply_eap)
      (simp add: apply_attr_def Let_def MakeStringAttribute_def MakeIntegerAttribute_def
        Make3GPPSNSSAIAttribute_def EncodeVSA_def empty_request_def)
qed

lemma coa_scan_stuck:
  assumes "i + 26 \<le> length reqRaw" "reqRaw ! (i + 2) = 0" "reqRaw ! (i + 3) = 0"
    and "le16 (reqRaw ! i) (reqRaw ! (i + 1)) \<noteq> 80"
  shows "coa_scan fuel reqRaw i = (False, None)"
  using assms by (induction fuel) (simp_all add: Let_def le16_def)

lemma length_coa_packet:
  assumes "coa_packet hmac_md5 md5 sharedSecret fuel reqRaw resp = Some (Some pkt)"
    and "\<And>s d. length (hmac_md5 s d) = 16"
  shows "20 \<le> length reqRaw" "pkt ! 0 = (if sr_ResultCode resp = 0 then radiusCoAACK else radiusCoANAK)"
proof -
  show l: "20 \<le> length reqRaw" using assms(1) by (auto simp: coa_packet_def split: if_splits)
  define p where "p = reqRaw[0 := (if sr_ResultCode resp = 0 then radiusCoAACK else radiusCoANAK)]"
  have p0: "p ! 0 = (if sr_ResultCode resp = 0 then radiusCoAACK else radiusCoANAK)" "length p = length reqRaw"
    using l by (cases reqRaw; simp add: p_def)+
  obtain q where q: "q = p \<or> (\<exists>i v. q = patch16 (i + 6) v p)"
    and pkt: "pkt = q \<or> (\<exists>v. pkt = take 4 q @ v)"
    using assms(1) l
    by (auto simp: coa_packet_def p_def [symmetric] Let_def split: if_splits option.splits prod.splits bool.splits)
  have q0: "q ! 0 = p ! 0" "q \<noteq> []" using q l p0(2) by (auto simp: patch16_def nth_append)
  then show "pkt ! 0 = (if sr_ResultCode resp = 0 then radiusCoAACK else radiusCoANAK)"
    using pkt p0(1) by (auto simp: nth_append)
qed

section \<open>Properties of the RADIUS handler\<close>


text \<open>The answer to the AAA server acknowledges the request exactly when the Biz Pod
  reports result code 0.  The gateway's own success code 2001, and the code of a request that
  timed out, are answered with CoA-NAK.\<close>

theorem coa_answer_code:
  assumes "coa_packet hmac_md5 md5 secret fuel reqRaw resp = Some (Some pkt)" "\<And>s d. length (hmac_md5 s d) = 16"
  shows "(pkt ! 0 = radiusCoAACK \<longleftrightarrow> sr_ResultCode resp = 0)
    \<and> (sr_ResultCode resp = ResultCodeSuccess \<longrightarrow> pkt ! 0 = radiusCoANAK)"
  using length_coa_packet [OF assms] by auto

text \<open>C12. A request with a Message-Authenticator whose first attribute has a value that
  starts with two zero octets is never answered: the search for the attribute to patch
  reads a zero length and makes no progress, whatever the fuel.\<close>

theorem coa_answer_diverges:
  assumes "length hdr = 20" "reqRaw = hdr @ [attrType, attrLen, 0, 0] @ rest" "26 \<le> 4 + length rest"
    and "le16 attrType attrLen \<noteq> 80" "HasMessageAuthenticator reqRaw"
  shows "coa_packet hmac_md5 md5 secret fuel reqRaw resp = None"
proof -
  have "coa_scan fuel reqRaw 20 = (False, None)"
    using assms(1-4) by (intro coa_scan_stuck) (simp_all add: nth_append)
  then show ?thesis using assms by (simp add: coa_packet_def Let_def)
qed

theorem coa_answer_diverges_witness:
  "coa_packet (\<lambda>_ _. replicate 16 0) (\<lambda>_. replicate 16 0) ''s'' 1000
     (replicate 20 0 @ [24, 8, 0, 0] @ [1, 2, 3, 4] @ [80, 18] @ replicate 16 0) ex_response = None"
proof -
  let ?raw = "replicate 20 0 @ [24, 8, 0, 0] @ [1, 2, 3, 4] @ [80, 18] @ replicate 16 (0 :: byte)"
  have "FindMessageAuthenticator ?raw = Some 28"
    by (simp add: FindMessageAuthenticator_def find_ma.simps [of _ 20] find_ma.simps [of _ 28] nth_append Let_def)
  then have "HasMessageAuthenticator ?raw" by (simp add: HasMessageAuthenticator_def)
  then show ?thesis
    by (intro coa_answer_diverges [of "replicate 20 0" _ 24 8 "[1, 2, 3, 4] @ [80, 18] @ replicate 16 0"])
      (simp_all add: le16_def)
qed

text \<open>The slice does not reach the RADIUS server: the request handed to the RADIUS
  library carries the subscriber and the whole EAP payload, but SST 0 and SD 0 whatever
  slice was asked for, because the attribute is built as type 26 and looked up as type
  200.\<close>

theorem radius_forward_loses_snssai:
  "radiusForwarder_Forward client payload sessionID sst sd gpsi = radiusForwarder_Forward client payload sessionID 0 '''' gpsi
   \<and> foldl apply_attr empty_request (Forward_attrs payload sst sd gpsi) =
      \<lparr>rq_UserName = gpsi, rq_NSSAI = \<lparr>ns_SST = 0, ns_SD = (0, 0, 0)\<rparr>, rq_NASIdentifier = '''',
       rq_CallingStationID = gpsi, rq_State = [], rq_EAPMessage = payload\<rparr>"
  by (simp add: radiusForwarder_Forward_def SendAccessRequest_def forwarded_request split: option.split) (simp add: empty_request_def)

end
