(* ===== verification/Gateway.thy ===== *)
theory Gateway
  imports Gateway_Radius
begin

text \<open>
  \<^verbatim>\<open>internal/aaa/gateway/gateway.go\<close>, \<^verbatim>\<open>dlq.go\<close> and the messages of \<^verbatim>\<open>internal/proto\<close>: the
  client-initiated path from a Biz Pod to the AAA server, the choice of a Biz Pod for a
  server-initiated message, its delivery with retries, and the dead-letter queue.
  Redis, the JSON decoder, the network and the clock are arguments; the Redis list of the
  dead-letter queue is a list whose right end is its last element.
\<close>

section \<open>Messages\<close>

record AaaForwardRequest =
  fq_Version :: string
  fq_SessionID :: string
  fq_AuthCtxID :: string
  fq_GPSI :: string
  fq_TransportType :: string
  fq_Sst :: byte
  fq_Sd :: string
  fq_Direction :: string
  fq_Payload :: bytes

record AaaForwardResponse =
  fp_Version :: string
  fp_SessionID :: string
  fp_AuthCtxID :: string
  fp_Payload :: bytes

record AaaServerInitiatedRequest =
  siq_Version :: string
  siq_SessionID :: string
  siq_AuthCtxID :: string
  siq_TransportType :: string
  siq_MessageType :: string
  siq_Payload :: bytes

record AaaServerInitiatedResponse =
  sip_Version :: string
  sip_SessionID :: string
  sip_AuthCtxID :: string
  sip_MessageType :: string
  sip_ResultCode :: "32 word"
  sip_Payload :: bytes
  sip_ErrorCause :: string

record SessionCorrEntry =
  sce_AuthCtxID :: string
  sce_GPSI :: string
  sce_PodID :: string
  sce_Sst :: byte
  sce_Sd :: string
  sce_CreatedAt :: int

record BizPodEntry =
  bpe_URL :: string
  bpe_LastSeen :: int

definition TransportRADIUS :: string where "TransportRADIUS = ''RADIUS''"
definition TransportDIAMETER :: string where "TransportDIAMETER = ''DIAMETER''"
definition DirectionClientInitiated :: string where "DirectionClientInitiated = ''CLIENT_INITIATED''"
definition MessageTypeRAR :: string where "MessageTypeRAR = ''RAR''"
definition MessageTypeASR :: string where "MessageTypeASR = ''ASR''"
definition MessageTypeCoA :: string where "MessageTypeCoA = ''COA''"

definition SessionCorrKey :: "string \<Rightarrow> string" where
  "SessionCorrKey sessionID = ''nssaa:session:'' @ sessionID"

definition BizPodsKey :: "string \<Rightarrow> string" where
  "BizPodsKey podID = ''nssaa:biz:pod:'' @ podID"

section \<open>The client-initiated path\<close>

type_synonym forwarder = "bytes \<Rightarrow> string \<Rightarrow> byte \<Rightarrow> string \<Rightarrow> string \<Rightarrow> (string, bytes) result"

datatype ForwardError = ErrWriteSessionCorr string | ErrUnknownTransport string | ErrForwardFailed string

text \<open>\<^verbatim>\<open>write\<close> stores the correlation entry; the outer \<^verbatim>\<open>None\<close> is the panic of a RADIUS
  forwarder that was not created.\<close>

definition ForwardEAP ::
  "string \<Rightarrow> (string \<Rightarrow> SessionCorrEntry \<Rightarrow> string option) \<Rightarrow> forwarder option \<Rightarrow> forwarder \<Rightarrow> string \<Rightarrow> int \<Rightarrow>
   AaaForwardRequest \<Rightarrow> (ForwardError, AaaForwardResponse) result option" where
  "ForwardEAP version write radius diam hostname nowUnix req =
    (let entry = \<lparr>sce_AuthCtxID = fq_AuthCtxID req, sce_GPSI = fq_GPSI req, sce_PodID = hostname,
                  sce_Sst = fq_Sst req, sce_Sd = fq_Sd req, sce_CreatedAt = nowUnix\<rparr>;
         forward = (\<lambda>f. f (fq_Payload req) (fq_SessionID req) (fq_Sst req) (fq_Sd req) (fq_GPSI req));
         reply = (\<lambda>r. case r of
             Inl err \<Rightarrow> Some (Inl (ErrForwardFailed err))
           | Inr response \<Rightarrow> Some (Inr \<lparr>fp_Version = version, fp_SessionID = fq_SessionID req,
               fp_AuthCtxID = fq_AuthCtxID req, fp_Payload = response\<rparr>))
     in case write (SessionCorrKey (fq_SessionID req)) entry of
       Some err \<Rightarrow> Some (Inl (ErrWriteSessionCorr err))
     | None \<Rightarrow>
         if fq_TransportType req = TransportRADIUS then
           (case radius of None \<Rightarrow> None | Some f \<Rightarrow> reply (forward f))
         else if fq_TransportType req = TransportDIAMETER then reply (forward diam)
         else Some (Inl (ErrUnknownTransport (fq_TransportType req))))"

text \<open>\<^verbatim>\<open>body\<close> is the decoded request, \<^verbatim>\<open>None\<close> when it is not valid JSON.\<close>

definition HandleForward ::
  "string \<Rightarrow> AaaForwardRequest option \<Rightarrow> (AaaForwardRequest \<Rightarrow> (ForwardError, AaaForwardResponse) result) \<Rightarrow>
   int \<times> AaaForwardResponse option" where
  "HandleForward httpMethod body forwardEAP =
    (if httpMethod \<noteq> ''POST'' then (405, None)
     else case body of
       None \<Rightarrow> (400, None)
     | Some req \<Rightarrow> (case forwardEAP req of Inl _ \<Rightarrow> (500, None) | Inr resp \<Rightarrow> (200, Some resp)))"

definition HandleServerInitiatedResponse ::
  "string \<Rightarrow> AaaServerInitiatedResponse option \<Rightarrow> ServerInitiatedRegistry \<Rightarrow> ServerInitiatedRegistry \<times> int" where
  "HandleServerInitiatedResponse httpMethod body registry =
    (if httpMethod \<noteq> ''POST'' then (registry, 405)
     else case body of
       None \<Rightarrow> (registry, 400)
     | Some resp \<Rightarrow>
         let msgType = (if sip_MessageType resp = '''' then ''ASR'' else sip_MessageType resp)
         in (Complete registry (sip_SessionID resp) msgType
               \<lparr>sr_AuthCtxID = sip_AuthCtxID resp, sr_ResultCode = sip_ResultCode resp,
                sr_Payload = sip_Payload resp, sr_ErrorCause = sip_ErrorCause resp\<rparr>, 204))"

section \<open>The choice of a Biz Pod\<close>

text \<open>\<^verbatim>\<open>get\<close> is Redis GET (\<^verbatim>\<open>Inr None\<close> for a missing key) and \<^verbatim>\<open>unmarshal\<close> the JSON decoder.\<close>

definition getBizPodURL ::
  "(string \<Rightarrow> (string, string option) result) \<Rightarrow> (string \<Rightarrow> (string, BizPodEntry) result) \<Rightarrow> string \<Rightarrow> (string, string) result" where
  "getBizPodURL get unmarshal podID =
    (if podID = '''' then Inr ''''
     else case get (BizPodsKey podID) of
       Inl err \<Rightarrow> Inl err
     | Inr None \<Rightarrow> Inr ''''
     | Inr (Some data) \<Rightarrow> (case unmarshal data of Inl err \<Rightarrow> Inl err | Inr entry \<Rightarrow> Inr (bpe_URL entry)))"

abbreviation DefaultBizPodEntryTTL :: duration where "DefaultBizPodEntryTTL \<equiv> 60 * Second"

text \<open>The loop body over the keys of the scan.\<close>

definition live_url ::
  "(string \<Rightarrow> (string, string option) result) \<Rightarrow> (string \<Rightarrow> (string, BizPodEntry) result) \<Rightarrow> int \<Rightarrow> string \<Rightarrow> string option" where
  "live_url get unmarshal cutoff key =
    (case get key of
       Inr (Some data) \<Rightarrow>
         (case unmarshal data of
            Inr entry \<Rightarrow> if bpe_LastSeen entry \<ge> cutoff \<and> bpe_URL entry \<noteq> '''' then Some (bpe_URL entry) else None
          | Inl _ \<Rightarrow> None)
     | _ \<Rightarrow> None)"

fun scan_pages ::
  "(string list \<Rightarrow> string list) \<Rightarrow> (string, string list) result list \<Rightarrow> (string, string list) result" where
  "scan_pages live [] = Inr []"
| "scan_pages live (Inl err # pages) = Inl err"
| "scan_pages live (Inr keys # pages) =
    (case scan_pages live pages of Inl err \<Rightarrow> Inl err | Inr urls \<Rightarrow> Inr (live keys @ urls))"

text \<open>\<^verbatim>\<open>pages\<close> are the results of the successive SCAN calls, up to the one that returns
  cursor 0.\<close>

definition pickRandomLiveBizURL ::
  "(string \<Rightarrow> (string, string option) result) \<Rightarrow> (string \<Rightarrow> (string, BizPodEntry) result) \<Rightarrow> duration \<Rightarrow> time \<Rightarrow>
   (string, string list) result list \<Rightarrow> (string, string) result" where
  "pickRandomLiveBizURL get unmarshal ttl now pages =
    (let ttl = (if ttl = 0 then DefaultBizPodEntryTTL else ttl);
         cutoff = (now - ttl) div Second
     in case scan_pages (List.map_filter (live_url get unmarshal cutoff)) pages of
       Inl err \<Rightarrow> Inl err
     | Inr livePods \<Rightarrow>
         if livePods = [] then Inr ''''
         else Inr (livePods ! nat (now mod int (length livePods))))"

definition selectTargetBizURL ::
  "(string \<Rightarrow> (string, string) result) \<Rightarrow> (string, string) result \<Rightarrow> string \<Rightarrow> string \<Rightarrow> string" where
  "selectTargetBizURL byPod live bizServiceURL podID =
    (let fallback = (case live of Inr url \<Rightarrow> if url \<noteq> '''' then url else bizServiceURL | Inl _ \<Rightarrow> bizServiceURL)
     in if podID \<noteq> '''' then
          (case byPod podID of Inr url \<Rightarrow> if url \<noteq> '''' then url else fallback | Inl _ \<Rightarrow> fallback)
        else fallback)"

section \<open>Delivery to a Biz Pod\<close>

text \<open>What an HTTP call to a pod can end in.\<close>

datatype HttpOutcome = HttpBadURL | HttpConnError | HttpOtherError | HttpStatus int

record DLQMessage =
  dm_SessionID :: string
  dm_TransportType :: string
  dm_MessageType :: string
  dm_Payload :: AaaServerInitiatedRequest
  dm_AttemptCount :: int
  dm_QueuedAt :: int

datatype forward_end = FwdUnknownSession | FwdDelivered string | FwdQueued DLQMessage

abbreviation serverInitMaxRetries :: nat where "serverInitMaxRetries \<equiv> 3"

definition server_init_pause :: "nat \<Rightarrow> duration" where
  "server_init_pause attempt =
    (if attempt = 0 then 0 else if int attempt * Second > 3 * Second then 3 * Second else int attempt * Second)"

text \<open>\<^verbatim>\<open>Some url\<close> when attempt \<^verbatim>\<open>attempt\<close> or a later one is answered with 200; the second
  component lists the pods that were called.\<close>

fun deliver_loop :: "(nat \<Rightarrow> string) \<Rightarrow> (nat \<Rightarrow> string \<Rightarrow> HttpOutcome) \<Rightarrow> nat \<Rightarrow> nat \<Rightarrow> string option \<times> string list" where
  "deliver_loop target http 0 attempt = (None, [])"
| "deliver_loop target http (Suc left) attempt =
    (let url = target attempt in
     case http attempt url of
       HttpBadURL \<Rightarrow> deliver_loop target http left (Suc attempt)
     | HttpConnError \<Rightarrow>
         let (r, calls) = deliver_loop target http left (Suc attempt) in (r, url # calls)
     | HttpOtherError \<Rightarrow> (None, [url])
     | HttpStatus s \<Rightarrow> (if s = 200 then Some url else None, [url]))"

definition forwardToBiz ::
  "string \<Rightarrow> (string \<Rightarrow> (string, SessionCorrEntry option) result) \<Rightarrow> (string \<Rightarrow> nat \<Rightarrow> string) \<Rightarrow>
   (nat \<Rightarrow> string \<Rightarrow> HttpOutcome) \<Rightarrow> int \<Rightarrow> string \<Rightarrow> string \<Rightarrow> string \<Rightarrow> bytes \<Rightarrow> forward_end \<times> string list" where
  "forwardToBiz version corr select http nowUnix sessionID transportType messageType raw =
    (case corr (SessionCorrKey sessionID) of
       Inl _ \<Rightarrow> (FwdUnknownSession, [])
     | Inr None \<Rightarrow> (FwdUnknownSession, [])
     | Inr (Some entry) \<Rightarrow>
         let req = \<lparr>siq_Version = version, siq_SessionID = sessionID, siq_AuthCtxID = sce_AuthCtxID entry,
                    siq_TransportType = transportType, siq_MessageType = messageType, siq_Payload = raw\<rparr>;
             (r, calls) = deliver_loop (select (sce_PodID entry)) http serverInitMaxRetries 0
         in (case r of
               Some url \<Rightarrow> FwdDelivered url
             | None \<Rightarrow> FwdQueued \<lparr>dm_SessionID = sessionID, dm_TransportType = transportType,
                 dm_MessageType = messageType, dm_Payload = req, dm_AttemptCount = 0, dm_QueuedAt = nowUnix\<rparr>,
             calls))"

section \<open>The dead-letter queue\<close>

definition pushDLQ :: "DLQMessage \<Rightarrow> DLQMessage list \<Rightarrow> DLQMessage list" where
  "pushDLQ msg q = q @ [msg]"

definition requeueDLQ :: "DLQMessage \<Rightarrow> DLQMessage list \<Rightarrow> DLQMessage list" where
  "requeueDLQ msg q = q @ [msg\<lparr>dm_AttemptCount := dm_AttemptCount msg + 1\<rparr>]"

datatype dlq_result = DlqIdle | DlqExhausted DLQMessage | DlqDelivered DLQMessage string | DlqRequeued DLQMessage

definition processDLQMessage ::
  "int \<Rightarrow> string \<Rightarrow> (string \<Rightarrow> HttpOutcome) \<Rightarrow> DLQMessage \<Rightarrow> DLQMessage list \<Rightarrow> DLQMessage list \<times> dlq_result" where
  "processDLQMessage maxRetries targetURL http msg q =
    (if dm_AttemptCount msg \<ge> maxRetries then (q, DlqExhausted msg)
     else if targetURL = '''' then (requeueDLQ msg q, DlqRequeued msg)
     else case http targetURL of
       HttpStatus s \<Rightarrow>
         if s = 200 then (q, DlqDelivered msg targetURL) else (requeueDLQ msg q, DlqRequeued msg)
     | _ \<Rightarrow> (requeueDLQ msg q, DlqRequeued msg))"

text \<open>\<^verbatim>\<open>BRPop\<close> takes the last element.\<close>

definition processDLQOne ::
  "int \<Rightarrow> string \<Rightarrow> (string \<Rightarrow> HttpOutcome) \<Rightarrow> DLQMessage list \<Rightarrow> DLQMessage list \<times> dlq_result" where
  "processDLQOne maxRetries targetURL http q =
    (if q = [] then (q, DlqIdle) else processDLQMessage maxRetries targetURL http (last q) (butlast q))"

text \<open>The consumer's ticks: for each, the pod selected and how calls end.\<close>

fun dlq_ticks :: "int \<Rightarrow> (string \<times> (string \<Rightarrow> HttpOutcome)) list \<Rightarrow> DLQMessage list \<Rightarrow> DLQMessage list" where
  "dlq_ticks maxRetries [] q = q"
| "dlq_ticks maxRetries ((url, http) # ticks) q =
    dlq_ticks maxRetries ticks (fst (processDLQOne maxRetries url http q))"

section \<open>Lemmas\<close>

lemma deliver_loop_calls: "length (snd (deliver_loop target http n a)) \<le> n"
  by (induction n arbitrary: a) (auto simp: Let_def case_prod_unfold le_SucI split: HttpOutcome.split)

lemma deliver_loop_delivered:
  "fst (deliver_loop target http n a) = Some url \<Longrightarrow>
    \<exists>k. a \<le> k \<and> k < a + n \<and> url = target k \<and> http k url = HttpStatus 200"
proof (induction n arbitrary: a)
  case (Suc n)
  have "fst (deliver_loop target http n (Suc a)) = Some url \<or> url = target a \<and> http a url = HttpStatus 200"
    using Suc.prems by (auto simp: Let_def case_prod_unfold split: HttpOutcome.splits if_splits)
  then show ?case
  proof
    assume "fst (deliver_loop target http n (Suc a)) = Some url"
    from Suc.IH [OF this] obtain k where "Suc a \<le> k" "k < Suc a + n" "url = target k" "http k url = HttpStatus 200"
      by blast
    then show ?case by (intro exI [of _ k]) simp
  next
    assume "url = target a \<and> http a url = HttpStatus 200"
    then show ?case by (intro exI [of _ a]) auto
  qed
qed simp

text \<open>What is left to do for a queue: every message is tried until its count reaches the
  limit and then discarded.\<close>

definition dlq_work :: "int \<Rightarrow> DLQMessage list \<Rightarrow> nat" where
  "dlq_work maxRetries q = sum_list (map (\<lambda>m. Suc (nat (maxRetries - dm_AttemptCount m))) q)"

lemma dlq_work_simps [simp]:
  "dlq_work k [] = 0" "dlq_work k (q @ [m]) = dlq_work k q + Suc (nat (k - dm_AttemptCount m))"
  by (simp_all add: dlq_work_def)

lemma processDLQOne_work:
  "q \<noteq> [] \<Longrightarrow> dlq_work k (fst (processDLQOne k url http q)) < dlq_work k q"
proof (induction q rule: rev_induct)
  case (snoc m q)
  then show ?case
    by (auto simp: processDLQOne_def processDLQMessage_def requeueDLQ_def split: HttpOutcome.split)
qed simp

lemma processDLQOne_last:
  "processDLQOne k url http (q @ [m]) = processDLQMessage k url http m q"
  by (simp add: processDLQOne_def)

lemma scan_pages_live:
  assumes "scan_pages live pages = Inr urls" "u \<in> set urls"
  shows "\<exists>keys. Inr keys \<in> set pages \<and> u \<in> set (live keys)"
  using assms
proof (induction pages arbitrary: urls)
  case (Cons p pages)
  show ?case
  proof (cases p)
    case (Inr keys)
    then obtain rest where rest: "scan_pages live pages = Inr rest" "urls = live keys @ rest"
      using Cons.prems(1) by (auto split: sum.splits)
    then consider "u \<in> set (live keys)" | "u \<in> set rest" using Cons.prems(2) by auto
    then show ?thesis
    proof cases
      case 2
      from Cons.IH [OF rest(1) 2] show ?thesis by auto
    qed (use Inr in auto)
  qed (use Cons.prems in simp)
qed simp

lemma set_map_filter: "u \<in> set (List.map_filter f xs) \<longleftrightarrow> (\<exists>x\<in>set xs. f x = Some u)"
  by (induction xs) (auto simp: map_filter_simps split: option.split)

lemma live_url_iff:
  "live_url get unmarshal cutoff key = Some u \<longleftrightarrow>
    (\<exists>data entry. get key = Inr (Some data) \<and> unmarshal data = Inr entry
       \<and> cutoff \<le> bpe_LastSeen entry \<and> bpe_URL entry = u \<and> u \<noteq> '''')"
  by (auto simp: live_url_def split: sum.splits option.splits if_splits)

section \<open>Properties of the gateway\<close>



definition ex_dlq_message :: DLQMessage where
  "ex_dlq_message = \<lparr>dm_SessionID = ''s'', dm_TransportType = ''RADIUS'', dm_MessageType = ''COA'',
     dm_Payload = \<lparr>siq_Version = ''1.0'', siq_SessionID = ''s'', siq_AuthCtxID = ''ctx'', siq_TransportType = ''RADIUS'',
       siq_MessageType = ''COA'', siq_Payload = [43]\<rparr>, dm_AttemptCount = 0, dm_QueuedAt = 5\<rparr>"


text \<open>The queue is served from the end to which failed messages return: while a message
  can be retried and its calls fail, no older message is looked at.\<close>

theorem dlq_newest_first:
  assumes "\<forall>(url, http)\<in>set ticks. \<forall>u. http u \<noteq> HttpStatus 200"
    and "dm_AttemptCount msg + int (length ticks) \<le> maxRetries"
  shows "dlq_ticks maxRetries ticks (pushDLQ msg q) =
    q @ [msg\<lparr>dm_AttemptCount := dm_AttemptCount msg + int (length ticks)\<rparr>]"
  using assms
proof (induction ticks arbitrary: msg)
  case Nil
  then show ?case by (simp add: pushDLQ_def)
next
  case (Cons t ticks)
  obtain url http where t: "t = (url, http)" by fastforce
  have "fst (processDLQOne maxRetries url http (pushDLQ msg q)) =
      pushDLQ (msg\<lparr>dm_AttemptCount := dm_AttemptCount msg + 1\<rparr>) q"
    using Cons.prems
    by (auto simp: t pushDLQ_def processDLQOne_last processDLQMessage_def requeueDLQ_def split: HttpOutcome.split)
  then show ?case
    using Cons.IH [of "msg\<lparr>dm_AttemptCount := dm_AttemptCount msg + 1\<rparr>"] Cons.prems by (simp add: t add.assoc)
qed

text \<open>A random choice of a pod returns only the URL of a pod that some scanned key holds
  and that was seen within the time to live, and it returns none only if there is no such
  pod on the scanned pages.\<close>

theorem random_pod_is_live:
  assumes "pickRandomLiveBizURL get unmarshal ttl now pages = Inr url"
    and "cutoff = (now - (if ttl = 0 then DefaultBizPodEntryTTL else ttl)) div Second"
  shows "if url \<noteq> '''' then
      \<exists>keys key data entry. Inr keys \<in> set pages \<and> key \<in> set keys \<and> get key = Inr (Some data)
        \<and> unmarshal data = Inr entry \<and> bpe_URL entry = url \<and> cutoff \<le> bpe_LastSeen entry
    else scan_pages (List.map_filter (live_url get unmarshal cutoff)) pages = Inr []"
proof -
  obtain urls where urls: "scan_pages (List.map_filter (live_url get unmarshal cutoff)) pages = Inr urls"
    "url = (if urls = [] then '''' else urls ! nat (now mod int (length urls)))"
    using assms by (auto simp: pickRandomLiveBizURL_def Let_def split: sum.splits if_splits)
  have live: "u \<noteq> '''' \<and> (\<exists>keys key data entry. Inr keys \<in> set pages \<and> key \<in> set keys \<and> get key = Inr (Some data)
      \<and> unmarshal data = Inr entry \<and> bpe_URL entry = u \<and> cutoff \<le> bpe_LastSeen entry)" if u: "u \<in> set urls" for u
  proof -
    obtain keys where "Inr keys \<in> set pages" "u \<in> set (List.map_filter (live_url get unmarshal cutoff) keys)"
      using scan_pages_live [OF urls(1) u] by blast
    then show ?thesis unfolding set_map_filter live_url_iff by blast
  qed
  show ?thesis
  proof (cases "urls = []")
    case True
    then show ?thesis using urls by simp
  next
    case False
    then have "nat (now mod int (length urls)) < length urls" by (simp add: nat_less_iff)
    then have "url \<in> set urls" using urls(2) False by simp
    then show ?thesis using live by auto
  qed
qed

end
