(* ===== verification/Storage.thy ===== *)
theory Storage
  imports Eap_Engine
begin

text \<open>
  \<^verbatim>\<open>internal/storage\<close>: the domain sessions of \<^verbatim>\<open>types.go\<close>, and the write-through store of
  \<^verbatim>\<open>bridge.go\<close> that puts a session into a cache and then into the audit database.  The
  audit database is an argument.  The write-through store is shown to satisfy the
  contract of a session store whenever its cache does, so everything proved of the
  engine holds for it as well.
\<close>

section \<open>Sessions\<close>

record NssaaSession =
  nss_AuthCtxID :: string
  nss_GPSI :: string
  nss_SnssaiSST :: byte
  nss_SnssaiSD :: string
  nss_AmfInstance :: string
  nss_ReauthURI :: string
  nss_RevocURI :: string
  nss_EapPayload :: bytes
  nss_Status :: string
  nss_CallbackOwner :: string
  nss_HasAIWContext :: bool
  nss_CreatedAt :: time
  nss_UpdatedAt :: time
  nss_ExpiresAt :: time

record AiwSession =
  aws_AuthCtxID :: string
  aws_Supi :: string
  aws_EapPayload :: bytes
  aws_TtlsInner :: bytes
  aws_MSK :: bytes
  aws_PvsInfo :: bytes
  aws_AusfID :: string
  aws_SupportedFeatures :: string
  aws_Status :: string
  aws_AuthResult :: string
  aws_CreatedAt :: time
  aws_UpdatedAt :: time
  aws_ExpiresAt :: time
  aws_CompletedAt :: "time option"

datatype StoreError = ErrStoreSessionNotFound | ErrStoreOther string

section \<open>The audit record\<close>

record AuthSession =
  au_AuthCtxID :: string
  au_GPSI :: string
  au_Supi :: string
  au_SnssaiSST :: byte
  au_SnssaiSD :: string
  au_EAPSessionState :: bytes
  au_EAPRounds :: int
  au_MaxEAPRounds :: int
  au_CreatedAt :: time
  au_UpdatedAt :: time

text \<open>\<^verbatim>\<open>strings.SplitN(key, sep, 2)\<close>: what precedes the first separator, and what follows
  it if there is one.\<close>

definition SplitN2 :: "char \<Rightarrow> string \<Rightarrow> string \<times> string option" where
  "SplitN2 sep s =
    (let p = takeWhile (\<lambda>c. c \<noteq> sep) s in
     (p, case drop (length p) s of [] \<Rightarrow> None | _ # rest \<Rightarrow> Some rest))"

definition storage_decodeSnssaiKey :: "string \<Rightarrow> byte \<times> string" where
  "storage_decodeSnssaiKey key =
    (if key = '''' then (0, '''')
     else
       let parts = SplitN2 CHR ''-'' key in
       case ParseUint (fst parts) 8 of
         None \<Rightarrow> (0, '''')
       | Some sstVal \<Rightarrow> (of_nat sstVal, case snd parts of None \<Rightarrow> '''' | Some sd \<Rightarrow> sd))"

definition toAuthSession :: "Session \<Rightarrow> AuthSession" where
  "toAuthSession s =
    (let (sst, sd) = storage_decodeSnssaiKey (es_SnssaiKey s) in
     \<lparr>au_AuthCtxID = es_AuthCtxID s, au_GPSI = es_Gpsi s, au_Supi = es_Supi s, au_SnssaiSST = sst, au_SnssaiSD = sd,
      au_EAPSessionState = [], au_EAPRounds = es_Rounds s, au_MaxEAPRounds = es_MaxRounds s,
      au_CreatedAt = es_CreatedAt s, au_UpdatedAt = es_LastActivity s\<rparr>)"

section \<open>The write-through store\<close>

text \<open>The state pairs that of the cache with that of the audit database; \<^verbatim>\<open>save\<close> writes an
  audit record and may fail.\<close>

definition WriteThroughStore_Get ::
  "(time \<Rightarrow> 's \<Rightarrow> string \<Rightarrow> (EapError, Session) result) \<Rightarrow> time \<Rightarrow> 's \<times> 'p \<Rightarrow> string \<Rightarrow> (EapError, Session) result" where
  "WriteThroughStore_Get get now w authCtxID = get now (fst w) authCtxID"

definition WriteThroughStore_Put ::
  "(time \<Rightarrow> Session \<Rightarrow> 's \<Rightarrow> 's \<times> string option) \<Rightarrow> (AuthSession \<Rightarrow> 'p \<Rightarrow> 'p \<times> string option) \<Rightarrow>
   time \<Rightarrow> Session \<Rightarrow> 's \<times> 'p \<Rightarrow> ('s \<times> 'p) \<times> string option" where
  "WriteThroughStore_Put put save now session w =
    (case put now session (fst w) of
       (st, Some err) \<Rightarrow> ((st, snd w), Some err)
     | (st, None) \<Rightarrow> ((st, fst (save (toAuthSession session) (snd w))), None))"

locale write_through = session_store +
  fixes save :: "AuthSession \<Rightarrow> 'p \<Rightarrow> 'p \<times> string option"

sublocale write_through \<subseteq> wt: session_store "WriteThroughStore_Get get" "WriteThroughStore_Put put save"
  "\<lambda>w. peek (fst w)" "\<lambda>w. inv (fst w)"
proof unfold_locales
  fix w :: "'a \<times> 'p" and now i x
  assume "inv (fst w)" "WriteThroughStore_Get get now w i = Inr x"
  then show "peek (fst w) i = Some x" by (simp add: WriteThroughStore_Get_def get_peek)
next
  fix w :: "'a \<times> 'p" and i x
  assume "inv (fst w)" "peek (fst w) i = Some x"
  then show "es_AuthCtxID x = i" by (rule peek_id)
next
  fix w w' :: "'a \<times> 'p" and t x
  assume "inv (fst w)" "WriteThroughStore_Put put save t x w = (w', None)"
  then show "peek (fst w') = (peek (fst w))(es_AuthCtxID x \<mapsto> x)"
    using put_ok by (auto simp: WriteThroughStore_Put_def split: prod.splits option.splits)
next
  fix w w' :: "'a \<times> 'p" and t x e
  assume "inv (fst w)" "WriteThroughStore_Put put save t x w = (w', Some e)"
  then show "peek (fst w') = peek (fst w) \<or> peek (fst w') = (peek (fst w))(es_AuthCtxID x \<mapsto> x)"
    using put_err by (fastforce simp: WriteThroughStore_Put_def split: prod.splits option.splits)
next
  fix w w' :: "'a \<times> 'p" and t x er
  assume "inv (fst w)" "WriteThroughStore_Put put save t x w = (w', er)"
  then show "inv (fst w')"
    using put_inv by (auto simp: WriteThroughStore_Put_def split: prod.splits option.splits)
qed

interpretation wts: write_through sessionManager_get sessionManager_put sm_peek sm_inv save for save
  by unfold_locales

section \<open>Keys that the parsers of the other layers cannot read\<close>

lemma storage_decodeSnssaiKey_colon:
  "storage_decodeSnssaiKey (show_nat n @ '':'' @ t) = (0, '''')"
proof -
  have nd: "\<not> is_digit CHR '':''" "CHR ''-'' \<notin> set (show_nat n)"
    by (simp_all add: nondigit_not_in_show_nat)
  have "takeWhile (\<lambda>c. c \<noteq> CHR ''-'') (show_nat n @ CHR '':'' # t)
      = show_nat n @ CHR '':'' # takeWhile (\<lambda>c. c \<noteq> CHR ''-'') t"
    using nd(2) by (subst takeWhile_append2) auto
  then have "fst (SplitN2 CHR ''-'' (show_nat n @ '':'' @ t)) = show_nat n @ CHR '':'' # takeWhile (\<lambda>c. c \<noteq> CHR ''-'') t"
    by (simp add: SplitN2_def Let_def)
  then have "ParseUint (fst (SplitN2 CHR ''-'' (show_nat n @ '':'' @ t))) 8 = None"
    using nd(1) by (simp add: ParseUint_def read_nat_def)
  then show ?thesis by (simp add: storage_decodeSnssaiKey_def Let_def)
qed

section \<open>Properties of the storage bridge\<close>

text \<open>An engine that runs on the write-through store keeps the guarantees it has on its
  cache: a message for one authentication context leaves the sessions of all others as they
  were, whatever the audit database does.\<close>

theorem write_through_isolation:
  assumes "sm_inv m" "j \<noteq> i"
  shows "sm_peek (fst (po_store (Process (WriteThroughStore_Get sessionManager_get)
      (WriteThroughStore_Put sessionManager_put save) sha256 c t0 t1 (m, audit) i p))) j = sm_peek m j"
  using wts.wt.process_isolated [of "(m, audit)" j i] assms by simp

text \<open>The audit record never names the slice: the handlers store the S-NSSAI in the
  session as \<^verbatim>\<open>sst:sd\<close>, the bridge splits at a hyphen, and for every key of the first form it
  records SST 0 and no SD.\<close>

theorem audit_loses_snssai:
  assumes "es_SnssaiKey s = show_nat (unat sst) @ '':'' @ sd"
  shows "au_SnssaiSST (toAuthSession s) = 0 \<and> au_SnssaiSD (toAuthSession s) = ''''"
  using storage_decodeSnssaiKey_colon [of "unat sst" sd] by (simp add: toAuthSession_def assms)

end
