(* ===== verification/Crypto.thy ===== *)
theory Crypto
  imports Encodings
begin

text \<open>
  \<^verbatim>\<open>internal/crypto\<close>: authenticated encryption, envelopes, the soft key manager with its
  rotation, and the secrets encrypted under a key manager.  AES-GCM, SHA-256 and HKDF are
  arguments; what is relied on of AES-GCM is the predicate \<^verbatim>\<open>aead_ok\<close>.  A read of the
  random source is an argument as well, and is absent where the read fails.
\<close>

section \<open>The primitives\<close>

text \<open>\<^verbatim>\<open>gcm_seal key nonce plaintext aad\<close> is the ciphertext followed by the tag of 16 octets;
  \<^verbatim>\<open>gcm_open key nonce sealed aad\<close> is the plaintext if the tag is right.\<close>

type_synonym gcm_seal = "bytes \<Rightarrow> bytes \<Rightarrow> bytes \<Rightarrow> bytes \<Rightarrow> bytes"
type_synonym gcm_open = "bytes \<Rightarrow> bytes \<Rightarrow> bytes \<Rightarrow> bytes \<Rightarrow> bytes option"

definition aead_ok :: "gcm_seal \<Rightarrow> gcm_open \<Rightarrow> bool" where
  "aead_ok gcm_seal gcm_open =
    (\<forall>k n p a. length k = 32 \<longrightarrow> length n = 12 \<longrightarrow>
       length (gcm_seal k n p a) = length p + 16 \<and> gcm_open k n (gcm_seal k n p a) a = Some p)"

datatype CryptoError =
    ErrKeyWrongLength | ErrDecryptFailed | ErrEnvelopeMalformed | ErrDEKUnwrapFailed
  | ErrRandom | ErrCrypto string

text \<open>\<^verbatim>\<open>RandomBytes(n)\<close>: what the random source delivered, if it delivered.\<close>

definition RandomBytes :: "bytes option \<Rightarrow> (CryptoError, bytes) result" where
  "RandomBytes rnd = (case rnd of None \<Rightarrow> Inl ErrRandom | Some b \<Rightarrow> Inr b)"

definition RandomHexString :: "nat \<Rightarrow> (nat \<Rightarrow> bytes option) \<Rightarrow> (CryptoError, string) result" where
  "RandomHexString n rnd =
    (if n mod 2 \<noteq> 0 then Inl (ErrCrypto ''RandomHexString: n must be even'')
     else rbind (RandomBytes (rnd (n div 2))) (\<lambda>b. Inr (EncodeToString b)))"

definition GenerateDEK :: "bytes option \<Rightarrow> (CryptoError, bytes) result" where
  "GenerateDEK rnd = RandomBytes rnd"

definition HashGPSI :: "(bytes \<Rightarrow> bytes) \<Rightarrow> string \<Rightarrow> string" where
  "HashGPSI sha256 gpsi = EncodeToString (take 16 (sha256 (bytes_of gpsi)))"

definition HashSUPI :: "(bytes \<Rightarrow> bytes) \<Rightarrow> string \<Rightarrow> string" where
  "HashSUPI sha256 supi = EncodeToString (take 16 (sha256 (bytes_of supi)))"

definition HashMessage :: "(bytes \<Rightarrow> bytes) \<Rightarrow> bytes \<Rightarrow> string" where
  "HashMessage sha256 msg = EncodeToString (sha256 msg)"

definition VerifyHMAC :: "(bytes \<Rightarrow> bytes \<Rightarrow> bytes) \<Rightarrow> bytes \<Rightarrow> bytes \<Rightarrow> bytes \<Rightarrow> bool" where
  "VerifyHMAC hmac_sha256 key data mac = (hmac_sha256 key data = mac)"

section \<open>Encryption\<close>

definition EncryptConcat :: "gcm_seal \<Rightarrow> bytes option \<Rightarrow> bytes \<Rightarrow> bytes \<Rightarrow> (CryptoError, bytes) result" where
  "EncryptConcat gcm_seal rnd plaintext key =
    (if length key \<noteq> 32 then Inl ErrKeyWrongLength
     else case rnd of
       None \<Rightarrow> Inl ErrRandom
     | Some nonce \<Rightarrow> Inr (nonce @ gcm_seal key nonce plaintext []))"

definition DecryptConcat :: "gcm_open \<Rightarrow> bytes \<Rightarrow> bytes \<Rightarrow> (CryptoError, bytes) result" where
  "DecryptConcat gcm_open ciphertext key =
    (if length key \<noteq> 32 then Inl ErrKeyWrongLength
     else if length ciphertext < 12 + 16 then Inl ErrDecryptFailed
     else case gcm_open key (take 12 ciphertext) (drop 12 ciphertext) [] of
       None \<Rightarrow> Inl ErrDecryptFailed
     | Some plaintext \<Rightarrow> Inr plaintext)"

definition FromPassphrase :: "(bytes \<Rightarrow> bytes) \<Rightarrow> string \<Rightarrow> bytes" where
  "FromPassphrase sha256 passphrase = sha256 (bytes_of passphrase)"

record EncryptedData =
  ed_Ciphertext :: bytes
  ed_Nonce :: bytes
  ed_Tag :: bytes

definition Encrypt :: "gcm_seal \<Rightarrow> bytes option \<Rightarrow> bytes \<Rightarrow> bytes \<Rightarrow> bytes \<Rightarrow> (CryptoError, EncryptedData) result" where
  "Encrypt gcm_seal rnd plaintext key aad =
    (if length key \<noteq> 32 then Inl (ErrCrypto ''Encrypt: key must be 32 bytes for AES-256'')
     else case rnd of
       None \<Rightarrow> Inl (ErrCrypto ''Encrypt: failed to generate nonce'')
     | Some nonce \<Rightarrow>
         let sealed = gcm_seal key nonce plaintext aad;
             ctLen = length sealed - 16
         in Inr \<lparr>ed_Ciphertext = take ctLen sealed, ed_Nonce = nonce, ed_Tag = drop ctLen sealed\<rparr>)"

definition Decrypt :: "gcm_open \<Rightarrow> EncryptedData \<Rightarrow> bytes \<Rightarrow> bytes \<Rightarrow> (CryptoError, bytes) result" where
  "Decrypt gcm_open ed key aad =
    (if length key \<noteq> 32 then Inl (ErrCrypto ''Decrypt: key must be 32 bytes for AES-256'')
     else if length (ed_Nonce ed) \<noteq> 12 then Inl (ErrCrypto ''Decrypt: nonce must be 12 bytes'')
     else if length (ed_Tag ed) \<noteq> 16 then Inl (ErrCrypto ''Decrypt: tag must be 16 bytes'')
     else case gcm_open key (ed_Nonce ed) (ed_Ciphertext ed @ ed_Tag ed) aad of
       None \<Rightarrow> Inl (ErrCrypto ''cipher: message authentication failed'')
     | Some plaintext \<Rightarrow> Inr plaintext)"

definition DecryptWithTag :: "gcm_open \<Rightarrow> bytes \<Rightarrow> bytes \<Rightarrow> bytes \<Rightarrow> bytes \<Rightarrow> bytes \<Rightarrow> (CryptoError, bytes) result" where
  "DecryptWithTag gcm_open ciphertext nonce tag key aad =
    Decrypt gcm_open \<lparr>ed_Ciphertext = ciphertext, ed_Nonce = nonce, ed_Tag = tag\<rparr> key aad"

section \<open>Envelopes\<close>

record Envelope =
  env_Ciphertext :: bytes
  env_EncryptedDEK :: bytes
  env_Nonce :: bytes
  env_DataTag :: bytes
  env_DEKTag :: bytes
  env_KEKVersion :: int

text \<open>The three reads of the random source are the data key and the two nonces.\<close>

definition EnvelopeEncrypt ::
  "gcm_seal \<Rightarrow> bytes option \<Rightarrow> bytes option \<Rightarrow> bytes option \<Rightarrow> bytes \<Rightarrow> bytes \<Rightarrow> int \<Rightarrow> (CryptoError, Envelope) result" where
  "EnvelopeEncrypt gcm_seal r_dek r_wrap r_data plaintext kek kekVersion =
    rbind (GenerateDEK r_dek) (\<lambda>dek.
    rbind (Encrypt gcm_seal r_wrap dek kek []) (\<lambda>dekEnc.
    rbind (Encrypt gcm_seal r_data plaintext dek []) (\<lambda>dataEnc.
      Inr \<lparr>env_Ciphertext = ed_Ciphertext dataEnc,
           env_EncryptedDEK = ed_Nonce dekEnc @ ed_Ciphertext dekEnc @ ed_Tag dekEnc,
           env_Nonce = ed_Nonce dataEnc, env_DataTag = ed_Tag dataEnc, env_DEKTag = ed_Tag dekEnc,
           env_KEKVersion = kekVersion\<rparr>)))"

definition EnvelopeDecrypt :: "gcm_open \<Rightarrow> Envelope \<Rightarrow> bytes \<Rightarrow> (CryptoError, bytes) result" where
  "EnvelopeDecrypt gcm_open env kek =
    (if length (env_EncryptedDEK env) < 28 then Inl (ErrCrypto ''envelope: EncryptedDEK too short'')
     else
       let dekNonce = take 12 (env_EncryptedDEK env);
           dekRemainder = drop 12 (env_EncryptedDEK env);
           dekTag = drop (length dekRemainder - 16) dekRemainder;
           dekCiphertext = take (length dekRemainder - 16) dekRemainder
       in case Decrypt gcm_open \<lparr>ed_Ciphertext = dekCiphertext, ed_Nonce = dekNonce, ed_Tag = dekTag\<rparr> kek [] of
            Inl _ \<Rightarrow> Inl ErrDEKUnwrapFailed
          | Inr dek \<Rightarrow>
              Decrypt gcm_open \<lparr>ed_Ciphertext = env_Ciphertext env, ed_Nonce = env_Nonce env, ed_Tag = env_DataTag env\<rparr> dek [])"

definition EnvelopeDecryptMulti :: "gcm_open \<Rightarrow> Envelope \<Rightarrow> bytes \<Rightarrow> bytes option \<Rightarrow> (CryptoError, bytes) result" where
  "EnvelopeDecryptMulti gcm_open env currentKEK previousKEK =
    (case EnvelopeDecrypt gcm_open env currentKEK of
       Inr pt \<Rightarrow> Inr pt
     | Inl err \<Rightarrow>
         (case previousKEK of
            None \<Rightarrow> Inl err
          | Some prev \<Rightarrow> EnvelopeDecrypt gcm_open env prev))"

section \<open>Key derivation\<close>

type_synonym hkdf_extract = "bytes \<Rightarrow> bytes \<Rightarrow> (string, bytes) result"
type_synonym hkdf_expand = "bytes \<Rightarrow> string \<Rightarrow> nat \<Rightarrow> (string, bytes) result"

definition DeriveKey ::
  "hkdf_extract \<Rightarrow> hkdf_expand \<Rightarrow> bytes \<Rightarrow> bytes option \<Rightarrow> bytes \<Rightarrow> int \<Rightarrow> (CryptoError, bytes) result" where
  "DeriveKey extract expand ikm salt info len =
    (if ikm = [] then Inl (ErrCrypto ''DeriveKey: ikm cannot be empty'')
     else if len \<le> 0 \<or> len > 255 then Inl (ErrCrypto ''DeriveKey: length must be 1-255'')
     else
       let saltToUse = (case salt of None \<Rightarrow> replicate 32 0 | Some s \<Rightarrow> s) in
       case extract ikm saltToUse of
         Inl err \<Rightarrow> Inl (ErrCrypto (''DeriveKey: extract failed: '' @ err))
       | Inr prk \<Rightarrow>
           (case expand prk (string_of info) (nat len) of
              Inl err \<Rightarrow> Inl (ErrCrypto err)
            | Inr k \<Rightarrow> Inr k))"

definition SessionKEK :: "hkdf_extract \<Rightarrow> hkdf_expand \<Rightarrow> bytes \<Rightarrow> string \<Rightarrow> (CryptoError, bytes) result" where
  "SessionKEK extract expand masterKey authCtxID =
    DeriveKey extract expand masterKey None (bytes_of (''nssaa-session-kek:'' @ authCtxID)) 32"

definition TLSExporter ::
  "hkdf_extract \<Rightarrow> hkdf_expand \<Rightarrow> bytes \<Rightarrow> string \<Rightarrow> bytes \<Rightarrow> int \<Rightarrow> (CryptoError, bytes) result" where
  "TLSExporter extract expand masterSecret label context len =
    (if masterSecret = [] then Inl (ErrCrypto ''TLSExporter: masterSecret cannot be empty'')
     else if len \<le> 0 then Inl (ErrCrypto ''TLSExporter: length must be positive'')
     else case extract masterSecret [] of
       Inl err \<Rightarrow> Inl (ErrCrypto (''TLSExporter: extract failed: '' @ err))
     | Inr prk \<Rightarrow>
         let infoStr = (if context \<noteq> [] then label @ [CHR 0x00] @ string_of context else label @ [CHR 0x00]) in
         (case expand prk infoStr (nat len) of
            Inl err \<Rightarrow> Inl (ErrCrypto err)
          | Inr k \<Rightarrow> Inr k))"

section \<open>Key managers\<close>

record SoftKeyManager =
  km_masterKey :: bytes
  km_currentVer :: int
  km_kekOverlap :: int
  km_previousKey :: "bytes option"

definition NewSoftKeyManager :: "string \<Rightarrow> (CryptoError, SoftKeyManager) result" where
  "NewSoftKeyManager masterKeyHex =
    (if length masterKeyHex \<noteq> 64 then Inl (ErrCrypto ''SoftKeyManager: key must be 64 hex chars'')
     else case DecodeString masterKeyHex of
       None \<Rightarrow> Inl (ErrCrypto ''encoding/hex: invalid byte'')
     | Some key \<Rightarrow>
         Inr \<lparr>km_masterKey = key, km_currentVer = 1, km_kekOverlap = 30, km_previousKey = None\<rparr>)"

definition SoftKeyManager_Wrap ::
  "gcm_seal \<Rightarrow> bytes option \<Rightarrow> bytes \<Rightarrow> SoftKeyManager \<Rightarrow> (CryptoError, bytes \<times> int) result" where
  "SoftKeyManager_Wrap gcm_seal rnd dek m =
    rbind (Encrypt gcm_seal rnd dek (km_masterKey m) []) (\<lambda>enc.
      Inr (ed_Nonce enc @ ed_Ciphertext enc @ ed_Tag enc, km_currentVer m))"

definition unwrapWithKey :: "gcm_open \<Rightarrow> bytes \<Rightarrow> bytes \<Rightarrow> (CryptoError, bytes) result" where
  "unwrapWithKey gcm_open wrappedDEK key =
    (if length wrappedDEK < 28 then Inl ErrEnvelopeMalformed
     else Decrypt gcm_open
       \<lparr>ed_Ciphertext = subslice 12 (length wrappedDEK - 16) wrappedDEK, ed_Nonce = take 12 wrappedDEK,
        ed_Tag = drop (length wrappedDEK - 16) wrappedDEK\<rparr> key [])"

definition SoftKeyManager_Unwrap :: "gcm_open \<Rightarrow> SoftKeyManager \<Rightarrow> bytes \<Rightarrow> (CryptoError, bytes) result" where
  "SoftKeyManager_Unwrap gcm_open m wrappedDEK =
    (case unwrapWithKey gcm_open wrappedDEK (km_masterKey m) of
       Inr dek \<Rightarrow> Inr dek
     | Inl _ \<Rightarrow>
         (case km_previousKey m of
            None \<Rightarrow> Inl ErrDEKUnwrapFailed
          | Some prev \<Rightarrow>
              (case unwrapWithKey gcm_open wrappedDEK prev of
                 Inr dek \<Rightarrow> Inr dek
               | Inl _ \<Rightarrow> Inl ErrDEKUnwrapFailed)))"

definition SoftKeyManager_GetKeyVersion :: "SoftKeyManager \<Rightarrow> (CryptoError, int) result" where
  "SoftKeyManager_GetKeyVersion m = Inr (km_currentVer m)"

definition Rotate :: "hkdf_extract \<Rightarrow> hkdf_expand \<Rightarrow> SoftKeyManager \<Rightarrow> (CryptoError, SoftKeyManager) result" where
  "Rotate extract expand m =
    rbind (DeriveKey extract expand (km_masterKey m) None
        (bytes_of (''nssaa-kek-rotation:v'' @ show_nat (nat (km_currentVer m + 1)))) 32) (\<lambda>newKey.
      Inr (m\<lparr>km_previousKey := Some (km_masterKey m), km_masterKey := newKey, km_currentVer := km_currentVer m + 1\<rparr>))"

definition SetOverlapDays :: "int \<Rightarrow> SoftKeyManager \<Rightarrow> SoftKeyManager" where
  "SetOverlapDays days m = m\<lparr>km_kekOverlap := days\<rparr>"

record SoftHSMKeyManager =
  hsm_libraryPath :: string
  hsm_tokenLabel :: string
  hsm_pin :: string

definition NewSoftHSMKeyManager :: "SoftHSMKeyManager \<Rightarrow> (CryptoError, SoftHSMKeyManager) result" where
  "NewSoftHSMKeyManager cfg =
    (if hsm_libraryPath cfg = '''' then Inl (ErrCrypto ''SoftHSMKeyManager: LibraryPath required'')
     else Inr \<lparr>hsm_libraryPath = hsm_libraryPath cfg, hsm_tokenLabel = hsm_tokenLabel cfg, hsm_pin = hsm_pin cfg\<rparr>)"

definition SoftHSM_Wrap :: "bytes option \<Rightarrow> bytes \<Rightarrow> SoftHSMKeyManager \<Rightarrow> (CryptoError, bytes \<times> int) result" where
  "SoftHSM_Wrap rnd dek m =
    Inl (ErrCrypto ''SoftHSMKeyManager.Wrap: not implemented (build with -tags=softhsm)'')"

definition SoftHSM_Unwrap :: "SoftHSMKeyManager \<Rightarrow> bytes \<Rightarrow> (CryptoError, bytes) result" where
  "SoftHSM_Unwrap m wrappedDEK =
    Inl (ErrCrypto ''SoftHSMKeyManager.Unwrap: not implemented (build with -tags=softhsm)'')"

section \<open>Secrets\<close>

record EncryptedSecret =
  sec_ID :: string
  sec_AaaConfigID :: string
  sec_Ciphertext :: bytes
  sec_Nonce :: bytes
  sec_Tag :: bytes
  sec_EncryptedDEK :: bytes
  sec_DEKVersion :: int
  sec_Version :: int
  sec_CreatedAt :: time
  sec_ExpiresAt :: time
  sec_IsActive :: bool

text \<open>The key manager is the pair of its operations and its state.\<close>

definition EncryptSecret ::
  "gcm_seal \<Rightarrow> (bytes option \<Rightarrow> bytes \<Rightarrow> 'm \<Rightarrow> (CryptoError, bytes \<times> int) result) \<Rightarrow> ('m \<Rightarrow> (CryptoError, int) result) \<Rightarrow>
   bytes option \<Rightarrow> bytes option \<Rightarrow> bytes option \<Rightarrow> time \<Rightarrow> string \<Rightarrow> 'm \<Rightarrow> (CryptoError, EncryptedSecret) result" where
  "EncryptSecret gcm_seal wrap version r_dek r_data r_wrap now plaintextSecret km =
    rbind (version km) (\<lambda>ver.
    rbind (GenerateDEK r_dek) (\<lambda>dek.
    rbind (Encrypt gcm_seal r_data (bytes_of plaintextSecret) dek []) (\<lambda>dataEnc.
    rbind (wrap r_wrap dek km) (\<lambda>wrapped.
      Inr \<lparr>sec_ID = '''', sec_AaaConfigID = '''', sec_Ciphertext = ed_Ciphertext dataEnc, sec_Nonce = ed_Nonce dataEnc, sec_Tag = ed_Tag dataEnc,
           sec_EncryptedDEK = fst wrapped, sec_DEKVersion = ver, sec_Version = 1,
           sec_CreatedAt = now, sec_ExpiresAt = now + 90 * 24 * 60 * Minute, sec_IsActive = True\<rparr>))))"

definition DecryptSecret ::
  "gcm_open \<Rightarrow> ('m \<Rightarrow> bytes \<Rightarrow> (CryptoError, bytes) result) \<Rightarrow> EncryptedSecret \<Rightarrow> 'm \<Rightarrow> (CryptoError, string) result" where
  "DecryptSecret gcm_open unwrap es km =
    rbind (unwrap km (sec_EncryptedDEK es)) (\<lambda>dek.
    rbind (Decrypt gcm_open \<lparr>ed_Ciphertext = sec_Ciphertext es, ed_Nonce = sec_Nonce es, ed_Tag = sec_Tag es\<rparr> dek []) (\<lambda>raw.
      Inr (string_of raw)))"

definition RotateSecret ::
  "gcm_seal \<Rightarrow> (bytes option \<Rightarrow> bytes \<Rightarrow> 'm \<Rightarrow> (CryptoError, bytes \<times> int) result) \<Rightarrow> ('m \<Rightarrow> (CryptoError, int) result) \<Rightarrow>
   bytes option \<Rightarrow> bytes option \<Rightarrow> bytes option \<Rightarrow> time \<Rightarrow> string \<Rightarrow> 'm \<Rightarrow> (CryptoError, EncryptedSecret) result" where
  "RotateSecret gcm_seal wrap version r_dek r_data r_wrap now plaintextSecret km =
    rbind (EncryptSecret gcm_seal wrap version r_dek r_data r_wrap now plaintextSecret km) (\<lambda>enc.
      Inr (enc\<lparr>sec_Version := sec_Version enc + 1\<rparr>))"

section \<open>Round trips\<close>

text \<open>A read of the random source delivers as many octets as were asked for.\<close>

abbreviation reads :: "bytes option \<Rightarrow> nat \<Rightarrow> bool" where
  "reads rnd n \<equiv> pred_option (\<lambda>b. length b = n) rnd"

lemma aead_okD:
  assumes "aead_ok gcm_seal gcm_open" "length k = 32" "length n = 12"
  shows "length (gcm_seal k n p a) = length p + 16" "gcm_open k n (gcm_seal k n p a) a = Some p"
  using assms by (simp_all add: aead_ok_def)

lemma DecryptConcat_EncryptConcat:
  assumes "aead_ok gcm_seal gcm_open" "reads rnd 12" "EncryptConcat gcm_seal rnd p key = Inr c"
  shows "DecryptConcat gcm_open c key = Inr p"
  using assms aead_okD [OF assms(1)]
  by (auto simp: EncryptConcat_def DecryptConcat_def split: if_splits option.splits)

lemma Encrypt_shape:
  assumes "aead_ok gcm_seal gcm_open" "reads rnd 12" "Encrypt gcm_seal rnd p key a = Inr ed"
  shows "length key = 32" "length (ed_Nonce ed) = 12" "length (ed_Tag ed) = 16" "length (ed_Ciphertext ed) = length p"
    "ed_Ciphertext ed @ ed_Tag ed = gcm_seal key (ed_Nonce ed) p a"
  using assms aead_okD [OF assms(1)] by (auto simp: Encrypt_def Let_def split: if_splits option.splits)

lemma Decrypt_Encrypt:
  assumes "aead_ok gcm_seal gcm_open" "reads rnd 12" "Encrypt gcm_seal rnd p key a = Inr ed"
  shows "Decrypt gcm_open ed key a = Inr p"
  using Encrypt_shape [OF assms] aead_okD [OF assms(1)] by (simp add: Decrypt_def)

lemma unwrapWithKey_packed:
  assumes "length (ed_Nonce ed) = 12" "length (ed_Tag ed) = 16"
  shows "unwrapWithKey gcm_open (ed_Nonce ed @ ed_Ciphertext ed @ ed_Tag ed) key = Decrypt gcm_open ed key []"
  using assms by (cases ed) (simp add: unwrapWithKey_def subslice_def)

lemma EnvelopeDecrypt_Encrypt:
  assumes "aead_ok gcm_seal gcm_open" "reads r_dek 32" "reads r_wrap 12" "reads r_data 12"
    "EnvelopeEncrypt gcm_seal r_dek r_wrap r_data p kek v = Inr env"
  shows "EnvelopeDecrypt gcm_open env kek = Inr p"
proof -
  obtain dek dekEnc dataEnc where d: "Encrypt gcm_seal r_wrap dek kek [] = Inr dekEnc"
    "Encrypt gcm_seal r_data p dek [] = Inr dataEnc"
    and env: "env = \<lparr>env_Ciphertext = ed_Ciphertext dataEnc,
           env_EncryptedDEK = ed_Nonce dekEnc @ ed_Ciphertext dekEnc @ ed_Tag dekEnc,
           env_Nonce = ed_Nonce dataEnc, env_DataTag = ed_Tag dataEnc, env_DEKTag = ed_Tag dekEnc,
           env_KEKVersion = v\<rparr>"
    using assms(5) by (auto simp: EnvelopeEncrypt_def)
  have "Decrypt gcm_open dekEnc kek [] = Inr dek" "Decrypt gcm_open dataEnc dek [] = Inr p"
    using Decrypt_Encrypt [OF assms(1)] assms(3,4) d by blast+
  then show ?thesis
    using Encrypt_shape(2,3) [OF assms(1,3) d(1)]
    by (cases dekEnc, cases dataEnc) (simp add: EnvelopeDecrypt_def env)
qed

section \<open>What a key manager promises\<close>

text \<open>
  A data key wrapped by a key manager in a usable state is unwrapped by it.  The round trip
  of secrets is proved for every key manager of this kind.
\<close>

locale key_manager =
  fixes wrap :: "bytes option \<Rightarrow> bytes \<Rightarrow> 'm \<Rightarrow> (CryptoError, bytes \<times> int) result"
    and unwrap :: "'m \<Rightarrow> bytes \<Rightarrow> (CryptoError, bytes) result"
    and usable :: "'m \<Rightarrow> bool"
  assumes unwrap_wrap: "usable m \<Longrightarrow> reads rnd 12 \<Longrightarrow> wrap rnd dek m = Inr (w, v) \<Longrightarrow> unwrap m w = Inr dek"
begin

lemma secret_parts:
  assumes "aead_ok gcm_seal gcm_open" "reads r_data 12"
    "EncryptSecret gcm_seal wrap version r_dek r_data r_wrap now p m = Inr es"
  obtains dek v where "wrap r_wrap dek m = Inr (sec_EncryptedDEK es, v)"
    "Decrypt gcm_open \<lparr>ed_Ciphertext = sec_Ciphertext es, ed_Nonce = sec_Nonce es, ed_Tag = sec_Tag es\<rparr> dek [] = Inr (bytes_of p)"
proof -
  obtain dek enc wv ver where d: "Encrypt gcm_seal r_data (bytes_of p) dek [] = Inr enc" "wrap r_wrap dek m = Inr wv"
    and es: "es = \<lparr>sec_ID = '''', sec_AaaConfigID = '''', sec_Ciphertext = ed_Ciphertext enc, sec_Nonce = ed_Nonce enc,
      sec_Tag = ed_Tag enc, sec_EncryptedDEK = fst wv, sec_DEKVersion = ver, sec_Version = 1,
      sec_CreatedAt = now, sec_ExpiresAt = now + 90 * 24 * 60 * Minute, sec_IsActive = True\<rparr>"
    using assms(3) by (auto simp: EncryptSecret_def)
  show ?thesis
    using that [of dek "snd wv"] d(2) Decrypt_Encrypt [OF assms(1,2) d(1)] by (cases enc) (simp add: es)
qed

lemma secret_roundtrip:
  assumes "aead_ok gcm_seal gcm_open" "reads r_data 12" "reads r_wrap 12" "usable m"
    "EncryptSecret gcm_seal wrap version r_dek r_data r_wrap now p m = Inr es"
  shows "DecryptSecret gcm_open unwrap es m = Inr p"
proof -
  obtain dek v where "wrap r_wrap dek m = Inr (sec_EncryptedDEK es, v)"
    "Decrypt gcm_open \<lparr>ed_Ciphertext = sec_Ciphertext es, ed_Nonce = sec_Nonce es, ed_Tag = sec_Tag es\<rparr> dek []
      = Inr (bytes_of p)"
    using secret_parts [OF assms(1,2,5)] by blast
  then show ?thesis using unwrap_wrap [OF assms(4,3)] by (simp add: DecryptSecret_def)
qed

end

lemma SoftKeyManager_Wrap_parts:
  assumes "aead_ok gcm_seal gcm_open" "reads rnd 12" "SoftKeyManager_Wrap gcm_seal rnd dek m = Inr (w, v)"
  shows "unwrapWithKey gcm_open w (km_masterKey m) = Inr dek"
  using assms unwrapWithKey_packed Decrypt_Encrypt [OF assms(1,2)] Encrypt_shape(2,3) [OF assms(1,2)]
  by (fastforce simp: SoftKeyManager_Wrap_def)

interpretation skm: key_manager "SoftKeyManager_Wrap gcm_seal" "SoftKeyManager_Unwrap gcm_open" "\<lambda>m. aead_ok gcm_seal gcm_open"
  for gcm_seal gcm_open
  by unfold_locales (simp add: SoftKeyManager_Unwrap_def SoftKeyManager_Wrap_parts)

interpretation hsm: key_manager SoftHSM_Wrap SoftHSM_Unwrap "\<lambda>m. True"
  by unfold_locales (simp add: SoftHSM_Wrap_def)

lemma Rotate_parts:
  assumes "Rotate extract expand m = Inr m'"
  shows "km_previousKey m' = Some (km_masterKey m)" "km_currentVer m' = km_currentVer m + 1"
  using assms by (auto simp: Rotate_def)

lemma Unwrap_after_rotation:
  assumes "km_previousKey m' = Some k" "unwrapWithKey gcm_open w (km_masterKey m') = Inl e"
  shows "SoftKeyManager_Unwrap gcm_open m' w
    = (case unwrapWithKey gcm_open w k of Inl _ \<Rightarrow> Inl ErrDEKUnwrapFailed | Inr dek \<Rightarrow> Inr dek)"
  using assms by (simp add: SoftKeyManager_Unwrap_def split: sum.split)

lemma unwrapWithKey_rejects:
  assumes "gcm_open key (take 12 w) (drop 12 w) [] = None"
  shows "\<exists>e. unwrapWithKey gcm_open w key = Inl e"
proof -
  have "subslice 12 (length w - 16) w @ drop (length w - 16) w = drop 12 w" if "\<not> length w < 28"
  proof -
    have "drop (length w - 16) w = drop (length w - 28) (drop 12 w)" using that by simp
    moreover have "subslice 12 (length w - 16) w = take (length w - 28) (drop 12 w)" by (simp add: subslice_def)
    ultimately show ?thesis by (metis append_take_drop_id)
  qed
  then show ?thesis using assms by (auto simp: unwrapWithKey_def Decrypt_def)
qed

section \<open>A concrete instance of the primitives\<close>

text \<open>A cipher that leaves the text in the clear and takes the first half of the key as its
  tag satisfies what is relied on, and the keys of a rotation differ under it.\<close>

definition ex_seal :: gcm_seal where
  "ex_seal k n p a = p @ take 16 k"

definition ex_open :: gcm_open where
  "ex_open k n c a = (if length c \<ge> 16 \<and> drop (length c - 16) c = take 16 k then Some (take (length c - 16) c) else None)"

lemma ex_aead_ok: "aead_ok ex_seal ex_open"
  by (simp add: aead_ok_def ex_seal_def ex_open_def)

definition ex_km :: "byte \<Rightarrow> SoftKeyManager" where
  "ex_km b = \<lparr>km_masterKey = replicate 32 b, km_currentVer = 1, km_kekOverlap = 30, km_previousKey = None\<rparr>"

section \<open>Properties of the key management\<close>

text \<open>C15. Secrets across key rotations: what was encrypted under a soft key manager is
  decrypted by it and by the manager after one rotation, and is lost after a second one,
  because only one previous key is kept.  The hypotheses on the later keys say that they do
  not open the wrapped data key.\<close>

theorem secret_survives_one_rotation:
  assumes "aead_ok gcm_seal gcm_open" "reads r_data 12" "reads r_wrap 12"
    and "EncryptSecret gcm_seal (SoftKeyManager_Wrap gcm_seal) SoftKeyManager_GetKeyVersion
           r_dek r_data r_wrap now p m = Inr es"
    and "Rotate extract expand m = Inr m1" "Rotate extract expand m1 = Inr m2"
    and "gcm_open (km_masterKey m1) (take 12 (sec_EncryptedDEK es)) (drop 12 (sec_EncryptedDEK es)) [] = None"
    and "gcm_open (km_masterKey m2) (take 12 (sec_EncryptedDEK es)) (drop 12 (sec_EncryptedDEK es)) [] = None"
  shows "DecryptSecret gcm_open (SoftKeyManager_Unwrap gcm_open) es m = Inr p
    \<and> DecryptSecret gcm_open (SoftKeyManager_Unwrap gcm_open) es m1 = Inr p
    \<and> DecryptSecret gcm_open (SoftKeyManager_Unwrap gcm_open) es m2 = Inl ErrDEKUnwrapFailed"
proof -
  obtain dek v where w: "SoftKeyManager_Wrap gcm_seal r_wrap dek m = Inr (sec_EncryptedDEK es, v)"
    and d: "Decrypt gcm_open \<lparr>ed_Ciphertext = sec_Ciphertext es, ed_Nonce = sec_Nonce es, ed_Tag = sec_Tag es\<rparr> dek []
      = Inr (bytes_of p)"
    using skm.secret_parts [OF assms(1,2,4)] by blast
  obtain e1 e2 where e: "unwrapWithKey gcm_open (sec_EncryptedDEK es) (km_masterKey m1) = Inl e1"
    "unwrapWithKey gcm_open (sec_EncryptedDEK es) (km_masterKey m2) = Inl e2"
    using assms(7,8) unwrapWithKey_rejects by meson
  have "SoftKeyManager_Unwrap gcm_open m1 (sec_EncryptedDEK es) = Inr dek"
    using Unwrap_after_rotation [OF Rotate_parts(1) [OF assms(5)] e(1)] SoftKeyManager_Wrap_parts [OF assms(1,3) w] by simp
  moreover have "SoftKeyManager_Unwrap gcm_open m2 (sec_EncryptedDEK es) = Inl ErrDEKUnwrapFailed"
    using Unwrap_after_rotation [OF Rotate_parts(1) [OF assms(6)] e(2)] e(1) by simp
  ultimately show ?thesis
    using skm.secret_roundtrip [OF assms(1,2,3,1,4)] d by (simp add: DecryptSecret_def)
qed

theorem secret_survives_one_rotation_witness:
  "\<exists>es m1. EncryptSecret ex_seal (SoftKeyManager_Wrap ex_seal) SoftKeyManager_GetKeyVersion
       (Some (replicate 32 7)) (Some (replicate 12 1)) (Some (replicate 12 2)) 0 ''radius'' (ex_km 0) = Inr es
     \<and> Rotate (\<lambda>ikm salt. Inr ikm) (\<lambda>prk info n. Inr (map (\<lambda>b. b + 1) prk)) (ex_km 0) = Inr m1
     \<and> DecryptSecret ex_open (SoftKeyManager_Unwrap ex_open) es m1 = Inr ''radius''"
proof -
  let ?ex = "\<lambda>(ikm :: bytes) (salt :: bytes). (Inr ikm :: (string, bytes) result)"
  let ?exp = "\<lambda>(prk :: bytes) (info :: string) (n :: nat). (Inr (map (\<lambda>b. b + 1) prk) :: (string, bytes) result)"
  obtain es where es: "EncryptSecret ex_seal (SoftKeyManager_Wrap ex_seal) SoftKeyManager_GetKeyVersion
       (Some (replicate 32 7)) (Some (replicate 12 1)) (Some (replicate 12 2)) 0 ''radius'' (ex_km 0) = Inr es"
    and w: "sec_EncryptedDEK es = replicate 12 2 @ replicate 32 7 @ replicate 16 0"
    by (simp add: EncryptSecret_def SoftKeyManager_GetKeyVersion_def GenerateDEK_def RandomBytes_def Encrypt_def
        SoftKeyManager_Wrap_def ex_km_def ex_seal_def)
  obtain m1 where m1: "Rotate ?ex ?exp (ex_km 0) = Inr m1" "km_masterKey m1 = replicate 32 1"
    by (simp add: Rotate_def DeriveKey_def ex_km_def)
  obtain m2 where m2: "Rotate ?ex ?exp m1 = Inr m2" "km_masterKey m2 = replicate 32 2"
    using m1(2) by (simp add: Rotate_def DeriveKey_def)
  have "DecryptSecret ex_open (SoftKeyManager_Unwrap ex_open) es m1 = Inr ''radius''"
    using secret_survives_one_rotation [OF ex_aead_ok _ _ es m1(1) m2(1)]
    by (simp add: w m1(2) m2(2) ex_open_def)
  then show ?thesis using es m1(1) by blast
qed

end
