(* ===== verification/Storage_Pg.thy ===== *)
theory Storage_Pg
  imports Storage Crypto
begin

text \<open>
  \<^verbatim>\<open>internal/storage/postgres\<close>: the repositories of the N58 and N60 sessions.  A table is the
  list of its rows, a statement either takes effect as written or fails with an error given
  as an argument and changes nothing.  Identities and EAP state are stored encrypted; the
  cipher is that of \<^verbatim>\<open>Crypto\<close>.  The repositories are shown to satisfy the
  contract \<^verbatim>\<open>session_repository\<close> on which the handlers and the reverse-path coordinator rely.
\<close>

section \<open>The contract of a session repository\<close>

text \<open>A stored session agrees with the saved one in everything but the times and the AMF
  instance.\<close>

definition stored :: "NssaaSession \<Rightarrow> NssaaSession \<Rightarrow> bool" where
  "stored x y =
    (nss_AuthCtxID y = nss_AuthCtxID x \<and> nss_GPSI y = nss_GPSI x \<and> nss_SnssaiSST y = nss_SnssaiSST x
     \<and> nss_SnssaiSD y = nss_SnssaiSD x \<and> nss_ReauthURI y = nss_ReauthURI x \<and> nss_RevocURI y = nss_RevocURI x
     \<and> nss_EapPayload y = nss_EapPayload x \<and> nss_Status y = nss_Status x
     \<and> nss_CallbackOwner y = nss_CallbackOwner x \<and> nss_HasAIWContext y = nss_HasAIWContext x)"

text \<open>The first argument of \<^verbatim>\<open>load\<close> and of \<^verbatim>\<open>save\<close> is what the environment contributes to the
  call: failures and random octets.\<close>

locale session_repository =
  fixes load :: "'q \<Rightarrow> 's \<Rightarrow> string \<Rightarrow> (StoreError, 'x) result"
    and save :: "'r \<Rightarrow> time \<Rightarrow> 'x \<Rightarrow> 's \<Rightarrow> 's \<times> StoreError option"
    and peek :: "'s \<Rightarrow> string \<Rightarrow> 'x option"
    and env_ok :: "'r \<Rightarrow> bool"
    and inv :: "'s \<Rightarrow> bool"
    and key :: "'x \<Rightarrow> string"
    and same :: "'x \<Rightarrow> 'x \<Rightarrow> bool"
  assumes load_peek: "inv st \<Longrightarrow> load q st i = Inr x \<Longrightarrow> peek st i = Some x"
    and load_missing: "inv st \<Longrightarrow> peek st i = None \<Longrightarrow> \<exists>e. load q st i = Inl e"
    and peek_id: "inv st \<Longrightarrow> peek st i = Some x \<Longrightarrow> key x = i"
    and save_ok: "inv st \<Longrightarrow> env_ok r \<Longrightarrow> save r now x st = (st', None) \<Longrightarrow>
          \<exists>y. peek st' = (peek st)(key x \<mapsto> y) \<and> same x y"
    and save_err: "inv st \<Longrightarrow> save r now x st = (st', Some e) \<Longrightarrow> st' = st"
    and save_inv: "inv st \<Longrightarrow> save r now x st = (st', er) \<Longrightarrow> inv st'"
begin

lemma save_other:
  assumes "inv st" "env_ok r" "j \<noteq> key x"
  shows "peek (fst (save r now x st)) j = peek st j"
proof (cases "save r now x st")
  case (Pair st' er)
  then show ?thesis using assms save_ok [of st r now x st'] save_err [of st r now x st'] by (cases er) auto
qed

lemma save_inv_fst: "inv st \<Longrightarrow> inv (fst (save r now x st))"
  using save_inv by (metis prod.collapse)

lemma load_id: "inv st \<Longrightarrow> load q st i = Inr x \<Longrightarrow> key x = i"
  using load_peek peek_id by blast

lemma load_after_save:
  assumes "inv st" "env_ok r" "save r now x st = (st', None)" "load q st' (key x) = Inr y"
  shows "same x y"
  using save_ok [OF assms(1-3)] load_peek [OF save_inv [OF assms(1,3)] assms(4)] by auto

end

section \<open>Field encryption\<close>

definition NewEncryptor :: "bytes \<Rightarrow> (CryptoError, bytes) result" where
  "NewEncryptor key = (if length key \<noteq> 32 then Inl (ErrCrypto ''key must be 32 bytes'') else Inr key)"

definition encryptField :: "gcm_seal \<Rightarrow> bytes option \<Rightarrow> bytes \<Rightarrow> string \<Rightarrow> (CryptoError, string) result" where
  "encryptField gcm_seal rnd enc plaintext =
    (if plaintext = '''' then Inr ''''
     else rbind (EncryptConcat gcm_seal rnd (bytes_of plaintext) enc) (\<lambda>ciphertext. Inr (b64_encode ciphertext)))"

definition decryptField :: "gcm_open \<Rightarrow> bytes \<Rightarrow> string \<Rightarrow> (CryptoError, string) result" where
  "decryptField gcm_open enc encoded =
    (if encoded = '''' then Inr ''''
     else case b64_decode encoded of
       None \<Rightarrow> Inl (ErrCrypto ''illegal base64 data'')
     | Some ciphertext \<Rightarrow> rbind (DecryptConcat gcm_open ciphertext enc) (\<lambda>plaintext. Inr (string_of plaintext)))"

definition encryptState :: "gcm_seal \<Rightarrow> bytes option \<Rightarrow> bytes \<Rightarrow> bytes \<Rightarrow> (CryptoError, bytes) result" where
  "encryptState gcm_seal rnd enc state = EncryptConcat gcm_seal rnd state enc"

definition decryptState :: "gcm_open \<Rightarrow> bytes \<Rightarrow> bytes \<Rightarrow> (CryptoError, bytes) result" where
  "decryptState gcm_open enc ciphertext = DecryptConcat gcm_open ciphertext enc"

text \<open>A caller that drops the error is left with the zero value.\<close>

definition value_or_zero :: "('e, 'a list) result \<Rightarrow> 'a list" where
  "value_or_zero r = (case r of Inl _ \<Rightarrow> [] | Inr v \<Rightarrow> v)"

lemma EncryptConcat_nonempty: "EncryptConcat gcm_seal rnd p enc = Inr c \<Longrightarrow> reads rnd 12 \<Longrightarrow> c \<noteq> []"
  by (auto simp: EncryptConcat_def split: if_splits option.splits)

lemma decryptField_encryptField [codec_simps]:
  assumes "aead_ok gcm_seal gcm_open" "reads rnd 12" "encryptField gcm_seal rnd enc p = Inr c"
  shows "decryptField gcm_open enc c = Inr p"
  using assms DecryptConcat_EncryptConcat [OF assms(1,2)] EncryptConcat_nonempty
  by (fastforce simp: encryptField_def decryptField_def split: if_splits)

lemma decryptState_encryptState [codec_simps]:
  assumes "aead_ok gcm_seal gcm_open" "reads rnd 12" "encryptState gcm_seal rnd enc p = Inr c"
  shows "decryptState gcm_open enc c = Inr p"
  using assms DecryptConcat_EncryptConcat [OF assms(1,2)] by (simp add: encryptState_def decryptState_def)

section \<open>Tables\<close>

text \<open>A table is the list of its rows; a query by identifier returns the first row that has it.\<close>

definition find_row :: "('r \<Rightarrow> string) \<Rightarrow> string \<Rightarrow> 'r list \<Rightarrow> 'r option" where
  "find_row rid i t = find (\<lambda>r. rid r = i) t"

definition pg_ids :: "('r \<Rightarrow> string) \<Rightarrow> 'r list \<Rightarrow> string list" where
  "pg_ids rid t = map rid t"

lemma find_row_id: "find_row rid i t = Some r \<Longrightarrow> rid r = i"
  by (auto simp: find_row_def find_Some_iff)

lemma find_row_None: "find_row rid i t = None \<longleftrightarrow> i \<notin> set (pg_ids rid t)"
  by (induction t) (auto simp: find_row_def pg_ids_def)

lemma has_row_iff: "list_ex (\<lambda>r. rid r = i) t \<longleftrightarrow> i \<in> set (pg_ids rid t)"
  by (induction t) (auto simp: pg_ids_def)

lemma find_row_append:
  "find_row rid i (t @ [r]) = (case find_row rid i t of None \<Rightarrow> if rid r = i then Some r else None | Some x \<Rightarrow> Some x)"
  by (induction t) (simp_all add: find_row_def)

lemma find_row_map:
  assumes "\<And>r. rid (f r) = rid r"
  shows "find_row rid i (map f t) = map_option f (find_row rid i t)"
  using assms by (induction t) (simp_all add: find_row_def)

text \<open>What a table shows under an identifier, and how an update and an insertion change it.\<close>

definition table_view :: "('r \<Rightarrow> string) \<Rightarrow> ('r \<Rightarrow> 'x) \<Rightarrow> 'r list \<Rightarrow> string \<Rightarrow> 'x option" where
  "table_view rid v t i = map_option v (find_row rid i t)"

lemma table_view_update:
  assumes "find_row rid i t = Some r0" "\<And>r. rid (f r) = rid r"
  shows "table_view rid v (map (\<lambda>r. if rid r = i then f r else r) t) = (table_view rid v t)(i \<mapsto> v (f r0))"
proof
  fix j
  have f: "find_row rid j (map (\<lambda>r. if rid r = i then f r else r) t) = map_option (\<lambda>r. if rid r = i then f r else r) (find_row rid j t)"
    by (rule find_row_map) (simp add: assms(2))
  show "table_view rid v (map (\<lambda>r. if rid r = i then f r else r) t) j = ((table_view rid v t)(i \<mapsto> v (f r0))) j"
  proof (cases "j = i")
    case True
    then show ?thesis using assms(1) f find_row_id [OF assms(1)] by (simp add: table_view_def)
  next
    case False
    then show ?thesis using f by (cases "find_row rid j t") (auto simp: table_view_def dest: find_row_id)
  qed
qed

lemma table_view_insert:
  assumes "rid r \<notin> set (pg_ids rid t)"
  shows "table_view rid v (t @ [r]) = (table_view rid v t)(rid r \<mapsto> v r)"
  using assms by (auto simp: fun_eq_iff table_view_def find_row_append find_row_None [symmetric] split: option.split)

section \<open>N58 sessions\<close>

record nssaaRow =
  nr_AuthCtxID :: string
  nr_GPSI :: string
  nr_SnssaiSST :: byte
  nr_SnssaiSD :: string
  nr_AMFInstanceID :: string
  nr_AMFIP :: "string option"
  nr_AMFRegion :: string
  nr_AAAConfigID :: "string option"
  nr_EAPSessionState :: bytes
  nr_NssaaStatus :: string
  nr_AuthResult :: string
  nr_EAPRounds :: int
  nr_MaxEAPRounds :: int
  nr_EAPLastNonce :: string
  nr_FailureReason :: string
  nr_FailureCause :: string
  nr_ReauthNotifURI :: string
  nr_RevocNotifURI :: string
  nr_CallbackOwner :: string
  nr_HasAIWContext :: bool
  nr_CreatedAt :: time
  nr_UpdatedAt :: time
  nr_ExpiresAt :: time
  nr_CompletedAt :: "time option"
  nr_TerminatedAt :: "time option"

definition sessionToRow :: "time \<Rightarrow> NssaaSession \<Rightarrow> nssaaRow" where
  "sessionToRow now s =
    \<lparr>nr_AuthCtxID = nss_AuthCtxID s, nr_GPSI = nss_GPSI s, nr_SnssaiSST = nss_SnssaiSST s, nr_SnssaiSD = nss_SnssaiSD s,
     nr_AMFInstanceID = nss_AmfInstance s, nr_AMFIP = None, nr_AMFRegion = '''', nr_AAAConfigID = None,
     nr_EAPSessionState = nss_EapPayload s, nr_NssaaStatus = nss_Status s, nr_AuthResult = '''',
     nr_EAPRounds = 0, nr_MaxEAPRounds = 0, nr_EAPLastNonce = '''', nr_FailureReason = '''', nr_FailureCause = '''',
     nr_ReauthNotifURI = nss_ReauthURI s, nr_RevocNotifURI = nss_RevocURI s, nr_CallbackOwner = nss_CallbackOwner s,
     nr_HasAIWContext = nss_HasAIWContext s,
     nr_CreatedAt = (if nss_CreatedAt s = zero_time then now else nss_CreatedAt s),
     nr_UpdatedAt = (if nss_UpdatedAt s = zero_time then now else nss_UpdatedAt s),
     nr_ExpiresAt = (if nss_ExpiresAt s = zero_time then now + 5 * Minute else nss_ExpiresAt s),
     nr_CompletedAt = None, nr_TerminatedAt = None\<rparr>"

definition rowToSession :: "nssaaRow \<Rightarrow> NssaaSession" where
  "rowToSession s =
    \<lparr>nss_AuthCtxID = nr_AuthCtxID s, nss_GPSI = nr_GPSI s, nss_SnssaiSST = nr_SnssaiSST s, nss_SnssaiSD = nr_SnssaiSD s,
     nss_AmfInstance = nr_AMFInstanceID s, nss_ReauthURI = nr_ReauthNotifURI s, nss_RevocURI = nr_RevocNotifURI s,
     nss_EapPayload = nr_EAPSessionState s, nss_Status = nr_NssaaStatus s, nss_CallbackOwner = nr_CallbackOwner s,
     nss_HasAIWContext = nr_HasAIWContext s, nss_CreatedAt = nr_CreatedAt s, nss_UpdatedAt = nr_UpdatedAt s,
     nss_ExpiresAt = nr_ExpiresAt s\<rparr>"

text \<open>A row of the table holds the identity and the EAP state encrypted, beside the hash of the
  identity.  A row is unique by its identifier and its time of creation.\<close>

type_synonym nssaa_table = "(nssaaRow \<times> string) list"

abbreviation nrow_id :: "nssaaRow \<times> string \<Rightarrow> string" where
  "nrow_id \<equiv> (\<lambda>r. nr_AuthCtxID (fst r))"

text \<open>What the environment contributes to a save: the nonces of the two encryptions of each of
  the two statements, and whether a statement fails.\<close>

record pg_env =
  pe_upd_state :: "bytes option"
  pe_upd_field :: "bytes option"
  pe_ins_state :: "bytes option"
  pe_ins_field :: "bytes option"
  pe_upd_fault :: "string option"
  pe_ins_fault :: "string option"

record pg_cfg =
  pc_seal :: gcm_seal
  pc_open :: gcm_open
  pc_sha256 :: "bytes \<Rightarrow> bytes"
  pc_enc :: bytes
  pc_jsonb :: "bytes \<Rightarrow> bytes"

definition row_update :: "nssaaRow \<Rightarrow> string \<Rightarrow> bytes \<Rightarrow> string \<Rightarrow> nssaaRow \<times> string \<Rightarrow> nssaaRow \<times> string" where
  "row_update s encryptedGPSI stateCiphertext hash old =
    (let r = fst old in
     (\<lparr>nr_AuthCtxID = nr_AuthCtxID r, nr_GPSI = encryptedGPSI, nr_SnssaiSST = nr_SnssaiSST s, nr_SnssaiSD = nr_SnssaiSD s,
       nr_AMFInstanceID = nr_AMFInstanceID r, nr_AMFIP = nr_AMFIP r, nr_AMFRegion = nr_AMFRegion r,
       nr_AAAConfigID = nr_AAAConfigID r, nr_EAPSessionState = stateCiphertext, nr_NssaaStatus = nr_NssaaStatus s,
       nr_AuthResult = nr_AuthResult s, nr_EAPRounds = nr_EAPRounds s, nr_MaxEAPRounds = nr_MaxEAPRounds r,
       nr_EAPLastNonce = nr_EAPLastNonce s, nr_FailureReason = nr_FailureReason s, nr_FailureCause = nr_FailureCause s,
       nr_ReauthNotifURI = nr_ReauthNotifURI s, nr_RevocNotifURI = nr_RevocNotifURI s,
       nr_CallbackOwner = nr_CallbackOwner s, nr_HasAIWContext = nr_HasAIWContext s, nr_CreatedAt = nr_CreatedAt r,
       nr_UpdatedAt = nr_UpdatedAt s, nr_ExpiresAt = nr_ExpiresAt s, nr_CompletedAt = nr_CompletedAt s,
       nr_TerminatedAt = nr_TerminatedAt s\<rparr>, hash))"

definition updateRow :: "pg_cfg \<Rightarrow> pg_env \<Rightarrow> nssaaRow \<Rightarrow> nssaa_table \<Rightarrow> nssaa_table \<times> StoreError option" where
  "updateRow c e s t =
    (case encryptState (pc_seal c) (pe_upd_state e) (pc_enc c) (nr_EAPSessionState s) of
       Inl _ \<Rightarrow> (t, Some (ErrStoreOther ''nssaa update: encrypt state''))
     | Inr stateCiphertext \<Rightarrow>
         (case encryptField (pc_seal c) (pe_upd_field e) (pc_enc c) (nr_GPSI s) of
            Inl _ \<Rightarrow> (t, Some (ErrStoreOther ''nssaa update: encrypt gpsi''))
          | Inr encryptedGPSI \<Rightarrow>
              (case pe_upd_fault e of
                 Some err \<Rightarrow> (t, Some (ErrStoreOther (''nssaa update: '' @ err)))
               | None \<Rightarrow>
                   if \<not> list_ex (\<lambda>r. nr_AuthCtxID (fst r) = nr_AuthCtxID s) t then (t, Some ErrStoreSessionNotFound)
                   else (map (\<lambda>r. if nr_AuthCtxID (fst r) = nr_AuthCtxID s
                                  then row_update s encryptedGPSI stateCiphertext (HashGPSI (pc_sha256 c) (nr_GPSI s)) r
                                  else r) t, None))))"

definition createRow :: "pg_cfg \<Rightarrow> pg_env \<Rightarrow> nssaaRow \<Rightarrow> nssaa_table \<Rightarrow> nssaa_table \<times> StoreError option" where
  "createRow c e s t =
    (case encryptState (pc_seal c) (pe_ins_state e) (pc_enc c) (nr_EAPSessionState s) of
       Inl _ \<Rightarrow> (t, Some (ErrStoreOther ''nssaa create: encrypt state''))
     | Inr stateCiphertext \<Rightarrow>
         (case encryptField (pc_seal c) (pe_ins_field e) (pc_enc c) (nr_GPSI s) of
            Inl _ \<Rightarrow> (t, Some (ErrStoreOther ''nssaa create: encrypt gpsi''))
          | Inr encryptedGPSI \<Rightarrow>
              (case pe_ins_fault e of
                 Some err \<Rightarrow> (t, Some (ErrStoreOther err))
               | None \<Rightarrow>
                   if list_ex (\<lambda>r. nr_AuthCtxID (fst r) = nr_AuthCtxID s \<and> nr_CreatedAt (fst r) = nr_CreatedAt s) t
                   then (t, Some (ErrStoreOther ''duplicate key value violates unique constraint''))
                   else (t @ [(s\<lparr>nr_GPSI := encryptedGPSI, nr_EAPSessionState := stateCiphertext,
                                nr_CompletedAt := None, nr_TerminatedAt := None\<rparr>,
                              HashGPSI (pc_sha256 c) (nr_GPSI s))], None))))"

definition scanRow :: "pg_cfg \<Rightarrow> nssaaRow \<times> string \<Rightarrow> nssaaRow" where
  "scanRow c r =
    (fst r)\<lparr>nr_GPSI := value_or_zero (decryptField (pc_open c) (pc_enc c) (nr_GPSI (fst r))),
            nr_EAPSessionState :=
              (if nr_EAPSessionState (fst r) \<noteq> []
               then value_or_zero (decryptState (pc_open c) (pc_enc c) (nr_EAPSessionState (fst r))) else [])\<rparr>"

definition loadRow :: "pg_cfg \<Rightarrow> string option \<Rightarrow> nssaa_table \<Rightarrow> string \<Rightarrow> (StoreError, nssaaRow) result" where
  "loadRow c fault t authCtxID =
    (case fault of
       Some err \<Rightarrow> Inl (ErrStoreOther (''nssaa load: '' @ err))
     | None \<Rightarrow>
         (case find_row nrow_id authCtxID t of
            None \<Rightarrow> Inl ErrStoreSessionNotFound
          | Some r \<Rightarrow> Inr (scanRow c r)))"

definition NssaaRepository_Load :: "pg_cfg \<Rightarrow> string option \<Rightarrow> nssaa_table \<Rightarrow> string \<Rightarrow> (StoreError, NssaaSession) result" where
  "NssaaRepository_Load c fault t i = rbind (loadRow c fault t i) (\<lambda>row. Inr (rowToSession row))"

definition NssaaRepository_Save ::
  "pg_cfg \<Rightarrow> pg_env \<Rightarrow> time \<Rightarrow> NssaaSession \<Rightarrow> nssaa_table \<Rightarrow> nssaa_table \<times> StoreError option" where
  "NssaaRepository_Save c e now s t =
    (let row = sessionToRow now s in
     case updateRow c e row t of
       (t', Some ErrStoreSessionNotFound) \<Rightarrow> createRow c e row t'
     | (t', err) \<Rightarrow> (t', err))"

definition NssaaRepository_Delete :: "string option \<Rightarrow> string \<Rightarrow> nssaa_table \<Rightarrow> nssaa_table \<times> StoreError option" where
  "NssaaRepository_Delete fault i t =
    (case fault of
       Some err \<Rightarrow> (t, Some (ErrStoreOther (''nssaa delete: '' @ err)))
     | None \<Rightarrow>
         let t' = filter (\<lambda>r. nr_AuthCtxID (fst r) \<noteq> i) t in
         if length t' = length t then (t, Some ErrStoreSessionNotFound) else (t', None))"

section \<open>The repository satisfies the contract\<close>

definition pg_inv :: "nssaa_table \<Rightarrow> bool" where
  "pg_inv t = distinct (pg_ids nrow_id t)"

definition pg_peek :: "pg_cfg \<Rightarrow> nssaa_table \<Rightarrow> string \<Rightarrow> NssaaSession option" where
  "pg_peek c t i = table_view nrow_id (\<lambda>r. rowToSession (scanRow c r)) t i"

definition pg_env_ok :: "pg_cfg \<Rightarrow> pg_env \<Rightarrow> bool" where
  "pg_env_ok c e = (aead_ok (pc_seal c) (pc_open c) \<and> reads (pe_upd_state e) 12 \<and> reads (pe_upd_field e) 12
     \<and> reads (pe_ins_state e) 12 \<and> reads (pe_ins_field e) 12)"

lemma row_update_id [simp]: "nr_AuthCtxID (fst (row_update s g cs h r)) = nr_AuthCtxID (fst r)"
  by (simp add: row_update_def Let_def)

lemma updateRow_ok:
  assumes "updateRow c e s t = (t', None)"
  obtains cs g where "encryptState (pc_seal c) (pe_upd_state e) (pc_enc c) (nr_EAPSessionState s) = Inr cs"
    "encryptField (pc_seal c) (pe_upd_field e) (pc_enc c) (nr_GPSI s) = Inr g"
    "nr_AuthCtxID s \<in> set (pg_ids nrow_id t)"
    "t' = map (\<lambda>r. if nr_AuthCtxID (fst r) = nr_AuthCtxID s then row_update s g cs (HashGPSI (pc_sha256 c) (nr_GPSI s)) r else r) t"
proof -
  obtain cs g where e: "encryptState (pc_seal c) (pe_upd_state e) (pc_enc c) (nr_EAPSessionState s) = Inr cs"
    "encryptField (pc_seal c) (pe_upd_field e) (pc_enc c) (nr_GPSI s) = Inr g"
    using assms by (auto simp: updateRow_def split: sum.splits)
  have m: "list_ex (\<lambda>r. nr_AuthCtxID (fst r) = nr_AuthCtxID s) t"
    and t': "t' = map (\<lambda>r. if nr_AuthCtxID (fst r) = nr_AuthCtxID s
        then row_update s g cs (HashGPSI (pc_sha256 c) (nr_GPSI s)) r else r) t"
    using assms by (auto simp: updateRow_def e split: option.splits if_splits)
  have "nr_AuthCtxID s \<in> set (pg_ids nrow_id t)" using m by (simp add: has_row_iff)
  then show ?thesis using that e t' by blast
qed

lemma createRow_ok:
  assumes "createRow c e s t = (t', None)"
  obtains cs g h where "encryptState (pc_seal c) (pe_ins_state e) (pc_enc c) (nr_EAPSessionState s) = Inr cs"
    "encryptField (pc_seal c) (pe_ins_field e) (pc_enc c) (nr_GPSI s) = Inr g"
    "t' = t @ [(s\<lparr>nr_GPSI := g, nr_EAPSessionState := cs, nr_CompletedAt := None, nr_TerminatedAt := None\<rparr>, h)]"
  using assms by (auto simp: createRow_def split: sum.splits option.splits if_splits)

lemma updateRow_err: "updateRow c e s t = (t', Some err) \<Longrightarrow> t' = t"
  by (auto simp: updateRow_def split: sum.splits option.splits if_splits)

lemma updateRow_missing: "updateRow c e s t = (t', Some ErrStoreSessionNotFound) \<Longrightarrow> nr_AuthCtxID s \<notin> set (pg_ids nrow_id t)"
  by (auto simp: updateRow_def has_row_iff split: sum.splits option.splits if_splits)

lemma createRow_err: "createRow c e s t = (t', Some err) \<Longrightarrow> t' = t"
  by (auto simp: createRow_def split: sum.splits option.splits if_splits)

lemma scan_encrypted:
  assumes "aead_ok (pc_seal c) (pc_open c)" "reads rs 12" "reads rf 12"
    "encryptState (pc_seal c) rs (pc_enc c) st = Inr cs" "encryptField (pc_seal c) rf (pc_enc c) p = Inr g"
    "nr_GPSI r = g" "nr_EAPSessionState r = cs"
  shows "scanRow c (r, h) = r\<lparr>nr_GPSI := p, nr_EAPSessionState := st\<rparr>"
  using decryptField_encryptField [OF assms(1,3,5)] decryptState_encryptState [OF assms(1,2,4)]
    EncryptConcat_nonempty [OF _ assms(2), of "pc_seal c" st "pc_enc c" cs] assms(4,6,7)
  by (simp add: scanRow_def value_or_zero_def encryptState_def)

lemma pg_peek_eq: "pg_peek c t = table_view nrow_id (\<lambda>r. rowToSession (scanRow c r)) t"
  by (simp add: fun_eq_iff pg_peek_def)

lemma save_update_peek:
  assumes "pg_env_ok c e" "updateRow c e (sessionToRow now s) t = (t', None)"
  shows "\<exists>y. pg_peek c t' = (pg_peek c t)(nss_AuthCtxID s \<mapsto> y) \<and> stored s y"
proof -
  let ?s = "sessionToRow now s"
  let ?h = "HashGPSI (pc_sha256 c) (nr_GPSI ?s)"
  have id: "nr_AuthCtxID ?s = nss_AuthCtxID s" by (simp add: sessionToRow_def)
  obtain cs g where u: "encryptState (pc_seal c) (pe_upd_state e) (pc_enc c) (nr_EAPSessionState ?s) = Inr cs"
    "encryptField (pc_seal c) (pe_upd_field e) (pc_enc c) (nr_GPSI ?s) = Inr g" "nr_AuthCtxID ?s \<in> set (pg_ids nrow_id t)"
    and t': "t' = map (\<lambda>r. if nr_AuthCtxID (fst r) = nr_AuthCtxID ?s then row_update ?s g cs ?h r else r) t"
    using updateRow_ok [OF assms(2)] by blast
  obtain r0 where r0: "find_row nrow_id (nr_AuthCtxID ?s) t = Some r0" using u(3) find_row_None by (metis not_None_eq)
  obtain a b where ab: "row_update ?s g cs ?h r0 = (a, b)" by fastforce
  then have "nr_GPSI a = g" "nr_EAPSessionState a = cs" by (auto simp: row_update_def Let_def)
  then have "scanRow c (a, b) = a\<lparr>nr_GPSI := nr_GPSI ?s, nr_EAPSessionState := nr_EAPSessionState ?s\<rparr>"
    using scan_encrypted u(1,2) assms(1) unfolding pg_env_ok_def by blast
  then have "stored s (rowToSession (scanRow c (row_update ?s g cs ?h r0)))" using ab find_row_id [OF r0]
    by (auto simp: stored_def rowToSession_def row_update_def sessionToRow_def Let_def)
  moreover have "pg_peek c t' = (pg_peek c t)(nss_AuthCtxID s \<mapsto> rowToSession (scanRow c (row_update ?s g cs ?h r0)))"
    unfolding pg_peek_eq t' id [symmetric] by (rule table_view_update [OF r0]) simp
  ultimately show ?thesis by blast
qed

lemma save_create_peek:
  assumes "pg_env_ok c e" "createRow c e (sessionToRow now s) t = (t', None)" "nss_AuthCtxID s \<notin> set (pg_ids nrow_id t)"
  shows "\<exists>y. pg_peek c t' = (pg_peek c t)(nss_AuthCtxID s \<mapsto> y) \<and> stored s y"
proof -
  let ?s = "sessionToRow now s"
  obtain cs g h where u: "encryptState (pc_seal c) (pe_ins_state e) (pc_enc c) (nr_EAPSessionState ?s) = Inr cs"
    "encryptField (pc_seal c) (pe_ins_field e) (pc_enc c) (nr_GPSI ?s) = Inr g"
    and t': "t' = t @ [(?s\<lparr>nr_GPSI := g, nr_EAPSessionState := cs, nr_CompletedAt := None, nr_TerminatedAt := None\<rparr>, h)]"
    using createRow_ok [OF assms(2)] by blast
  define r where "r = ?s\<lparr>nr_GPSI := g, nr_EAPSessionState := cs, nr_CompletedAt := None, nr_TerminatedAt := None\<rparr>"
  have id: "nr_AuthCtxID r = nss_AuthCtxID s" by (simp add: r_def sessionToRow_def)
  have "pg_peek c t' = (pg_peek c t)(nss_AuthCtxID s \<mapsto> rowToSession (scanRow c (r, h)))"
    using table_view_insert [of nrow_id "(r, h)" t] assms(3) id by (simp add: pg_peek_eq t' r_def)
  moreover have "scanRow c (r, h) = r\<lparr>nr_GPSI := nr_GPSI ?s, nr_EAPSessionState := nr_EAPSessionState ?s\<rparr>"
    by (rule scan_encrypted [OF _ _ _ u]) (use assms(1) in \<open>simp_all add: pg_env_ok_def r_def\<close>)
  ultimately show ?thesis by (auto simp: stored_def rowToSession_def r_def sessionToRow_def)
qed

lemma save_ids:
  assumes "NssaaRepository_Save c e now s t = (t', None)"
  shows "pg_ids nrow_id t' = (if nss_AuthCtxID s \<in> set (pg_ids nrow_id t) then pg_ids nrow_id t else pg_ids nrow_id t @ [nss_AuthCtxID s])"
proof -
  have id: "nr_AuthCtxID (sessionToRow now s) = nss_AuthCtxID s" by (simp add: sessionToRow_def)
  consider "updateRow c e (sessionToRow now s) t = (t', None)"
    | t1 where "updateRow c e (sessionToRow now s) t = (t1, Some ErrStoreSessionNotFound)" "createRow c e (sessionToRow now s) t1 = (t', None)"
    using assms by (auto simp: NssaaRepository_Save_def Let_def split: prod.splits option.splits StoreError.splits)
  then show ?thesis
  proof cases
    case 1
    then show ?thesis using id by (auto elim!: updateRow_ok simp: pg_ids_def)
  next
    case 2
    then show ?thesis using id updateRow_err [OF 2(1)] updateRow_missing [OF 2(1)]
      by (auto elim!: createRow_ok simp: pg_ids_def)
  qed
qed

interpretation pg: session_repository "NssaaRepository_Load c" "NssaaRepository_Save c" "pg_peek c" "pg_env_ok c" pg_inv
  nss_AuthCtxID stored for c
proof unfold_locales
  fix st q i x
  assume "NssaaRepository_Load c q st i = Inr x"
  then show "pg_peek c st i = Some x"
    by (auto simp: NssaaRepository_Load_def loadRow_def pg_peek_def table_view_def split: option.splits)
next
  fix st q i
  assume "pg_peek c st i = None"
  then show "\<exists>e. NssaaRepository_Load c q st i = Inl e"
    by (cases q) (auto simp: NssaaRepository_Load_def loadRow_def pg_peek_def table_view_def)
next
  fix st i x
  assume "pg_peek c st i = Some x"
  then show "nss_AuthCtxID x = i"
    by (auto simp: pg_peek_def table_view_def rowToSession_def scanRow_def dest: find_row_id)
next
  fix st st' r now x
  assume "pg_inv st" "pg_env_ok c r" "NssaaRepository_Save c r now x st = (st', None)"
  then show "\<exists>y. pg_peek c st' = (pg_peek c st)(nss_AuthCtxID x \<mapsto> y) \<and> stored x y"
    using save_update_peek [of c r now x st st'] save_create_peek [of c r now x st st']
      updateRow_err [of c r "sessionToRow now x" st] updateRow_missing [of c r "sessionToRow now x" st]
    by (fastforce simp: NssaaRepository_Save_def Let_def sessionToRow_def split: prod.splits option.splits StoreError.splits)
next
  fix st st' r now x e
  assume "NssaaRepository_Save c r now x st = (st', Some e)"
  then show "st' = st"
    using updateRow_err createRow_err
    by (fastforce simp: NssaaRepository_Save_def Let_def split: prod.splits option.splits StoreError.splits)
next
  fix st st' r now x er
  assume i: "pg_inv st" and s: "NssaaRepository_Save c r now x st = (st', er)"
  show "pg_inv st'"
  proof (cases er)
    case None
    then show ?thesis using i save_ids [of c r now x st st'] s by (simp add: pg_inv_def)
  next
    case (Some e)
    then show ?thesis using i s updateRow_err createRow_err
      by (fastforce simp: NssaaRepository_Save_def Let_def split: prod.splits option.splits StoreError.splits)
  qed
qed

section \<open>N60 sessions\<close>

record aiwRow =
  ar_AuthCtxID :: string
  ar_Supi :: string
  ar_AusfID :: string
  ar_AAAConfigID :: "string option"
  ar_EAPSessionState :: bytes
  ar_NssaaStatus :: string
  ar_AuthResult :: string
  ar_EAPRounds :: int
  ar_MaxEAPRounds :: int
  ar_EAPLastNonce :: string
  ar_MSK :: bytes
  ar_PvsInfo :: bytes
  ar_TtlsInner :: bytes
  ar_SupportedFeatures :: string
  ar_FailureReason :: string
  ar_FailureCause :: string
  ar_CreatedAt :: time
  ar_UpdatedAt :: time
  ar_ExpiresAt :: time
  ar_CompletedAt :: "time option"

type_synonym aiw_table = "(aiwRow \<times> string) list"

abbreviation arow_id :: "aiwRow \<times> string \<Rightarrow> string" where
  "arow_id \<equiv> (\<lambda>r. ar_AuthCtxID (fst r))"

definition aiw_sessionToRow :: "time \<Rightarrow> AiwSession \<Rightarrow> aiwRow" where
  "aiw_sessionToRow now s =
    \<lparr>ar_AuthCtxID = aws_AuthCtxID s, ar_Supi = aws_Supi s, ar_AusfID = aws_AusfID s, ar_AAAConfigID = None,
     ar_EAPSessionState = aws_EapPayload s, ar_NssaaStatus = aws_Status s, ar_AuthResult = aws_AuthResult s,
     ar_EAPRounds = 0, ar_MaxEAPRounds = 0, ar_EAPLastNonce = '''', ar_MSK = aws_MSK s, ar_PvsInfo = aws_PvsInfo s,
     ar_TtlsInner = aws_TtlsInner s, ar_SupportedFeatures = aws_SupportedFeatures s, ar_FailureReason = '''',
     ar_FailureCause = '''',
     ar_CreatedAt = (if aws_CreatedAt s = zero_time then now else aws_CreatedAt s),
     ar_UpdatedAt = (if aws_UpdatedAt s = zero_time then now else aws_UpdatedAt s),
     ar_ExpiresAt = (if aws_ExpiresAt s = zero_time then now + 24 * 60 * Minute else aws_ExpiresAt s),
     ar_CompletedAt = aws_CompletedAt s\<rparr>"

definition aiw_rowToSession :: "aiwRow \<Rightarrow> AiwSession" where
  "aiw_rowToSession s =
    \<lparr>aws_AuthCtxID = ar_AuthCtxID s, aws_Supi = ar_Supi s, aws_EapPayload = ar_EAPSessionState s,
     aws_TtlsInner = ar_TtlsInner s, aws_MSK = ar_MSK s, aws_PvsInfo = ar_PvsInfo s, aws_AusfID = ar_AusfID s,
     aws_SupportedFeatures = ar_SupportedFeatures s, aws_Status = ar_NssaaStatus s, aws_AuthResult = ar_AuthResult s,
     aws_CreatedAt = ar_CreatedAt s, aws_UpdatedAt = ar_UpdatedAt s, aws_ExpiresAt = ar_ExpiresAt s,
     aws_CompletedAt = ar_CompletedAt s\<rparr>"

text \<open>The three encryptions of a statement: the EAP state, the identity, and the key unless it is
  empty.  Each takes its own nonce.\<close>

record aiw_env =
  ae_upd :: "bytes option \<times> bytes option \<times> bytes option"
  ae_ins :: "bytes option \<times> bytes option \<times> bytes option"
  ae_upd_fault :: "string option"
  ae_ins_fault :: "string option"

definition aiw_encrypt ::
  "pg_cfg \<Rightarrow> bytes option \<times> bytes option \<times> bytes option \<Rightarrow> aiwRow \<Rightarrow> (CryptoError, bytes \<times> string \<times> bytes) result" where
  "aiw_encrypt c rs s =
    rbind (encryptState (pc_seal c) (fst rs) (pc_enc c) (ar_EAPSessionState s)) (\<lambda>stateCiphertext.
    rbind (encryptField (pc_seal c) (fst (snd rs)) (pc_enc c) (ar_Supi s)) (\<lambda>encryptedSUPI.
    rbind (if ar_MSK s \<noteq> [] then encryptState (pc_seal c) (snd (snd rs)) (pc_enc c) (ar_MSK s) else Inr []) (\<lambda>mskCiphertext.
      Inr (stateCiphertext, encryptedSUPI, mskCiphertext))))"

text \<open>An empty \<^verbatim>\<open>pvs_info\<close> is stored as null; otherwise the column stores the JSON text in a
  form of its own.\<close>

definition pvs_column :: "pg_cfg \<Rightarrow> aiwRow \<Rightarrow> bytes" where
  "pvs_column c s = (if ar_PvsInfo s \<noteq> [] then pc_jsonb c (ar_PvsInfo s) else [])"

definition aiw_row_update :: "aiwRow \<Rightarrow> bytes \<times> string \<times> bytes \<Rightarrow> string \<Rightarrow> aiwRow \<times> string \<Rightarrow> aiwRow \<times> string" where
  "aiw_row_update s enc hash old =
    (s\<lparr>ar_AuthCtxID := ar_AuthCtxID (fst old), ar_AAAConfigID := ar_AAAConfigID (fst old),
       ar_MaxEAPRounds := ar_MaxEAPRounds (fst old), ar_CreatedAt := ar_CreatedAt (fst old),
       ar_EAPSessionState := fst enc, ar_Supi := fst (snd enc), ar_MSK := snd (snd enc)\<rparr>, hash)"

definition aiw_updateRow :: "pg_cfg \<Rightarrow> aiw_env \<Rightarrow> aiwRow \<Rightarrow> aiw_table \<Rightarrow> aiw_table \<times> StoreError option" where
  "aiw_updateRow c e s t =
    (case aiw_encrypt c (ae_upd e) s of
       Inl _ \<Rightarrow> (t, Some (ErrStoreOther ''aiw update: encrypt''))
     | Inr enc \<Rightarrow>
         (case ae_upd_fault e of
            Some err \<Rightarrow> (t, Some (ErrStoreOther (''aiw update: '' @ err)))
          | None \<Rightarrow>
              if \<not> list_ex (\<lambda>r. ar_AuthCtxID (fst r) = ar_AuthCtxID s) t then (t, Some ErrStoreSessionNotFound)
              else (map (\<lambda>r. if ar_AuthCtxID (fst r) = ar_AuthCtxID s
                             then aiw_row_update (s\<lparr>ar_PvsInfo := pvs_column c s\<rparr>) enc (HashSUPI (pc_sha256 c) (ar_Supi s)) r
                             else r) t, None)))"

definition aiw_createRow :: "pg_cfg \<Rightarrow> aiw_env \<Rightarrow> aiwRow \<Rightarrow> aiw_table \<Rightarrow> aiw_table \<times> StoreError option" where
  "aiw_createRow c e s t =
    (case aiw_encrypt c (ae_ins e) s of
       Inl _ \<Rightarrow> (t, Some (ErrStoreOther ''aiw create: encrypt''))
     | Inr enc \<Rightarrow>
         (case ae_ins_fault e of
            Some err \<Rightarrow> (t, Some (ErrStoreOther (''aiw create: '' @ err)))
          | None \<Rightarrow>
              (t @ [(s\<lparr>ar_EAPSessionState := fst enc, ar_Supi := fst (snd enc), ar_MSK := snd (snd enc),
                       ar_PvsInfo := pvs_column c s, ar_CompletedAt := None\<rparr>, HashSUPI (pc_sha256 c) (ar_Supi s))], None)))"

definition aiw_scanRow :: "pg_cfg \<Rightarrow> aiwRow \<times> string \<Rightarrow> aiwRow" where
  "aiw_scanRow c r =
    (fst r)\<lparr>ar_Supi := value_or_zero (decryptField (pc_open c) (pc_enc c) (ar_Supi (fst r))),
            ar_EAPSessionState :=
              (if ar_EAPSessionState (fst r) \<noteq> []
               then value_or_zero (decryptState (pc_open c) (pc_enc c) (ar_EAPSessionState (fst r))) else []),
            ar_MSK :=
              (if ar_MSK (fst r) \<noteq> [] then value_or_zero (decryptState (pc_open c) (pc_enc c) (ar_MSK (fst r))) else [])\<rparr>"

definition AiwRepository_Load :: "pg_cfg \<Rightarrow> string option \<Rightarrow> aiw_table \<Rightarrow> string \<Rightarrow> (StoreError, AiwSession) result" where
  "AiwRepository_Load c fault t i =
    (case fault of
       Some err \<Rightarrow> Inl (ErrStoreOther (''aiw load: '' @ err))
     | None \<Rightarrow>
         (case find_row arow_id i t of
            None \<Rightarrow> Inl ErrStoreSessionNotFound
          | Some r \<Rightarrow> Inr (aiw_rowToSession (aiw_scanRow c r))))"

definition AiwRepository_Save ::
  "pg_cfg \<Rightarrow> aiw_env \<Rightarrow> time \<Rightarrow> AiwSession \<Rightarrow> aiw_table \<Rightarrow> aiw_table \<times> StoreError option" where
  "AiwRepository_Save c e now s t =
    (let row = aiw_sessionToRow now s in
     case aiw_updateRow c e row t of
       (t', Some ErrStoreSessionNotFound) \<Rightarrow> aiw_createRow c e row t'
     | (t', err) \<Rightarrow> (t', err))"

definition AiwRepository_Delete :: "string option \<Rightarrow> string \<Rightarrow> aiw_table \<Rightarrow> aiw_table \<times> StoreError option" where
  "AiwRepository_Delete fault i t =
    (case fault of
       Some err \<Rightarrow> (t, Some (ErrStoreOther (''aiw delete: '' @ err)))
     | None \<Rightarrow>
         let t' = filter (\<lambda>r. ar_AuthCtxID (fst r) \<noteq> i) t in
         if length t' = length t then (t, Some ErrStoreSessionNotFound) else (t', None))"

definition aiw_stored :: "AiwSession \<Rightarrow> AiwSession \<Rightarrow> bool" where
  "aiw_stored x y =
    (aws_AuthCtxID y = aws_AuthCtxID x \<and> aws_Supi y = aws_Supi x \<and> aws_EapPayload y = aws_EapPayload x
     \<and> aws_TtlsInner y = aws_TtlsInner x \<and> aws_MSK y = aws_MSK x \<and> aws_AusfID y = aws_AusfID x
     \<and> aws_SupportedFeatures y = aws_SupportedFeatures x \<and> aws_Status y = aws_Status x \<and> aws_AuthResult y = aws_AuthResult x)"

definition aiw_inv :: "aiw_table \<Rightarrow> bool" where
  "aiw_inv t = distinct (pg_ids arow_id t)"

definition aiw_peek :: "pg_cfg \<Rightarrow> aiw_table \<Rightarrow> string \<Rightarrow> AiwSession option" where
  "aiw_peek c t i = table_view arow_id (\<lambda>r. aiw_rowToSession (aiw_scanRow c r)) t i"

definition aiw_nonces :: "bytes option \<times> bytes option \<times> bytes option \<Rightarrow> bool" where
  "aiw_nonces rs = (reads (fst rs) 12 \<and> reads (fst (snd rs)) 12 \<and> reads (snd (snd rs)) 12)"

definition aiw_env_ok :: "pg_cfg \<Rightarrow> aiw_env \<Rightarrow> bool" where
  "aiw_env_ok c e = (aead_ok (pc_seal c) (pc_open c) \<and> aiw_nonces (ae_upd e) \<and> aiw_nonces (ae_ins e))"

lemma aiw_row_update_id [simp]: "ar_AuthCtxID (fst (aiw_row_update s enc h r)) = ar_AuthCtxID (fst r)"
  by (simp add: aiw_row_update_def)

lemma aiw_scan_encrypted:
  assumes "aead_ok (pc_seal c) (pc_open c)" "aiw_nonces rs" "aiw_encrypt c rs s = Inr enc"
    "ar_EAPSessionState r = fst enc" "ar_Supi r = fst (snd enc)" "ar_MSK r = snd (snd enc)"
  shows "aiw_scanRow c (r, h) = r\<lparr>ar_Supi := ar_Supi s, ar_EAPSessionState := ar_EAPSessionState s, ar_MSK := ar_MSK s\<rparr>"
proof -
  obtain cs g m where e: "encryptState (pc_seal c) (fst rs) (pc_enc c) (ar_EAPSessionState s) = Inr cs"
    "encryptField (pc_seal c) (fst (snd rs)) (pc_enc c) (ar_Supi s) = Inr g"
    "(if ar_MSK s \<noteq> [] then encryptState (pc_seal c) (snd (snd rs)) (pc_enc c) (ar_MSK s) else Inr []) = Inr m"
    and enc: "enc = (cs, g, m)"
    using assms(3) by (auto simp: aiw_encrypt_def)
  have r: "reads (fst rs) 12" "reads (fst (snd rs)) 12" "reads (snd (snd rs)) 12" using assms(2) by (auto simp: aiw_nonces_def)
  have "cs \<noteq> []" using e(1) EncryptConcat_nonempty r(1) by (auto simp: encryptState_def)
  moreover have msk: "(if m \<noteq> [] then value_or_zero (decryptState (pc_open c) (pc_enc c) m) else []) = ar_MSK s"
    using e(3) decryptState_encryptState [OF assms(1) r(3)] EncryptConcat_nonempty r(3)
    by (auto simp: value_or_zero_def encryptState_def split: if_splits)
  ultimately show ?thesis
    using decryptField_encryptField [OF assms(1) r(2) e(2)] decryptState_encryptState [OF assms(1) r(1) e(1)] assms(4-6)
    unfolding aiw_scanRow_def fst_conv assms(4-6) enc snd_conv msk by (simp add: value_or_zero_def)
qed

lemma aiw_updateRow_ok:
  assumes "aiw_updateRow c e s t = (t', None)"
  obtains enc where "aiw_encrypt c (ae_upd e) s = Inr enc" "ar_AuthCtxID s \<in> set (pg_ids arow_id t)"
    "t' = map (\<lambda>r. if ar_AuthCtxID (fst r) = ar_AuthCtxID s
        then aiw_row_update (s\<lparr>ar_PvsInfo := pvs_column c s\<rparr>) enc (HashSUPI (pc_sha256 c) (ar_Supi s)) r else r) t"
proof -
  obtain enc where e: "aiw_encrypt c (ae_upd e) s = Inr enc"
    using assms by (auto simp: aiw_updateRow_def split: sum.splits)
  have m: "list_ex (\<lambda>r. ar_AuthCtxID (fst r) = ar_AuthCtxID s) t"
    and t': "t' = map (\<lambda>r. if ar_AuthCtxID (fst r) = ar_AuthCtxID s
        then aiw_row_update (s\<lparr>ar_PvsInfo := pvs_column c s\<rparr>) enc (HashSUPI (pc_sha256 c) (ar_Supi s)) r else r) t"
    using assms by (auto simp: aiw_updateRow_def e split: option.splits if_splits)
  have "ar_AuthCtxID s \<in> set (pg_ids arow_id t)" using m by (simp add: has_row_iff)
  then show ?thesis using that e t' by blast
qed

lemma aiw_createRow_ok:
  assumes "aiw_createRow c e s t = (t', None)"
  obtains enc h where "aiw_encrypt c (ae_ins e) s = Inr enc"
    "t' = t @ [(s\<lparr>ar_EAPSessionState := fst enc, ar_Supi := fst (snd enc), ar_MSK := snd (snd enc),
        ar_PvsInfo := pvs_column c s, ar_CompletedAt := None\<rparr>, h)]"
  using assms by (auto simp: aiw_createRow_def split: sum.splits option.splits)

lemma aiw_updateRow_err: "aiw_updateRow c e s t = (t', Some err) \<Longrightarrow> t' = t"
  by (auto simp: aiw_updateRow_def split: sum.splits option.splits if_splits)

lemma aiw_updateRow_missing: "aiw_updateRow c e s t = (t', Some ErrStoreSessionNotFound) \<Longrightarrow> ar_AuthCtxID s \<notin> set (pg_ids arow_id t)"
  by (auto simp: aiw_updateRow_def has_row_iff split: sum.splits option.splits if_splits)

lemma aiw_createRow_err: "aiw_createRow c e s t = (t', Some err) \<Longrightarrow> t' = t"
  by (auto simp: aiw_createRow_def split: sum.splits option.splits if_splits)

lemma aiw_peek_eq: "aiw_peek c t = table_view arow_id (\<lambda>r. aiw_rowToSession (aiw_scanRow c r)) t"
  by (simp add: fun_eq_iff aiw_peek_def)

lemma aiw_update_peek:
  assumes "aiw_env_ok c e" "aiw_updateRow c e (aiw_sessionToRow now s) t = (t', None)"
  shows "\<exists>y. aiw_peek c t' = (aiw_peek c t)(aws_AuthCtxID s \<mapsto> y) \<and> aiw_stored s y"
proof -
  let ?s = "aiw_sessionToRow now s"
  let ?p = "?s\<lparr>ar_PvsInfo := pvs_column c ?s\<rparr>"
  let ?h = "HashSUPI (pc_sha256 c) (ar_Supi ?s)"
  have id: "ar_AuthCtxID ?s = aws_AuthCtxID s" by (simp add: aiw_sessionToRow_def)
  obtain enc where u: "aiw_encrypt c (ae_upd e) ?s = Inr enc" "ar_AuthCtxID ?s \<in> set (pg_ids arow_id t)"
    and t': "t' = map (\<lambda>r. if ar_AuthCtxID (fst r) = ar_AuthCtxID ?s then aiw_row_update ?p enc ?h r else r) t"
    using aiw_updateRow_ok [OF assms(2)] by blast
  obtain r0 where r0: "find_row arow_id (ar_AuthCtxID ?s) t = Some r0" using u(2) find_row_None by (metis not_None_eq)
  obtain a b where ab: "aiw_row_update ?p enc ?h r0 = (a, b)" by fastforce
  then have "ar_EAPSessionState a = fst enc" "ar_Supi a = fst (snd enc)" "ar_MSK a = snd (snd enc)"
    by (auto simp: aiw_row_update_def)
  then have "aiw_scanRow c (a, b)
      = a\<lparr>ar_Supi := ar_Supi ?s, ar_EAPSessionState := ar_EAPSessionState ?s, ar_MSK := ar_MSK ?s\<rparr>"
    using aiw_scan_encrypted [OF _ _ u(1)] assms(1) by (simp add: aiw_env_ok_def)
  then have "aiw_stored s (aiw_rowToSession (aiw_scanRow c (aiw_row_update ?p enc ?h r0)))"
    using ab find_row_id [OF r0]
    by (auto simp: aiw_stored_def aiw_rowToSession_def aiw_row_update_def aiw_sessionToRow_def)
  moreover have "aiw_peek c t' = (aiw_peek c t)(aws_AuthCtxID s \<mapsto> aiw_rowToSession (aiw_scanRow c (aiw_row_update ?p enc ?h r0)))"
    unfolding aiw_peek_eq t' id [symmetric] by (rule table_view_update [OF r0]) simp
  ultimately show ?thesis by blast
qed

lemma aiw_create_peek:
  assumes "aiw_env_ok c e" "aiw_createRow c e (aiw_sessionToRow now s) t = (t', None)"
    "aws_AuthCtxID s \<notin> set (pg_ids arow_id t)"
  shows "\<exists>y. aiw_peek c t' = (aiw_peek c t)(aws_AuthCtxID s \<mapsto> y) \<and> aiw_stored s y"
proof -
  let ?s = "aiw_sessionToRow now s"
  obtain enc h where u: "aiw_encrypt c (ae_ins e) ?s = Inr enc"
    and t': "t' = t @ [(?s\<lparr>ar_EAPSessionState := fst enc, ar_Supi := fst (snd enc), ar_MSK := snd (snd enc),
        ar_PvsInfo := pvs_column c ?s, ar_CompletedAt := None\<rparr>, h)]"
    using aiw_createRow_ok [OF assms(2)] by blast
  define r where "r = ?s\<lparr>ar_EAPSessionState := fst enc, ar_Supi := fst (snd enc), ar_MSK := snd (snd enc),
        ar_PvsInfo := pvs_column c ?s, ar_CompletedAt := None\<rparr>"
  have id: "ar_AuthCtxID r = aws_AuthCtxID s" by (simp add: r_def aiw_sessionToRow_def)
  have "aiw_peek c t' = (aiw_peek c t)(aws_AuthCtxID s \<mapsto> aiw_rowToSession (aiw_scanRow c (r, h)))"
    using table_view_insert [of arow_id "(r, h)" t] assms(3) id by (simp add: aiw_peek_eq t' r_def)
  moreover have "aiw_scanRow c (r, h)
      = r\<lparr>ar_Supi := ar_Supi ?s, ar_EAPSessionState := ar_EAPSessionState ?s, ar_MSK := ar_MSK ?s\<rparr>"
    by (rule aiw_scan_encrypted [OF _ _ u]) (use assms(1) in \<open>simp_all add: aiw_env_ok_def r_def\<close>)
  ultimately show ?thesis by (auto simp: aiw_stored_def aiw_rowToSession_def r_def aiw_sessionToRow_def)
qed

text \<open>How a save ends: an update in place, an insertion, or an error that changes nothing.\<close>

lemma aiw_save_cases:
  assumes "AiwRepository_Save c e now s t = (t', er)"
  obtains (updated) "er = None" "aiw_updateRow c e (aiw_sessionToRow now s) t = (t', None)"
    | (inserted) "er = None" "aiw_createRow c e (aiw_sessionToRow now s) t = (t', None)" "aws_AuthCtxID s \<notin> set (pg_ids arow_id t)"
    | (failed) err where "er = Some err" "t' = t"
proof -
  have id: "ar_AuthCtxID (aiw_sessionToRow now s) = aws_AuthCtxID s" by (simp add: aiw_sessionToRow_def)
  obtain t1 er1 where u: "aiw_updateRow c e (aiw_sessionToRow now s) t = (t1, er1)" by fastforce
  show ?thesis
  proof (cases er1)
    case None
    then show ?thesis using that(1) assms u by (simp add: AiwRepository_Save_def)
  next
    case (Some x)
    have t1: "t1 = t" using aiw_updateRow_err u Some by blast
    show ?thesis
    proof (cases x)
      case ErrStoreSessionNotFound
      then have c: "aiw_createRow c e (aiw_sessionToRow now s) t = (t', er)"
        using assms u Some t1 by (simp add: AiwRepository_Save_def)
      moreover have "aws_AuthCtxID s \<notin> set (pg_ids arow_id t)"
        using aiw_updateRow_missing u Some ErrStoreSessionNotFound id by metis
      ultimately show ?thesis using that(2,3) aiw_createRow_err by (cases er) auto
    next
      case (ErrStoreOther m)
      then show ?thesis using that(3) assms u Some t1 by (auto simp: AiwRepository_Save_def)
    qed
  qed
qed

interpretation aiwpg: session_repository "AiwRepository_Load c" "AiwRepository_Save c" "aiw_peek c" "aiw_env_ok c" aiw_inv
  aws_AuthCtxID aiw_stored for c
proof unfold_locales
  fix st q i x
  assume "AiwRepository_Load c q st i = Inr x"
  then show "aiw_peek c st i = Some x"
    by (auto simp: AiwRepository_Load_def aiw_peek_def table_view_def split: option.splits)
next
  fix st q i
  assume "aiw_peek c st i = None"
  then show "\<exists>e. AiwRepository_Load c q st i = Inl e"
    by (cases q) (auto simp: AiwRepository_Load_def aiw_peek_def table_view_def)
next
  fix st i x
  assume "aiw_peek c st i = Some x"
  then show "aws_AuthCtxID x = i"
    by (auto simp: aiw_peek_def table_view_def aiw_rowToSession_def aiw_scanRow_def dest: find_row_id)
next
  fix st st' r now x
  assume e: "aiw_env_ok c r" and s: "AiwRepository_Save c r now x st = (st', None)"
  from s show "\<exists>y. aiw_peek c st' = (aiw_peek c st)(aws_AuthCtxID x \<mapsto> y) \<and> aiw_stored x y"
  proof (cases rule: aiw_save_cases)
    case updated
    then show ?thesis using aiw_update_peek [OF e] by blast
  next
    case inserted
    then show ?thesis using aiw_create_peek [OF e] by blast
  qed simp
next
  fix st st' r now x e
  assume "AiwRepository_Save c r now x st = (st', Some e)"
  then show "st' = st" by (cases rule: aiw_save_cases) simp_all
next
  fix st st' r now x er
  assume i: "aiw_inv st" and s: "AiwRepository_Save c r now x st = (st', er)"
  have id: "ar_AuthCtxID (aiw_sessionToRow now x) = aws_AuthCtxID x" by (simp add: aiw_sessionToRow_def)
  from s show "aiw_inv st'"
  proof (cases rule: aiw_save_cases)
    case updated
    then obtain s' enc h where "st' = map (\<lambda>r. if ar_AuthCtxID (fst r) = ar_AuthCtxID (aiw_sessionToRow now x)
        then aiw_row_update s' enc h r else r) st"
      by (elim aiw_updateRow_ok) blast
    then have "pg_ids arow_id st' = pg_ids arow_id st" by (simp add: pg_ids_def)
    then show ?thesis using i by (simp add: aiw_inv_def)
  next
    case inserted
    obtain r where "st' = st @ [r]" "arow_id r = aws_AuthCtxID x"
      using inserted(2) id by (elim aiw_createRow_ok) simp
    then have "pg_ids arow_id st' = pg_ids arow_id st @ [aws_AuthCtxID x]" by (simp add: pg_ids_def)
    then show ?thesis using i inserted(3) by (simp add: aiw_inv_def)
  next
    case failed
    then show ?thesis using i by simp
  qed
qed

lemma Load_peek:
  "NssaaRepository_Load c None t i = (case pg_peek c t i of None \<Rightarrow> Inl ErrStoreSessionNotFound | Some x \<Rightarrow> Inr x)"
  by (simp add: NssaaRepository_Load_def loadRow_def pg_peek_def table_view_def split: option.split)

text \<open>A save succeeds where the key has its length, the random source delivers, and no statement fails.\<close>

lemma Save_succeeds:
  assumes "length (pc_enc c) = 32" "pe_upd_state e \<noteq> None" "pe_upd_field e \<noteq> None" "pe_ins_state e \<noteq> None"
    "pe_ins_field e \<noteq> None" "pe_upd_fault e = None" "pe_ins_fault e = None"
  shows "\<exists>t'. NssaaRepository_Save c e now s t = (t', None)"
proof -
  have id: "nr_AuthCtxID (sessionToRow now s) = nss_AuthCtxID s" by (simp add: sessionToRow_def)
  have enc: "\<exists>cs. encryptState (pc_seal c) (Some n) (pc_enc c) st = Inr cs" "\<exists>g. encryptField (pc_seal c) (Some n) (pc_enc c) p = Inr g" for n st p
    using assms(1) by (auto simp: encryptState_def encryptField_def EncryptConcat_def)
  obtain n1 n2 n3 n4 where n: "pe_upd_state e = Some n1" "pe_upd_field e = Some n2" "pe_ins_state e = Some n3" "pe_ins_field e = Some n4"
    using assms(2-5) by auto
  obtain c1 g1 c2 g2 where en: "encryptState (pc_seal c) (Some n1) (pc_enc c) (nr_EAPSessionState (sessionToRow now s)) = Inr c1"
    "encryptField (pc_seal c) (Some n2) (pc_enc c) (nr_GPSI (sessionToRow now s)) = Inr g1"
    "encryptState (pc_seal c) (Some n3) (pc_enc c) (nr_EAPSessionState (sessionToRow now s)) = Inr c2"
    "encryptField (pc_seal c) (Some n4) (pc_enc c) (nr_GPSI (sessionToRow now s)) = Inr g2"
    using enc by meson
  show ?thesis
  proof (cases "nss_AuthCtxID s \<in> set (pg_ids nrow_id t)")
    case True
    then show ?thesis using assms(6) by (simp add: NssaaRepository_Save_def updateRow_def n en has_row_iff id Let_def)
  next
    case False
    have "\<not> list_ex (\<lambda>r. nr_AuthCtxID (fst r) = nss_AuthCtxID s \<and> P r) t" for P
      using False by (induction t) (auto simp: pg_ids_def)
    then show ?thesis using False assms(6,7)
      by (simp add: NssaaRepository_Save_def updateRow_def createRow_def n en has_row_iff id Let_def)
  qed
qed

section \<open>Properties of the repositories\<close>


definition ex_cfg :: "byte \<Rightarrow> pg_cfg" where
  "ex_cfg k = \<lparr>pc_seal = ex_seal, pc_open = ex_open, pc_sha256 = (\<lambda>b. b), pc_enc = replicate 32 k, pc_jsonb = (\<lambda>b. b)\<rparr>"

definition ex_env :: pg_env where
  "ex_env = \<lparr>pe_upd_state = Some (replicate 12 1), pe_upd_field = Some (replicate 12 2),
     pe_ins_state = Some (replicate 12 3), pe_ins_field = Some (replicate 12 4), pe_upd_fault = None, pe_ins_fault = None\<rparr>"

definition ex_nssaa :: NssaaSession where
  "ex_nssaa = \<lparr>nss_AuthCtxID = ''ctx'', nss_GPSI = ''msisdn-12345'', nss_SnssaiSST = 1, nss_SnssaiSD = ''000001'',
     nss_AmfInstance = ''amf'', nss_ReauthURI = '''', nss_RevocURI = '''', nss_EapPayload = [1, 2], nss_Status = ''PENDING'',
     nss_CallbackOwner = ''amf'', nss_HasAIWContext = False, nss_CreatedAt = 5, nss_UpdatedAt = 5, nss_ExpiresAt = 9\<rparr>"

lemma ex_save_succeeds: "\<exists>t'. NssaaRepository_Save (ex_cfg k) ex_env now s t = (t', None)"
  by (rule Save_succeeds) (simp_all add: ex_cfg_def ex_env_def)

lemma ex_env_ok: "pg_env_ok (ex_cfg k) ex_env"
  by (simp add: pg_env_ok_def ex_cfg_def ex_env_def ex_aead_ok)

lemma ex_save: "\<exists>r h. NssaaRepository_Save (ex_cfg k) ex_env now ex_nssaa [] = ([(r, h)], None)
    \<and> nr_AuthCtxID r = ''ctx'' \<and> nr_GPSI r = b64_encode (replicate 12 4 @ bytes_of ''msisdn-12345'' @ replicate 16 k)"
  by (simp add: NssaaRepository_Save_def updateRow_def createRow_def encryptState_def encryptField_def EncryptConcat_def
      ex_cfg_def ex_env_def ex_nssaa_def ex_seal_def sessionToRow_def)


text \<open>A load under a key that does not open the stored identity reports no error: the session
  comes back with an empty GPSI, because the errors of the two decryptions are dropped.\<close>

theorem wrong_key_blanks_gpsi:
  assumes "find_row nrow_id i t = Some r" "\<exists>e. decryptField (pc_open c) (pc_enc c) (nr_GPSI (fst r)) = Inl e"
  shows "\<exists>y. NssaaRepository_Load c None t i = Inr y \<and> nss_GPSI y = ''''"
  using assms by (auto simp: NssaaRepository_Load_def loadRow_def rowToSession_def scanRow_def value_or_zero_def)

end
