(* ===== verification/Biz.thy ===== *)
theory Biz
  imports Gateway Storage_Pg
begin

text \<open>
  The Biz Pod without its HTTP interfaces: the choice of the AAA transport
  (\<^verbatim>\<open>internal/biz/router.go\<close>, \<^verbatim>\<open>cmd/biz/http_aaa_client.go\<close>), and the coordinator of the reverse
  path, which handles the messages the AAA server initiates (\<^verbatim>\<open>internal/biz\<close>).  The coordinator
  is written over any session repository, as the code is written over its store interfaces, and
  its effect is proved for every repository that keeps the contract.
\<close>

section \<open>The router\<close>

datatype ProxyMode = ProxyModeDirect | ProxyModeProxy
datatype Protocol = ProtocolRADIUS | ProtocolDIAMETER

definition ProxyMode_String :: "ProxyMode \<Rightarrow> string" where
  "ProxyMode_String m = (case m of ProxyModeDirect \<Rightarrow> ''DIRECT'' | ProxyModeProxy \<Rightarrow> ''PROXY'')"

definition Protocol_String :: "Protocol \<Rightarrow> string" where
  "Protocol_String p = (case p of ProtocolRADIUS \<Rightarrow> ''RADIUS'' | ProtocolDIAMETER \<Rightarrow> ''DIAMETER'')"

record RouteDecision =
  rd_Mode :: ProxyMode
  rd_Protocol :: Protocol
  rd_Host :: string
  rd_Port :: int
  rd_Timeout :: duration

record ServerConfig =
  svc_Protocol :: Protocol
  svc_Host :: string
  svc_Port :: int
  svc_SharedSecret :: string
  svc_TLSCert :: string
  svc_TLSKey :: string
  svc_TLSCA :: string
  svc_Timeout :: duration
  svc_Weight :: int

record SnssaiConfig =
  snc_Exact :: "ServerConfig option"
  snc_SST :: "ServerConfig option"
  snc_Default :: "ServerConfig option"

definition ResolveRoute :: "SnssaiConfig \<Rightarrow> byte \<Rightarrow> string \<Rightarrow> RouteDecision option" where
  "ResolveRoute cfg sst sd =
    (let c1 = snc_Exact cfg;
         c2 = (case c1 of None \<Rightarrow> snc_SST cfg | Some _ \<Rightarrow> c1);
         c3 = (case c2 of None \<Rightarrow> snc_Default cfg | Some _ \<Rightarrow> c2)
     in case c3 of
          None \<Rightarrow> None
        | Some c \<Rightarrow>
            Some \<lparr>rd_Mode = ProxyModeDirect, rd_Protocol = svc_Protocol c, rd_Host = svc_Host c, rd_Port = svc_Port c,
                  rd_Timeout = (if svc_Timeout c = 0 then 10 * Second else svc_Timeout c)\<rparr>)"

definition CurrentVersion :: string where
  "CurrentVersion = ''1.0''"

definition aaa_session_id :: "nat \<Rightarrow> string \<Rightarrow> string" where
  "aaa_session_id unixnano authCtxID = ''nssAAF;'' @ show_nat unixnano @ '';'' @ authCtxID"

definition BuildForwardRequest ::
  "SnssaiConfig \<Rightarrow> nat \<Rightarrow> string \<Rightarrow> string \<Rightarrow> bytes \<Rightarrow> byte \<Rightarrow> string \<Rightarrow> (string, AaaForwardRequest) result" where
  "BuildForwardRequest cfg unixnano authCtxID gpsi eapPayload sst sd =
    (case ResolveRoute cfg sst sd of
       None \<Rightarrow> Inl (''biz: no route configured for sst='' @ show_nat (unat sst) @ '' sd='' @ sd)
     | Some decision \<Rightarrow>
         Inr \<lparr>fq_Version = CurrentVersion, fq_SessionID = aaa_session_id unixnano authCtxID, fq_AuthCtxID = authCtxID,
              fq_GPSI = gpsi,
              fq_TransportType = (if rd_Protocol decision = ProtocolDIAMETER then TransportDIAMETER else TransportRADIUS),
              fq_Sst = sst, fq_Sd = sd, fq_Direction = DirectionClientInitiated, fq_Payload = eapPayload\<rparr>)"

section \<open>The AAA client of the Biz Pod\<close>

record SnssaiRouteEntry =
  sre_SST :: byte
  sre_SD :: string
  sre_Protocol :: string
  sre_Host :: string
  sre_Port :: int
  sre_SharedSecret :: string
  sre_Timeout :: "string option"

record SnssaiRoutingConfig =
  src_Default :: "SnssaiRouteEntry option"
  src_SST :: "SnssaiRouteEntry list"
  src_Exact :: "SnssaiRouteEntry list"

definition select_route :: "SnssaiRoutingConfig \<Rightarrow> byte \<Rightarrow> string \<Rightarrow> SnssaiRouteEntry option" where
  "select_route cfg sst sd =
    (case find (\<lambda>e. sre_SST e = sst \<and> sre_SD e = sd) (src_Exact cfg) of
       Some e \<Rightarrow> Some e
     | None \<Rightarrow>
         (case find (\<lambda>e. sre_SST e = sst) (src_SST cfg) of
            Some e \<Rightarrow> Some e
          | None \<Rightarrow> src_Default cfg))"

definition resolveTransportType :: "SnssaiRoutingConfig option \<Rightarrow> byte \<Rightarrow> string \<Rightarrow> string" where
  "resolveTransportType snssaiCfg sst sd =
    (case snssaiCfg of
       None \<Rightarrow> TransportRADIUS
     | Some cfg \<Rightarrow>
         (case select_route cfg sst sd of
            None \<Rightarrow> TransportRADIUS
          | Some e \<Rightarrow> if sre_Protocol e = ''DIAMETER'' then TransportDIAMETER else TransportRADIUS))"

text \<open>\<^verbatim>\<open>forwardEAP\<close> is the HTTP call to the AAA gateway.\<close>

definition httpAAAClient_request :: "SnssaiRoutingConfig option \<Rightarrow> string \<Rightarrow> nat \<Rightarrow> Session \<Rightarrow> bytes \<Rightarrow> AaaForwardRequest" where
  "httpAAAClient_request snssaiCfg version unixnano session eapPayload =
    (let (sst, sd) = Session_DecodeSnssaiKey session in
     \<lparr>fq_Version = version, fq_SessionID = aaa_session_id unixnano (es_AuthCtxID session),
      fq_AuthCtxID = es_AuthCtxID session, fq_GPSI = es_Gpsi session,
      fq_TransportType = resolveTransportType snssaiCfg sst sd, fq_Sst = 0, fq_Sd = '''',
      fq_Direction = DirectionClientInitiated, fq_Payload = eapPayload\<rparr>)"

definition httpAAAClient_SendEAP ::
  "(AaaForwardRequest \<Rightarrow> (string, AaaForwardResponse) result) \<Rightarrow> SnssaiRoutingConfig option \<Rightarrow> string \<Rightarrow> nat \<Rightarrow>
   Session \<Rightarrow> bytes \<Rightarrow> (string, bytes) result" where
  "httpAAAClient_SendEAP forwardEAP snssaiCfg version unixnano session eapPayload =
    rbind (forwardEAP (httpAAAClient_request snssaiCfg version unixnano session eapPayload)) (\<lambda>resp. Inr (fp_Payload resp))"

section \<open>The reverse path\<close>

record NssaaSessionContext =
  nsc_AuthCtxID :: string
  nsc_SessionID :: string
  nsc_GPSI :: string
  nsc_Supi :: string
  nsc_ReauthNotifURI :: string
  nsc_RevocNotifURI :: string
  nsc_CallbackOwner :: string
  nsc_HasAIWContext :: bool

datatype Completion = CompletionStateOnly | CompletionAMFNotified | CompletionAIWLinked

record ServerInitiatedResult =
  sires_Response :: AaaServerInitiatedResponse
  sires_Completion :: Completion

definition ServerInitiatedResult_Validate :: "ServerInitiatedResult \<Rightarrow> bool" where
  "ServerInitiatedResult_Validate r = (sip_Payload (sires_Response r) \<noteq> [])"

definition load_context ::
  "('q \<Rightarrow> 's \<Rightarrow> string \<Rightarrow> (StoreError, NssaaSession) result) \<Rightarrow> 'q \<Rightarrow> 's \<Rightarrow> string \<Rightarrow> string \<Rightarrow> (string, NssaaSessionContext) result" where
  "load_context load q st sessionID authCtxID =
    (case load q st authCtxID of
       Inl _ \<Rightarrow> Inl (''load nssaa session '' @ authCtxID)
     | Inr session \<Rightarrow>
         Inr \<lparr>nsc_AuthCtxID = nss_AuthCtxID session, nsc_SessionID = sessionID, nsc_GPSI = nss_GPSI session, nsc_Supi = '''',
              nsc_ReauthNotifURI = nss_ReauthURI session, nsc_RevocNotifURI = nss_RevocURI session,
              nsc_CallbackOwner = nss_CallbackOwner session, nsc_HasAIWContext = nss_HasAIWContext session\<rparr>)"

text \<open>\<^verbatim>\<open>corr\<close> is the lookup of the correlation entry of an AAA session.\<close>

definition CorrelationResolver_Resolve ::
  "('q \<Rightarrow> 's \<Rightarrow> string \<Rightarrow> (StoreError, NssaaSession) result) \<Rightarrow> 'q \<Rightarrow> (string \<Rightarrow> (string, SessionCorrEntry option) result) \<Rightarrow>
   's \<Rightarrow> string \<Rightarrow> string \<Rightarrow> (string, NssaaSessionContext) result" where
  "CorrelationResolver_Resolve load q corr st sessionID authCtxID =
    rbind (if sessionID \<noteq> '''' then
             rbind (corr sessionID) (\<lambda>entry.
               Inr (case entry of Some e \<Rightarrow> if authCtxID = '''' then sce_AuthCtxID e else authCtxID | None \<Rightarrow> authCtxID))
           else Inr authCtxID) (\<lambda>resolvedAuthCtxID.
    if resolvedAuthCtxID = '''' then Inl ''auth context could not be resolved''
    else
      rbind (load_context load q st '''' resolvedAuthCtxID) (\<lambda>sessionCtx.
        Inr (sessionCtx\<lparr>nsc_AuthCtxID := resolvedAuthCtxID, nsc_SessionID := sessionID\<rparr>)))"

text \<open>A state writer loads a session, changes it and saves it.\<close>

definition write_session ::
  "('q \<Rightarrow> 's \<Rightarrow> string \<Rightarrow> (StoreError, NssaaSession) result) \<Rightarrow> ('r \<Rightarrow> time \<Rightarrow> NssaaSession \<Rightarrow> 's \<Rightarrow> 's \<times> StoreError option) \<Rightarrow>
   'q \<Rightarrow> 'r \<Rightarrow> time \<Rightarrow> (NssaaSession \<Rightarrow> NssaaSession) \<Rightarrow> string \<Rightarrow> 's \<Rightarrow> 's \<times> string option" where
  "write_session load save q r now f authCtxID st =
    (case load q st authCtxID of
       Inl _ \<Rightarrow> (st, Some (''load session '' @ authCtxID))
     | Inr session \<Rightarrow>
         (case save r now ((f session)\<lparr>nss_UpdatedAt := now\<rparr>) st of
            (st', Some _) \<Rightarrow> (st', Some (''save session '' @ authCtxID))
          | (st', None) \<Rightarrow> (st', None)))"

definition MarkReauthPending ::
  "('q \<Rightarrow> 's \<Rightarrow> string \<Rightarrow> (StoreError, NssaaSession) result) \<Rightarrow> ('r \<Rightarrow> time \<Rightarrow> NssaaSession \<Rightarrow> 's \<Rightarrow> 's \<times> StoreError option) \<Rightarrow>
   'q \<Rightarrow> 'r \<Rightarrow> time \<Rightarrow> string \<Rightarrow> 's \<Rightarrow> 's \<times> string option" where
  "MarkReauthPending load save q r now authCtxID st =
    write_session load save q r now (\<lambda>session. session\<lparr>nss_Status := ''PENDING''\<rparr>) authCtxID st"

definition MarkRevoked ::
  "('q \<Rightarrow> 's \<Rightarrow> string \<Rightarrow> (StoreError, NssaaSession) result) \<Rightarrow> ('r \<Rightarrow> time \<Rightarrow> NssaaSession \<Rightarrow> 's \<Rightarrow> 's \<times> StoreError option) \<Rightarrow>
   'q \<Rightarrow> 'r \<Rightarrow> time \<Rightarrow> string \<Rightarrow> 's \<Rightarrow> 's \<times> string option" where
  "MarkRevoked load save q r now authCtxID st =
    write_session load save q r now (\<lambda>session. session\<lparr>nss_Status := ''REVOKED''\<rparr>) authCtxID st"

definition ApplyCoA ::
  "('q \<Rightarrow> 's \<Rightarrow> string \<Rightarrow> (StoreError, NssaaSession) result) \<Rightarrow> ('r \<Rightarrow> time \<Rightarrow> NssaaSession \<Rightarrow> 's \<Rightarrow> 's \<times> StoreError option) \<Rightarrow>
   'q \<Rightarrow> 'r \<Rightarrow> time \<Rightarrow> string \<Rightarrow> bytes \<Rightarrow> 's \<Rightarrow> 's \<times> string option" where
  "ApplyCoA load save q r now authCtxID payload st =
    write_session load save q r now (\<lambda>session. session\<lparr>nss_EapPayload := payload, nss_Status := ''AUTHORIZED''\<rparr>) authCtxID st"

definition MarkAIWLinked ::
  "('q \<Rightarrow> 'a \<Rightarrow> string \<Rightarrow> (StoreError, AiwSession) result) \<Rightarrow> ('r \<Rightarrow> time \<Rightarrow> AiwSession \<Rightarrow> 'a \<Rightarrow> 'a \<times> StoreError option) \<Rightarrow>
   'q \<Rightarrow> 'r \<Rightarrow> time \<Rightarrow> string \<Rightarrow> 'a \<Rightarrow> 'a \<times> string option" where
  "MarkAIWLinked load save q r now authCtxID st =
    (case load q st authCtxID of
       Inl _ \<Rightarrow> (st, Some (''load aiw session '' @ authCtxID))
     | Inr session \<Rightarrow>
         (case save r now (session\<lparr>aws_CompletedAt := Some now, aws_UpdatedAt := now,
                 aws_Status := (if aws_Status session = '''' then ''PENDING'' else aws_Status session)\<rparr>) st of
            (st', Some _) \<Rightarrow> (st', Some (''save aiw session '' @ authCtxID))
          | (st', None) \<Rightarrow> (st', None)))"

section \<open>The coordinator\<close>

datatype amf_notification =
    SendReAuthNotification string string bytes
  | SendRevocationNotification string string bytes

text \<open>The coordinator's collaborators: the context resolver, the three state writers, the AMF
  notifier, and the AIW linker, which may be absent.\<close>

record ('s, 'a) ServerInitiatedCoordinator =
  sic_resolver :: "'s \<Rightarrow> string \<Rightarrow> string \<Rightarrow> (string, NssaaSessionContext) result"
  sic_reauth :: "string \<Rightarrow> 's \<Rightarrow> 's \<times> string option"
  sic_revoke :: "string \<Rightarrow> 's \<Rightarrow> 's \<times> string option"
  sic_coa :: "string \<Rightarrow> bytes \<Rightarrow> 's \<Rightarrow> 's \<times> string option"
  sic_notifier :: "amf_notification \<Rightarrow> string option"
  sic_aiwLink :: "(string \<Rightarrow> 'a \<Rightarrow> 'a \<times> string option) option"

record ('s, 'a) biz_state =
  bz_sessions :: 's
  bz_aiw :: 'a
  bz_notified :: "amf_notification list"

definition notify_step ::
  "('s, 'a) ServerInitiatedCoordinator \<Rightarrow> bool \<Rightarrow> amf_notification \<Rightarrow> Completion \<Rightarrow> ('s, 'a) biz_state \<Rightarrow>
   ('s, 'a) biz_state \<times> (string, Completion) result" where
  "notify_step c wanted n completion st =
    (if wanted then
       (case sic_notifier c n of
          Some err \<Rightarrow> (st, Inl (''send notification: '' @ err))
        | None \<Rightarrow> (st\<lparr>bz_notified := bz_notified st @ [n]\<rparr>, Inr CompletionAMFNotified))
     else (st, Inr completion))"

definition link_step ::
  "('s, 'a) ServerInitiatedCoordinator \<Rightarrow> NssaaSessionContext \<Rightarrow> Completion \<Rightarrow> ('s, 'a) biz_state \<Rightarrow>
   ('s, 'a) biz_state \<times> (string, Completion) result" where
  "link_step c sessionCtx completion st =
    (if nsc_CallbackOwner sessionCtx = ''ausf'' \<and> nsc_HasAIWContext sessionCtx then
       (case sic_aiwLink c of
          None \<Rightarrow> (st, Inl ''aiw linker not configured'')
        | Some link \<Rightarrow>
            (case link (nsc_AuthCtxID sessionCtx) (bz_aiw st) of
               (aiw, Some err) \<Rightarrow> (st\<lparr>bz_aiw := aiw\<rparr>, Inl (''mark aiw linked: '' @ err))
             | (aiw, None) \<Rightarrow> (st\<lparr>bz_aiw := aiw\<rparr>, Inr CompletionAIWLinked)))
     else (st, Inr completion))"

definition finish ::
  "AaaServerInitiatedRequest \<Rightarrow> NssaaSessionContext \<Rightarrow> bytes \<Rightarrow> ('s, 'a) biz_state \<times> (string, Completion) result \<Rightarrow>
   ('s, 'a) biz_state \<times> (string, ServerInitiatedResult) result" where
  "finish req sessionCtx payload p =
    (fst p, rbind (snd p) (\<lambda>completion.
       let result = \<lparr>sires_Response = \<lparr>sip_Version = CurrentVersion, sip_SessionID = siq_SessionID req,
                        sip_AuthCtxID = nsc_AuthCtxID sessionCtx, sip_MessageType = '''', sip_ResultCode = 0,
                        sip_Payload = payload, sip_ErrorCause = ''''\<rparr>,
                     sires_Completion = completion\<rparr>
       in if ServerInitiatedResult_Validate result then Inr result else Inl ''response payload is required''))"

definition handleRAR ::
  "('s, 'a) ServerInitiatedCoordinator \<Rightarrow> AaaServerInitiatedRequest \<Rightarrow> NssaaSessionContext \<Rightarrow> ('s, 'a) biz_state \<Rightarrow>
   ('s, 'a) biz_state \<times> (string, ServerInitiatedResult) result" where
  "handleRAR c req sessionCtx st =
    (case sic_reauth c (nsc_AuthCtxID sessionCtx) (bz_sessions st) of
       (ss, Some err) \<Rightarrow> (st\<lparr>bz_sessions := ss\<rparr>, Inl (''mark reauth pending: '' @ err))
     | (ss, None) \<Rightarrow>
         (case notify_step c (nsc_CallbackOwner sessionCtx = ''amf'' \<and> nsc_ReauthNotifURI sessionCtx \<noteq> '''')
                 (SendReAuthNotification (nsc_ReauthNotifURI sessionCtx) (nsc_AuthCtxID sessionCtx) (siq_Payload req))
                 CompletionStateOnly (st\<lparr>bz_sessions := ss\<rparr>) of
            (st', Inl err) \<Rightarrow> (st', Inl err)
          | (st', Inr completion) \<Rightarrow> finish req sessionCtx [2, 0, 0, 12] (link_step c sessionCtx completion st')))"

definition handleASR ::
  "('s, 'a) ServerInitiatedCoordinator \<Rightarrow> AaaServerInitiatedRequest \<Rightarrow> NssaaSessionContext \<Rightarrow> ('s, 'a) biz_state \<Rightarrow>
   ('s, 'a) biz_state \<times> (string, ServerInitiatedResult) result" where
  "handleASR c req sessionCtx st =
    (case sic_revoke c (nsc_AuthCtxID sessionCtx) (bz_sessions st) of
       (ss, Some err) \<Rightarrow> (st\<lparr>bz_sessions := ss\<rparr>, Inl (''mark revoked: '' @ err))
     | (ss, None) \<Rightarrow>
         (case notify_step c (nsc_CallbackOwner sessionCtx = ''amf'' \<and> nsc_RevocNotifURI sessionCtx \<noteq> '''')
                 (SendRevocationNotification (nsc_RevocNotifURI sessionCtx) (nsc_AuthCtxID sessionCtx) (siq_Payload req))
                 CompletionStateOnly (st\<lparr>bz_sessions := ss\<rparr>) of
            (st', Inl err) \<Rightarrow> (st', Inl err)
          | (st', Inr completion) \<Rightarrow> finish req sessionCtx [1] (link_step c sessionCtx completion st')))"

definition handleCoA ::
  "('s, 'a) ServerInitiatedCoordinator \<Rightarrow> AaaServerInitiatedRequest \<Rightarrow> NssaaSessionContext \<Rightarrow> ('s, 'a) biz_state \<Rightarrow>
   ('s, 'a) biz_state \<times> (string, ServerInitiatedResult) result" where
  "handleCoA c req sessionCtx st =
    (case sic_coa c (nsc_AuthCtxID sessionCtx) (siq_Payload req) (bz_sessions st) of
       (ss, Some err) \<Rightarrow> (st\<lparr>bz_sessions := ss\<rparr>, Inl (''apply coa: '' @ err))
     | (ss, None) \<Rightarrow>
         finish req sessionCtx [2, 0, 0, 12] (link_step c sessionCtx CompletionStateOnly (st\<lparr>bz_sessions := ss\<rparr>)))"

definition Handle ::
  "('s, 'a) ServerInitiatedCoordinator \<Rightarrow> AaaServerInitiatedRequest \<Rightarrow> ('s, 'a) biz_state \<Rightarrow>
   ('s, 'a) biz_state \<times> (string, ServerInitiatedResult) result" where
  "Handle c req st =
    (case sic_resolver c (bz_sessions st) (siq_SessionID req) (siq_AuthCtxID req) of
       Inl err \<Rightarrow> (st, Inl (''resolve reverse-path context: '' @ err))
     | Inr sessionCtx \<Rightarrow>
         if nsc_CallbackOwner sessionCtx = '''' then (st, Inl ''callback owner is required for server-initiated handling'')
         else if siq_MessageType req = MessageTypeRAR then handleRAR c req sessionCtx st
         else if siq_MessageType req = MessageTypeASR then handleASR c req sessionCtx st
         else if siq_MessageType req = MessageTypeCoA then handleCoA c req sessionCtx st
         else (st, Inl (''unsupported message type: '' @ siq_MessageType req)))"

text \<open>\<^verbatim>\<open>handleServerInitiated\<close> of the Biz Pod: the status and, on success, the body.\<close>

definition biz_handleServerInitiated ::
  "string \<Rightarrow> string \<Rightarrow> AaaServerInitiatedRequest option \<Rightarrow> ('s, 'a) ServerInitiatedCoordinator option \<Rightarrow> ('s, 'a) biz_state \<Rightarrow>
   ('s, 'a) biz_state \<times> nat \<times> AaaServerInitiatedResponse option" where
  "biz_handleServerInitiated httpMethod contentType body coordinator st =
    (if httpMethod \<noteq> ''POST'' then (st, 405, None)
     else if contentType \<noteq> ''application/json'' then (st, 415, None)
     else case body of
       None \<Rightarrow> (st, 400, None)
     | Some req \<Rightarrow>
         (case coordinator of
            None \<Rightarrow> (st, 503, None)
          | Some c \<Rightarrow>
              (case Handle c req st of
                 (st', Inl _) \<Rightarrow> (st', 502, None)
               | (st', Inr result) \<Rightarrow> (st', 200, Some (sires_Response result)))))"

text \<open>The coordinator that the Biz Pod builds over its repositories.  \<^verbatim>\<open>q0\<close> and \<^verbatim>\<open>q1\<close> are what the
  environment contributes to the two loads of a call, \<^verbatim>\<open>r\<close> to its save.\<close>

definition NewServerInitiatedCoordinator ::
  "('q \<Rightarrow> 's \<Rightarrow> string \<Rightarrow> (StoreError, NssaaSession) result) \<Rightarrow> ('r \<Rightarrow> time \<Rightarrow> NssaaSession \<Rightarrow> 's \<Rightarrow> 's \<times> StoreError option) \<Rightarrow>
   'q \<Rightarrow> 'q \<Rightarrow> 'r \<Rightarrow> time \<Rightarrow> (string \<Rightarrow> (string, SessionCorrEntry option) result) \<Rightarrow> (amf_notification \<Rightarrow> string option) \<Rightarrow>
   (string \<Rightarrow> 'a \<Rightarrow> 'a \<times> string option) option \<Rightarrow> ('s, 'a) ServerInitiatedCoordinator" where
  "NewServerInitiatedCoordinator load save q0 q1 r now corr notifier link =
    \<lparr>sic_resolver = CorrelationResolver_Resolve load q0 corr,
     sic_reauth = MarkReauthPending load save q1 r now, sic_revoke = MarkRevoked load save q1 r now,
     sic_coa = ApplyCoA load save q1 r now, sic_notifier = notifier, sic_aiwLink = link\<rparr>"

section \<open>The effect of the reverse path\<close>

text \<open>What a message does to the session it concerns, and which notification it entails.\<close>

definition reverse_update :: "AaaServerInitiatedRequest \<Rightarrow> NssaaSession \<Rightarrow> NssaaSession" where
  "reverse_update req x =
    (if siq_MessageType req = MessageTypeRAR then x\<lparr>nss_Status := ''PENDING''\<rparr>
     else if siq_MessageType req = MessageTypeASR then x\<lparr>nss_Status := ''REVOKED''\<rparr>
     else x\<lparr>nss_EapPayload := siq_Payload req, nss_Status := ''AUTHORIZED''\<rparr>)"

definition reverse_notifications :: "AaaServerInitiatedRequest \<Rightarrow> NssaaSession \<Rightarrow> amf_notification list" where
  "reverse_notifications req x =
    (if nss_CallbackOwner x \<noteq> ''amf'' then []
     else if siq_MessageType req = MessageTypeRAR \<and> nss_ReauthURI x \<noteq> '''' then
       [SendReAuthNotification (nss_ReauthURI x) (nss_AuthCtxID x) (siq_Payload req)]
     else if siq_MessageType req = MessageTypeASR \<and> nss_RevocURI x \<noteq> '''' then
       [SendRevocationNotification (nss_RevocURI x) (nss_AuthCtxID x) (siq_Payload req)]
     else [])"

lemmas message_types = MessageTypeRAR_def MessageTypeASR_def MessageTypeCoA_def

lemma stored_UpdatedAt [simp]: "stored (x\<lparr>nss_UpdatedAt := t\<rparr>) y = stored x y"
  by (simp add: stored_def)

lemma notify_step_cases:
  assumes "notify_step c wanted n completion st = (st', res)"
  shows "bz_sessions st' = bz_sessions st \<and> bz_aiw st' = bz_aiw st
    \<and> (\<forall>k. res = Inr k \<longrightarrow> bz_notified st' = bz_notified st @ (if wanted then [n] else []))"
  using assms by (auto simp: notify_step_def split: if_splits option.splits)

lemma link_step_cases:
  assumes "link_step c ctx completion st = (st', res)"
  shows "bz_sessions st' = bz_sessions st \<and> bz_notified st' = bz_notified st"
  using assms by (auto simp: link_step_def split: if_splits option.splits prod.splits)

lemma finish_fst [simp]: "fst (finish req ctx payload p) = fst p"
  by (simp add: finish_def)

lemma finish_ok:
  assumes "finish req ctx payload (st', res) = (st, Inr r)"
  shows "st = st'" "\<exists>k. res = Inr k" "sip_AuthCtxID (sires_Response r) = nsc_AuthCtxID ctx"
    "sip_SessionID (sires_Response r) = siq_SessionID req" "sip_MessageType (sires_Response r) = ''''"
    "sip_ResultCode (sires_Response r) = 0"
  using assms by (auto simp: finish_def Let_def split: if_splits)

text \<open>The three handlers end alike: the state is written, then the AMF may be notified, then the
  AIW context may be linked.\<close>

lemma finish_link:
  assumes "finish req ctx payload (link_step c ctx k st1) = (st', Inr res)"
  shows "bz_sessions st' = bz_sessions st1" "bz_notified st' = bz_notified st1"
    "sip_AuthCtxID (sires_Response res) = nsc_AuthCtxID ctx"
proof -
  obtain st2 r2 where l: "link_step c ctx k st1 = (st2, r2)" by (cases "link_step c ctx k st1")
  show "bz_sessions st' = bz_sessions st1" "bz_notified st' = bz_notified st1"
    "sip_AuthCtxID (sires_Response res) = nsc_AuthCtxID ctx"
    using finish_ok(1,3) [OF assms [unfolded l]] link_step_cases [OF l] by simp_all
qed

lemma handleRAR_ok:
  assumes "handleRAR c req ctx st = (st', Inr res)"
  shows "sic_reauth c (nsc_AuthCtxID ctx) (bz_sessions st) = (bz_sessions st', None)
    \<and> bz_notified st' = bz_notified st @ (if nsc_CallbackOwner ctx = ''amf'' \<and> nsc_ReauthNotifURI ctx \<noteq> ''''
        then [SendReAuthNotification (nsc_ReauthNotifURI ctx) (nsc_AuthCtxID ctx) (siq_Payload req)] else [])
    \<and> sip_AuthCtxID (sires_Response res) = nsc_AuthCtxID ctx"
proof -
  obtain ss st1 k where "sic_reauth c (nsc_AuthCtxID ctx) (bz_sessions st) = (ss, None)"
    "notify_step c (nsc_CallbackOwner ctx = ''amf'' \<and> nsc_ReauthNotifURI ctx \<noteq> '''')
        (SendReAuthNotification (nsc_ReauthNotifURI ctx) (nsc_AuthCtxID ctx) (siq_Payload req))
        CompletionStateOnly (st\<lparr>bz_sessions := ss\<rparr>) = (st1, Inr k)"
    "finish req ctx [2, 0, 0, 12] (link_step c ctx k st1) = (st', Inr res)"
    using assms by (auto simp: handleRAR_def split: prod.splits option.splits sum.splits)
  then show ?thesis using notify_step_cases [of c _ _ CompletionStateOnly "st\<lparr>bz_sessions := ss\<rparr>" st1 "Inr k"]
      finish_link(1-3) [of req ctx "[2, 0, 0, 12]" c k st1 st' res] by simp
qed

lemma handleASR_ok:
  assumes "handleASR c req ctx st = (st', Inr res)"
  shows "sic_revoke c (nsc_AuthCtxID ctx) (bz_sessions st) = (bz_sessions st', None)
    \<and> bz_notified st' = bz_notified st @ (if nsc_CallbackOwner ctx = ''amf'' \<and> nsc_RevocNotifURI ctx \<noteq> ''''
        then [SendRevocationNotification (nsc_RevocNotifURI ctx) (nsc_AuthCtxID ctx) (siq_Payload req)] else [])
    \<and> sip_AuthCtxID (sires_Response res) = nsc_AuthCtxID ctx"
proof -
  obtain ss st1 k where "sic_revoke c (nsc_AuthCtxID ctx) (bz_sessions st) = (ss, None)"
    "notify_step c (nsc_CallbackOwner ctx = ''amf'' \<and> nsc_RevocNotifURI ctx \<noteq> '''')
        (SendRevocationNotification (nsc_RevocNotifURI ctx) (nsc_AuthCtxID ctx) (siq_Payload req))
        CompletionStateOnly (st\<lparr>bz_sessions := ss\<rparr>) = (st1, Inr k)"
    "finish req ctx [1] (link_step c ctx k st1) = (st', Inr res)"
    using assms by (auto simp: handleASR_def split: prod.splits option.splits sum.splits)
  then show ?thesis using notify_step_cases [of c _ _ CompletionStateOnly "st\<lparr>bz_sessions := ss\<rparr>" st1 "Inr k"]
      finish_link(1-3) [of req ctx "[1]" c k st1 st' res] by simp
qed

lemma handleCoA_ok:
  assumes "handleCoA c req ctx st = (st', Inr res)"
  shows "sic_coa c (nsc_AuthCtxID ctx) (siq_Payload req) (bz_sessions st) = (bz_sessions st', None)
    \<and> bz_notified st' = bz_notified st \<and> sip_AuthCtxID (sires_Response res) = nsc_AuthCtxID ctx"
proof -
  obtain ss where "sic_coa c (nsc_AuthCtxID ctx) (siq_Payload req) (bz_sessions st) = (ss, None)"
    "finish req ctx [2, 0, 0, 12] (link_step c ctx CompletionStateOnly (st\<lparr>bz_sessions := ss\<rparr>)) = (st', Inr res)"
    using assms by (auto simp: handleCoA_def split: prod.splits option.splits)
  then show ?thesis using finish_link [of req ctx "[2, 0, 0, 12]" c CompletionStateOnly "st\<lparr>bz_sessions := ss\<rparr>" st' res] by simp
qed

lemma Handle_response:
  assumes "Handle c req st = (st', Inr res)"
  shows "sip_MessageType (sires_Response res) = '''' \<and> sip_SessionID (sires_Response res) = siq_SessionID req
    \<and> sip_ResultCode (sires_Response res) = 0"
proof -
  have "\<exists>ctx payload p. finish req ctx payload p = (st', Inr res)"
    using assms
    by (auto simp: Handle_def handleRAR_def handleASR_def handleCoA_def simp del: split_paired_Ex
        split: sum.splits if_splits prod.splits option.splits)
  then show ?thesis using finish_ok(4,5,6) by (metis prod.collapse)
qed

lemma Resolve_ok:
  assumes "CorrelationResolver_Resolve load q corr st sid aid = Inr ctx"
  obtains x where "load q st (nsc_AuthCtxID ctx) = Inr x" "nsc_AuthCtxID ctx \<noteq> ''''"
    "aid \<noteq> '''' \<longrightarrow> nsc_AuthCtxID ctx = aid" "nsc_CallbackOwner ctx = nss_CallbackOwner x"
    "nsc_ReauthNotifURI ctx = nss_ReauthURI x" "nsc_RevocNotifURI ctx = nss_RevocURI x"
    "nsc_HasAIWContext ctx = nss_HasAIWContext x"
  using assms
  by (auto simp: CorrelationResolver_Resolve_def load_context_def split: if_splits sum.splits option.splits)

text \<open>The repository of N58 sessions as the coordinator and the handlers use it.\<close>

locale nssaa_repository = session_repository load save peek env_ok inv nss_AuthCtxID stored
  for load :: "'q \<Rightarrow> 's \<Rightarrow> string \<Rightarrow> (StoreError, NssaaSession) result"
    and save :: "'r \<Rightarrow> time \<Rightarrow> NssaaSession \<Rightarrow> 's \<Rightarrow> 's \<times> StoreError option"
    and peek :: "'s \<Rightarrow> string \<Rightarrow> NssaaSession option"
    and env_ok :: "'r \<Rightarrow> bool"
    and inv :: "'s \<Rightarrow> bool"
begin

lemma write_session_ok:
  assumes "inv st" "env_ok r" "write_session load save q r now f i st = (st', None)" "\<And>x. nss_AuthCtxID (f x) = nss_AuthCtxID x"
  shows "\<exists>x y. peek st i = Some x \<and> peek st' = (peek st)(i \<mapsto> y) \<and> stored (f x) y"
proof -
  obtain x where x: "load q st i = Inr x" and s: "save r now ((f x)\<lparr>nss_UpdatedAt := now\<rparr>) st = (st', None)"
    using assms(3) by (auto simp: write_session_def split: sum.splits prod.splits option.splits)
  have "nss_AuthCtxID ((f x)\<lparr>nss_UpdatedAt := now\<rparr>) = i" using load_id [OF assms(1) x] assms(4) by simp
  then show ?thesis using save_ok [OF assms(1,2) s] load_peek [OF assms(1) x] by auto
qed

lemma write_session_err:
  assumes "inv st" "write_session load save q r now f i st = (st', Some e)"
  shows "st' = st"
  using assms save_err by (fastforce simp: write_session_def split: sum.splits prod.splits option.splits)

lemma write_session_inv:
  assumes "inv st"
  shows "inv (fst (write_session load save q r now f i st))"
proof (cases "load q st i")
  case (Inr x)
  then show ?thesis using save_inv_fst [OF assms, of r now "(f x)\<lparr>nss_UpdatedAt := now\<rparr>"]
    by (auto simp: write_session_def split: prod.split option.split)
qed (simp add: write_session_def assms)

lemma handled_session:
  assumes "inv ss" "env_ok r" "load q0 ss i = Inr x" "write_session load save q1 r now f i ss = (ss', None)"
    "\<And>x. nss_AuthCtxID (f x) = nss_AuthCtxID x"
  shows "\<exists>y. peek ss i = Some x \<and> peek ss' = (peek ss)(i \<mapsto> y) \<and> stored (f x) y"
  using write_session_ok [OF assms(1,2,4,5)] load_peek [OF assms(1,3)] by auto

lemma Handle_effect:
  assumes "inv (bz_sessions st)" "env_ok r"
    "Handle (NewServerInitiatedCoordinator load save q0 q1 r now corr notifier link) req st = (st', Inr res)"
  shows "\<exists>i x y. peek (bz_sessions st) i = Some x \<and> (siq_AuthCtxID req \<noteq> '''' \<longrightarrow> i = siq_AuthCtxID req)
    \<and> nss_CallbackOwner x \<noteq> '''' \<and> peek (bz_sessions st') = (peek (bz_sessions st))(i \<mapsto> y) \<and> stored (reverse_update req x) y
    \<and> bz_notified st' = bz_notified st @ reverse_notifications req x \<and> sip_AuthCtxID (sires_Response res) = i"
proof -
  let ?c = "NewServerInitiatedCoordinator load save q0 q1 r now corr notifier link"
  obtain ctx where ctx: "CorrelationResolver_Resolve load q0 corr (bz_sessions st) (siq_SessionID req) (siq_AuthCtxID req) = Inr ctx"
    and o: "nsc_CallbackOwner ctx \<noteq> ''''"
    using assms(3) by (auto simp: Handle_def NewServerInitiatedCoordinator_def split: sum.splits if_splits)
  obtain x where x: "load q0 (bz_sessions st) (nsc_AuthCtxID ctx) = Inr x"
    "siq_AuthCtxID req \<noteq> '''' \<longrightarrow> nsc_AuthCtxID ctx = siq_AuthCtxID req" "nsc_CallbackOwner ctx = nss_CallbackOwner x"
    "nsc_ReauthNotifURI ctx = nss_ReauthURI x" "nsc_RevocNotifURI ctx = nss_RevocURI x"
    using Resolve_ok [OF ctx] by metis
  have id: "nss_AuthCtxID x = nsc_AuthCtxID ctx" using load_id [OF assms(1) x(1)] .
  have res: "Handle ?c req st = (if siq_MessageType req = MessageTypeRAR then handleRAR ?c req ctx st
      else if siq_MessageType req = MessageTypeASR then handleASR ?c req ctx st
      else if siq_MessageType req = MessageTypeCoA then handleCoA ?c req ctx st
      else (st, Inl (''unsupported message type: '' @ siq_MessageType req)))"
    using ctx o by (simp add: Handle_def NewServerInitiatedCoordinator_def)
  have "\<exists>f. write_session load save q1 r now f (nsc_AuthCtxID ctx) (bz_sessions st) = (bz_sessions st', None)
      \<and> (\<forall>x. nss_AuthCtxID (f x) = nss_AuthCtxID x) \<and> f x = reverse_update req x
      \<and> bz_notified st' = bz_notified st @ reverse_notifications req x
      \<and> sip_AuthCtxID (sires_Response res) = nsc_AuthCtxID ctx"
    (is "\<exists>f. ?P f")
  proof -
    consider (RAR) "siq_MessageType req = MessageTypeRAR" "handleRAR ?c req ctx st = (st', Inr res)"
      | (ASR) "siq_MessageType req = MessageTypeASR" "handleASR ?c req ctx st = (st', Inr res)"
      | (CoA) "siq_MessageType req = MessageTypeCoA" "handleCoA ?c req ctx st = (st', Inr res)"
      using assms(3) res by (auto split: if_splits)
    then show ?thesis
    proof cases
      case RAR
      then have "?P (\<lambda>s. s\<lparr>nss_Status := ''PENDING''\<rparr>)"
        using handleRAR_ok [OF RAR(2)] x(3,4) id
        by (simp add: NewServerInitiatedCoordinator_def MarkReauthPending_def reverse_update_def reverse_notifications_def message_types)
      then show ?thesis by blast
    next
      case ASR
      then have "?P (\<lambda>s. s\<lparr>nss_Status := ''REVOKED''\<rparr>)"
        using handleASR_ok [OF ASR(2)] x(3,5) id
        by (simp add: NewServerInitiatedCoordinator_def MarkRevoked_def reverse_update_def reverse_notifications_def message_types)
      then show ?thesis by blast
    next
      case CoA
      then have "?P (\<lambda>s. s\<lparr>nss_EapPayload := siq_Payload req, nss_Status := ''AUTHORIZED''\<rparr>)"
        using handleCoA_ok [OF CoA(2)]
        by (simp add: NewServerInitiatedCoordinator_def ApplyCoA_def reverse_update_def reverse_notifications_def message_types)
      then show ?thesis by blast
    qed
  qed
  then show ?thesis using handled_session [OF assms(1,2) x(1)] x(2,3) o by metis
qed

end

interpretation pgn: nssaa_repository "NssaaRepository_Load c" "NssaaRepository_Save c" "pg_peek c" "pg_env_ok c" pg_inv for c
  by unfold_locales

section \<open>Properties of the Biz Pod\<close>


definition ex_reverse :: "string \<Rightarrow> AaaServerInitiatedRequest" where
  "ex_reverse messageType = \<lparr>siq_Version = ''1.0'', siq_SessionID = ''s1'', siq_AuthCtxID = ''ctx'',
     siq_TransportType = ''RADIUS'', siq_MessageType = messageType, siq_Payload = [43, 1]\<rparr>"

definition ex_coordinator :: "(nssaa_table, unit) ServerInitiatedCoordinator" where
  "ex_coordinator = NewServerInitiatedCoordinator (NssaaRepository_Load (ex_cfg 7)) (NssaaRepository_Save (ex_cfg 7))
     None None ex_env 20 (\<lambda>_. Inr None) (\<lambda>_. None) None"

definition ex_biz :: "(nssaa_table, unit) biz_state" where
  "ex_biz = \<lparr>bz_sessions = fst (NssaaRepository_Save (ex_cfg 7) ex_env 10 ex_nssaa []), bz_aiw = (), bz_notified = []\<rparr>"

text \<open>Over a table that holds one session, the coordinator answers.\<close>

lemma ex_biz_row:
  "\<exists>r h. bz_sessions ex_biz = [(r, h)] \<and> nr_AuthCtxID r = ''ctx'' \<and> nr_CallbackOwner r = ''amf''"
  by (simp add: ex_biz_def NssaaRepository_Save_def updateRow_def createRow_def encryptState_def encryptField_def EncryptConcat_def
      ex_cfg_def ex_env_def ex_nssaa_def sessionToRow_def)

lemma ex_biz_inv: "pg_inv (bz_sessions ex_biz)"
  using ex_biz_row by (auto simp: pg_inv_def pg_ids_def)

lemma ex_biz_peek: "\<exists>y. pg_peek (ex_cfg 7) (bz_sessions ex_biz) ''ctx'' = Some y \<and> stored ex_nssaa y"
proof -
  obtain t where t: "NssaaRepository_Save (ex_cfg 7) ex_env 10 ex_nssaa [] = (t, None)" using ex_save by blast
  have "pg_inv []" by (simp add: pg_inv_def pg_ids_def)
  moreover have "nss_AuthCtxID ex_nssaa = ''ctx''" by (simp add: ex_nssaa_def)
  ultimately show ?thesis using pg.save_ok [OF _ ex_env_ok t] by (auto simp: ex_biz_def t)
qed

lemma ex_writes:
  assumes "bz_sessions ex_biz = [(r, h)]" "nr_AuthCtxID r = ''ctx''" "\<And>x. nss_AuthCtxID (f x) = nss_AuthCtxID x"
  shows "\<exists>t'. write_session (NssaaRepository_Load (ex_cfg 7)) (NssaaRepository_Save (ex_cfg 7)) None ex_env 20 f ''ctx'' (bz_sessions ex_biz)
    = (t', None)"
  using ex_save_succeeds [of 7 20 "(f (rowToSession (scanRow (ex_cfg 7) (r, h))))\<lparr>nss_UpdatedAt := 20\<rparr>" "[(r, h)]"] assms
  by (auto simp: write_session_def NssaaRepository_Load_def loadRow_def find_row_def rowToSession_def scanRow_def)

lemma ex_coordinator_answers:
  assumes "m = ''RAR'' \<or> m = ''COA''"
  shows "\<exists>st' res. Handle ex_coordinator (ex_reverse m) ex_biz = (st', Inr res)"
proof -
  obtain r h where r: "bz_sessions ex_biz = [(r, h)]" "nr_AuthCtxID r = ''ctx''" "nr_CallbackOwner r = ''amf''"
    using ex_biz_row by blast
  obtain t1 t2 where "MarkReauthPending (NssaaRepository_Load (ex_cfg 7)) (NssaaRepository_Save (ex_cfg 7)) None ex_env 20 ''ctx'' (bz_sessions ex_biz) = (t1, None)"
    "ApplyCoA (NssaaRepository_Load (ex_cfg 7)) (NssaaRepository_Save (ex_cfg 7)) None ex_env 20 ''ctx'' [43, 1] (bz_sessions ex_biz) = (t2, None)"
    using ex_writes [OF r(1,2), of "\<lambda>s. s\<lparr>nss_Status := ''PENDING''\<rparr>"]
      ex_writes [OF r(1,2), of "\<lambda>s. s\<lparr>nss_EapPayload := [43, 1], nss_Status := ''AUTHORIZED''\<rparr>"]
    by (auto simp: MarkReauthPending_def ApplyCoA_def)
  moreover have "\<exists>ctx. CorrelationResolver_Resolve (NssaaRepository_Load (ex_cfg 7)) None (\<lambda>_. Inr None) (bz_sessions ex_biz) ''s1'' ''ctx''
      = Inr ctx \<and> nsc_AuthCtxID ctx = ''ctx'' \<and> nsc_CallbackOwner ctx = ''amf''"
    using r by (simp add: CorrelationResolver_Resolve_def load_context_def NssaaRepository_Load_def loadRow_def find_row_def
        rowToSession_def scanRow_def)
  ultimately show ?thesis using assms
    by (auto simp: Handle_def ex_coordinator_def NewServerInitiatedCoordinator_def ex_reverse_def message_types
        handleRAR_def handleCoA_def notify_step_def link_step_def finish_def ServerInitiatedResult_Validate_def)
qed


text \<open>The slice does not reach the AAA gateway.  For a session whose key is \<^verbatim>\<open>sst:sd\<close>, the form in
  which the handlers write it, the request carries SST 0 and no SD, and the transport is chosen
  as if the exact routes that name an SD were not configured.\<close>

theorem exact_routes_unused:
  fixes sst :: byte
  assumes "es_SnssaiKey s = show_nat (unat sst) @ '':'' @ sd"
  shows "httpAAAClient_request (Some cfg) v t s p
      = httpAAAClient_request (Some (cfg\<lparr>src_Exact := filter (\<lambda>e. sre_SD e = '''') (src_Exact cfg)\<rparr>)) v t s p
    \<and> fq_Sst (httpAAAClient_request (Some cfg) v t s p) = 0 \<and> fq_Sd (httpAAAClient_request (Some cfg) v t s p) = ''''"
proof -
  have "find (\<lambda>e. sre_SST e = sst \<and> sre_SD e = '''') (filter (\<lambda>e. sre_SD e = '''') es) = find (\<lambda>e. sre_SST e = sst \<and> sre_SD e = '''') es"
    for es :: "SnssaiRouteEntry list"
    by (induction es) auto
  then have "select_route (cfg\<lparr>src_Exact := filter (\<lambda>e. sre_SD e = '''') (src_Exact cfg)\<rparr>) sst '''' = select_route cfg sst ''''"
    by (simp add: select_route_def split: option.split)
  then show ?thesis
    using DecodeSnssaiKey_key [of s sst sd] assms by (simp add: httpAAAClient_request_def resolveTransportType_def)
qed

text \<open>No server-initiated request other than an abort is ever answered.  The coordinator leaves the
  message type of its answer empty, which the gateway takes for an abort: if the answer to a change
  of authorization is posted to the gateway, the waiting request stays pending.\<close>

theorem coa_stays_pending:
  assumes "Handle c req st = (st', Inr res)" "si_inv reg"
    "gm_get (si_pending reg) (registryKey (siq_SessionID req) ''COA'') = Some rc"
  shows "gm_get (si_pending (fst (HandleServerInitiatedResponse ''POST'' (Some (sires_Response res)) reg)))
      (registryKey (siq_SessionID req) ''COA'') = Some rc
    \<and> Wait_receive (fst (HandleServerInitiatedResponse ''POST'' (Some (sires_Response res)) reg)) rc = None"
proof -
  have m: "sip_MessageType (sires_Response res) = ''''" "sip_SessionID (sires_Response res) = siq_SessionID req"
    using Handle_response [OF assms(1)] by blast+
  let ?r = "fst (HandleServerInitiatedResponse ''POST'' (Some (sires_Response res)) reg)"
  obtain resp where r: "?r = si_exec (SiComplete (siq_SessionID req) ''ASR'' resp) reg"
    using m by (auto simp: HandleServerInitiatedResponse_def Let_def)
  have "gm_get (si_pending ?r) (registryKey (siq_SessionID req) ''COA'') = Some rc"
    unfolding r by (rule si_exec_other [OF assms(2,3)]) (simp add: registryKey_def)
  moreover have "si_inv ?r" unfolding r by (rule si_exec_inv [OF assms(2)])
  ultimately show ?thesis by (simp add: si_inv_def Wait_receive_def)
qed

end
