(* ===== verification/Api_Common.thy ===== *)
theory Api_Common
  imports Common Encodings
begin

text \<open>
  \<^verbatim>\<open>internal/api/common\<close> beyond the validators: responses and the reading of requests, which the
  handlers of both interfaces share, and what the middleware computes from a request: its
  identifier, the recovery from a panic, the CORS decision and the labels of the metrics.  JSON
  decoding is an argument.
\<close>

section \<open>Responses and request bodies\<close>

datatype 'b response =
    ProblemResponse ProblemDetails
  | RateLimited int
  | CreatedResponse string 'b
  | OkResponse 'b

definition status_code :: "'b response \<Rightarrow> int" where
  "status_code resp = (case resp of ProblemResponse pd \<Rightarrow> pd_Status pd | RateLimited _ \<Rightarrow> 429 | CreatedResponse _ _ \<Rightarrow> 201 | OkResponse _ \<Rightarrow> 200)"

text \<open>\<^verbatim>\<open>ReadRequestBody\<close>: the body is read, decoded into its members, and decoded into the type;
  the two decoders are arguments.  The members present are returned beside the value.\<close>

definition ReadRequestBody ::
  "(bytes \<Rightarrow> (string, string list) result) \<Rightarrow> (bytes \<Rightarrow> (string, 'b) result) \<Rightarrow> (string, bytes) result \<Rightarrow>
   (ProblemDetails, 'b \<times> (string \<Rightarrow> bool)) result" where
  "ReadRequestBody members decode raw =
    (case raw of
       Inl err \<Rightarrow> Inl (ValidationProblem ''body'' err)
     | Inr bodyBytes \<Rightarrow>
         (case members bodyBytes of
            Inl err \<Rightarrow> Inl (ValidationProblem ''body'' err)
          | Inr ks \<Rightarrow>
              (case decode bodyBytes of
                 Inl err \<Rightarrow> Inl (ValidationProblem ''body'' err)
               | Inr body \<Rightarrow> Inr (body, \<lambda>k. k \<in> set ks))))"

text \<open>A limiter that is absent or fails lets the request pass.\<close>

definition limited :: "(string \<Rightarrow> (string, bool) result) option \<Rightarrow> string \<Rightarrow> bool" where
  "limited limiter key =
    (case limiter of
       None \<Rightarrow> False
     | Some allow \<Rightarrow> (case allow key of Inl _ \<Rightarrow> False | Inr allowed \<Rightarrow> \<not> allowed))"

definition write429 :: "int \<Rightarrow> 'b response" where
  "write429 retryAfter = RateLimited retryAfter"

definition check :: "bool \<Rightarrow> 'b response \<Rightarrow> ('b response, unit) result" where
  "check bad resp = (if bad then Inl resp else Inr ())"

definition check_problem :: "ProblemDetails option \<Rightarrow> ('b response, unit) result" where
  "check_problem p = (case p of None \<Rightarrow> Inr () | Some pd \<Rightarrow> Inl (ProblemResponse pd))"

definition problem_result :: "(ProblemDetails, 'a) result \<Rightarrow> ('b response, 'a) result" where
  "problem_result req = (case req of Inl pd \<Rightarrow> Inl (ProblemResponse pd) | Inr v \<Rightarrow> Inr v)"

text \<open>A required base64 member of the body.\<close>

definition required_base64 :: "string \<Rightarrow> string option \<Rightarrow> ('b response, bytes) result" where
  "required_base64 field v =
    (case v of
       None \<Rightarrow> Inl (ProblemResponse (ValidationProblem field (field @ '' is required'')))
     | Some s \<Rightarrow>
         if s = '''' then Inl (ProblemResponse (ValidationProblem field (field @ '' is required'')))
         else (case b64_decode s of
            None \<Rightarrow> Inl (ProblemResponse (ValidationProblem field (field @ '' must be valid base64-encoded data'')))
          | Some payload \<Rightarrow> Inr payload))"

lemma check_Inr [simp]: "check bad resp = Inr u \<longleftrightarrow> \<not> bad"
  by (simp add: check_def)

lemma check_problem_Inr [simp]: "check_problem p = Inr u \<longleftrightarrow> p = None"
  by (simp add: check_problem_def split: option.split)

lemma problem_result_Inr [simp]: "problem_result req = Inr v \<longleftrightarrow> req = Inr v"
  by (simp add: problem_result_def split: sum.split)

lemma required_base64_Inr [simp]:
  "required_base64 field v = Inr p \<longleftrightarrow> (\<exists>s. v = Some s \<and> s \<noteq> '''' \<and> b64_decode s = Some p)"
  by (auto simp: required_base64_def split: option.splits)

lemma ValidateSnssai_present: "ValidateSnssai sst sd missing = None \<Longrightarrow> ValidateSnssai sst sd False = None"
  by (auto simp: ValidateSnssai_def split: if_splits)

section \<open>Middleware\<close>

definition RequestID :: "string \<Rightarrow> string \<Rightarrow> string" where
  "RequestID header uuid = (if header = '''' then uuid else header)"

text \<open>A handler that panics is \<^verbatim>\<open>None\<close>.\<close>

definition RecoveryMiddleware :: "'b response option \<Rightarrow> 'b response" where
  "RecoveryMiddleware handled =
    (case handled of
       None \<Rightarrow> ProblemResponse (InternalServerProblem ''An unexpected error occurred'')
     | Some resp \<Rightarrow> resp)"

datatype cors = CorsPass bool | CorsPreflight

definition CORSMiddleware :: "string \<Rightarrow> string \<Rightarrow> cors" where
  "CORSMiddleware httpMethod path =
    (if length path \<ge> 4 \<and> take 4 path = ''/oam''
     then (if httpMethod = ''OPTIONS'' then CorsPreflight else CorsPass True)
     else CorsPass False)"

definition statusLabel :: "int \<Rightarrow> string" where
  "statusLabel c =
    (if c \<ge> 200 \<and> c < 300 then ''2xx''
     else if c \<ge> 300 \<and> c < 400 then ''3xx''
     else if c \<ge> 400 \<and> c < 500 then ''4xx''
     else if c \<ge> 500 then ''5xx''
     else ''unknown'')"

text \<open>\<^verbatim>\<open>path[:strings.LastIndex(path, "/")]\<close>, if there is a slash.\<close>

definition before_last_slash :: "string \<Rightarrow> string option" where
  "before_last_slash path =
    (if CHR ''/'' \<in> set path then Some (rev (tl (dropWhile (\<lambda>c. c \<noteq> CHR ''/'') (rev path)))) else None)"

definition stripAPIversion :: "string \<Rightarrow> string" where
  "stripAPIversion p =
    (let path = TrimSuffix p ''/'' in
     case before_last_slash path of
       None \<Rightarrow> path
     | Some candidate \<Rightarrow>
         if HasSuffix candidate ''/v1'' \<or> HasSuffix candidate ''/v2'' then candidate else path)"

definition inferService :: "string \<Rightarrow> string" where
  "inferService path =
    (if HasPrefix path ''/nnssaaf-nssaa'' then ''nssaa''
     else if HasPrefix path ''/nnssaaf-aiw'' then ''aiw''
     else if HasPrefix path ''/aaa'' then ''internal''
     else ''oam'')"

definition MetricsLabels :: "string \<Rightarrow> string \<Rightarrow> int \<Rightarrow> string \<times> string \<times> string \<times> string" where
  "MetricsLabels httpMethod path status = (inferService path, stripAPIversion path, httpMethod, statusLabel status)"

text \<open>\<^verbatim>\<open>json\<close> decodes the body into its members; \<^verbatim>\<open>None\<close> as the value of a member is one that is not a
  string.\<close>

definition ExtractSubscriber :: "(bytes \<Rightarrow> (string \<Rightarrow> string option option) option) \<Rightarrow> bytes \<Rightarrow> string \<times> string" where
  "ExtractSubscriber json body =
    (case json body of
       None \<Rightarrow> ('''', '''')
     | Some m \<Rightarrow>
         (case m ''gpsi'' of
            Some (Some v) \<Rightarrow> (v, '''')
          | _ \<Rightarrow> (case m ''supi'' of Some (Some v) \<Rightarrow> ('''', v) | _ \<Rightarrow> ('''', ''''))))"

definition clientIP :: "string \<Rightarrow> string \<Rightarrow> string" where
  "clientIP xff remoteAddr = (if xff \<noteq> '''' then xff else remoteAddr)"

lemma HasSuffix_iff: "HasSuffix s p \<longleftrightarrow> (\<exists>t. s = t @ p)"
  by (auto simp: HasSuffix_def) (metis append_take_drop_id)

lemma HasSuffix_append: "length p \<le> length t \<Longrightarrow> HasSuffix (s @ t) p \<longleftrightarrow> HasSuffix t p"
  by (auto simp: HasSuffix_def)

lemma before_last_slash_append:
  assumes "CHR ''/'' \<notin> set t"
  shows "before_last_slash (s @ CHR ''/'' # t) = Some s"
proof -
  have "dropWhile (\<lambda>c. c \<noteq> CHR ''/'') (rev t @ CHR ''/'' # rev s) = CHR ''/'' # rev s"
    using assms by (subst dropWhile_append2) auto
  then show ?thesis by (simp add: before_last_slash_def)
qed

lemma HasSuffix_slash_absent: "CHR ''/'' \<notin> set t \<Longrightarrow> t \<noteq> [] \<Longrightarrow> \<not> HasSuffix (s @ t) ''/''"
  by (auto simp: HasSuffix_iff) (metis last_appendR last_in_set last_snoc)

section \<open>Properties of the middleware\<close>

text \<open>The label of the endpoint in the request metrics is different for every authentication context:
  below \<^verbatim>\<open>slice-authentications\<close> the whole path is kept, identifier included, although the
  function is there to keep the number of labels bounded.\<close>

theorem endpoint_label_per_context:
  assumes "i \<noteq> ''''" "CHR ''/'' \<notin> set i"
  shows "stripAPIversion (''/nnssaaf-nssaa/v1/slice-authentications/'' @ i)
    = ''/nnssaaf-nssaa/v1/slice-authentications/'' @ i"
proof -
  have "\<not> HasSuffix (''/nnssaaf-nssaa/v1/slice-authentications/'' @ i) ''/''"
    by (rule HasSuffix_slash_absent [OF assms(2,1)])
  moreover have "before_last_slash (''/nnssaaf-nssaa/v1/slice-authentications/'' @ i)
      = Some ''/nnssaaf-nssaa/v1/slice-authentications''"
    using before_last_slash_append [OF assms(2), of "''/nnssaaf-nssaa/v1/slice-authentications''"] by simp
  ultimately show ?thesis by (simp add: stripAPIversion_def TrimSuffix_def) (simp add: HasSuffix_def)
qed

end
