(* ===== verification/Api_Nssaa.thy ===== *)
theory Api_Nssaa
  imports Biz Api_Common
begin

text \<open>
  \<^verbatim>\<open>internal/api/nssaa\<close>: the handlers of the N58 interface, on which the AMF creates a slice
  authentication context and confirms it.  A handler is a function from the decoded request and
  the sessions to the sessions, the response and the calls made to the AAA side.  The session
  repository, the rate limiters, the AAA router and the generator of identifiers are arguments.
  Fields of the request that the handlers do not read are left out.
\<close>

section \<open>Requests and responses\<close>

record SliceAuthInfo =
  sai_Gpsi :: string
  sai_Sst :: byte
  sai_Sd :: string
  sai_EapIdRsp :: "string option"
  sai_AmfInstanceId :: "string option"
  sai_ReauthNotifUri :: "string option"
  sai_RevocNotifUri :: "string option"

record SliceAuthContext =
  sac_AuthCtxId :: string
  sac_Gpsi :: string
  sac_Sst :: byte
  sac_Sd :: string
  sac_EapMessage :: string

record SliceAuthConfirmationData =
  scd_Gpsi :: string
  scd_Sst :: byte
  scd_Sd :: string
  scd_EapMessage :: "string option"

record SliceAuthConfirmationResponse =
  scr_Gpsi :: string
  scr_Sst :: byte
  scr_Sd :: string
  scr_EapMessage :: string
  scr_AuthResult :: "string option"

section \<open>Contexts\<close>

record AuthCtx =
  ac_AuthCtxID :: string
  ac_GPSI :: string
  ac_SnssaiSST :: byte
  ac_SnssaiSD :: string
  ac_AmfInstance :: string
  ac_ReauthURI :: string
  ac_RevocURI :: string
  ac_EapPayload :: bytes

definition authCtxToNssaaSession :: "time \<Rightarrow> AuthCtx \<Rightarrow> NssaaSession" where
  "authCtxToNssaaSession now a =
    \<lparr>nss_AuthCtxID = ac_AuthCtxID a, nss_GPSI = ac_GPSI a, nss_SnssaiSST = ac_SnssaiSST a, nss_SnssaiSD = ac_SnssaiSD a,
     nss_AmfInstance = ac_AmfInstance a, nss_ReauthURI = ac_ReauthURI a, nss_RevocURI = ac_RevocURI a,
     nss_EapPayload = ac_EapPayload a, nss_Status = ''PENDING'', nss_CallbackOwner = ''amf'', nss_HasAIWContext = False,
     nss_CreatedAt = zero_time, nss_UpdatedAt = zero_time, nss_ExpiresAt = now + 5 * Minute\<rparr>"

text \<open>The AAA router answers with an EAP message or fails; where it fails or is absent, the
  handlers answer with the message they received.\<close>

type_synonym aaa_send = "Session \<Rightarrow> bytes \<Rightarrow> (string, bytes) result"

definition snssai_key :: "byte \<Rightarrow> string \<Rightarrow> string" where
  "snssai_key sst sd = show_nat (unat sst) @ '':'' @ sd"

definition eap_session :: "time \<Rightarrow> string \<Rightarrow> string \<Rightarrow> byte \<Rightarrow> string \<Rightarrow> Session" where
  "eap_session now authCtxID gpsi sst sd = WithSnssai (NewSession authCtxID gpsi now) (snssai_key sst sd)"

definition forward_or_echo :: "aaa_send option \<Rightarrow> Session \<Rightarrow> bytes \<Rightarrow> bytes" where
  "forward_or_echo aaa session payload =
    (case aaa of
       None \<Rightarrow> payload
     | Some send \<Rightarrow> (case send session payload of Inl _ \<Rightarrow> payload | Inr next \<Rightarrow> next))"

definition aaa_calls :: "aaa_send option \<Rightarrow> Session \<Rightarrow> bytes \<Rightarrow> (Session \<times> bytes) list" where
  "aaa_calls aaa session payload = (case aaa of None \<Rightarrow> [] | Some _ \<Rightarrow> [(session, payload)])"

section \<open>Creation\<close>

definition check_create ::
  "(string \<Rightarrow> (string, bool) result) option \<Rightarrow> (ProblemDetails, SliceAuthInfo \<times> (string \<Rightarrow> bool)) result \<Rightarrow>
   (SliceAuthContext response, SliceAuthInfo \<times> bytes) result" where
  "check_create amfRateLimiter req =
    rbind (problem_result req) (\<lambda>(body, present).
    rbind (check (case sai_AmfInstanceId body of None \<Rightarrow> False | Some i \<Rightarrow> limited amfRateLimiter i) (write429 60)) (\<lambda>_.
    rbind (check_problem (ValidateGPSI (sai_Gpsi body))) (\<lambda>_.
    rbind (check_problem (ValidateSnssai (uint (sai_Sst body)) (sai_Sd body) (\<not> present ''snssai''))) (\<lambda>_.
    rbind (required_base64 ''eapIdRsp'' (sai_EapIdRsp body)) (\<lambda>eapPayload. Inr (body, eapPayload))))))"

definition newAuthCtx :: "string \<Rightarrow> SliceAuthInfo \<Rightarrow> bytes \<Rightarrow> AuthCtx" where
  "newAuthCtx authCtxID body eapPayload =
    \<lparr>ac_AuthCtxID = authCtxID, ac_GPSI = sai_Gpsi body, ac_SnssaiSST = sai_Sst body, ac_SnssaiSD = sai_Sd body,
     ac_AmfInstance = (case sai_AmfInstanceId body of None \<Rightarrow> '''' | Some i \<Rightarrow> i),
     ac_ReauthURI = (case sai_ReauthNotifUri body of None \<Rightarrow> '''' | Some u \<Rightarrow> u),
     ac_RevocURI = (case sai_RevocNotifUri body of None \<Rightarrow> '''' | Some u \<Rightarrow> u), ac_EapPayload = eapPayload\<rparr>"

definition CreateSliceAuthenticationContext ::
  "('r \<Rightarrow> time \<Rightarrow> NssaaSession \<Rightarrow> 's \<Rightarrow> 's \<times> StoreError option) \<Rightarrow> 'r \<Rightarrow> string \<Rightarrow> aaa_send option \<Rightarrow>
   (string \<Rightarrow> (string, bool) result) option \<Rightarrow> string \<Rightarrow> time \<Rightarrow>
   (ProblemDetails, SliceAuthInfo \<times> (string \<Rightarrow> bool)) result \<Rightarrow> 's \<Rightarrow>
   's \<times> SliceAuthContext response \<times> (Session \<times> bytes) list" where
  "CreateSliceAuthenticationContext save r apiRoot aaa amfRateLimiter authCtxID now req st =
    (case check_create amfRateLimiter req of
       Inl resp \<Rightarrow> (st, resp, [])
     | Inr (body, eapPayload) \<Rightarrow>
         (case save r now (authCtxToNssaaSession now (newAuthCtx authCtxID body eapPayload)) st of
            (st', Some _) \<Rightarrow> (st', ProblemResponse (InternalServerProblem ''failed to create auth context''), [])
          | (st', None) \<Rightarrow>
              let session = eap_session now authCtxID (sai_Gpsi body) (sai_Sst body) (sai_Sd body)
              in (st', CreatedResponse (apiRoot @ ''/nnssaaf-nssaa/v1/slice-authentications/'' @ authCtxID)
                    \<lparr>sac_AuthCtxId = authCtxID, sac_Gpsi = sai_Gpsi body, sac_Sst = sai_Sst body, sac_Sd = sai_Sd body,
                     sac_EapMessage = b64_encode (forward_or_echo aaa session eapPayload)\<rparr>,
                  aaa_calls aaa session eapPayload)))"

section \<open>Confirmation\<close>

definition check_confirm ::
  "(string \<Rightarrow> (string, bool) result) option \<Rightarrow> string \<Rightarrow>
   (ProblemDetails, SliceAuthConfirmationData \<times> (string \<Rightarrow> bool)) result \<Rightarrow>
   (SliceAuthConfirmationResponse response, SliceAuthConfirmationData \<times> bytes) result" where
  "check_confirm rateLimiter authCtxId req =
    rbind (check (limited rateLimiter (''authctx:'' @ authCtxId)) (write429 60)) (\<lambda>_.
    rbind (check_problem (map_option (\<lambda>pd. ValidationProblem ''authCtxId'' (ProblemDetails_Error pd)) (ValidateAuthCtxID authCtxId))) (\<lambda>_.
    rbind (problem_result req) (\<lambda>(body, present).
    rbind (check_problem (ValidateGPSI (scd_Gpsi body))) (\<lambda>_.
    rbind (check_problem (ValidateSnssai (uint (scd_Sst body)) (scd_Sd body) (\<not> present ''snssai''))) (\<lambda>_.
    rbind (required_base64 ''eapMessage'' (scd_EapMessage body)) (\<lambda>eapPayload. Inr (body, eapPayload)))))))"

definition check_session ::
  "string \<Rightarrow> SliceAuthConfirmationData \<Rightarrow> (StoreError, NssaaSession) result \<Rightarrow> (SliceAuthConfirmationResponse response, NssaaSession) result" where
  "check_session authCtxId body loaded =
    (case loaded of
       Inl ErrStoreSessionNotFound \<Rightarrow>
         Inl (ProblemResponse (NotFoundProblem (''slice authentication context '' @ authCtxId @ '' not found'')))
     | Inl (ErrStoreOther err) \<Rightarrow> Inl (ProblemResponse (InternalServerProblem (''failed to load auth context: '' @ err)))
     | Inr domSession \<Rightarrow>
         if scd_Gpsi body \<noteq> nss_GPSI domSession then
           Inl (ProblemResponse (ValidationProblem ''gpsi'' ''GPSI does not match the authenticated GPSI for this session''))
         else if nss_SnssaiSST domSession \<noteq> scd_Sst body \<or> nss_SnssaiSD domSession \<noteq> scd_Sd body then
           Inl (ProblemResponse (ValidationProblem ''snssai'' ''S-NSSAI does not match the original session''))
         else Inr domSession)"

definition ConfirmSliceAuthentication ::
  "('q \<Rightarrow> 's \<Rightarrow> string \<Rightarrow> (StoreError, NssaaSession) result) \<Rightarrow> ('r \<Rightarrow> time \<Rightarrow> NssaaSession \<Rightarrow> 's \<Rightarrow> 's \<times> StoreError option) \<Rightarrow>
   'q \<Rightarrow> 'r \<Rightarrow> aaa_send option \<Rightarrow> (string \<Rightarrow> (string, bool) result) option \<Rightarrow> time \<Rightarrow> string \<Rightarrow>
   (ProblemDetails, SliceAuthConfirmationData \<times> (string \<Rightarrow> bool)) result \<Rightarrow> 's \<Rightarrow>
   's \<times> SliceAuthConfirmationResponse response \<times> (Session \<times> bytes) list" where
  "ConfirmSliceAuthentication load save q r aaa rateLimiter now authCtxId req st =
    (case check_confirm rateLimiter authCtxId req of
       Inl resp \<Rightarrow> (st, resp, [])
     | Inr (body, eapPayload) \<Rightarrow>
         (case check_session authCtxId body (load q st authCtxId) of
            Inl resp \<Rightarrow> (st, resp, [])
          | Inr domSession \<Rightarrow>
              let session = eap_session now authCtxId (scd_Gpsi body) (nss_SnssaiSST domSession) (nss_SnssaiSD domSession);
                  nextEap = forward_or_echo aaa session eapPayload;
                  calls = aaa_calls aaa session eapPayload
              in case save r now (domSession\<lparr>nss_EapPayload := nextEap, nss_Status := ''CONFIRMED''\<rparr>) st of
                   (st', Some _) \<Rightarrow> (st', ProblemResponse (InternalServerProblem ''failed to update auth context''), calls)
                 | (st', None) \<Rightarrow>
                     (st', OkResponse \<lparr>scr_Gpsi = scd_Gpsi body, scr_Sst = scd_Sst body, scr_Sd = scd_Sd body,
                        scr_EapMessage = b64_encode nextEap, scr_AuthResult = None\<rparr>, calls)))"

section \<open>What passes the checks\<close>

lemma check_create_Inr:
  "check_create rl req = Inr (body, p) \<longleftrightarrow>
     (\<exists>present s. req = Inr (body, present) \<and> (\<forall>i. sai_AmfInstanceId body = Some i \<longrightarrow> \<not> limited rl i)
       \<and> ValidateGPSI (sai_Gpsi body) = None \<and> ValidateSnssai (uint (sai_Sst body)) (sai_Sd body) (\<not> present ''snssai'') = None
       \<and> sai_EapIdRsp body = Some s \<and> s \<noteq> '''' \<and> b64_decode s = Some p)"
  by (fastforce simp: check_create_def split: option.splits)

lemma check_confirm_Inr:
  "check_confirm rl i req = Inr (body, p) \<longleftrightarrow>
     (\<exists>present s. \<not> limited rl (''authctx:'' @ i) \<and> ValidateAuthCtxID i = None \<and> req = Inr (body, present)
       \<and> ValidateGPSI (scd_Gpsi body) = None \<and> ValidateSnssai (uint (scd_Sst body)) (scd_Sd body) (\<not> present ''snssai'') = None
       \<and> scd_EapMessage body = Some s \<and> s \<noteq> '''' \<and> b64_decode s = Some p)"
  by (fastforce simp: check_confirm_def)

lemma check_session_Inr:
  "check_session i body loaded = Inr x \<longleftrightarrow>
     loaded = Inr x \<and> scd_Gpsi body = nss_GPSI x \<and> nss_SnssaiSST x = scd_Sst body \<and> nss_SnssaiSD x = scd_Sd body"
  by (auto simp: check_session_def split: sum.splits StoreError.splits if_splits)

lemma check_create_Inl: "check_create rl req = Inl resp \<Longrightarrow> resp \<noteq> CreatedResponse l x"
  by (auto simp: check_create_def rbind_Inl_iff check_def check_problem_def problem_result_def required_base64_def write429_def
      split: if_splits option.splits sum.splits)

lemma check_confirm_Inl: "check_confirm rl i req = Inl resp \<Longrightarrow> resp \<noteq> OkResponse x"
  by (auto simp: check_confirm_def rbind_Inl_iff check_def check_problem_def problem_result_def required_base64_def write429_def
      split: if_splits option.splits sum.splits)

lemma check_session_Inl: "check_session i body loaded = Inl resp \<Longrightarrow> resp \<noteq> OkResponse x"
  by (auto simp: check_session_def split: sum.splits StoreError.splits if_splits)

text \<open>A confirmation either ends at a check, with nothing done, or reaches the AAA side and the store.\<close>

lemma Confirm_cases:
  assumes "ConfirmSliceAuthentication load save q r aaa rl now i req st = (st', resp, calls)"
  obtains (rejected) "st' = st" "calls = []" "\<forall>x. resp \<noteq> OkResponse x"
    | (reached) body p x er where "check_confirm rl i req = Inr (body, p)" "check_session i body (load q st i) = Inr x"
      "calls = aaa_calls aaa (eap_session now i (scd_Gpsi body) (nss_SnssaiSST x) (nss_SnssaiSD x)) p"
      "save r now (x\<lparr>nss_EapPayload := forward_or_echo aaa (eap_session now i (scd_Gpsi body) (nss_SnssaiSST x) (nss_SnssaiSD x)) p,
          nss_Status := ''CONFIRMED''\<rparr>) st = (st', er)"
      "resp = (case er of Some _ \<Rightarrow> ProblemResponse (InternalServerProblem ''failed to update auth context'')
         | None \<Rightarrow> OkResponse \<lparr>scr_Gpsi = scd_Gpsi body, scr_Sst = scd_Sst body, scr_Sd = scd_Sd body,
             scr_EapMessage = b64_encode (forward_or_echo aaa (eap_session now i (scd_Gpsi body) (nss_SnssaiSST x) (nss_SnssaiSD x)) p),
             scr_AuthResult = None\<rparr>)"
proof (cases "check_confirm rl i req")
  case (Inl e)
  then show ?thesis using that(1) assms check_confirm_Inl [OF Inl] by (simp add: ConfirmSliceAuthentication_def)
next
  case (Inr bp)
  obtain body p where bp: "bp = (body, p)" by (cases bp)
  show ?thesis
  proof (cases "check_session i body (load q st i)")
    case e: (Inl e)
    then show ?thesis using that(1) assms Inr bp check_session_Inl [OF e] by (simp add: ConfirmSliceAuthentication_def)
  next
    case x: (Inr x)
    let ?s = "eap_session now i (scd_Gpsi body) (nss_SnssaiSST x) (nss_SnssaiSD x)"
    obtain st1 er where s: "save r now (x\<lparr>nss_EapPayload := forward_or_echo aaa ?s p, nss_Status := ''CONFIRMED''\<rparr>) st = (st1, er)"
      by fastforce
    show ?thesis using that(2) [OF Inr [unfolded bp] x] assms Inr bp x s
      by (cases er) (simp_all add: ConfirmSliceAuthentication_def Let_def)
  qed
qed

section \<open>Handlers over a repository\<close>

lemma confirmed_id: "nss_AuthCtxID (x\<lparr>nss_EapPayload := p, nss_Status := s\<rparr>) = nss_AuthCtxID x"
  by simp

context nssaa_repository
begin

lemma Create_ok:
  assumes "inv st" "env_ok r"
    "CreateSliceAuthenticationContext save r apiRoot aaa rl i now req st = (st', CreatedResponse loc ctx, calls)"
  shows "\<exists>body p y. check_create rl req = Inr (body, p) \<and> peek st' = (peek st)(i \<mapsto> y)
    \<and> nss_GPSI y = sai_Gpsi body \<and> nss_SnssaiSST y = sai_Sst body \<and> nss_SnssaiSD y = sai_Sd body
    \<and> nss_EapPayload y = p \<and> nss_Status y = ''PENDING'' \<and> inv st'"
proof -
  obtain body p where b: "check_create rl req = Inr (body, p)"
    using assms(3) check_create_Inl by (cases "check_create rl req") (fastforce simp: CreateSliceAuthenticationContext_def)+
  have s: "save r now (authCtxToNssaaSession now (newAuthCtx i body p)) st = (st', None)"
    using assms(3) b by (auto simp: CreateSliceAuthenticationContext_def Let_def split: prod.splits option.splits)
  show ?thesis
    using save_ok [OF assms(1,2) s] save_inv [OF assms(1) s] b
    by (auto simp: authCtxToNssaaSession_def newAuthCtx_def stored_def)
qed

lemma Confirm_isolated:
  assumes "inv st" "env_ok r" "ConfirmSliceAuthentication load save q r aaa rl now i req st = (st', resp, calls)" "j \<noteq> i"
  shows "peek st' j = peek st j"
  using assms(3)
proof (cases rule: Confirm_cases)
  case (reached body p x er)
  have "nss_AuthCtxID x = i" using reached(2) load_id [OF assms(1)] by (auto simp: check_session_Inr)
  then show ?thesis using save_other [OF assms(1,2), of j] reached(4) assms(4) confirmed_id by (metis fst_conv)
qed simp

end

section \<open>Properties of the N58 interface\<close>


definition ex_eap :: bytes where "ex_eap = [2, 1, 0, 4]"

lemma ex_eap_nonempty [simp]: "ex_eap \<noteq> []"
  by (simp add: ex_eap_def)

definition ex_confirm :: "string \<Rightarrow> (ProblemDetails, SliceAuthConfirmationData \<times> (string \<Rightarrow> bool)) result" where
  "ex_confirm gpsi = Inr (\<lparr>scd_Gpsi = gpsi, scd_Sst = 1, scd_Sd = ''000001'', scd_EapMessage = Some (b64_encode ex_eap)\<rparr>, \<lambda>_. True)"

lemma ex_check_confirm:
  "check_confirm None ''ctx'' (ex_confirm ''msisdn-12345'')
    = Inr (\<lparr>scd_Gpsi = ''msisdn-12345'', scd_Sst = 1, scd_Sd = ''000001'', scd_EapMessage = Some (b64_encode ex_eap)\<rparr>, ex_eap)"
  by (simp add: check_confirm_Inr ex_confirm_def limited_def ValidateAuthCtxID_def blank_def ValidateGPSI_def gpsiRegex_def
      ValidateSnssai_def sdRegex_def is_hex_def is_digit_def)

lemma ex_confirm_ok:
  "\<exists>st' resp calls. ConfirmSliceAuthentication (NssaaRepository_Load (ex_cfg 7)) (NssaaRepository_Save (ex_cfg 7)) None ex_env aaa None 30
     ''ctx'' (ex_confirm ''msisdn-12345'') (bz_sessions ex_biz) = (st', OkResponse resp, calls)
     \<and> (aaa \<noteq> None \<longrightarrow> calls \<noteq> [])"
proof -
  obtain y where y: "pg_peek (ex_cfg 7) (bz_sessions ex_biz) ''ctx'' = Some y" "nss_GPSI y = ''msisdn-12345''" "nss_SnssaiSST y = 1"
    "nss_SnssaiSD y = ''000001''"
    using ex_biz_peek by (auto simp: stored_def ex_nssaa_def)
  let ?x = "y\<lparr>nss_EapPayload := forward_or_echo aaa (eap_session 30 ''ctx'' ''msisdn-12345'' 1 ''000001'') ex_eap, nss_Status := ''CONFIRMED''\<rparr>"
  obtain t' where "NssaaRepository_Save (ex_cfg 7) ex_env 30 ?x (bz_sessions ex_biz) = (t', None)"
    using ex_save_succeeds by blast
  then show ?thesis using y
    by (auto simp: ConfirmSliceAuthentication_def ex_check_confirm check_session_def Load_peek Let_def aaa_calls_def)
qed


text \<open>C19. A confirmation does not look at the answer of the AAA side.  If it succeeds, the context is
  stored with status \<^verbatim>\<open>CONFIRMED\<close>, which is not one of the statuses of the interface, and the
  response has no authentication result, whatever the AAA side answered and also if it failed, in
  which case the client gets its own message back.\<close>

theorem confirm_ignores_aaa_result:
  assumes "pg_inv st" "pg_env_ok c r"
    "ConfirmSliceAuthentication (NssaaRepository_Load c) (NssaaRepository_Save c) q r aaa rl now i req st
       = (st', OkResponse resp, calls)"
  shows "(\<exists>y. pg_peek c st' i = Some y \<and> nss_Status y = ''CONFIRMED'' \<and> \<not> NssaaStatus_Validate (nss_Status y))
    \<and> scr_AuthResult resp = None
    \<and> ((\<forall>send s p. aaa = Some send \<longrightarrow> (\<exists>e. send s p = Inl e)) \<longrightarrow>
        (\<exists>body present m. req = Inr (body, present) \<and> scd_EapMessage body = Some m \<and> b64_decode m = b64_decode (scr_EapMessage resp)))"
  using assms(3)
proof (cases rule: Confirm_cases)
  case (reached body p x er)
  then have er: "er = None" by (cases er) auto
  have id: "nss_AuthCtxID x = i" using reached(2) pg.load_id [OF assms(1)] by (auto simp: check_session_Inr)
  obtain y where "pg_peek c st' = (pg_peek c st)(i \<mapsto> y)" "nss_Status y = ''CONFIRMED''"
    using pg.save_ok [OF assms(1,2) reached(4) [unfolded er]] id by (auto simp: stored_def)
  moreover have "forward_or_echo aaa s p = p" if "\<forall>send s p. aaa = Some send \<longrightarrow> (\<exists>e. send s p = Inl e)" for s
    using that by (auto simp: forward_or_echo_def split: option.split sum.split) (metis Inl_Inr_False)
  ultimately show ?thesis
    using reached(1,5) er by (auto simp: NssaaStatus_Validate_def status_defs check_confirm_Inr)
qed simp

theorem confirm_ignores_aaa_result_witness:
  "\<exists>st' resp calls. ConfirmSliceAuthentication (NssaaRepository_Load (ex_cfg 7)) (NssaaRepository_Save (ex_cfg 7)) None ex_env
      (Some (\<lambda>s p. Inl ''AAA server unreachable'')) None 30 ''ctx'' (ex_confirm ''msisdn-12345'') (bz_sessions ex_biz)
      = (st', OkResponse resp, calls)
     \<and> (\<exists>y. pg_peek (ex_cfg 7) st' ''ctx'' = Some y \<and> nss_Status y = ''CONFIRMED'')"
proof -
  obtain st' resp calls where h: "ConfirmSliceAuthentication (NssaaRepository_Load (ex_cfg 7)) (NssaaRepository_Save (ex_cfg 7)) None ex_env
      (Some (\<lambda>s p. Inl ''AAA server unreachable'')) None 30 ''ctx'' (ex_confirm ''msisdn-12345'') (bz_sessions ex_biz)
      = (st', OkResponse resp, calls)"
    using ex_confirm_ok by blast
  from confirm_ignores_aaa_result [OF ex_biz_inv ex_env_ok h] show ?thesis using h by blast
qed

text \<open>C20. What was created can be confirmed.  After a creation that answered 201, a confirmation for
  the same GPSI and slice with any non-empty base64 payload answers 200 and returns what the AAA
  side answered to that payload, provided the limiter admits it and the store does not fail.\<close>

theorem create_then_confirm:
  assumes "pg_inv t" "pg_env_ok c r"
    "CreateSliceAuthenticationContext (NssaaRepository_Save c) r apiRoot aaa rl i now (Inr (body, present)) t
       = (t', CreatedResponse loc ctx, calls)"
    "ValidateAuthCtxID i = None" "\<not> limited rl' (''authctx:'' @ i)"
    "scd_Gpsi conf = sai_Gpsi body" "scd_Sst conf = sai_Sst body" "scd_Sd conf = sai_Sd body"
    "scd_EapMessage conf = Some m" "m \<noteq> ''''" "b64_decode m = Some p" "present' ''snssai''"
    "\<And>s u. \<exists>u'. NssaaRepository_Save c r' now' s u = (u', None)"
  shows "\<exists>t'' resp. ConfirmSliceAuthentication (NssaaRepository_Load c) (NssaaRepository_Save c) None r' aaa rl' now' i
        (Inr (conf, present')) t'
      = (t'', OkResponse resp, aaa_calls aaa (eap_session now' i (sai_Gpsi body) (sai_Sst body) (sai_Sd body)) p)
    \<and> scr_EapMessage resp = b64_encode (forward_or_echo aaa (eap_session now' i (sai_Gpsi body) (sai_Sst body) (sai_Sd body)) p)"
proof -
  obtain q y where b: "check_create rl (Inr (body, present)) = Inr (body, q)"
    and y: "pg_peek c t' i = Some y" "nss_GPSI y = sai_Gpsi body" "nss_SnssaiSST y = sai_Sst body" "nss_SnssaiSD y = sai_Sd body"
    using pgn.Create_ok [OF assms(1-3)] by (fastforce simp: check_create_Inr)
  have cc: "check_confirm rl' i (Inr (conf, present')) = Inr (conf, p)"
    using b assms(4-12) ValidateSnssai_present by (auto simp: check_confirm_Inr check_create_Inr)
  obtain t'' where "NssaaRepository_Save c r' now' (y\<lparr>nss_EapPayload :=
      forward_or_echo aaa (eap_session now' i (sai_Gpsi body) (sai_Sst body) (sai_Sd body)) p, nss_Status := ''CONFIRMED''\<rparr>) t' = (t'', None)"
    using assms(13) by blast
  then show ?thesis
    using y assms(6-8) by (simp add: ConfirmSliceAuthentication_def cc check_session_def Load_peek Let_def)
qed

definition ex_info :: SliceAuthInfo where
  "ex_info = \<lparr>sai_Gpsi = ''msisdn-12345'', sai_Sst = 1, sai_Sd = ''000001'', sai_EapIdRsp = Some (b64_encode ex_eap),
     sai_AmfInstanceId = None, sai_ReauthNotifUri = None, sai_RevocNotifUri = None\<rparr>"

lemma ex_check_create: "check_create None (Inr (ex_info, \<lambda>_. True)) = Inr (ex_info, ex_eap)"
  by (simp add: check_create_Inr ex_info_def limited_def ValidateGPSI_def gpsiRegex_def
      ValidateSnssai_def sdRegex_def is_hex_def is_digit_def)

theorem create_then_confirm_witness:
  "\<exists>t' loc ctx calls t'' resp. CreateSliceAuthenticationContext (NssaaRepository_Save (ex_cfg 7)) ex_env ''http://nssaaf''
        (Some (\<lambda>s p. Inr (rev p))) None ''ctx'' 10 (Inr (ex_info, \<lambda>_. True)) [] = (t', CreatedResponse loc ctx, calls)
     \<and> fst (snd (ConfirmSliceAuthentication (NssaaRepository_Load (ex_cfg 7)) (NssaaRepository_Save (ex_cfg 7)) None ex_env
          (Some (\<lambda>s p. Inr (rev p))) None 20 ''ctx'' (ex_confirm ''msisdn-12345'') t')) = OkResponse resp
     \<and> scr_EapMessage resp = b64_encode (rev ex_eap)"
proof -
  obtain t' loc ctx calls where c: "CreateSliceAuthenticationContext (NssaaRepository_Save (ex_cfg 7)) ex_env ''http://nssaaf''
      (Some (\<lambda>s p. Inr (rev p))) None ''ctx'' 10 (Inr (ex_info, \<lambda>_. True)) [] = (t', CreatedResponse loc ctx, calls)"
    using ex_save_succeeds [of 7 10 "authCtxToNssaaSession 10 (newAuthCtx ''ctx'' ex_info ex_eap)" "[]"]
    by (auto simp: CreateSliceAuthenticationContext_def ex_check_create Let_def)
  have i: "pg_inv []" by (simp add: pg_inv_def pg_ids_def)
  obtain conf where conf: "ex_confirm ''msisdn-12345'' = Inr (conf, \<lambda>_. True)"
    "scd_Gpsi conf = sai_Gpsi ex_info" "scd_Sst conf = sai_Sst ex_info" "scd_Sd conf = sai_Sd ex_info"
    "scd_EapMessage conf = Some (b64_encode ex_eap)"
    by (rule that [of "\<lparr>scd_Gpsi = ''msisdn-12345'', scd_Sst = 1, scd_Sd = ''000001'', scd_EapMessage = Some (b64_encode ex_eap)\<rparr>"])
      (simp_all add: ex_confirm_def ex_info_def)
  have v: "ValidateAuthCtxID ''ctx'' = None" by (simp add: ValidateAuthCtxID_def blank_def)
  have l: "\<not> limited None (''authctx:'' @ ''ctx'')" by (simp add: limited_def)
  from create_then_confirm [OF i ex_env_ok c v l conf(2-5) _ _ _ ex_save_succeeds, of ex_eap "\<lambda>_. True" 20]
  show ?thesis using c unfolding conf(1) by (fastforce simp: forward_or_echo_def)
qed

end
