(* ===== verification/Api_Aiw.thy ===== *)
theory Api_Aiw
  imports Storage_Pg Api_Common
begin

text \<open>
  \<^verbatim>\<open>internal/api/aiw\<close>: the handlers of the N60 interface, on which the AUSF creates an
  authentication context and confirms it, and the store in memory they can run on.  The octets of the
  EAP messages are decoded with the request.  The handler's AAA router and AUSF client are set by
  options and used by none of its operations, so they do not appear here.
\<close>

section \<open>Contexts\<close>

record AuthContext =
  axc_AuthCtxID :: string
  axc_Supi :: string
  axc_EapPayload :: bytes
  axc_TtlsInner :: bytes
  axc_MSK :: bytes
  axc_PvsInfo :: bytes
  axc_AusfID :: string
  axc_SupportedFeatures :: string
  axc_Status :: string
  axc_AuthResult :: string
  axc_CreatedAt :: time
  axc_UpdatedAt :: time
  axc_ExpiresAt :: time
  axc_CompletedAt :: "time option"

definition authContextToAiwSession :: "time \<Rightarrow> AuthContext \<Rightarrow> AiwSession" where
  "authContextToAiwSession now a =
    \<lparr>aws_AuthCtxID = axc_AuthCtxID a, aws_Supi = axc_Supi a, aws_EapPayload = axc_EapPayload a,
     aws_TtlsInner = axc_TtlsInner a, aws_MSK = axc_MSK a, aws_PvsInfo = axc_PvsInfo a, aws_AusfID = axc_AusfID a,
     aws_SupportedFeatures = axc_SupportedFeatures a, aws_Status = axc_Status a, aws_AuthResult = axc_AuthResult a,
     aws_CreatedAt = axc_CreatedAt a, aws_UpdatedAt = axc_UpdatedAt a,
     aws_ExpiresAt = (if axc_ExpiresAt a = zero_time then now + 24 * 60 * Minute else axc_ExpiresAt a),
     aws_CompletedAt = axc_CompletedAt a\<rparr>"

definition eapPayloadFromPtr :: "bytes option \<Rightarrow> bytes" where
  "eapPayloadFromPtr p = (case p of None \<Rightarrow> [] | Some m \<Rightarrow> m)"

section \<open>The store in memory\<close>

text \<open>The Go map holds pointers; the handlers save every session they change and the save cannot fail, so
  sessions are values here.\<close>

type_synonym InMemoryStore = "string \<rightharpoonup> AiwSession"

definition NewInMemoryStore :: InMemoryStore where
  "NewInMemoryStore = Map.empty"

definition InMemoryStore_Load :: "unit \<Rightarrow> InMemoryStore \<Rightarrow> string \<Rightarrow> (StoreError, AiwSession) result" where
  "InMemoryStore_Load q st i = (case st i of Some x \<Rightarrow> Inr x | None \<Rightarrow> Inl ErrStoreSessionNotFound)"

definition InMemoryStore_Save :: "unit \<Rightarrow> time \<Rightarrow> AiwSession \<Rightarrow> InMemoryStore \<Rightarrow> InMemoryStore \<times> StoreError option" where
  "InMemoryStore_Save r now x st = (st(aws_AuthCtxID x \<mapsto> x), None)"

definition InMemoryStore_Delete :: "string \<Rightarrow> InMemoryStore \<Rightarrow> InMemoryStore \<times> StoreError option" where
  "InMemoryStore_Delete i st = (st(i := None), None)"

definition mem_inv :: "InMemoryStore \<Rightarrow> bool" where
  "mem_inv st = (\<forall>i x. st i = Some x \<longrightarrow> aws_AuthCtxID x = i)"

interpretation aiwmem: session_repository InMemoryStore_Load InMemoryStore_Save "\<lambda>st. st" "\<lambda>_. True" mem_inv
  aws_AuthCtxID "(=)"
  by unfold_locales
    (auto simp: InMemoryStore_Load_def InMemoryStore_Save_def mem_inv_def split: option.splits if_splits)

lemma Delete_mem_inv: "mem_inv st \<Longrightarrow> mem_inv (fst (InMemoryStore_Delete i st))"
  by (simp add: mem_inv_def InMemoryStore_Delete_def)

section \<open>The handlers\<close>

record AuthInfo =
  ai_Supi :: string
  ai_EapIdRsp :: "bytes option"

record AuthContextResponse =
  acr_Supi :: string
  acr_AuthCtxId :: string
  acr_EapMessage :: "bytes option"

record AuthConfirmationData =
  acd_Supi :: string
  acd_EapMessage :: "bytes option"

record AuthConfirmationResponse =
  acf_Supi :: string
  acf_EapMessage :: "bytes option"
  acf_AuthResult :: "string option"
  acf_PvsInfo :: "string list"

definition aiw_check_create ::
  "(string \<Rightarrow> (string, bool) result) option \<Rightarrow> (string, AuthInfo) result \<Rightarrow> (AuthContextResponse response, AuthInfo) result" where
  "aiw_check_create rateLimiter req =
    rbind (problem_result (case req of Inl err \<Rightarrow> Inl (ValidationProblem ''body'' err) | Inr b \<Rightarrow> Inr b)) (\<lambda>body.
    rbind (check (limited rateLimiter (''aiw:supi:'' @ ai_Supi body)) (write429 60)) (\<lambda>_.
    rbind (check_problem (ValidateSUPI (ai_Supi body))) (\<lambda>_. Inr body)))"

definition newAuthContext :: "string \<Rightarrow> AuthInfo \<Rightarrow> AuthContext" where
  "newAuthContext authCtxID body =
    \<lparr>axc_AuthCtxID = authCtxID, axc_Supi = ai_Supi body, axc_EapPayload = eapPayloadFromPtr (ai_EapIdRsp body),
     axc_TtlsInner = [], axc_MSK = [], axc_PvsInfo = [], axc_AusfID = '''', axc_SupportedFeatures = '''',
     axc_Status = ''PENDING'', axc_AuthResult = '''', axc_CreatedAt = zero_time, axc_UpdatedAt = zero_time,
     axc_ExpiresAt = zero_time, axc_CompletedAt = None\<rparr>"

definition CreateAuthenticationContext ::
  "('r \<Rightarrow> time \<Rightarrow> AiwSession \<Rightarrow> 's \<Rightarrow> 's \<times> StoreError option) \<Rightarrow> 'r \<Rightarrow> string \<Rightarrow>
   (string \<Rightarrow> (string, bool) result) option \<Rightarrow> string \<Rightarrow> time \<Rightarrow> (string, AuthInfo) result \<Rightarrow> 's \<Rightarrow>
   's \<times> AuthContextResponse response" where
  "CreateAuthenticationContext save r apiRoot rateLimiter authCtxID now req st =
    (case aiw_check_create rateLimiter req of
       Inl resp \<Rightarrow> (st, resp)
     | Inr body \<Rightarrow>
         (case save r now ((authContextToAiwSession now (newAuthContext authCtxID body))\<lparr>aws_Status := ''PENDING''\<rparr>) st of
            (st', Some _) \<Rightarrow> (st', ProblemResponse (InternalServerProblem ''failed to create auth context''))
          | (st', None) \<Rightarrow>
              (st', CreatedResponse (apiRoot @ ''/nnssaaf-aiw/v1/authentications/'' @ authCtxID)
                 \<lparr>acr_Supi = ai_Supi body, acr_AuthCtxId = authCtxID, acr_EapMessage = ai_EapIdRsp body\<rparr>)))"

definition aiw_check_confirm ::
  "(string \<Rightarrow> (string, bool) result) option \<Rightarrow> string \<Rightarrow> (string, AuthConfirmationData) result \<Rightarrow>
   (AuthConfirmationResponse response, AuthConfirmationData) result" where
  "aiw_check_confirm rateLimiter authCtxId req =
    rbind (check_problem (map_option (\<lambda>pd. ValidationProblem ''authCtxId'' (ProblemDetails_Error pd)) (ValidateAuthCtxID authCtxId))) (\<lambda>_.
    rbind (check (limited rateLimiter (''aiw:authctx:'' @ authCtxId)) (write429 60)) (\<lambda>_.
    rbind (problem_result (case req of Inl err \<Rightarrow> Inl (ValidationProblem ''body'' err) | Inr b \<Rightarrow> Inr b)) (\<lambda>body.
    rbind (check_problem (ValidateSUPI (acd_Supi body))) (\<lambda>_.
    rbind (check (eapPayloadFromPtr (acd_EapMessage body) = [])
        (ProblemResponse (ValidationProblem ''eapMessage'' ''eapMessage is required''))) (\<lambda>_. Inr body)))))"

definition aiw_check_session ::
  "string \<Rightarrow> AuthConfirmationData \<Rightarrow> (StoreError, AiwSession) result \<Rightarrow> (AuthConfirmationResponse response, AiwSession) result" where
  "aiw_check_session authCtxId body loaded =
    (case loaded of
       Inl ErrStoreSessionNotFound \<Rightarrow>
         Inl (ProblemResponse (NotFoundProblem (''authentication context '' @ authCtxId @ '' not found'')))
     | Inl (ErrStoreOther err) \<Rightarrow> Inl (ProblemResponse (InternalServerProblem (''failed to load auth context: '' @ err)))
     | Inr domSession \<Rightarrow>
         if acd_Supi body \<noteq> aws_Supi domSession then
           Inl (ProblemResponse (ValidationProblem ''supi'' ''SUPI does not match the authenticated SUPI for this session''))
         else Inr domSession)"

definition ConfirmAuthentication ::
  "('q \<Rightarrow> 's \<Rightarrow> string \<Rightarrow> (StoreError, AiwSession) result) \<Rightarrow> ('r \<Rightarrow> time \<Rightarrow> AiwSession \<Rightarrow> 's \<Rightarrow> 's \<times> StoreError option) \<Rightarrow>
   'q \<Rightarrow> 'r \<Rightarrow> (string \<Rightarrow> (string, bool) result) option \<Rightarrow> time \<Rightarrow> string \<Rightarrow> (string, AuthConfirmationData) result \<Rightarrow> 's \<Rightarrow>
   's \<times> AuthConfirmationResponse response" where
  "ConfirmAuthentication load save q r rateLimiter now authCtxId req st =
    (case aiw_check_confirm rateLimiter authCtxId req of
       Inl resp \<Rightarrow> (st, resp)
     | Inr body \<Rightarrow>
         (case aiw_check_session authCtxId body (load q st authCtxId) of
            Inl resp \<Rightarrow> (st, resp)
          | Inr domSession \<Rightarrow>
              (case save r now (domSession\<lparr>aws_EapPayload := eapPayloadFromPtr (acd_EapMessage body)\<rparr>) st of
                 (st', Some _) \<Rightarrow> (st', ProblemResponse (InternalServerProblem ''failed to update auth context''))
               | (st', None) \<Rightarrow>
                   (st', OkResponse \<lparr>acf_Supi = acd_Supi body, acf_EapMessage = acd_EapMessage body,
                      acf_AuthResult = None, acf_PvsInfo = []\<rparr>))))"

section \<open>What passes the checks\<close>

lemma aiw_check_create_Inr:
  "aiw_check_create rl req = Inr body \<longleftrightarrow>
     req = Inr body \<and> \<not> limited rl (''aiw:supi:'' @ ai_Supi body) \<and> ValidateSUPI (ai_Supi body) = None"
  by (auto simp: aiw_check_create_def split: sum.splits)

lemma aiw_check_confirm_Inr:
  "aiw_check_confirm rl i req = Inr body \<longleftrightarrow>
     ValidateAuthCtxID i = None \<and> \<not> limited rl (''aiw:authctx:'' @ i) \<and> req = Inr body
     \<and> ValidateSUPI (acd_Supi body) = None \<and> eapPayloadFromPtr (acd_EapMessage body) \<noteq> []"
  by (auto simp: aiw_check_confirm_def split: sum.splits)

lemma aiw_check_session_Inr:
  "aiw_check_session i body loaded = Inr x \<longleftrightarrow> loaded = Inr x \<and> acd_Supi body = aws_Supi x"
  by (auto simp: aiw_check_session_def split: sum.splits StoreError.splits if_splits)

lemma aiw_check_confirm_Inl: "aiw_check_confirm rl i req = Inl resp \<Longrightarrow> resp \<noteq> OkResponse x"
  by (auto simp: aiw_check_confirm_def rbind_Inl_iff check_def check_problem_def problem_result_def write429_def
      split: if_splits option.splits sum.splits)

lemma aiw_check_session_Inl: "aiw_check_session i body loaded = Inl resp \<Longrightarrow> resp \<noteq> OkResponse x"
  by (auto simp: aiw_check_session_def split: sum.splits StoreError.splits if_splits)

text \<open>A handler ends at a check with nothing changed, or saves one session.\<close>

lemma aiw_Create_cases:
  assumes "CreateAuthenticationContext save r apiRoot rl i now req st = (st', resp)"
  obtains (rejected) "st' = st"
    | (saved) body er where "aiw_check_create rl req = Inr body"
      "save r now ((authContextToAiwSession now (newAuthContext i body))\<lparr>aws_Status := ''PENDING''\<rparr>) st = (st', er)"
proof (cases "aiw_check_create rl req")
  case (Inl e)
  then show ?thesis using that(1) assms by (simp add: CreateAuthenticationContext_def)
next
  case (Inr body)
  obtain st1 er where s: "save r now ((authContextToAiwSession now (newAuthContext i body))\<lparr>aws_Status := ''PENDING''\<rparr>) st = (st1, er)"
    by fastforce
  then show ?thesis using that(2) [OF Inr] assms Inr by (cases er) (simp_all add: CreateAuthenticationContext_def)
qed

lemma aiw_Confirm_cases:
  assumes "ConfirmAuthentication load save q r rl now i req st = (st', resp)"
  obtains (rejected) "st' = st" "\<forall>x. resp \<noteq> OkResponse x"
    | (saved) body x er where "aiw_check_confirm rl i req = Inr body" "load q st i = Inr x" "acd_Supi body = aws_Supi x"
      "save r now (x\<lparr>aws_EapPayload := eapPayloadFromPtr (acd_EapMessage body)\<rparr>) st = (st', er)"
      "\<forall>a. resp = OkResponse a \<longrightarrow> er = None \<and> a = \<lparr>acf_Supi = acd_Supi body, acf_EapMessage = acd_EapMessage body,
         acf_AuthResult = None, acf_PvsInfo = []\<rparr>"
proof (cases "aiw_check_confirm rl i req")
  case (Inl e)
  then show ?thesis using that(1) assms aiw_check_confirm_Inl [OF Inl] by (simp add: ConfirmAuthentication_def)
next
  case (Inr body)
  show ?thesis
  proof (cases "aiw_check_session i body (load q st i)")
    case e: (Inl e)
    then show ?thesis using that(1) assms Inr aiw_check_session_Inl [OF e] by (simp add: ConfirmAuthentication_def)
  next
    case x: (Inr x)
    obtain st1 er where "save r now (x\<lparr>aws_EapPayload := eapPayloadFromPtr (acd_EapMessage body)\<rparr>) st = (st1, er)"
      by fastforce
    then show ?thesis using that(2) [OF Inr] x [unfolded aiw_check_session_Inr] assms Inr x
      by (cases er) (auto simp: ConfirmAuthentication_def)
  qed
qed

section \<open>Runs of the handlers\<close>

text \<open>Any sequence of requests, with whatever the environment contributes to each: identifiers, times,
  faults, random octets and rate limits.\<close>

inductive aiw_run ::
  "('q \<Rightarrow> 's \<Rightarrow> string \<Rightarrow> (StoreError, AiwSession) result) \<Rightarrow> ('r \<Rightarrow> time \<Rightarrow> AiwSession \<Rightarrow> 's \<Rightarrow> 's \<times> StoreError option) \<Rightarrow>
   ('r \<Rightarrow> bool) \<Rightarrow> 's \<Rightarrow> 's \<Rightarrow> bool" for load save env_ok st0 where
  start: "aiw_run load save env_ok st0 st0"
| create: "\<lbrakk>aiw_run load save env_ok st0 st; env_ok r;
    CreateAuthenticationContext save r apiRoot rl i now req st = (st', resp)\<rbrakk> \<Longrightarrow> aiw_run load save env_ok st0 st'"
| confirm: "\<lbrakk>aiw_run load save env_ok st0 st; env_ok r;
    ConfirmAuthentication load save q r rl now i creq st = (st', cresp)\<rbrakk> \<Longrightarrow> aiw_run load save env_ok st0 st'"

definition aiw_untouched :: "AiwSession \<Rightarrow> bool" where
  "aiw_untouched x = (aws_Status x = ''PENDING'' \<and> aws_MSK x = [] \<and> aws_AuthResult x = '''')"

locale aiw_repository = session_repository load save peek env_ok inv aws_AuthCtxID same
  for load :: "'q \<Rightarrow> 's \<Rightarrow> string \<Rightarrow> (StoreError, AiwSession) result"
    and save :: "'r \<Rightarrow> time \<Rightarrow> AiwSession \<Rightarrow> 's \<Rightarrow> 's \<times> StoreError option"
    and peek :: "'s \<Rightarrow> string \<Rightarrow> AiwSession option"
    and env_ok :: "'r \<Rightarrow> bool"
    and inv :: "'s \<Rightarrow> bool"
    and same :: "AiwSession \<Rightarrow> AiwSession \<Rightarrow> bool" +
  assumes same_stored: "same x y \<Longrightarrow> aiw_stored x y"
begin

lemma save_untouched:
  assumes "inv st" "env_ok r" "\<forall>i x. peek st i = Some x \<longrightarrow> aiw_untouched x" "aiw_untouched x" "save r now x st = (st', er)"
  shows "inv st' \<and> (\<forall>i x. peek st' i = Some x \<longrightarrow> aiw_untouched x)"
proof (cases er)
  case None
  then obtain y where "peek st' = (peek st)(aws_AuthCtxID x \<mapsto> y)" "aiw_stored x y"
    using save_ok [OF assms(1,2)] assms(5) same_stored by blast
  then show ?thesis using assms save_inv by (auto simp: aiw_stored_def aiw_untouched_def)
next
  case (Some e)
  then show ?thesis using save_err [OF assms(1)] assms by blast
qed

lemma run_untouched:
  assumes "aiw_run load save env_ok st0 st" "inv st0" "\<forall>i x. peek st0 i = Some x \<longrightarrow> aiw_untouched x"
  shows "inv st \<and> (\<forall>i x. peek st i = Some x \<longrightarrow> aiw_untouched x)"
  using assms
proof induction
  case (create st r apiRoot rl i now req st' resp)
  from create.hyps(3) show ?case
  proof (cases rule: aiw_Create_cases)
    case (saved body er)
    have "aiw_untouched ((authContextToAiwSession now (newAuthContext i body))\<lparr>aws_Status := ''PENDING''\<rparr>)"
      by (simp add: aiw_untouched_def authContextToAiwSession_def newAuthContext_def)
    then show ?thesis using save_untouched [OF _ create.hyps(2) _ _ saved(2)] create.IH create.prems by blast
  qed (use create in blast)
next
  case (confirm st r q rl now i creq st' cresp)
  from confirm.hyps(3) show ?case
  proof (cases rule: aiw_Confirm_cases)
    case (saved body x er)
    have "aiw_untouched x" using confirm.IH confirm.prems load_peek saved(2) by blast
    then have "aiw_untouched (x\<lparr>aws_EapPayload := eapPayloadFromPtr (acd_EapMessage body)\<rparr>)" by (simp add: aiw_untouched_def)
    then show ?thesis using save_untouched [OF _ confirm.hyps(2) _ _ saved(4)] confirm.IH confirm.prems by blast
  qed (use confirm in blast)
qed simp

lemma Confirm_ok:
  assumes "inv st" "env_ok r" "ConfirmAuthentication load save q r rl now i req st = (st', OkResponse a)"
  obtains x y where "peek st i = Some x" "acf_Supi a = aws_Supi x" "peek st' = (peek st)(i \<mapsto> y)" "aws_Supi y = aws_Supi x"
    "aws_Status y = aws_Status x" "aws_EapPayload y = eapPayloadFromPtr (acf_EapMessage a)" "acf_AuthResult a = None"
  using assms(3)
proof (cases rule: aiw_Confirm_cases)
  case (saved body x er)
  have er: "er = None" and a: "a = \<lparr>acf_Supi = acd_Supi body, acf_EapMessage = acd_EapMessage body, acf_AuthResult = None, acf_PvsInfo = []\<rparr>"
    using saved(5) by auto
  obtain y where y: "peek st' = (peek st)(aws_AuthCtxID x \<mapsto> y)"
      "aiw_stored (x\<lparr>aws_EapPayload := eapPayloadFromPtr (acd_EapMessage body)\<rparr>) y"
    using save_ok [OF assms(1,2) saved(4) [unfolded er]] same_stored by auto
  show ?thesis
    using that [of x y] load_peek [OF assms(1) saved(2)] load_id [OF assms(1) saved(2)] y saved(3)
    by (simp add: a aiw_stored_def)
qed simp

end

interpretation aiwm: aiw_repository InMemoryStore_Load InMemoryStore_Save "\<lambda>st. st" "\<lambda>_. True" mem_inv "(=)"
  by unfold_locales (simp add: aiw_stored_def)

interpretation aiwp: aiw_repository "AiwRepository_Load c" "AiwRepository_Save c" "aiw_peek c" "aiw_env_ok c" aiw_inv aiw_stored for c
  by unfold_locales

section \<open>Properties\<close>

text \<open>C21. Whatever requests the N60 handlers serve over the database, no context ever leaves the status
  PENDING, gets a result or holds a master session key.\<close>

theorem aiw_context_stays_pending:
  assumes "aiw_run (AiwRepository_Load c) (AiwRepository_Save c) (aiw_env_ok c) [] t" "aiw_peek c t i = Some x"
  shows "aws_Status x = ''PENDING'' \<and> aws_MSK x = [] \<and> aws_AuthResult x = ''''"
  using aiwp.run_untouched [OF assms(1)] assms(2)
  by (simp add: aiw_inv_def pg_ids_def aiw_peek_def table_view_def find_row_def aiw_untouched_def)

definition ex_aiw_env :: aiw_env where
  "ex_aiw_env = (let n = Some (replicate 12 1) in
     \<lparr>ae_upd = (n, n, n), ae_ins = (n, n, n), ae_upd_fault = None, ae_ins_fault = None\<rparr>)"

definition ex_aiw_info :: AuthInfo where
  "ex_aiw_info = \<lparr>ai_Supi = ''imsi-208930000000001'', ai_EapIdRsp = Some [2, 1]\<rparr>"

lemma ex_aiw_env_ok: "aiw_env_ok (ex_cfg k) ex_aiw_env"
  by (simp add: aiw_env_ok_def aiw_nonces_def ex_aiw_env_def Let_def ex_cfg_def ex_aead_ok)

lemma ex_aiw_checked: "aiw_check_create None (Inr ex_aiw_info) = Inr ex_aiw_info"
  unfolding aiw_check_create_Inr ex_aiw_info_def limited_def by code_simp

lemma ex_aiw_saved: "\<exists>row. AiwRepository_Save (ex_cfg k) ex_aiw_env now x [] = ([row], None)"
  by (simp add: AiwRepository_Save_def aiw_updateRow_def aiw_createRow_def aiw_encrypt_def encryptState_def encryptField_def
      EncryptConcat_def ex_cfg_def ex_aiw_env_def Let_def ex_seal_def)

theorem aiw_context_stays_pending_witness:
  "\<exists>t x. aiw_run (AiwRepository_Load (ex_cfg 7)) (AiwRepository_Save (ex_cfg 7)) (aiw_env_ok (ex_cfg 7)) [] t
     \<and> aiw_peek (ex_cfg 7) t ''ctx'' = Some x \<and> aws_Status x = ''PENDING''"
proof -
  let ?s = "(authContextToAiwSession 10 (newAuthContext ''ctx'' ex_aiw_info))\<lparr>aws_Status := ''PENDING''\<rparr>"
  obtain t where t: "AiwRepository_Save (ex_cfg 7) ex_aiw_env 10 ?s [] = (t, None)"
    using ex_aiw_saved [of 7 10 ?s] by blast
  then obtain resp where c: "CreateAuthenticationContext (AiwRepository_Save (ex_cfg 7)) ex_aiw_env '''' None ''ctx'' 10 (Inr ex_aiw_info) [] = (t, resp)"
    by (simp add: CreateAuthenticationContext_def ex_aiw_checked)
  have run: "aiw_run (AiwRepository_Load (ex_cfg 7)) (AiwRepository_Save (ex_cfg 7)) (aiw_env_ok (ex_cfg 7)) [] t"
    by (rule aiw_run.create [where env_ok = "aiw_env_ok (ex_cfg 7)", OF aiw_run.start ex_aiw_env_ok c])
  have "aiw_inv []" by (simp add: aiw_inv_def pg_ids_def)
  moreover have "aws_AuthCtxID ?s = ''ctx''" by (simp add: authContextToAiwSession_def newAuthContext_def)
  ultimately obtain x where "aiw_peek (ex_cfg 7) t ''ctx'' = Some x"
    using aiwpg.save_ok [OF _ ex_aiw_env_ok t] by fastforce
  with run show ?thesis using aiw_context_stays_pending [OF run] by blast
qed


definition ex_aiw_confirm :: AuthConfirmationData where
  "ex_aiw_confirm = \<lparr>acd_Supi = ''imsi-208930000000001'', acd_EapMessage = Some [2, 5]\<rparr>"

lemma ex_aiw_confirm_checked: "aiw_check_confirm None ''ctx'' (Inr ex_aiw_confirm) = Inr ex_aiw_confirm"
  unfolding aiw_check_confirm_Inr ex_aiw_confirm_def limited_def by code_simp

definition ex_aiw_store :: InMemoryStore where
  "ex_aiw_store = [''ctx'' \<mapsto> authContextToAiwSession 10 (newAuthContext ''ctx'' ex_aiw_info)]"


end
