(* ===== verification/Redis.thy ===== *)
theory Redis
  imports Stores
begin

text \<open>
  Redis, as far as the program relies on it.  The clients in the other theories take the connection as
  an argument, a function that runs a pipeline of commands and answers with their replies or with an
  error.  What they rely on is the documented effect of the commands, given here as a function on
  databases, and stated as the contract of a connection: a pipeline that is answered took effect, and
  one that failed took effect up to some command.
\<close>

section \<open>Commands and their documented effect\<close>

text \<open>Members of sorted sets are integers: the program uses no others.  \<^verbatim>\<open>IFEQ k v c\<close> is the script
  \<^verbatim>\<open>if redis.call("GET", KEYS[1]) == ARGV[1] then return c else return 0 end\<close>.\<close>

datatype redis_value = RStr bytes | RList "bytes list" | RZSet "(int \<times> int) list"

datatype redis_cmd =
    GET string
  | SETEX string bytes duration
  | SETNX string bytes duration
  | DEL string
  | EXISTS string
  | EXPIRE string duration
  | IFEQ string bytes redis_cmd
  | LPUSH string bytes
  | RPOP string
  | LLEN string
  | ZREMRANGEBYSCORE string int int
  | ZCARD string
  | ZADD string int int
  | ZCOUNT string int

datatype reply = RNil | RBulk bytes | RInt int | RStatusOk | RWrongType

type_synonym redis_db = "string \<rightharpoonup> redis_value \<times> time option"

definition expired :: "time \<Rightarrow> time option \<Rightarrow> bool" where
  "expired now e = (case e of None \<Rightarrow> False | Some t \<Rightarrow> now \<ge> t)"

definition look :: "time \<Rightarrow> redis_db \<Rightarrow> string \<Rightarrow> redis_value option" where
  "look now d k = (case d k of None \<Rightarrow> None | Some (v, e) \<Rightarrow> if expired now e then None else Some v)"

text \<open>\<^verbatim>\<open>redis_store\<close> keeps the expiry of a key that is alive, as commands on lists and sets do.\<close>

definition live_expiry :: "time \<Rightarrow> redis_db \<Rightarrow> string \<Rightarrow> time option" where
  "live_expiry now d k = (case d k of Some (_, e) \<Rightarrow> if expired now e then None else e | None \<Rightarrow> None)"

definition redis_store :: "time \<Rightarrow> string \<Rightarrow> redis_value \<Rightarrow> redis_db \<Rightarrow> redis_db" where
  "redis_store now k v d = d(k \<mapsto> (v, live_expiry now d k))"

definition on_list :: "time \<Rightarrow> string \<Rightarrow> redis_db \<Rightarrow> (bytes list \<Rightarrow> redis_db \<times> reply) \<Rightarrow> redis_db \<times> reply" where
  "on_list now k d f =
    (case look now d k of None \<Rightarrow> f [] | Some (RList xs) \<Rightarrow> f xs | Some _ \<Rightarrow> (d, RWrongType))"

definition on_zset :: "time \<Rightarrow> string \<Rightarrow> redis_db \<Rightarrow> ((int \<times> int) list \<Rightarrow> redis_db \<times> reply) \<Rightarrow> redis_db \<times> reply" where
  "on_zset now k d f =
    (case look now d k of None \<Rightarrow> f [] | Some (RZSet z) \<Rightarrow> f z | Some _ \<Rightarrow> (d, RWrongType))"

fun redis_step :: "time \<Rightarrow> redis_cmd \<Rightarrow> redis_db \<Rightarrow> redis_db \<times> reply" where
  "redis_step now (GET k) d =
    (d, case look now d k of None \<Rightarrow> RNil | Some (RStr v) \<Rightarrow> RBulk v | Some _ \<Rightarrow> RWrongType)"
| "redis_step now (SETEX k v ttl) d = (d(k \<mapsto> (RStr v, Some (now + ttl))), RStatusOk)"
| "redis_step now (SETNX k v ttl) d =
    (if look now d k = None then (d(k \<mapsto> (RStr v, Some (now + ttl))), RInt 1) else (d, RInt 0))"
| "redis_step now (DEL k) d = (d(k := None), RInt (if look now d k = None then 0 else 1))"
| "redis_step now (EXISTS k) d = (d, RInt (if look now d k = None then 0 else 1))"
| "redis_step now (EXPIRE k ttl) d =
    (case look now d k of
       None \<Rightarrow> (d, RInt 0)
     | Some v \<Rightarrow> (d(k \<mapsto> (v, Some (now + ttl))), RInt 1))"
| "redis_step now (IFEQ k v c) d =
    (if look now d k = Some (RStr v) then redis_step now c d else (d, RInt 0))"
| "redis_step now (LPUSH k v) d =
    on_list now k d (\<lambda>xs. (redis_store now k (RList (v # xs)) d, RInt (int (length xs) + 1)))"
| "redis_step now (RPOP k) d =
    on_list now k d (\<lambda>xs. if xs = [] then (d, RNil)
      else (if butlast xs = [] then d(k := None) else redis_store now k (RList (butlast xs)) d, RBulk (last xs)))"
| "redis_step now (LLEN k) d = on_list now k d (\<lambda>xs. (d, RInt (int (length xs))))"
| "redis_step now (ZREMRANGEBYSCORE k lo hi) d =
    on_zset now k d (\<lambda>z. let z' = filter (\<lambda>(m, s). \<not> (lo \<le> s \<and> s \<le> hi)) z in
      (if z' = [] then d(k := None) else redis_store now k (RZSet z') d, RInt (int (length z) - int (length z'))))"
| "redis_step now (ZCARD k) d = on_zset now k d (\<lambda>z. (d, RInt (int (length z))))"
| "redis_step now (ZADD k s m) d =
    on_zset now k d (\<lambda>z. (redis_store now k (RZSet (AList.update m s z)) d, RInt (if m \<in> fst ` set z then 0 else 1)))"
| "redis_step now (ZCOUNT k lo) d =
    on_zset now k d (\<lambda>z. (d, RInt (int (length (filter (\<lambda>(m, s). lo \<le> s) z)))))"

fun redis_run :: "time \<Rightarrow> redis_cmd list \<Rightarrow> redis_db \<Rightarrow> redis_db \<times> reply list" where
  "redis_run now [] d = (d, [])"
| "redis_run now (c # cs) d =
    (let (d1, r) = redis_step now c d; (d2, rs) = redis_run now cs d1 in (d2, r # rs))"

section \<open>The contract of a connection\<close>

type_synonym 's connection = "time \<Rightarrow> redis_cmd list \<Rightarrow> 's \<Rightarrow> 's \<times> (string, reply list) result"

locale redis_server =
  fixes exec :: "'s connection"
    and db :: "'s \<Rightarrow> redis_db"
  assumes exec_ok: "exec now cs s = (s', Inr rs) \<Longrightarrow> redis_run now cs (db s) = (db s', rs)"
    and exec_err: "exec now cs s = (s', Inl e) \<Longrightarrow> \<exists>k. db s' = fst (redis_run now (take k cs) (db s))"
begin

lemma exec_one_ok: "exec now [c] s = (s', Inr rs) \<Longrightarrow> \<exists>r. rs = [r] \<and> redis_step now c (db s) = (db s', r)"
  using exec_ok [of now "[c]" s s' rs] by (auto split: prod.splits)

lemma exec_one_db: "exec now [c] s = (s', r) \<Longrightarrow> db s' = db s \<or> db s' = fst (redis_step now c (db s))"
proof (cases r)
  case (Inl e)
  moreover assume "exec now [c] s = (s', r)"
  ultimately obtain k where "db s' = fst (redis_run now (take k [c]) (db s))" using exec_err by blast
  then show ?thesis by (cases k) (auto split: prod.splits)
next
  case (Inr rs)
  moreover assume "exec now [c] s = (s', r)"
  ultimately show ?thesis using exec_one_ok by fastforce
qed

end

section \<open>A connection that fails now and then\<close>

text \<open>The state is the faults to come and the database: \<^verbatim>\<open>Some k\<close> is a connection lost after the server
  ran \<^verbatim>\<open>k\<close> commands of the pipeline.\<close>

definition flaky_exec :: "(nat option list \<times> redis_db) connection" where
  "flaky_exec now cs s =
    (case s of
       (Some k # fs, d) \<Rightarrow> ((fs, fst (redis_run now (take k cs) d)), Inl ''connection lost'')
     | (fs, d) \<Rightarrow> (case redis_run now cs d of (d', rs) \<Rightarrow> ((tl fs, d'), Inr rs)))"

lemma flaky_exec_cases:
  obtains (fault) k fs where "fst s = Some k # fs"
      "flaky_exec now cs s = ((fs, fst (redis_run now (take k cs) (snd s))), Inl ''connection lost'')"
    | (up) "flaky_exec now cs s = ((tl (fst s), fst (redis_run now cs (snd s))), Inr (snd (redis_run now cs (snd s))))"
proof (cases "fst s")
  case Nil
  then show ?thesis using that(2) by (cases s) (simp add: flaky_exec_def case_prod_beta)
next
  case (Cons f fs)
  then show ?thesis using that by (cases f; cases s) (simp_all add: flaky_exec_def case_prod_beta)
qed

interpretation flaky: redis_server flaky_exec snd
proof unfold_locales
  fix now cs and s s' :: "nat option list \<times> redis_db" and rs
  assume "flaky_exec now cs s = (s', Inr rs)"
  then show "redis_run now cs (snd s) = (snd s', rs)" by (cases rule: flaky_exec_cases [of s now cs]) auto
next
  fix now cs and s s' :: "nat option list \<times> redis_db" and e
  assume "flaky_exec now cs s = (s', Inl e)"
  then show "\<exists>k. snd s' = fst (redis_run now (take k cs) (snd s))"
    by (cases rule: flaky_exec_cases [of s now cs]) auto
qed

lemma redis_server_flaky: "redis_server flaky_exec snd"
  by (rule flaky.redis_server_axioms)

end
