(* ===== verification/Cache.thy ===== *)
theory Cache
  imports Redis Crypto Gateway
begin

text \<open>
  \<^verbatim>\<open>internal/cache/redis\<close>: the lock on sessions, the sliding-window rate limiter, the idempotency
  cache, the session cache and the store of reverse-path correlations, over a connection to Redis.
  The JSON codecs and the hash are arguments; the debug hooks do not change what the operations do
  and are left out.
\<close>

section \<open>The lock\<close>

definition NewDistributedLock :: "duration \<Rightarrow> duration" where
  "NewDistributedLock ttl = (if ttl = 0 then 30 * Second else ttl)"

definition lockKey :: "string \<Rightarrow> string" where
  "lockKey resource = ''nssaa:lock:session:'' @ resource"

definition Lock :: "'s connection \<Rightarrow> duration \<Rightarrow> time \<Rightarrow> string \<Rightarrow> string \<Rightarrow> 's \<Rightarrow> 's \<times> (string, string) result" where
  "Lock exec ttl now token resource s =
    (case exec now [SETNX (lockKey resource) (bytes_of token) ttl] s of
       (s', Inl err) \<Rightarrow> (s', Inl (''lock acquire: '' @ err))
     | (s', Inr rs) \<Rightarrow> (s', Inr (if rs = [RInt 1] then token else '''')))"

text \<open>A poll: when it locks and with which token, the time when it looks at the deadline, and whether
  the context ends before the next tick.  If the polls run out the loop is still waiting.\<close>

record lock_poll =
  lp_now :: time
  lp_token :: string
  lp_after :: time
  lp_cancelled :: "string option"

fun TryLock ::
  "'s connection \<Rightarrow> duration \<Rightarrow> string \<Rightarrow> time \<Rightarrow> lock_poll list \<Rightarrow> 's \<Rightarrow> 's \<times> (string, string) result option" where
  "TryLock exec ttl resource deadline [] s = (s, None)"
| "TryLock exec ttl resource deadline (p # ps) s =
    (case Lock exec ttl (lp_now p) (lp_token p) resource s of
       (s', Inl err) \<Rightarrow> (s', Some (Inl err))
     | (s', Inr token) \<Rightarrow>
         if token \<noteq> '''' then (s', Some (Inr token))
         else if lp_after p > deadline then (s', Some (Inr ''''))
         else case lp_cancelled p of
           Some err \<Rightarrow> (s', Some (Inl err))
         | None \<Rightarrow> TryLock exec ttl resource deadline ps s')"

definition Unlock :: "'s connection \<Rightarrow> time \<Rightarrow> string \<Rightarrow> string \<Rightarrow> 's \<Rightarrow> 's \<times> string option" where
  "Unlock exec now resource token s =
    (let key = lockKey resource in
     case exec now [IFEQ key (bytes_of token) (DEL key)] s of
       (s', Inl err) \<Rightarrow> (s', Some (''lock release: '' @ err))
     | (s', Inr _) \<Rightarrow> (s', None))"

definition Extend :: "'s connection \<Rightarrow> duration \<Rightarrow> time \<Rightarrow> string \<Rightarrow> string \<Rightarrow> 's \<Rightarrow> 's \<times> string option" where
  "Extend exec ttl now resource token s =
    (let key = lockKey resource in
     case exec now [IFEQ key (bytes_of token) (EXPIRE key (ttl div Millisecond * Millisecond))] s of
       (s', Inl err) \<Rightarrow> (s', Some (''lock extend: '' @ err))
     | (s', Inr rs) \<Rightarrow> (s', if rs = [RInt 0] then Some ''lock not held or token mismatch'' else None))"

definition IsLocked :: "'s connection \<Rightarrow> time \<Rightarrow> string \<Rightarrow> 's \<Rightarrow> 's \<times> (string, bool) result" where
  "IsLocked exec now resource s =
    (case exec now [EXISTS (lockKey resource)] s of
       (s', Inl err) \<Rightarrow> (s', Inl (''lock exists check: '' @ err))
     | (s', Inr rs) \<Rightarrow> (s', Inr (case rs of [RInt n] \<Rightarrow> n > 0 | _ \<Rightarrow> False)))"

section \<open>The rate limiter\<close>

definition gpsiKey :: "string \<Rightarrow> string" where
  "gpsiKey gpsiHash = ''nssaa:ratelimit:gpsi:'' @ gpsiHash"

definition amfKey :: "string \<Rightarrow> string" where
  "amfKey amfID = ''nssaa:ratelimit:amf:'' @ amfID"

abbreviation ms :: "time \<Rightarrow> int" where "ms t \<equiv> t div Millisecond"

text \<open>\<^verbatim>\<open>EXPIRE\<close> takes whole seconds.\<close>

definition allow_cmds :: "duration \<Rightarrow> time \<Rightarrow> string \<Rightarrow> redis_cmd list" where
  "allow_cmds window now key =
    [ZREMRANGEBYSCORE key 0 (ms now - ms window), ZCARD key, ZADD key (ms now) (ms now),
     EXPIRE key ((window + Second) div Second * Second)]"

definition rl_allow :: "'s connection \<Rightarrow> duration \<Rightarrow> int \<Rightarrow> time \<Rightarrow> string \<Rightarrow> 's \<Rightarrow> 's \<times> (string, bool) result" where
  "rl_allow exec window limit now key s =
    (case exec now (allow_cmds window now key) s of
       (s', Inl err) \<Rightarrow> (s', Inl (''rate limiter: '' @ err))
     | (s', Inr rs) \<Rightarrow>
         (s', if RWrongType \<in> set rs then Inl ''rate limiter: WRONGTYPE''
              else Inr (case rs ! 1 of RInt count \<Rightarrow> count < limit | _ \<Rightarrow> 0 < limit)))"

definition AllowGPSI :: "'s connection \<Rightarrow> duration \<Rightarrow> int \<Rightarrow> time \<Rightarrow> string \<Rightarrow> 's \<Rightarrow> 's \<times> (string, bool) result" where
  "AllowGPSI exec window limit now gpsiHash = rl_allow exec window limit now (gpsiKey gpsiHash)"

definition AllowAMF :: "'s connection \<Rightarrow> duration \<Rightarrow> int \<Rightarrow> time \<Rightarrow> string \<Rightarrow> 's \<Rightarrow> 's \<times> (string, bool) result" where
  "AllowAMF exec window limit now amfID = rl_allow exec window limit now (amfKey amfID)"

definition GetCount :: "'s connection \<Rightarrow> duration \<Rightarrow> time \<Rightarrow> string \<Rightarrow> 's \<Rightarrow> 's \<times> (string, int) result" where
  "GetCount exec window now key s =
    (case exec now [ZCOUNT key (ms now - ms window)] s of
       (s', Inl err) \<Rightarrow> (s', Inl (''rate limiter count: '' @ err))
     | (s', Inr rs) \<Rightarrow> (s', case rs of [RInt c] \<Rightarrow> Inr c | _ \<Rightarrow> Inl ''rate limiter count: WRONGTYPE''))"

definition rl_Reset :: "'s connection \<Rightarrow> time \<Rightarrow> string \<Rightarrow> 's \<Rightarrow> 's \<times> string option" where
  "rl_Reset exec now key s =
    (case exec now [DEL key] s of
       (s', Inl err) \<Rightarrow> (s', Some (''rate limiter reset: '' @ err))
     | (s', Inr _) \<Rightarrow> (s', None))"

section \<open>The idempotency cache\<close>

definition NewIdempotencyCache :: "duration \<Rightarrow> duration" where
  "NewIdempotencyCache ttl = (if ttl = 0 then 60 * Minute else ttl)"

definition idempotencyKey :: "string \<Rightarrow> string \<Rightarrow> string" where
  "idempotencyKey ctxID msgHash = ''nssaa:idempotency:'' @ ctxID @ '':'' @ msgHash"

definition hashPayload :: "(bytes \<Rightarrow> bytes) \<Rightarrow> string \<Rightarrow> bytes \<Rightarrow> string" where
  "hashPayload sha256 authCtxID payload = EncodeToString (sha256 (bytes_of authCtxID @ payload))"

definition idem_key :: "(bytes \<Rightarrow> bytes) \<Rightarrow> string \<Rightarrow> bytes \<Rightarrow> string" where
  "idem_key sha256 authCtxID payload = idempotencyKey authCtxID (hashPayload sha256 authCtxID payload)"

definition idem_Check :: "'s connection \<Rightarrow> (bytes \<Rightarrow> bytes) \<Rightarrow> time \<Rightarrow> string \<Rightarrow> bytes \<Rightarrow> 's \<Rightarrow> 's \<times> (string, bool) result" where
  "idem_Check exec sha256 now authCtxID payload s =
    (case exec now [EXISTS (idem_key sha256 authCtxID payload)] s of
       (s', Inl err) \<Rightarrow> (s', Inl (''idempotency check: '' @ err))
     | (s', Inr rs) \<Rightarrow> (s', Inr (case rs of [RInt n] \<Rightarrow> n > 0 | _ \<Rightarrow> False)))"

definition idem_Record ::
  "'s connection \<Rightarrow> (bytes \<Rightarrow> bytes) \<Rightarrow> duration \<Rightarrow> time \<Rightarrow> string \<Rightarrow> bytes \<Rightarrow> bytes \<Rightarrow> 's \<Rightarrow> 's \<times> string option" where
  "idem_Record exec sha256 ttl now authCtxID payload response s =
    (case exec now [SETEX (idem_key sha256 authCtxID payload) response ttl] s of
       (s', Inl err) \<Rightarrow> (s', Some (''idempotency record: '' @ err))
     | (s', Inr _) \<Rightarrow> (s', None))"

definition idem_GetResponse ::
  "'s connection \<Rightarrow> (bytes \<Rightarrow> bytes) \<Rightarrow> time \<Rightarrow> string \<Rightarrow> bytes \<Rightarrow> 's \<Rightarrow> 's \<times> (string, bytes option) result" where
  "idem_GetResponse exec sha256 now authCtxID payload s =
    (case exec now [GET (idem_key sha256 authCtxID payload)] s of
       (s', Inl err) \<Rightarrow> (s', Inl (''idempotency get: '' @ err))
     | (s', Inr rs) \<Rightarrow>
         (s', case rs of [RBulk v] \<Rightarrow> Inr (Some v) | [RNil] \<Rightarrow> Inr None | _ \<Rightarrow> Inl ''idempotency get: WRONGTYPE''))"

definition idem_Invalidate :: "'s connection \<Rightarrow> (bytes \<Rightarrow> bytes) \<Rightarrow> time \<Rightarrow> string \<Rightarrow> bytes \<Rightarrow> 's \<Rightarrow> 's \<times> string option" where
  "idem_Invalidate exec sha256 now authCtxID payload s =
    (case exec now [DEL (idem_key sha256 authCtxID payload)] s of
       (s', Inl err) \<Rightarrow> (s', Some (''idempotency invalidate: '' @ err))
     | (s', Inr _) \<Rightarrow> (s', None))"

section \<open>JSON values under a key\<close>

text \<open>The session cache and the correlation store read and write one JSON value; a missing key is no
  error.\<close>

definition json_get ::
  "'s connection \<Rightarrow> (bytes \<Rightarrow> (string, 'v) result) \<Rightarrow> string \<Rightarrow> string \<Rightarrow> time \<Rightarrow> string \<Rightarrow> 's \<Rightarrow>
   's \<times> (string, 'v option) result" where
  "json_get exec unmarshal getErr jsonErr now key s =
    (case exec now [GET key] s of
       (s', Inl err) \<Rightarrow> (s', Inl (getErr @ err))
     | (s', Inr rs) \<Rightarrow>
         (s', case rs of
                [RNil] \<Rightarrow> Inr None
              | [RBulk data] \<Rightarrow> (case unmarshal data of Inl err \<Rightarrow> Inl (jsonErr @ err) | Inr v \<Rightarrow> Inr (Some v))
              | _ \<Rightarrow> Inl (getErr @ ''WRONGTYPE'')))"

definition json_set ::
  "'s connection \<Rightarrow> ('v \<Rightarrow> (string, bytes) result) \<Rightarrow> string \<Rightarrow> string \<Rightarrow> duration \<Rightarrow> time \<Rightarrow> string \<Rightarrow> 'v \<Rightarrow> 's \<Rightarrow>
   's \<times> string option" where
  "json_set exec marshal jsonErr setErr ttl now key v s =
    (case marshal v of
       Inl err \<Rightarrow> (s, Some (jsonErr @ err))
     | Inr data \<Rightarrow>
         (case exec now [SETEX key data ttl] s of
            (s', Inl err) \<Rightarrow> (s', Some (setErr @ err))
          | (s', Inr _) \<Rightarrow> (s', None)))"

record SessionCacheEntry =
  sc_SnssaiSST :: byte
  sc_SnssaiSD :: string
  sc_NssaaStatus :: string
  sc_EAPRounds :: int
  sc_Method :: string

definition sessionKey :: "string \<Rightarrow> string" where
  "sessionKey authCtxID = ''nssaa:session:'' @ authCtxID"

definition SessionCache_Get ::
  "'s connection \<Rightarrow> (bytes \<Rightarrow> (string, SessionCacheEntry) result) \<Rightarrow> time \<Rightarrow> string \<Rightarrow> 's \<Rightarrow>
   's \<times> (string, SessionCacheEntry option) result" where
  "SessionCache_Get exec unmarshal now authCtxID =
    json_get exec unmarshal ''session cache get: '' ''session cache unmarshal: '' now (sessionKey authCtxID)"

definition SessionCache_Set ::
  "'s connection \<Rightarrow> (SessionCacheEntry \<Rightarrow> (string, bytes) result) \<Rightarrow> duration \<Rightarrow> time \<Rightarrow> string \<Rightarrow> SessionCacheEntry \<Rightarrow> 's \<Rightarrow>
   's \<times> string option" where
  "SessionCache_Set exec marshal ttl now authCtxID =
    json_set exec marshal ''session cache marshal: '' ''session cache set: '' ttl now (sessionKey authCtxID)"

definition SessionCache_Delete :: "'s connection \<Rightarrow> time \<Rightarrow> string \<Rightarrow> 's \<Rightarrow> 's \<times> string option" where
  "SessionCache_Delete exec now authCtxID s =
    (case exec now [DEL (sessionKey authCtxID)] s of
       (s', Inl err) \<Rightarrow> (s', Some (''session cache delete: '' @ err))
     | (s', Inr _) \<Rightarrow> (s', None))"

definition SessionCache_Refresh :: "'s connection \<Rightarrow> duration \<Rightarrow> time \<Rightarrow> string \<Rightarrow> 's \<Rightarrow> 's \<times> string option" where
  "SessionCache_Refresh exec ttl now authCtxID s =
    (case exec now [EXPIRE (sessionKey authCtxID) (ttl div Second * Second)] s of
       (s', Inl err) \<Rightarrow> (s', Some (''session cache refresh: '' @ err))
     | (s', Inr _) \<Rightarrow> (s', None))"

definition SessionCache_Exists :: "'s connection \<Rightarrow> time \<Rightarrow> string \<Rightarrow> 's \<Rightarrow> 's \<times> (string, bool) result" where
  "SessionCache_Exists exec now authCtxID s =
    (case exec now [EXISTS (sessionKey authCtxID)] s of
       (s', Inl err) \<Rightarrow> (s', Inl (''session cache exists: '' @ err))
     | (s', Inr rs) \<Rightarrow> (s', Inr (case rs of [RInt n] \<Rightarrow> n > 0 | _ \<Rightarrow> False)))"

definition cache_HashGPSI :: "(bytes \<Rightarrow> bytes) \<Rightarrow> string \<Rightarrow> string" where
  "cache_HashGPSI sha256 gpsi = EncodeToString (take 16 (sha256 (bytes_of gpsi)))"

definition SessionCorrelationStore_Save ::
  "'s connection \<Rightarrow> (SessionCorrEntry \<Rightarrow> (string, bytes) result) \<Rightarrow> duration \<Rightarrow> time \<Rightarrow> string \<Rightarrow> SessionCorrEntry \<Rightarrow> 's \<Rightarrow>
   's \<times> string option" where
  "SessionCorrelationStore_Save exec marshal ttl now sessionID =
    json_set exec marshal ''marshal session correlation: '' (''save session correlation '' @ sessionID @ '': '') ttl now (SessionCorrKey sessionID)"

definition SessionCorrelationStore_Load ::
  "'s connection \<Rightarrow> (bytes \<Rightarrow> (string, SessionCorrEntry) result) \<Rightarrow> time \<Rightarrow> string \<Rightarrow> 's \<Rightarrow>
   's \<times> (string, SessionCorrEntry option) result" where
  "SessionCorrelationStore_Load exec unmarshal now sessionID =
    json_get exec unmarshal (''load session correlation '' @ sessionID @ '': '') (''decode session correlation '' @ sessionID @ '': '') now (SessionCorrKey sessionID)"

section \<open>Histories of a lock\<close>

text \<open>Every operation is one command, so the operations of concurrent clients are a sequence.\<close>

datatype lock_op = OpLock string | OpUnlock string | OpExtend string

fun lock_step :: "'s connection \<Rightarrow> duration \<Rightarrow> string \<Rightarrow> time \<times> lock_op \<Rightarrow> 's \<Rightarrow> 's \<times> string" where
  "lock_step exec ttl resource (now, OpLock token) s =
    (case Lock exec ttl now token resource s of (s', Inr t) \<Rightarrow> (s', t) | (s', Inl _) \<Rightarrow> (s', ''''))"
| "lock_step exec ttl resource (now, OpUnlock token) s = (fst (Unlock exec now resource token s), '''')"
| "lock_step exec ttl resource (now, OpExtend token) s = (fst (Extend exec ttl now resource token s), '''')"

fun lock_run :: "'s connection \<Rightarrow> duration \<Rightarrow> string \<Rightarrow> (time \<times> lock_op) list \<Rightarrow> 's \<Rightarrow> 's" where
  "lock_run exec ttl resource [] s = s"
| "lock_run exec ttl resource (op # ops) s = lock_run exec ttl resource ops (fst (lock_step exec ttl resource op s))"

text \<open>The key holds the token up to a time.\<close>

definition holds :: "time \<Rightarrow> time \<Rightarrow> string \<Rightarrow> string \<Rightarrow> redis_db \<Rightarrow> bool" where
  "holds now till resource token d =
    (\<forall>t. now \<le> t \<and> t < till \<longrightarrow> look t d (lockKey resource) = Some (RStr (bytes_of token)))"

lemma holds_mono: "holds now till r a d \<Longrightarrow> now \<le> now' \<Longrightarrow> holds now' till r a d"
  by (simp add: holds_def)

lemma holds_past: "till \<le> now \<Longrightarrow> holds now till r a d"
  by (auto simp: holds_def)

lemma holds_SETNX:
  assumes "holds now till r a d"
  shows "holds now till r a (fst (redis_step now (SETNX (lockKey r) v ttl) d))"
proof (cases "now < till")
  case True
  then have "look now d (lockKey r) = Some (RStr (bytes_of a))" using assms by (simp add: holds_def)
  then show ?thesis using assms by simp
qed (simp add: holds_past)

lemma holds_IFEQ_other:
  assumes "holds now till r a d" "b \<noteq> a"
  shows "holds now till r a (fst (redis_step now (IFEQ (lockKey r) (bytes_of b) c) d))"
proof (cases "now < till")
  case True
  then have "look now d (lockKey r) = Some (RStr (bytes_of a))" using assms by (simp add: holds_def)
  then show ?thesis using assms by simp
qed (simp add: holds_past)

lemma holds_EXPIRE:
  assumes "holds now till r a d" "till \<le> now + ttl"
  shows "holds now till r a (fst (redis_step now (IFEQ (lockKey r) (bytes_of b) (EXPIRE (lockKey r) ttl)) d))"
proof (cases "now < till")
  case True
  then have "look now d (lockKey r) = Some (RStr (bytes_of a))" using assms by (simp add: holds_def)
  then show ?thesis using assms by (auto simp: holds_def look_def expired_def split: option.splits)
qed (simp add: holds_past)

context redis_server
begin

lemma lock_step_holds:
  assumes "holds now till r a (db s)" "till \<le> now + ttl" "Millisecond dvd ttl" "op \<noteq> OpUnlock a"
  shows "holds now till r a (db (fst (lock_step exec ttl r (now, op) s)))"
proof (cases op)
  case (OpLock b)
  obtain s' x where e: "exec now [SETNX (lockKey r) (bytes_of b) ttl] s = (s', x)" by fastforce
  then have "holds now till r a (db s')" using exec_one_db [OF e] holds_SETNX [OF assms(1)] assms(1) by auto
  then show ?thesis using e OpLock by (cases x) (simp_all add: Lock_def)
next
  case (OpUnlock b)
  then have "b \<noteq> a" using assms(4) by simp
  obtain s' x where e: "exec now [IFEQ (lockKey r) (bytes_of b) (DEL (lockKey r))] s = (s', x)" by fastforce
  then have "holds now till r a (db s')" using exec_one_db [OF e] holds_IFEQ_other [OF assms(1) \<open>b \<noteq> a\<close>] assms(1) by auto
  then show ?thesis using e OpUnlock by (cases x) (simp_all add: Unlock_def Let_def)
next
  case (OpExtend b)
  obtain s' x where e: "exec now [IFEQ (lockKey r) (bytes_of b) (EXPIRE (lockKey r) (ttl div Millisecond * Millisecond))] s = (s', x)"
    by fastforce
  have "ttl div Millisecond * Millisecond = ttl" using assms(3) by simp
  then have "holds now till r a (db s')" using exec_one_db [OF e] holds_EXPIRE [OF assms(1,2)] assms(1) by auto
  then show ?thesis using e OpExtend by (cases x) (simp_all add: Extend_def Let_def)
qed

lemma lock_run_holds:
  assumes "holds now till r a (db s)" "till \<le> now + ttl" "Millisecond dvd ttl" "\<forall>op \<in> set ops. snd op \<noteq> OpUnlock a"
    "sorted (now # map fst ops @ [u])"
  shows "holds u till r a (db (lock_run exec ttl r ops s))"
  using assms
proof (induction ops arbitrary: now s)
  case Nil
  then show ?case by (simp add: holds_mono)
next
  case (Cons op ops)
  obtain t o' where op: "op = (t, o')" by (cases op)
  have t: "now \<le> t" using Cons.prems(5) op by simp
  have "holds t till r a (db (fst (lock_step exec ttl r (t, o') s)))"
    using lock_step_holds [OF holds_mono [OF Cons.prems(1) t]] Cons.prems(2-4) op t by simp
  then show ?case using Cons.IH [of t] Cons.prems op t by simp
qed

lemma Lock_granted:
  assumes "Lock exec ttl now a r s = (s', Inr a)" "a \<noteq> ''''"
  shows "look now (db s) (lockKey r) = None" "holds now (now + ttl) r a (db s')"
proof -
  obtain s'' x where x: "exec now [SETNX (lockKey r) (bytes_of a) ttl] s = (s'', x)" by fastforce
  have e: "exec now [SETNX (lockKey r) (bytes_of a) ttl] s = (s', Inr [RInt 1])"
    using assms x by (cases x) (simp_all add: Lock_def split: if_splits)
  have st: "redis_step now (SETNX (lockKey r) (bytes_of a) ttl) (db s) = (db s', RInt 1)"
    using exec_one_ok [OF e] by simp
  then show "look now (db s) (lockKey r) = None" by (simp split: if_splits)
  with st have "db s' = (db s)(lockKey r \<mapsto> (RStr (bytes_of a), Some (now + ttl)))" by simp
  then show "holds now (now + ttl) r a (db s')" by (simp add: holds_def look_def expired_def)
qed

end

section \<open>Properties of the lock\<close>

text \<open>C23. Mutual exclusion.  Once a lock is granted, no other client is granted it before its time to
  live has passed, unless it is released with its own token: whatever the clients do in between,
  in whatever order, and whichever of their calls fail.\<close>

theorem lock_mutual_exclusion:
  assumes "redis_server exec db" "Millisecond dvd ttl"
    "Lock exec ttl now a r s = (s1, Inr a)" "a \<noteq> ''''"
    "\<forall>op \<in> set ops. snd op \<noteq> OpUnlock a" "sorted (now # map fst ops @ [u])"
    "Lock exec ttl u b r (lock_run exec ttl r ops s1) = (s2, Inr b)" "b \<noteq> ''''"
  shows "u \<ge> now + ttl"
proof (rule ccontr)
  assume u: "\<not> u \<ge> now + ttl"
  have "holds u (now + ttl) r a (db (lock_run exec ttl r ops s1))"
    by (rule redis_server.lock_run_holds [OF assms(1) redis_server.Lock_granted(2) [OF assms(1,3,4)] order.refl assms(2,5,6)])
  then have "look u (db (lock_run exec ttl r ops s1)) (lockKey r) \<noteq> None" using u by (simp add: holds_def)
  then show False using redis_server.Lock_granted(1) [OF assms(1,7,8)] by simp
qed

lemma flaky_Lock:
  "Lock flaky_exec ttl now a r (Some k # fs, d) = ((fs, fst (redis_run now (take k [SETNX (lockKey r) (bytes_of a) ttl]) d)), Inl ''lock acquire: connection lost'')"
  "look now d (lockKey r) = None \<Longrightarrow>
    Lock flaky_exec ttl now a r ([], d) = (([], d(lockKey r \<mapsto> (RStr (bytes_of a), Some (now + ttl)))), Inr a)"
  "look now d (lockKey r) = Some x \<Longrightarrow> Lock flaky_exec ttl now a r ([], d) = (([], d), Inr '''')"
  by (simp_all add: Lock_def flaky_exec_def)

theorem lock_mutual_exclusion_witness:
  "\<exists>s1 s2. Lock flaky_exec (30 * Second) 0 ''a'' ''ctx'' ([], Map.empty) = (s1, Inr ''a'')
     \<and> Lock flaky_exec (30 * Second) (31 * Second) ''b'' ''ctx'' (lock_run flaky_exec (30 * Second) ''ctx'' [(Second, OpLock ''c'')] s1)
        = (s2, Inr ''b'')
     \<and> (31 :: int) * Second \<ge> 0 + 30 * Second"
proof -
  let ?d = "[lockKey ''ctx'' \<mapsto> (RStr (bytes_of ''a''), Some (0 + 30 * Second))] :: redis_db"
  let ?r = "lock_run flaky_exec (30 * Second) ''ctx'' [(Second, OpLock ''c'')] ([], ?d)"
  have l1: "Lock flaky_exec (30 * Second) 0 ''a'' ''ctx'' ([], Map.empty) = (([], ?d), Inr ''a'')"
    by (rule flaky_Lock(2)) (simp add: look_def)
  have r: "?r = ([], ?d)"
    by (simp add: flaky_Lock(3) [where x = "RStr (bytes_of ''a'')"] look_def expired_def)
  have l2: "Lock flaky_exec (30 * Second) (31 * Second) ''b'' ''ctx'' ?r
      = (([], ?d(lockKey ''ctx'' \<mapsto> (RStr (bytes_of ''b''), Some (31 * Second + 30 * Second)))), Inr ''b'')"
    unfolding r by (rule flaky_Lock(2)) (simp add: look_def expired_def)
  have "(31 :: int) * Second \<ge> 0 + 30 * Second"
    by (rule lock_mutual_exclusion [OF redis_server_flaky _ l1 _ _ _ l2]) simp_all
  with l1 l2 show ?thesis by blast
qed

section \<open>Histories of the rate limiter\<close>

fun rl_run :: "'s connection \<Rightarrow> duration \<Rightarrow> int \<Rightarrow> string \<Rightarrow> time list \<Rightarrow> 's \<Rightarrow> 's \<times> (string, bool) result list" where
  "rl_run exec window limit key [] s = (s, [])"
| "rl_run exec window limit key (t # ts) s =
    (let (s1, r) = rl_allow exec window limit t key s; (s2, rs) = rl_run exec window limit key ts s1 in (s2, r # rs))"

text \<open>Each request answered so far is in the set for as long as it is in a window.\<close>

definition in_window :: "duration \<Rightarrow> time \<Rightarrow> int \<Rightarrow> bool" where
  "in_window window T m = (m > ms T - ms window)"

definition counted :: "duration \<Rightarrow> string \<Rightarrow> time \<Rightarrow> int set \<Rightarrow> redis_db \<Rightarrow> bool" where
  "counted window key now H d =
    (\<forall>m \<in> H. \<forall>T \<ge> now. in_window window T m \<longrightarrow>
       (\<exists>z. look T d key = Some (RZSet z) \<and> (m, m) \<in> set z \<and> distinct (map fst z)))"

lemma counted_mono: "counted w k now H d \<Longrightarrow> now \<le> now' \<Longrightarrow> counted w k now' H d"
  by (auto simp: counted_def)

lemma look_earlier: "look T d k = Some v \<Longrightarrow> now \<le> T \<Longrightarrow> look now d k = Some v"
  by (auto simp: look_def expired_def split: option.splits if_splits)

lemma look_store:
  "look T d k = Some v \<Longrightarrow> now \<le> T \<Longrightarrow> look T (redis_store now k v' d) k = Some v'"
  by (auto simp: look_def redis_store_def live_expiry_def expired_def split: option.splits if_splits)

lemma look_store_now: "look now (redis_store now k v d) k = Some v"
  by (auto simp: look_def redis_store_def live_expiry_def expired_def split: option.splits)

lemma in_window_earlier: "in_window w T m \<Longrightarrow> now \<le> T \<Longrightarrow> m > ms now - ms w"
  using zdiv_mono1 [of now T Millisecond] by (simp add: in_window_def)

lemma counted_ZREM:
  assumes "counted w k now H d"
  shows "counted w k now H (fst (redis_step now (ZREMRANGEBYSCORE k 0 (ms now - ms w)) d))"
  unfolding counted_def
proof (intro ballI allI impI)
  fix m T assume m: "m \<in> H" "now \<le> T" "in_window w T m"
  then obtain z where z: "look T d k = Some (RZSet z)" "(m, m) \<in> set z" "distinct (map fst z)"
    using assms by (auto simp: counted_def)
  let ?z = "filter (\<lambda>(m, s). \<not> (0 \<le> s \<and> s \<le> ms now - ms w)) z"
  have in': "(m, m) \<in> set ?z" using z(2) in_window_earlier [OF m(3,2)] by auto
  then have "?z \<noteq> []" by (metis empty_iff empty_set)
  then have "look T (fst (redis_step now (ZREMRANGEBYSCORE k 0 (ms now - ms w)) d)) k = Some (RZSet ?z)"
    using look_earlier [OF z(1) m(2)] look_store [OF z(1) m(2)] by (simp add: on_zset_def Let_def)
  then show "\<exists>z. look T (fst (redis_step now (ZREMRANGEBYSCORE k 0 (ms now - ms w)) d)) k = Some (RZSet z)
      \<and> (m, m) \<in> set z \<and> distinct (map fst z)"
    using in' z(3) by (auto simp: distinct_map_filter)
qed

lemma update_keeps: "(m, m) \<in> set z \<Longrightarrow> distinct (map fst z) \<Longrightarrow> (m, m) \<in> set (AList.update m' m' z)"
  by (induction z) auto

lemma update_has: "(m, m) \<in> set (AList.update m m z)"
  by (induction z) auto

lemma counted_ZADD:
  assumes "counted w k now H d"
  shows "counted w k now H (fst (redis_step now (ZADD k m' m') d))"
  unfolding counted_def
proof (intro ballI allI impI)
  fix m T assume m: "m \<in> H" "now \<le> T" "in_window w T m"
  then obtain z where z: "look T d k = Some (RZSet z)" "(m, m) \<in> set z" "distinct (map fst z)"
    using assms by (auto simp: counted_def)
  have "look T (fst (redis_step now (ZADD k m' m') d)) k = Some (RZSet (AList.update m' m' z))"
    using look_earlier [OF z(1) m(2)] look_store [OF z(1) m(2)] by (simp add: on_zset_def)
  then show "\<exists>z. look T (fst (redis_step now (ZADD k m' m') d)) k = Some (RZSet z) \<and> (m, m) \<in> set z \<and> distinct (map fst z)"
    using update_keeps [OF z(2,3)] distinct_update [OF z(3)] by blast
qed

text \<open>The expiry of the key outlasts the window of every request counted so far.\<close>

lemma div_bounds: "(a :: int) div c * c \<le> a" "a < (a div c + 1) * c" if "c > 0"
proof -
  have "a div c * c + a mod c = a" "a mod c < c" "0 \<le> a mod c" using that by simp_all
  then show "a div c * c \<le> a" "a < (a div c + 1) * c" unfolding distrib_right by linarith+
qed

lemma window_before_expiry:
  assumes "in_window w T (ms t)" "t \<le> now"
  shows "T < now + (w + Second) div Second * Second"
proof -
  have "ms T - ms t < ms w" using assms(1) by (simp add: in_window_def)
  moreover have "T < (ms T + 1) * Millisecond" "ms t * Millisecond \<le> t"
    using div_bounds [of Millisecond] by simp_all
  moreover have "(ms w + 1) * Millisecond \<le> (w + Second) div Second * Second"
  proof -
    have "w < (w div Second + 1) * Second" using div_bounds(2) [of Second w] by simp
    then have "w < ((w div Second + 1) * 1000) * Millisecond" by simp
    then have "ms w < (w div Second + 1) * 1000" by (simp add: div_less_iff_less_mult)
    moreover have "(w + Second) div Second = w div Second + 1" using div_add_self2 [of Second w] by simp
    ultimately show ?thesis by simp
  qed
  ultimately show ?thesis using assms(2) by linarith
qed

lemma counted_EXPIRE:
  assumes "counted w k now H d" "\<forall>m \<in> H. \<exists>t \<le> now. m = ms t"
  shows "counted w k now H (fst (redis_step now (EXPIRE k ((w + Second) div Second * Second)) d))"
  unfolding counted_def
proof (intro ballI allI impI)
  fix m T assume m: "m \<in> H" "now \<le> T" "in_window w T m"
  then obtain z where z: "look T d k = Some (RZSet z)" "(m, m) \<in> set z" "distinct (map fst z)"
    using assms(1) by (auto simp: counted_def)
  obtain t where "t \<le> now" "m = ms t" using assms(2) m(1) by blast
  then have "T < now + (w + Second) div Second * Second" using window_before_expiry m(3) by blast
  then have "look T (fst (redis_step now (EXPIRE k ((w + Second) div Second * Second)) d)) k = Some (RZSet z)"
    using look_earlier [OF z(1) m(2)] by (simp add: look_def expired_def)
  then show "\<exists>z. look T (fst (redis_step now (EXPIRE k ((w + Second) div Second * Second)) d)) k = Some (RZSet z)
      \<and> (m, m) \<in> set z \<and> distinct (map fst z)" using z by blast
qed

lemma counted_cmd:
  assumes "counted w k now H d" "\<forall>m \<in> H. \<exists>t \<le> now. m = ms t" "c \<in> set (allow_cmds w now k)"
  shows "counted w k now H (fst (redis_step now c d))"
proof -
  have "fst (redis_step now (ZCARD k) d) = d"
    by (simp add: on_zset_def split: option.split redis_value.split)
  then show ?thesis
    using counted_ZREM [OF assms(1)] counted_ZADD [OF assms(1)] counted_EXPIRE [OF assms(1,2)] assms(1,3)
    by (auto simp: allow_cmds_def simp del: redis_step.simps)
qed

lemma counted_run:
  assumes "counted w k now H d" "\<forall>m \<in> H. \<exists>t \<le> now. m = ms t" "set cs \<subseteq> set (allow_cmds w now k)"
  shows "counted w k now H (fst (redis_run now cs d))"
  using assms
proof (induction cs arbitrary: d)
  case (Cons c cs)
  then have "counted w k now H (fst (redis_step now c d))" using counted_cmd by simp
  then show ?case using Cons by (simp add: case_prod_beta Let_def)
qed simp

text \<open>A pipeline whose replies are no errors: what it counted and what it leaves.\<close>

lemma allow_pipeline:
  assumes "redis_run now (allow_cmds w now k) d = (d', rs)" "RWrongType \<notin> set rs"
  shows "\<exists>z. rs ! 1 = RInt (int (length z))
    \<and> d' k = Some (RZSet (AList.update (ms now) (ms now) z), Some (now + (w + Second) div Second * Second))
    \<and> (\<forall>z0. look now d k = Some (RZSet z0) \<longrightarrow> z = filter (\<lambda>(m, s). \<not> (0 \<le> s \<and> s \<le> ms now - ms w)) z0)
    \<and> (look now d k = None \<longrightarrow> z = [])"
proof -
  obtain z0 where z0: "look now d k = (if z0 = None then None else Some (RZSet (the z0)))"
  proof (cases "look now d k")
    case None
    then show ?thesis using that [of None] by simp
  next
    case (Some v)
    then have "v \<noteq> RStr b" "v \<noteq> RList l" for b l
      using assms by (auto simp: allow_cmds_def on_zset_def Let_def case_prod_beta)
    then obtain z where "v = RZSet z" by (cases v) auto
    then show ?thesis using that [of "Some z"] Some by simp
  qed
  define z where "z = filter (\<lambda>(m, s). \<not> (0 \<le> s \<and> s \<le> ms now - ms w)) (case z0 of None \<Rightarrow> [] | Some z \<Rightarrow> z)"
  define d1 where "d1 = (if z = [] then d(k := None) else redis_store now k (RZSet z) d)"
  have s1: "\<exists>n. redis_step now (ZREMRANGEBYSCORE k 0 (ms now - ms w)) d = (d1, RInt n)"
    using z0 by (cases z0) (simp_all add: on_zset_def Let_def d1_def z_def)
  have l1: "look now d1 k = (if z = [] then None else Some (RZSet z))"
    by (simp add: d1_def look_store_now) (simp add: look_def)
  define d2 where "d2 = redis_store now k (RZSet (AList.update (ms now) (ms now) z)) d1"
  have s2: "redis_step now (ZCARD k) d1 = (d1, RInt (int (length z)))"
    "\<exists>n. redis_step now (ZADD k (ms now) (ms now)) d1 = (d2, RInt n)"
    using l1 by (simp_all add: on_zset_def d2_def)
  have l2: "look now d2 k = Some (RZSet (AList.update (ms now) (ms now) z))" by (simp add: d2_def look_store_now)
  have "\<exists>a b c. redis_run now (allow_cmds w now k) d
      = (d2(k \<mapsto> (RZSet (AList.update (ms now) (ms now) z), Some (now + (w + Second) div Second * Second))), [RInt a, RInt (int (length z)), RInt b, RInt c])"
    using s1 s2 l2 by (auto simp: allow_cmds_def simp del: redis_step.simps) (simp add: l2)
  then show ?thesis using assms(1) z0 by (intro exI [of _ z]) (auto simp: z_def)
qed

text \<open>Members of a sorted set are distinct.\<close>

definition zset_ok :: "string \<Rightarrow> redis_db \<Rightarrow> bool" where
  "zset_ok k d = (\<forall>z e. d k = Some (RZSet z, e) \<longrightarrow> distinct (map fst z))"

lemma zset_ok_look: "zset_ok k d \<Longrightarrow> look now d k = Some (RZSet z) \<Longrightarrow> distinct (map fst z)"
  by (auto simp: zset_ok_def look_def split: option.splits if_splits)

lemma zset_ok_cmd:
  assumes "zset_ok k d" "c \<in> set (allow_cmds w now k)"
  shows "zset_ok k (fst (redis_step now c d))"
proof (cases "look now d k")
  case None
  then show ?thesis using assms by (auto simp: allow_cmds_def on_zset_def zset_ok_def redis_store_def Let_def)
next
  case (Some v)
  show ?thesis
  proof (cases v)
    case (RZSet z)
    then have "distinct (map fst z)" using zset_ok_look assms(1) Some by blast
    then show ?thesis using assms Some RZSet
      by (auto simp: allow_cmds_def on_zset_def zset_ok_def redis_store_def Let_def distinct_update distinct_map_filter split: if_splits)
  qed (use assms Some in \<open>auto simp: allow_cmds_def on_zset_def zset_ok_def\<close>)
qed

lemma zset_ok_run: "zset_ok k d \<Longrightarrow> set cs \<subseteq> set (allow_cmds w now k) \<Longrightarrow> zset_ok k (fst (redis_run now cs d))"
  by (induction cs arbitrary: d) (auto simp: case_prod_beta Let_def zset_ok_cmd)

lemma counted_card:
  assumes "counted w k now H d" "finite H" "look now d k = Some (RZSet z0) \<or> look now d k = None"
    "look now d k = Some (RZSet z0) \<Longrightarrow> z = filter (\<lambda>(m, s). \<not> (0 \<le> s \<and> s \<le> ms now - ms w)) z0"
    "look now d k = None \<Longrightarrow> z = []"
  shows "card {m \<in> H. in_window w now m} \<le> length z"
proof -
  have "{m \<in> H. in_window w now m} \<subseteq> fst ` set z"
  proof
    fix m assume m: "m \<in> {m \<in> H. in_window w now m}"
    then obtain y where "look now d k = Some (RZSet y)" "(m, m) \<in> set y" using assms(1) by (auto simp: counted_def)
    then have "(m, m) \<in> set z" using assms(3,4) m by (auto simp: in_window_def)
    then show "m \<in> fst ` set z" by force
  qed
  then have "card {m \<in> H. in_window w now m} \<le> card (fst ` set z)" by (simp add: card_mono)
  also have "\<dots> \<le> length z" by (metis card_image_le card_length finite_set le_trans)
  finally show ?thesis .
qed

lemma setcompr_Suc:
  "{f j | j. j < Suc n \<and> P j} = (if P 0 then {f 0} else {}) \<union> {f (Suc j) | j. j < n \<and> P (Suc j)}"
proof -
  have "{j. j < Suc n \<and> P j} = (if P 0 then {0} else {}) \<union> Suc ` {j. j < n \<and> P (Suc j)}"
    by (auto simp: less_Suc_eq_0_disj)
  then have "f ` {j. j < Suc n \<and> P j} = f ` ((if P 0 then {0} else {}) \<union> Suc ` {j. j < n \<and> P (Suc j)})" by simp
  then show ?thesis by (simp add: setcompr_eq_image image_Un image_image)
qed

context redis_server
begin

lemma rl_allow_counted:
  assumes "counted w k now H (db s)" "\<forall>m \<in> H. \<exists>t \<le> now. m = ms t" "finite H" "zset_ok k (db s)"
    "rl_allow exec w limit now k s = (s', r)"
  shows "counted w k now (if isOk r then insert (ms now) H else H) (db s') \<and> zset_ok k (db s')
    \<and> (r = Inr True \<longrightarrow> int (card {m \<in> H. in_window w now m}) < limit)"
proof (cases "exec now (allow_cmds w now k) s")
  case (Pair s1 x)
  then have s1: "s1 = s'" using assms(5) by (cases x) (auto simp: rl_allow_def)
  show ?thesis
  proof (cases x)
    case (Inl e)
    then obtain j where "db s' = fst (redis_run now (take j (allow_cmds w now k)) (db s))"
      using exec_err Pair s1 by blast
    then have "counted w k now H (db s')" "zset_ok k (db s')"
      using counted_run [OF assms(1,2) set_take_subset] zset_ok_run [OF assms(4) set_take_subset] by simp_all
    then show ?thesis using assms(5) Pair Inl by (auto simp: rl_allow_def)
  next
    case (Inr rs)
    have run: "redis_run now (allow_cmds w now k) (db s) = (db s', rs)" using exec_ok Pair Inr s1 by blast
    have keep: "counted w k now H (db s')" "zset_ok k (db s')"
      using counted_run [OF assms(1,2) order.refl] zset_ok_run [OF assms(4) order.refl] run by (metis fst_conv)+
    show ?thesis
    proof (cases "RWrongType \<in> set rs")
      case True
      then show ?thesis using keep assms(5) Pair Inr by (auto simp: rl_allow_def)
    next
      case False
      obtain z where z: "rs ! 1 = RInt (int (length z))"
          "db s' k = Some (RZSet (AList.update (ms now) (ms now) z), Some (now + (w + Second) div Second * Second))"
          "\<forall>z0. look now (db s) k = Some (RZSet z0) \<longrightarrow> z = filter (\<lambda>(m, s). \<not> (0 \<le> s \<and> s \<le> ms now - ms w)) z0"
          "look now (db s) k = None \<longrightarrow> z = []"
        using allow_pipeline [OF run False] by (elim exE conjE) (rule that)
      have r: "r = Inr (int (length z) < limit)" using assms(5) Pair Inr False z(1) by (simp add: rl_allow_def)
      have d: "distinct (map fst (AList.update (ms now) (ms now) z))" using keep(2) z(2) by (simp add: zset_ok_def)
      have new: "counted w k now {ms now} (db s')"
        unfolding counted_def
      proof (intro ballI allI impI)
        fix m T assume "m \<in> {ms now}" "now \<le> T" "in_window w T m"
        then have "m = ms now" "T < now + (w + Second) div Second * Second" using window_before_expiry [of w T now now] by simp_all
        then show "\<exists>z. look T (db s') k = Some (RZSet z) \<and> (m, m) \<in> set z \<and> distinct (map fst z)"
          using z(2) update_has [of "ms now" z] d by (simp add: look_def expired_def)
      qed
      have c: "card {m \<in> H. in_window w now m} \<le> length z"
      proof (cases "\<exists>z0. look now (db s) k = Some (RZSet z0)")
        case True
        then show ?thesis using counted_card [OF assms(1,3)] z(3) by fastforce
      next
        case F: False
        then have "{m \<in> H. in_window w now m} = {}" using assms(1) by (auto simp: counted_def)
        then show ?thesis by (metis card.empty zero_le)
      qed
      show ?thesis using new keep r c by (auto simp: counted_def)
    qed
  qed
qed

lemma rl_run_bound:
  assumes "counted w k now H (db s)" "\<forall>m \<in> H. \<exists>t \<le> now. m = ms t" "finite H" "zset_ok k (db s)"
    "sorted (now # ts)" "rl_run exec w limit k ts s = (s', rs)" "i < length ts" "rs ! i = Inr True"
  shows "int (card {m \<in> H \<union> {ms (ts ! j) | j. j < i \<and> isOk (rs ! j)}. in_window w (ts ! i) m}) < limit"
  using assms
proof (induction ts arbitrary: now H s rs i)
  case (Cons t ts)
  obtain s1 r where a: "rl_allow exec w limit t k s = (s1, r)" by fastforce
  obtain rs1 where rs1: "rl_run exec w limit k ts s1 = (s', rs1)" "rs = r # rs1"
    using Cons.prems(6) a by (auto split: prod.splits)
  have t: "now \<le> t" using Cons.prems(5) by simp
  have H: "\<forall>m \<in> H. \<exists>u \<le> t. m = ms u" using Cons.prems(2) t by (meson order_trans)
  note step = rl_allow_counted [OF counted_mono [OF Cons.prems(1) t] H Cons.prems(3,4) a]
  show ?case
  proof (cases i)
    case 0
    then show ?thesis using step Cons.prems(8) rs1 by simp
  next
    case (Suc n)
    let ?H = "if isOk r then insert (ms t) H else H"
    have H': "\<forall>m \<in> ?H. \<exists>u \<le> t. m = ms u" using H by auto
    have "int (card {m \<in> ?H \<union> {ms (ts ! j) | j. j < n \<and> isOk (rs1 ! j)}. in_window w (ts ! n) m}) < limit"
      by (rule Cons.IH [of t ?H s1 rs1 n, OF conjunct1 [OF step] H' _ conjunct1 [OF conjunct2 [OF step]] _ rs1(1)])
        (use Cons.prems(3,5,7,8) rs1(2) Suc in simp_all)
    moreover have "{ms ((t # ts) ! j) | j. j < Suc n \<and> isOk (rs ! j)}
        = (if isOk r then {ms t} else {}) \<union> {ms (ts ! j) | j. j < n \<and> isOk (rs1 ! j)}"
      unfolding rs1(2) setcompr_Suc [of "\<lambda>j. ms ((t # ts) ! j)" n "\<lambda>j. isOk ((r # rs1) ! j)"] by simp
    then have "H \<union> {ms ((t # ts) ! j) | j. j < Suc n \<and> isOk (rs ! j)} = ?H \<union> {ms (ts ! j) | j. j < n \<and> isOk (rs1 ! j)}"
      by (cases "isOk r") simp_all
    ultimately show ?thesis unfolding Suc nth_Cons_Suc by metis
  qed
qed simp

end

section \<open>Properties of the rate limiter\<close>

text \<open>C24. A request is admitted only if, in the window that ends with it, fewer milliseconds than the limit
  have seen a request that the limiter answered, admitted or not.  So no window holds more
  milliseconds with admitted requests than the limit, whatever requests fail.\<close>

theorem rate_limit_per_window:
  assumes "redis_server exec db" "zset_ok key (db s)" "sorted ts" "rl_run exec window limit key ts s = (s', rs)"
    "i < length ts" "rs ! i = Inr True"
  shows "int (card {ms (ts ! j) | j. j < i \<and> isOk (rs ! j) \<and> ms (ts ! j) > ms (ts ! i) - ms window}) < limit"
proof -
  have "sorted (hd ts # ts)" using assms(3,5) by (cases ts) auto
  then have "int (card {m \<in> {} \<union> {ms (ts ! j) | j. j < i \<and> isOk (rs ! j)}. in_window window (ts ! i) m}) < limit"
    using redis_server.rl_run_bound [OF assms(1), of window key "hd ts" "{}", OF _ _ _ assms(2) _ assms(4-6)]
    by (simp add: counted_def)
  moreover have "{m \<in> {} \<union> {ms (ts ! j) | j. j < i \<and> isOk (rs ! j)}. in_window window (ts ! i) m}
      = {ms (ts ! j) | j. j < i \<and> isOk (rs ! j) \<and> ms (ts ! j) > ms (ts ! i) - ms window}"
    by (auto simp: in_window_def)
  ultimately show ?thesis by simp
qed

lemma ex_rl_run:
  "\<exists>s'. rl_run flaky_exec Second 2 ''k'' [5 * Second, 5 * Second + 100 * Millisecond] ([], Map.empty) = (s', [Inr True, Inr True])"
  by (simp add: rl_allow_def flaky_exec_def allow_cmds_def on_zset_def look_def redis_store_def live_expiry_def expired_def Let_def)

theorem rate_limit_per_window_witness:
  "\<exists>rs. snd (rl_run flaky_exec Second 2 ''k'' [5 * Second, 5 * Second + 100 * Millisecond] ([], Map.empty)) = rs
     \<and> rs ! 1 = Inr True
     \<and> int (card {ms ([5 * Second, 5 * Second + 100 * Millisecond] ! j) | j. j < 1 \<and> isOk (rs ! j)
         \<and> ms ([5 * Second, 5 * Second + 100 * Millisecond] ! j) > ms ([5 * Second, 5 * Second + 100 * Millisecond] ! 1) - ms Second}) < 2"
proof -
  obtain s' where r: "rl_run flaky_exec Second 2 ''k'' [5 * Second, 5 * Second + 100 * Millisecond] ([], Map.empty) = (s', [Inr True, Inr True])"
    using ex_rl_run by blast
  have "zset_ok ''k'' (snd ([] :: nat option list, Map.empty))" by (simp add: zset_ok_def)
  from rate_limit_per_window [OF redis_server_flaky this _ r, of 1] r show ?thesis by (intro exI conjI) auto
qed

text \<open>Requests in one millisecond are one member of the set.\<close>

definition one_request :: "string \<Rightarrow> time \<Rightarrow> redis_db \<Rightarrow> bool" where
  "one_request k now d = (look now d k \<in> {None, Some (RZSet [(ms now, ms now)])})"

lemma one_request_cmd:
  assumes "one_request k now d" "c \<in> set (allow_cmds w now k)"
  shows "one_request k now (fst (redis_step now c d))"
proof -
  have del: "look now (d(k := None)) k = None" by (simp add: look_def)
  have exp: "look now (d(k \<mapsto> (v, e))) k \<in> {None, Some v}" for v e by (simp add: look_def)
  show ?thesis
  proof (cases "look now d k")
    case None
    then show ?thesis using assms(2) del look_store_now [of now k "RZSet [(ms now, ms now)]" d]
      by (auto simp: allow_cmds_def on_zset_def one_request_def Let_def)
  next
    case (Some v)
    then have "v = RZSet [(ms now, ms now)]" using assms(1) by (simp add: one_request_def)
    then show ?thesis using assms Some del look_store_now [of now k "RZSet [(ms now, ms now)]" d]
        exp [of "RZSet [(ms now, ms now)]" "Some (now + (w + Second) div Second * Second)"]
      by (auto simp: allow_cmds_def on_zset_def one_request_def Let_def split: if_splits)
  qed
qed

lemma one_request_run:
  "one_request k now d \<Longrightarrow> set cs \<subseteq> set (allow_cmds w now k) \<Longrightarrow> one_request k now (fst (redis_run now cs d))"
  by (induction cs arbitrary: d) (auto simp: case_prod_beta Let_def one_request_cmd)

context redis_server
begin

lemma rl_allow_one_request:
  assumes "one_request k now (db s)" "limit \<ge> 2" "rl_allow exec w limit now k s = (s', r)"
  shows "one_request k now (db s') \<and> r \<noteq> Inr False"
proof (cases "exec now (allow_cmds w now k) s")
  case (Pair s1 x)
  then have s1: "s1 = s'" using assms(3) by (cases x) (auto simp: rl_allow_def)
  show ?thesis
  proof (cases x)
    case (Inl e)
    then obtain j where "db s' = fst (redis_run now (take j (allow_cmds w now k)) (db s))" using exec_err Pair s1 by blast
    then show ?thesis using one_request_run [OF assms(1) set_take_subset] assms(3) Pair Inl by (auto simp: rl_allow_def)
  next
    case (Inr rs)
    have run: "redis_run now (allow_cmds w now k) (db s) = (db s', rs)" using exec_ok Pair Inr s1 by blast
    have keep: "one_request k now (db s')" using one_request_run [OF assms(1) order.refl] run by (metis fst_conv)
    show ?thesis
    proof (cases "RWrongType \<in> set rs")
      case True
      then show ?thesis using keep assms(3) Pair Inr by (auto simp: rl_allow_def)
    next
      case False
      obtain z where z: "rs ! 1 = RInt (int (length z))"
          "\<forall>z0. look now (db s) k = Some (RZSet z0) \<longrightarrow> z = filter (\<lambda>(m, s). \<not> (0 \<le> s \<and> s \<le> ms now - ms w)) z0"
          "look now (db s) k = None \<longrightarrow> z = []"
        using allow_pipeline [OF run False] by (elim exE conjE) (rule that)
      then have "length z \<le> 1" using assms(1) by (auto simp: one_request_def)
      then show ?thesis using keep assms(2,3) Pair Inr False z(1) by (auto simp: rl_allow_def)
    qed
  qed
qed

lemma rl_run_one_request:
  assumes "one_request k now (db s)" "limit \<ge> 2" "rl_run exec w limit k (replicate n now) s = (s', rs)"
  shows "Inr False \<notin> set rs"
  using assms
proof (induction n arbitrary: s rs)
  case (Suc n)
  obtain s1 r where a: "rl_allow exec w limit now k s = (s1, r)" by fastforce
  obtain rs1 where rs1: "rl_run exec w limit k (replicate n now) s1 = (s', rs1)" "rs = r # rs1"
    using Suc.prems(3) a by (auto split: prod.splits)
  note step = rl_allow_one_request [OF Suc.prems(1,2) a]
  have "Inr False \<notin> set rs1" by (rule Suc.IH [OF conjunct1 [OF step] Suc.prems(2) rs1(1)])
  then show ?case using step rs1(2) by auto
qed simp

end

text \<open>A burst within one millisecond is not limited: with a limit of two or more, none of any number
  of requests that fall into the same millisecond of a fresh window is rejected.\<close>

theorem same_millisecond_not_limited:
  assumes "redis_server exec db" "look now (db s) key = None" "limit \<ge> 2"
    "rl_run exec window limit key (replicate n now) s = (s', rs)"
  shows "Inr False \<notin> set rs"
  using redis_server.rl_run_one_request [OF assms(1) _ assms(3,4)] assms(2) by (simp add: one_request_def)

section \<open>Values under a key\<close>

context redis_server
begin

lemma set_then_get:
  assumes "exec now [SETEX k v ttl] s = (s1, Inr rs)" "exec u [GET k'] s1 = (s2, Inr rs')" "now \<le> u" "u < now + ttl"
  shows "rs' = (if k' = k then [RBulk v] else [snd (redis_step u (GET k') (db s))])" "db s2 = db s1"
proof -
  have d: "db s1 = (db s)(k \<mapsto> (RStr v, Some (now + ttl)))" using exec_one_ok [OF assms(1)] by auto
  obtain r where r: "rs' = [r]" "redis_step u (GET k') (db s1) = (db s2, r)" using exec_one_ok [OF assms(2)] by auto
  then show "rs' = (if k' = k then [RBulk v] else [snd (redis_step u (GET k') (db s))])" "db s2 = db s1"
    using d assms(3,4) by (auto simp: look_def expired_def)
qed

lemma json_set_then_get:
  assumes "\<forall>v d. marshal v = Inr d \<longrightarrow> unmarshal d = Inr v"
    "json_set exec marshal e1 e2 ttl now k v s = (s1, None)" "now \<le> u" "u < now + ttl"
  shows "(\<exists>e. snd (json_get exec unmarshal e3 e4 u k s1) = Inl e) \<or> snd (json_get exec unmarshal e3 e4 u k s1) = Inr (Some v)"
proof -
  obtain d where d: "marshal v = Inr d" using assms(2) by (cases "marshal v") (auto simp: json_set_def)
  obtain s1' x where x: "exec now [SETEX k d ttl] s = (s1', x)" by fastforce
  then obtain rs where rs: "exec now [SETEX k d ttl] s = (s1, Inr rs)"
    using assms(2) d by (cases x) (auto simp: json_set_def)
  obtain s2 y where y: "exec u [GET k] s1 = (s2, y)" by fastforce
  show ?thesis
  proof (cases y)
    case (Inr rs')
    have "rs' = [RBulk d]" using set_then_get [OF rs y [unfolded Inr] assms(3,4)] by simp
    then show ?thesis using y Inr assms(1) d by (simp add: json_get_def)
  qed (use y in \<open>simp add: json_get_def\<close>)
qed

lemma idem_record_then_get:
  assumes "idem_Record exec sha256 ttl now i p resp s = (s1, None)" "now \<le> u" "u < now + ttl"
    "idem_GetResponse exec sha256 u j q s1 = (s2, Inr r)"
  shows "idem_key sha256 j q = idem_key sha256 i p \<Longrightarrow> r = Some resp"
    "idem_key sha256 j q \<noteq> idem_key sha256 i p \<Longrightarrow>
       r = (case look u (db s) (idem_key sha256 j q) of Some (RStr v) \<Rightarrow> Some v | _ \<Rightarrow> None)"
proof -
  obtain s1' x where x: "exec now [SETEX (idem_key sha256 i p) resp ttl] s = (s1', x)" by fastforce
  then obtain rs where rs: "exec now [SETEX (idem_key sha256 i p) resp ttl] s = (s1, Inr rs)"
    using assms(1) by (cases x) (auto simp: idem_Record_def)
  obtain s2' y where y: "exec u [GET (idem_key sha256 j q)] s1 = (s2', y)" by fastforce
  then obtain rs' where rs': "exec u [GET (idem_key sha256 j q)] s1 = (s2, Inr rs')"
    using assms(4) by (cases y) (auto simp: idem_GetResponse_def)
  note g = set_then_get(1) [OF rs rs' assms(2,3)]
  show "idem_key sha256 j q = idem_key sha256 i p \<Longrightarrow> r = Some resp"
    using g assms(4) rs' by (simp add: idem_GetResponse_def)
  show "idem_key sha256 j q \<noteq> idem_key sha256 i p \<Longrightarrow>
      r = (case look u (db s) (idem_key sha256 j q) of Some (RStr v) \<Rightarrow> Some v | _ \<Rightarrow> None)"
    using g assms(4) rs' by (auto simp: idem_GetResponse_def split: option.splits redis_value.splits)
qed

end

lemma EncodeToString_inj [simp]: "EncodeToString a = EncodeToString b \<longleftrightarrow> a = b"
  by (metis Decode_EncodeToString option.inject)

text \<open>The key names the context and the hash of the message, so keys collide only with the hash.\<close>

lemma idem_key_inj:
  assumes "idem_key sha256 i p = idem_key sha256 i q" "inj_on sha256 {bytes_of i @ p, bytes_of i @ q}"
  shows "p = q"
  using assms by (auto simp: idem_key_def idempotencyKey_def hashPayload_def dest: inj_onD)

text \<open>A response recorded for a message of a context is what is read for that message until it expires,
  and recording it changes nothing that is read for another message of the context.\<close>

theorem idempotent_response:
  assumes "redis_server exec db" "idem_Record exec sha256 ttl now i p resp s = (s1, None)" "now \<le> u" "u < now + ttl"
    "idem_GetResponse exec sha256 u i q s1 = (s2, Inr r)" "inj_on sha256 {bytes_of i @ q, bytes_of i @ p}"
  shows "r = (if q = p then Some resp
     else case look u (db s) (idem_key sha256 i q) of Some (RStr v) \<Rightarrow> Some v | _ \<Rightarrow> None)"
  using redis_server.idem_record_then_get [OF assms(1-5)] idem_key_inj [OF _ assms(6)] by auto

end
