(* ===== verification/Amf.thy ===== *)
theory Amf
  imports Redis Resilience Encodings "HOL-Library.Sublist"
begin

text \<open>
  The path of a notification to the AMF: \<^verbatim>\<open>internal/nfclient\<close>, the HTTP client behind a circuit
  breaker, \<^verbatim>\<open>internal/amf\<close>, which sends with retries and hands what cannot be sent to a
  dead-letter queue, and \<^verbatim>\<open>internal/cache/redis/dlq.go\<close>, the queue and its consumer.  How the
  network answers is an argument, as are the connection to Redis and the JSON codec of the queue's
  items.  The gauges and the pauses of the consumer are left out.
\<close>

section \<open>The HTTP client\<close>

datatype nf_outcome = NfBadRequest string | NfTransport string | NfBody string | NfAnswered int bytes

record nf_call =
  nc_start :: time
  nc_end :: time
  nc_outcome :: nf_outcome

definition nf_record :: "(CircuitBreaker \<Rightarrow> CircuitBreaker) \<Rightarrow> string \<Rightarrow> Registry option \<Rightarrow> Registry option" where
  "nf_record f baseURL = map_option (Registry_update baseURL f)"

definition Factory_Do :: "nf_call \<Rightarrow> string \<Rightarrow> Registry option \<Rightarrow> Registry option \<times> (string, int \<times> bytes) result" where
  "Factory_Do call baseURL cbRegistry =
    (let admitted = (case cbRegistry of None \<Rightarrow> True | Some r \<Rightarrow> snd (Allow (snd (Registry_Get r baseURL)) (nc_start call)));
         reg = nf_record (\<lambda>cb. fst (Allow cb (nc_start call))) baseURL cbRegistry;
         failed = nf_record (\<lambda>cb. RecordFailure cb (nc_end call)) baseURL reg
     in if \<not> admitted then (reg, Inl (''nfclient: circuit breaker open for '' @ baseURL))
        else case nc_outcome call of
          NfBadRequest err \<Rightarrow> (failed, Inl (''nfclient: create request: '' @ err))
        | NfTransport err \<Rightarrow> (failed, Inl (''nfclient: do request: '' @ err))
        | NfBody err \<Rightarrow> (reg, Inl (''nfclient: read body: '' @ err))
        | NfAnswered status body \<Rightarrow>
            (if status \<ge> 400 then failed else nf_record RecordSuccess baseURL reg, Inr (status, body)))"

section \<open>The queue\<close>

record AMFDLQItem =
  dq_ID :: string
  dq_Type :: string
  dq_URI :: string
  dq_Payload :: bytes
  dq_AuthCtxID :: string
  dq_Attempt :: int
  dq_MaxAttempts :: int
  dq_CreatedAt :: time
  dq_LastError :: string

definition amfDLQKey :: string where
  "amfDLQKey = ''nssAAF:dlq:amf-notifications''"

definition Enqueue ::
  "'s connection \<Rightarrow> (AMFDLQItem \<Rightarrow> (string, bytes) result) \<Rightarrow> time \<Rightarrow> AMFDLQItem \<Rightarrow> 's \<Rightarrow> 's \<times> string option" where
  "Enqueue exec marshal now item s =
    (case marshal item of
       Inl err \<Rightarrow> (s, Some (''dlq: marshal: '' @ err))
     | Inr data \<Rightarrow>
         (case exec now [LPUSH amfDLQKey data] s of
            (s', Inl err) \<Rightarrow> (s', Some err)
          | (s', Inr rs) \<Rightarrow> (s', if rs = [RWrongType] then Some ''WRONGTYPE'' else None)))"

text \<open>A failed pop is reported as an empty queue unless the context was cancelled.\<close>

definition Dequeue ::
  "'s connection \<Rightarrow> (bytes \<Rightarrow> (string, AMFDLQItem) result) \<Rightarrow> time \<Rightarrow> 's \<Rightarrow> 's \<times> (string, AMFDLQItem option) result" where
  "Dequeue exec unmarshal now s =
    (case exec now [RPOP amfDLQKey] s of
       (s', Inl err) \<Rightarrow> (s', if err = ''context canceled'' then Inl err else Inr None)
     | (s', Inr rs) \<Rightarrow>
         (s', case rs of
                [RBulk data] \<Rightarrow>
                  (case unmarshal data of Inl err \<Rightarrow> Inl (''dlq: unmarshal: '' @ err) | Inr item \<Rightarrow> Inr (Some item))
              | _ \<Rightarrow> Inr None))"

definition Len :: "'s connection \<Rightarrow> time \<Rightarrow> 's \<Rightarrow> 's \<times> (string, int) result" where
  "Len exec now s =
    (case exec now [LLEN amfDLQKey] s of
       (s', Inl err) \<Rightarrow> (s', Inl err)
     | (s', Inr rs) \<Rightarrow> (s', case rs of [RInt n] \<Rightarrow> Inr n | _ \<Rightarrow> Inl ''WRONGTYPE''))"

text \<open>The request carries the payload and the counts in headers.\<close>

record dlq_post =
  dp_URI :: string
  dp_Payload :: bytes
  dp_Attempt :: int
  dp_MaxAttempts :: int

definition dlq_request :: "AMFDLQItem \<Rightarrow> dlq_post" where
  "dlq_request item =
    \<lparr>dp_URI = dq_URI item, dp_Payload = dq_Payload item, dp_Attempt = dq_Attempt item, dp_MaxAttempts = dq_MaxAttempts item\<rparr>"

definition deliverToAMF :: "(dlq_post \<Rightarrow> (string, int) result) \<Rightarrow> AMFDLQItem \<Rightarrow> string option" where
  "deliverToAMF http item =
    (case http (dlq_request item) of
       Inl err \<Rightarrow> Some (''dlq: do request: '' @ err)
     | Inr status \<Rightarrow>
         if 200 \<le> status \<and> status < 300 then None
         else Some (''dlq: non-2xx status: '' @ show_nat (nat status)))"

definition classifyError :: "string option \<Rightarrow> string" where
  "classifyError err =
    (case err of
       None \<Rightarrow> ''unknown''
     | Some e \<Rightarrow>
         if sublist ''connection refused'' e \<or> sublist ''timeout'' e \<or> sublist ''i/o timeout'' e then ''network''
         else if sublist ''non-2xx'' e then ''http''
         else ''unknown'')"

text \<open>What one turn of the consumer's loop did: nothing was there, an item was dropped, delivered, put
  back, or lost because it could not be put back.\<close>

datatype dlq_turn = TurnIdle | TurnExhausted AMFDLQItem | TurnDelivered AMFDLQItem | TurnRequeued AMFDLQItem | TurnLost AMFDLQItem

definition posted :: "dlq_turn \<Rightarrow> bool" where
  "posted r = (case r of TurnIdle \<Rightarrow> False | TurnExhausted _ \<Rightarrow> False | _ \<Rightarrow> True)"

fun reenqueue :: "'s connection \<Rightarrow> (AMFDLQItem \<Rightarrow> (string, bytes) result) \<Rightarrow> time \<Rightarrow> AMFDLQItem \<Rightarrow> nat \<Rightarrow> 's \<Rightarrow> 's \<times> bool" where
  "reenqueue exec marshal now item 0 s = (s, False)"
| "reenqueue exec marshal now item (Suc n) s =
    (case Enqueue exec marshal now item s of
       (s', None) \<Rightarrow> (s', True)
     | (s', Some _) \<Rightarrow> reenqueue exec marshal now item n s')"

definition DLQ_turn ::
  "'s connection \<Rightarrow> (AMFDLQItem \<Rightarrow> (string, bytes) result) \<Rightarrow> (bytes \<Rightarrow> (string, AMFDLQItem) result) \<Rightarrow>
   (dlq_post \<Rightarrow> (string, int) result) \<Rightarrow> time \<Rightarrow> 's \<Rightarrow> 's \<times> dlq_turn" where
  "DLQ_turn exec marshal unmarshal http now s =
    (case Dequeue exec unmarshal now s of
       (s', Inl _) \<Rightarrow> (s', TurnIdle)
     | (s', Inr None) \<Rightarrow> (s', TurnIdle)
     | (s', Inr (Some item)) \<Rightarrow>
         if dq_MaxAttempts item > 0 \<and> dq_Attempt item \<ge> dq_MaxAttempts item then (s', TurnExhausted item)
         else case deliverToAMF http item of
           None \<Rightarrow> (s', TurnDelivered item)
         | Some err \<Rightarrow>
             let item = item\<lparr>dq_Attempt := dq_Attempt item + 1, dq_LastError := err\<rparr> in
             case reenqueue exec marshal now item 6 s' of
               (s'', True) \<Rightarrow> (s'', TurnRequeued item)
             | (s'', False) \<Rightarrow> (s'', TurnLost item))"

section \<open>The notifier\<close>

datatype NotificationType = NotificationTypeSliceReAuth | NotificationTypeSliceRevoc

definition NotificationType_string :: "NotificationType \<Rightarrow> string" where
  "NotificationType_string t =
    (case t of NotificationTypeSliceReAuth \<Rightarrow> ''SLICE_RE_AUTH'' | NotificationTypeSliceRevoc \<Rightarrow> ''SLICE_REVOCATION'')"

text \<open>\<^verbatim>\<open>strings.Index\<close>.\<close>

fun Index :: "string \<Rightarrow> string \<Rightarrow> nat option" where
  "Index [] p = (if p = [] then Some 0 else None)"
| "Index (c # s) p = (if prefix p (c # s) then Some 0 else map_option Suc (Index s p))"

definition extractBaseURLAndPath :: "string \<Rightarrow> (string, string \<times> string) result" where
  "extractBaseURLAndPath uri =
    (if uri = '''' then Inl ''empty uri''
     else case Index uri ''://'' of
       None \<Rightarrow> Inl (''no scheme in uri: '' @ uri)
     | Some schemeEnd \<Rightarrow>
         (case Index (drop (schemeEnd + 3) uri) ''/'' of
            None \<Rightarrow> Inr (uri, ''/'')
          | Some slashIdx \<Rightarrow> Inr (take (schemeEnd + 3 + slashIdx) uri, drop (schemeEnd + 3 + slashIdx) uri)))"

text \<open>The retried function: \<^verbatim>\<open>net k\<close> is how attempt \<^verbatim>\<open>k\<close>, counted from 0, goes.\<close>

definition attempt_notification ::
  "(nat \<Rightarrow> nf_call) \<Rightarrow> NotificationType \<Rightarrow> AMFDLQItem \<times> Registry option \<Rightarrow> (AMFDLQItem \<times> Registry option) \<times> string option" where
  "attempt_notification net kind w =
    (case w of (item0, reg) \<Rightarrow>
     let item = item0\<lparr>dq_Attempt := dq_Attempt item0 + 1\<rparr> in
     case extractBaseURLAndPath (dq_URI item) of
       Inl err \<Rightarrow> ((item, reg), Some (''amf: parse uri: '' @ err))
     | Inr (baseURL, path) \<Rightarrow>
         (case Factory_Do (net (nat (dq_Attempt item0))) baseURL reg of
            (reg', Inl err) \<Rightarrow> ((item, reg'), Some (''amf: send '' @ NotificationType_string kind @ '': '' @ err))
          | (reg', Inr (status, _)) \<Rightarrow>
              ((item, reg'),
               if status \<ge> 500 then Some (''amf: server error '' @ show_nat (nat status))
               else if status \<ge> 400 then Some (''amf: client error '' @ show_nat (nat status) @ '' (not retryable)'')
               else None)))"

definition do_error :: "string DoResult \<Rightarrow> string option" where
  "do_error r =
    (case r of
       DoOk \<Rightarrow> None
     | DoCancelled \<Rightarrow> Some ''context canceled''
     | DoMaxRetriesExceeded e \<Rightarrow> Some (''max retries exceeded: '' @ (case e of None \<Rightarrow> ''%!w(<nil>)'' | Some m \<Rightarrow> m)))"

definition notification_item :: "RetryConfig \<Rightarrow> time \<Rightarrow> NotificationType \<Rightarrow> string \<Rightarrow> string \<Rightarrow> bytes \<Rightarrow> AMFDLQItem" where
  "notification_item retryCfg now kind uri authCtxID payload =
    \<lparr>dq_ID = authCtxID @ ''-'' @ show_nat (nat now), dq_Type = NotificationType_string kind, dq_URI = uri,
     dq_Payload = payload, dq_AuthCtxID = authCtxID, dq_Attempt = 0, dq_MaxAttempts = rt_MaxAttempts retryCfg,
     dq_CreatedAt = now, dq_LastError = ''''\<rparr>"

definition sendNotification ::
  "'s connection \<Rightarrow> (AMFDLQItem \<Rightarrow> (string, bytes) result) \<Rightarrow> RetryConfig \<Rightarrow> (nat \<Rightarrow> bool) \<Rightarrow> (nat \<Rightarrow> nf_call) \<Rightarrow> time \<Rightarrow>
   NotificationType \<Rightarrow> string \<Rightarrow> string \<Rightarrow> bytes \<Rightarrow> 's \<times> Registry option \<Rightarrow> ('s \<times> Registry option) \<times> string option" where
  "sendNotification exec marshal retryCfg cancelled net now kind uri authCtxID payload w =
    (case Do cancelled retryCfg (attempt_notification net kind) (notification_item retryCfg now kind uri authCtxID payload, snd w) of
          ((item', reg), r, _) \<Rightarrow>
            (case do_error r of
               None \<Rightarrow> ((fst w, reg), None)
             | Some err \<Rightarrow>
                 (case Enqueue exec marshal now (item'\<lparr>dq_LastError := err\<rparr>) (fst w) of
                    (s', Some dlqErr) \<Rightarrow> ((s', reg), Some (''notification failed and dlq enqueue failed: '' @ err @ dlqErr))
                  | (s', None) \<Rightarrow> ((s', reg), None))))"

section \<open>Runs\<close>

text \<open>Notifications and turns of the consumer in any order.  No context is cancelled.  The last argument
  lists the turns.\<close>

inductive amf_run ::
  "'s connection \<Rightarrow> (AMFDLQItem \<Rightarrow> (string, bytes) result) \<Rightarrow> (bytes \<Rightarrow> (string, AMFDLQItem) result) \<Rightarrow> RetryConfig \<Rightarrow>
   's \<times> Registry option \<Rightarrow> 's \<times> Registry option \<Rightarrow> dlq_turn list \<Rightarrow> bool" for exec marshal unmarshal cfg w0 where
  start: "amf_run exec marshal unmarshal cfg w0 w0 []"
| notify: "\<lbrakk>amf_run exec marshal unmarshal cfg w0 w turns;
    sendNotification exec marshal cfg (\<lambda>_. False) net now kind uri i payload w = (w', err)\<rbrakk> \<Longrightarrow>
    amf_run exec marshal unmarshal cfg w0 w' turns"
| consume: "\<lbrakk>amf_run exec marshal unmarshal cfg w0 (s, reg) turns; DLQ_turn exec marshal unmarshal http now s = (s', r)\<rbrakk> \<Longrightarrow>
    amf_run exec marshal unmarshal cfg w0 (s', reg) (turns @ [r])"

section \<open>The attempt counter\<close>

lemma attempt_counts:
  "dq_Attempt (fst (fst (attempt_notification net kind w))) = dq_Attempt (fst w) + 1"
  "dq_MaxAttempts (fst (fst (attempt_notification net kind w))) = dq_MaxAttempts (fst w)"
  by (auto simp: attempt_notification_def Let_def split: prod.split sum.split)

lemma attempts_count:
  "dq_Attempt (fst (after_calls (attempt_notification net kind) k w)) = dq_Attempt (fst w) + int k
   \<and> dq_MaxAttempts (fst (after_calls (attempt_notification net kind) k w)) = dq_MaxAttempts (fst w)"
  by (induction k arbitrary: w) (simp_all add: attempt_counts)

definition dead :: "AMFDLQItem \<Rightarrow> bool" where
  "dead item = (dq_MaxAttempts item > 0 \<and> dq_Attempt item \<ge> dq_MaxAttempts item)"

text \<open>What the notifier cannot send has used up the attempts that the consumer would have.\<close>

lemma Do_exhausts:
  assumes "Do (\<lambda>_. False) cfg (attempt_notification net kind) (item, reg) = ((item', reg'), r, ps)" "rt_MaxAttempts cfg > 0"
    "dq_Attempt item = 0" "dq_MaxAttempts item = rt_MaxAttempts cfg" "do_error r \<noteq> None"
  shows "dead item'"
proof -
  let ?fn = "attempt_notification net kind"
  obtain n where n: "nat (rt_MaxAttempts cfg) = Suc n" using assms(2) by (cases "nat (rt_MaxAttempts cfg)") auto
  have "rt_MaxAttempts (Do_config cfg) = rt_MaxAttempts cfg" using assms(2) by (simp add: Do_config_def Let_def)
  then have l: "retry_loop (Do_config cfg) (\<lambda>_. False) ?fn (Suc n) 0 None (item, reg) = ((item', reg'), r, ps)"
    using assms(1) n by (simp add: Do_def Let_def)
  have "(item', reg') = after_calls ?fn (Suc n) (item, reg)"
    using retry_loop_uncancelled [of n ?fn "(item, reg)" "Do_config cfg" 0 None] l assms(5) by (auto simp: do_error_def)
  then have "dq_Attempt item' = int (Suc n)" "dq_MaxAttempts item' = rt_MaxAttempts cfg"
    using attempts_count [of net kind "Suc n" "(item, reg)"] assms(3,4) by (metis add_0 fst_conv)+
  then show ?thesis using assms(2) n by (simp add: dead_def)
qed

section \<open>The queue holds only spent items\<close>

definition spent_queue :: "(bytes \<Rightarrow> (string, AMFDLQItem) result) \<Rightarrow> redis_db \<Rightarrow> bool" where
  "spent_queue unmarshal d =
    (\<forall>xs e. d amfDLQKey = Some (RList xs, e) \<longrightarrow> (\<forall>x \<in> set xs. \<exists>item. unmarshal x = Inr item \<and> dead item))"

lemma spent_look:
  "spent_queue u d \<Longrightarrow> look now d amfDLQKey = Some (RList xs) \<Longrightarrow> x \<in> set xs \<Longrightarrow> \<exists>item. u x = Inr item \<and> dead item"
  by (auto simp: spent_queue_def look_def split: option.splits if_splits)

lemma spent_LPUSH:
  assumes "spent_queue u d" "u x = Inr item" "dead item"
  shows "spent_queue u (fst (redis_step now (LPUSH amfDLQKey x) d))"
proof (cases "look now d amfDLQKey")
  case None
  then show ?thesis using assms(2,3) by (simp add: on_list_def spent_queue_def redis_store_def)
next
  case (Some v)
  show ?thesis
  proof (cases v)
    case (RList xs)
    then show ?thesis using Some assms spent_look [OF assms(1), of now xs]
      by (simp add: on_list_def) (simp add: spent_queue_def redis_store_def)
  qed (use Some assms(1) in \<open>simp_all add: on_list_def\<close>)
qed

lemma spent_RPOP:
  assumes "spent_queue u d"
  shows "spent_queue u (fst (redis_step now (RPOP amfDLQKey) d))"
proof (cases "look now d amfDLQKey")
  case None
  then show ?thesis using assms by (simp add: on_list_def)
next
  case (Some v)
  show ?thesis
  proof (cases v)
    case (RList xs)
    then show ?thesis using Some assms spent_look [OF assms, of now xs] in_set_butlastD [of _ xs]
      by (simp add: on_list_def) (auto simp: spent_queue_def redis_store_def)
  qed (use Some assms in \<open>simp_all add: on_list_def\<close>)
qed

lemma RPOP_bulk:
  assumes "spent_queue u d" "snd (redis_step now (RPOP amfDLQKey) d) = RBulk x"
  shows "\<exists>item. u x = Inr item \<and> dead item"
proof -
  obtain xs where "look now d amfDLQKey = Some (RList xs)" "xs \<noteq> []" "x = last xs"
    using assms(2) by (auto simp: on_list_def split: option.splits redis_value.splits if_splits)
  then show ?thesis using spent_look [OF assms(1)] last_in_set by blast
qed

context redis_server
begin

lemma sendNotification_spent:
  assumes "spent_queue unmarshal (db (fst w))" "\<forall>v d. marshal v = Inr d \<longrightarrow> unmarshal d = Inr v" "rt_MaxAttempts cfg > 0"
    "sendNotification exec marshal cfg (\<lambda>_. False) net now kind uri i payload w = (w', err)"
  shows "spent_queue unmarshal (db (fst w'))"
proof -
  obtain item' reg r ps where do: "Do (\<lambda>_. False) cfg (attempt_notification net kind)
      (notification_item cfg now kind uri i payload, snd w) = ((item', reg), r, ps)"
    by (metis prod.collapse)
  show ?thesis
  proof (cases "do_error r")
    case None
    then show ?thesis using assms(1,4) do by (auto simp: sendNotification_def)
  next
    case (Some e)
    have d: "dead (item'\<lparr>dq_LastError := e\<rparr>)"
      using Do_exhausts [OF do assms(3)] Some by (simp add: notification_item_def dead_def)
    obtain s' er where q: "Enqueue exec marshal now (item'\<lparr>dq_LastError := e\<rparr>) (fst w) = (s', er)" by fastforce
    have "spent_queue unmarshal (db s')"
    proof (cases "marshal (item'\<lparr>dq_LastError := e\<rparr>)")
      case (Inl m)
      then show ?thesis using q assms(1) by (simp add: Enqueue_def)
    next
      case (Inr x)
      obtain s1 y where y: "exec now [LPUSH amfDLQKey x] (fst w) = (s1, y)" by fastforce
      have "s1 = s'" using q Inr y by (cases y) (simp_all add: Enqueue_def)
      moreover have "unmarshal x = Inr (item'\<lparr>dq_LastError := e\<rparr>)" using assms(2) Inr by blast
      ultimately show ?thesis using exec_one_db [OF y] spent_LPUSH [OF assms(1) _ d] assms(1) by auto
    qed
    then show ?thesis using assms(4) do Some q by (auto simp: sendNotification_def split: option.splits)
  qed
qed

lemma DLQ_turn_spent:
  assumes "spent_queue unmarshal (db s)" "DLQ_turn exec marshal unmarshal http now s = (s', r)"
  shows "spent_queue unmarshal (db s') \<and> \<not> posted r"
proof -
  obtain s1 x where x: "exec now [RPOP amfDLQKey] s = (s1, x)" by fastforce
  have keep: "spent_queue unmarshal (db s1)" using exec_one_db [OF x] spent_RPOP [OF assms(1)] assms(1) by auto
  show ?thesis
  proof (cases "snd (Dequeue exec unmarshal now s)")
    case (Inl e)
    then have "Dequeue exec unmarshal now s = (s1, Inl e)" using x by (cases x) (simp_all add: Dequeue_def)
    then show ?thesis using assms(2) keep by (auto simp: DLQ_turn_def posted_def)
  next
    case (Inr it)
    then have dq: "Dequeue exec unmarshal now s = (s1, Inr it)" using x by (cases x) (simp_all add: Dequeue_def)
    show ?thesis
    proof (cases it)
      case None
      then show ?thesis using dq assms(2) keep by (auto simp: DLQ_turn_def posted_def)
    next
      case (Some item)
      obtain data where data: "x = Inr [RBulk data]" "unmarshal data = Inr item"
        using dq Some x by (auto simp: Dequeue_def split: sum.splits list.splits reply.splits if_splits)
      then have "dead item" using RPOP_bulk [OF assms(1), of now data] exec_one_ok [OF x [unfolded data(1)]] by auto
      then show ?thesis using dq Some assms(2) keep by (auto simp: DLQ_turn_def posted_def dead_def)
    qed
  qed
qed

lemma amf_run_spent:
  assumes "amf_run exec marshal unmarshal cfg w0 w turns" "spent_queue unmarshal (db (fst w0))"
    "\<forall>v d. marshal v = Inr d \<longrightarrow> unmarshal d = Inr v" "rt_MaxAttempts cfg > 0"
  shows "spent_queue unmarshal (db (fst w)) \<and> (\<forall>r \<in> set turns. \<not> posted r)"
  using assms
proof induction
  case (notify w turns net now kind uri i payload w' err)
  then show ?case using sendNotification_spent [OF _ _ _ notify.hyps(2)] by blast
next
  case (consume s reg turns http now s' r)
  then have "spent_queue unmarshal (db s') \<and> \<not> posted r" using DLQ_turn_spent [OF _ consume.hyps(2)] by simp
  then show ?case using consume by auto
qed simp

end

section \<open>Properties\<close>

text \<open>C25. The dead-letter queue never sends a notification.  The notifier counts its own attempts in the
  item it queues and gives up exactly when they reach the limit of the item, and the consumer drops
  an item whose attempts have reached the limit: starting with an empty queue, in any sequence of
  notifications and turns of the consumer no turn posts to the AMF.\<close>

theorem dead_letters_never_sent:
  assumes "redis_server exec db" "\<forall>v d. marshal v = Inr d \<longrightarrow> unmarshal d = Inr v" "rt_MaxAttempts cfg > 0"
    "db s0 amfDLQKey = None" "amf_run exec marshal unmarshal cfg (s0, reg0) w turns" "r \<in> set turns"
  shows "r = TurnIdle \<or> (\<exists>item. r = TurnExhausted item)"
proof -
  have "\<not> posted r"
    using redis_server.amf_run_spent [OF assms(1,5) _ assms(2,3)] assms(4,6) by (simp add: spent_queue_def)
  then show ?thesis by (cases r) (simp_all add: posted_def)
qed

definition ex_retry :: RetryConfig where
  "ex_retry = \<lparr>rt_MaxAttempts = 3, rt_BaseDelay = 500 * Millisecond, rt_MaxDelay = 2 * Second\<rparr>"

definition ex_spent :: AMFDLQItem where
  "ex_spent = (notification_item ex_retry 5 NotificationTypeSliceReAuth ''http://amf/n'' ''ctx'' [1])
     \<lparr>dq_Attempt := 3, dq_LastError := ''max retries exceeded: amf: send SLICE_RE_AUTH: nfclient: do request: refused''\<rparr>"

definition ex_marshal :: "AMFDLQItem \<Rightarrow> (string, bytes) result" where
  "ex_marshal v = (if v = ex_spent then Inr [1] else Inl ''unsupported'')"

definition ex_unmarshal :: "bytes \<Rightarrow> (string, AMFDLQItem) result" where
  "ex_unmarshal d = (if d = [1] then Inr ex_spent else Inl ''invalid'')"

definition ex_refused :: "nat \<Rightarrow> nf_call" where
  "ex_refused k = \<lparr>nc_start = int k, nc_end = int k, nc_outcome = NfTransport ''refused''\<rparr>"

lemma ex_send:
  "sendNotification flaky_exec ex_marshal ex_retry (\<lambda>_. False) ex_refused 5 NotificationTypeSliceReAuth ''http://amf/n'' ''ctx'' [1]
     (([], Map.empty), None) = ((([], [amfDLQKey \<mapsto> (RList [[1]], None)]), None), None)"
proof -
  have "extractBaseURLAndPath ''http://amf/n'' = Inr (''http://amf'', ''/n'')" by code_simp
  then have "Do (\<lambda>_. False) ex_retry (attempt_notification ex_refused NotificationTypeSliceReAuth)
      (notification_item ex_retry 5 NotificationTypeSliceReAuth ''http://amf/n'' ''ctx'' [1], None)
    = ((ex_spent\<lparr>dq_LastError := ''''\<rparr>, None), DoMaxRetriesExceeded (Some ''amf: send SLICE_RE_AUTH: nfclient: do request: refused''),
       [retry_delay ex_retry 0, retry_delay ex_retry 1])"
    by (simp add: Do_def Do_config_def ex_retry_def eval_nat_numeral retry_loop.simps attempt_notification_def notification_item_def
        ex_spent_def ex_refused_def Factory_Do_def nf_record_def NotificationType_string_def Let_def)
  moreover have "(ex_spent\<lparr>dq_LastError := ''''\<rparr>)
      \<lparr>dq_LastError := ''max retries exceeded: amf: send SLICE_RE_AUTH: nfclient: do request: refused''\<rparr> = ex_spent"
    by (simp add: ex_spent_def)
  ultimately show ?thesis
    by (simp add: sendNotification_def do_error_def Enqueue_def ex_marshal_def flaky_exec_def on_list_def look_def
        redis_store_def live_expiry_def)
qed

theorem dead_letters_never_sent_witness:
  "\<exists>w r. amf_run flaky_exec ex_marshal ex_unmarshal ex_retry (([], Map.empty), None) w [r]
     \<and> (r = TurnIdle \<or> (\<exists>item. r = TurnExhausted item))"
proof -
  obtain s r where t: "DLQ_turn flaky_exec ex_marshal ex_unmarshal (\<lambda>_. Inr 200) 9 ([], [amfDLQKey \<mapsto> (RList [[1]], None)]) = (s, r)"
    by fastforce
  have run: "amf_run flaky_exec ex_marshal ex_unmarshal ex_retry (([], Map.empty), None) (s, None) ([] @ [r])"
    by (rule amf_run.consume [OF amf_run.notify [OF amf_run.start ex_send] t])
  have "\<forall>v d. ex_marshal v = Inr d \<longrightarrow> ex_unmarshal d = Inr v" by (simp add: ex_marshal_def ex_unmarshal_def)
  then have "r = TurnIdle \<or> (\<exists>item. r = TurnExhausted item)"
    by (rule dead_letters_never_sent [OF redis_server_flaky _ _ _ run]) (simp_all add: ex_retry_def)
  with run show ?thesis by (metis append_Nil)
qed

end
