(* ===== verification/Nrm.thy ===== *)
theory Nrm
  imports Stores Api_Common
begin

text \<open>
  \<^verbatim>\<open>internal/nrm\<close> and the part of \<^verbatim>\<open>internal/restconf\<close> that changes alarms: the store of active
  alarms with its deduplication, the alarm manager that raises and clears alarms on the events the
  Biz pods push, and the handlers.  Identifiers and the clock are arguments.  The comparison of the
  failure rate with its threshold is one of floating-point numbers; it is part of the thresholds.
  The locks protect single calls and are left out: a run is a sequence of calls.
\<close>

section \<open>The model\<close>

record Alarm =
  al_AlarmID :: string
  al_AlarmType :: string
  al_ProbableCause :: string
  al_SpecificProblem :: string
  al_Severity :: string
  al_PerceivedSeverity :: string
  al_BackupObject :: string
  al_CorrelatedAlarms :: "string list"
  al_ProposedRepairActions :: string
  al_EventTime :: time
  al_Acked :: bool
  al_AckedBy :: string
  al_AckedAt :: "time option"

record AlarmEvent =
  ev_EventType :: string
  ev_Target :: string
  ev_SpecificProblem :: string

abbreviation SeverityCritical :: string where "SeverityCritical \<equiv> ''CRITICAL''"
abbreviation SeverityMajor :: string where "SeverityMajor \<equiv> ''MAJOR''"

section \<open>The store\<close>

text \<open>A deduplication entry holds the identifier of an alarm and the end of its window.\<close>

record AlarmStore =
  as_alarms :: "(string, Alarm) gomap"
  as_dedup :: "(string \<times> string, string \<times> time) gomap"

definition NewAlarmStore :: AlarmStore where
  "NewAlarmStore = \<lparr>as_alarms = [], as_dedup = []\<rparr>"

definition dedupKey :: "Alarm \<Rightarrow> string \<times> string" where
  "dedupKey a = (al_AlarmType a, al_BackupObject a)"

definition store_alarm :: "time \<Rightarrow> Alarm \<Rightarrow> AlarmStore \<Rightarrow> AlarmStore" where
  "store_alarm now a s =
    (let a = (if al_EventTime a = zero_time then a\<lparr>al_EventTime := now\<rparr> else a) in
     s\<lparr>as_alarms := gm_put (al_AlarmID a) a (as_alarms s),
       as_dedup := gm_put (dedupKey a) (al_AlarmID a, al_EventTime a + 5 * Minute) (as_dedup s)\<rparr>)"

definition AlarmStore_Save :: "string \<Rightarrow> time \<Rightarrow> Alarm option \<Rightarrow> AlarmStore \<Rightarrow> AlarmStore \<times> (string, string) result" where
  "AlarmStore_Save uuid now alarm s =
    (case alarm of
       None \<Rightarrow> (s, Inl ''alarm cannot be nil'')
     | Some a0 \<Rightarrow>
         let a = (if al_AlarmID a0 = '''' then a0\<lparr>al_AlarmID := uuid\<rparr> else a0); key = dedupKey a in
         case (if al_BackupObject a \<noteq> '''' then gm_get (as_dedup s) key else None) of
           None \<Rightarrow> (store_alarm now a s, Inr (al_AlarmID a))
         | Some (alarmID, deadline) \<Rightarrow>
             if now < deadline then (s, Inr alarmID)
             else (store_alarm now a (s\<lparr>as_dedup := gm_del key (as_dedup s), as_alarms := gm_del alarmID (as_alarms s)\<rparr>),
                   Inr (al_AlarmID a)))"

definition AlarmStore_List :: "AlarmStore \<Rightarrow> Alarm list" where
  "AlarmStore_List s = sort_key (\<lambda>a. - al_EventTime a) (map snd (as_alarms s))"

definition AlarmStore_Get :: "AlarmStore \<Rightarrow> string \<Rightarrow> Alarm option" where
  "AlarmStore_Get s i = gm_get (as_alarms s) i"

definition AlarmStore_Clear :: "string \<Rightarrow> AlarmStore \<Rightarrow> AlarmStore \<times> bool" where
  "AlarmStore_Clear i s =
    (case gm_get (as_alarms s) i of
       None \<Rightarrow> (s, False)
     | Some alarm \<Rightarrow>
         (s\<lparr>as_dedup := gm_del (dedupKey alarm) (as_dedup s), as_alarms := gm_del i (as_alarms s)\<rparr>, True))"

definition AlarmStore_Count :: "AlarmStore \<Rightarrow> nat" where
  "AlarmStore_Count s = length (as_alarms s)"

definition AlarmStore_UpdateAck :: "time \<Rightarrow> string \<Rightarrow> bool \<Rightarrow> string \<Rightarrow> AlarmStore \<Rightarrow> AlarmStore \<times> bool" where
  "AlarmStore_UpdateAck now i acked ackedBy s =
    (case gm_get (as_alarms s) i of
       None \<Rightarrow> (s, False)
     | Some alarm \<Rightarrow>
         (s\<lparr>as_alarms := gm_put i (alarm\<lparr>al_Acked := acked, al_AckedBy := ackedBy, al_AckedAt := Some now\<rparr>) (as_alarms s)\<rparr>, True))"

section \<open>The manager\<close>

abbreviation AlarmAAAUnreachable :: string where "AlarmAAAUnreachable \<equiv> ''NSSAA_AAA_SERVER_UNREACHABLE''"
abbreviation AlarmSessionTableFull :: string where "AlarmSessionTableFull \<equiv> ''NSSAA_SESSION_TABLE_FULL''"
abbreviation AlarmDBUnreachable :: string where "AlarmDBUnreachable \<equiv> ''NSSAA_DB_UNREACHABLE''"
abbreviation AlarmRedisUnreachable :: string where "AlarmRedisUnreachable \<equiv> ''NSSAA_REDIS_UNREACHABLE''"
abbreviation AlarmNRFUnreachable :: string where "AlarmNRFUnreachable \<equiv> ''NSSAA_NRF_UNREACHABLE''"
abbreviation AlarmHighAuthFailureRate :: string where "AlarmHighAuthFailureRate \<equiv> ''NSSAA_HIGH_AUTH_FAILURE_RATE''"
abbreviation AlarmCircuitBreakerOpen :: string where "AlarmCircuitBreakerOpen \<equiv> ''NSSAA_CIRCUIT_BREAKER_OPEN''"

definition probableCause :: "string \<Rightarrow> string" where
  "probableCause alarmType =
    (if alarmType = AlarmAAAUnreachable then ''AAA_SERVER_UNREACHABLE''
     else if alarmType = AlarmSessionTableFull then ''RESOURCE_CAPACITY_EXCEEDED''
     else if alarmType = AlarmDBUnreachable then ''DATABASE_UNAVAILABLE''
     else if alarmType = AlarmRedisUnreachable then ''CACHING_SERVER_UNAVAILABLE''
     else if alarmType = AlarmNRFUnreachable then ''NETWORK_FUNCTION_REGISTRY_UNAVAILABLE''
     else if alarmType = AlarmHighAuthFailureRate then ''AUTHENTICATION_FAILURE_RATE_HIGH''
     else if alarmType = AlarmCircuitBreakerOpen then ''CIRCUIT_BREAKER_OPEN''
     else ''UNKNOWN'')"

definition proposedRepairAction :: "string \<Rightarrow> string" where
  "proposedRepairAction alarmType =
    (if alarmType = AlarmAAAUnreachable then ''Check AAA server connectivity and configuration''
     else if alarmType = AlarmSessionTableFull then ''Increase session table capacity or reduce load''
     else if alarmType = AlarmDBUnreachable then ''Check PostgreSQL connectivity and configuration''
     else if alarmType = AlarmRedisUnreachable then ''Check Redis connectivity and configuration''
     else if alarmType = AlarmNRFUnreachable then ''Check NRF connectivity and registration''
     else if alarmType = AlarmHighAuthFailureRate then ''Investigate authentication failures and AAA server logs''
     else if alarmType = AlarmCircuitBreakerOpen then ''Check AAA server health and network connectivity''
     else ''Contact network operations team'')"

text \<open>\<^verbatim>\<open>at_exceeds failures total\<close> is \<^verbatim>\<open>float64(failures) / float64(total) * 100 > FailureRatePercent\<close>, and
  \<^verbatim>\<open>at_text\<close> the description of the rate.\<close>

record AlarmThresholds =
  at_exceeds :: "int \<Rightarrow> int \<Rightarrow> bool"
  at_text :: "int \<Rightarrow> int \<Rightarrow> string"
  at_EvaluationWindowSec :: int

record AlarmManager =
  am_store :: AlarmStore
  am_cbState :: "(string, bool) gomap"
  am_authTotal :: int
  am_authFailures :: int

definition NewAlarmManager :: AlarmManager where
  "NewAlarmManager = \<lparr>am_store = NewAlarmStore, am_cbState = [], am_authTotal = 0, am_authFailures = 0\<rparr>"

definition RaiseAlarm :: "string \<Rightarrow> time \<Rightarrow> string \<Rightarrow> string \<Rightarrow> string \<Rightarrow> string \<Rightarrow> AlarmManager \<Rightarrow> AlarmManager \<times> string" where
  "RaiseAlarm uuid now eventType backupObject specificProblem severity m =
    (let alarm = \<lparr>al_AlarmID = uuid, al_AlarmType = eventType, al_ProbableCause = probableCause eventType,
           al_SpecificProblem = specificProblem, al_Severity = severity, al_PerceivedSeverity = severity,
           al_BackupObject = backupObject, al_CorrelatedAlarms = [], al_ProposedRepairActions = proposedRepairAction eventType,
           al_EventTime = now, al_Acked = False, al_AckedBy = '''', al_AckedAt = None\<rparr>
     in case AlarmStore_Save uuid now (Some alarm) (am_store m) of
          (st, Inl _) \<Rightarrow> (m\<lparr>am_store := st\<rparr>, '''')
        | (st, Inr i) \<Rightarrow> (m\<lparr>am_store := st\<rparr>, i))"

definition ClearAlarm :: "string \<Rightarrow> AlarmManager \<Rightarrow> AlarmManager \<times> bool" where
  "ClearAlarm i m = (case AlarmStore_Clear i (am_store m) of (st, ok) \<Rightarrow> (m\<lparr>am_store := st\<rparr>, ok))"

definition ClearByType :: "string \<Rightarrow> string \<Rightarrow> AlarmManager \<Rightarrow> AlarmManager" where
  "ClearByType alarmType backupObject m =
    m\<lparr>am_store := fold (\<lambda>a st. if al_AlarmType a = alarmType \<and> al_BackupObject a = backupObject
                              then fst (AlarmStore_Clear (al_AlarmID a) st) else st)
                    (AlarmStore_List (am_store m)) (am_store m)\<rparr>"

definition AckAlarm :: "time \<Rightarrow> string \<Rightarrow> string \<Rightarrow> AlarmManager \<Rightarrow> AlarmManager \<times> bool" where
  "AckAlarm now i ackedBy m = (case AlarmStore_UpdateAck now i True ackedBy (am_store m) of (st, ok) \<Rightarrow> (m\<lparr>am_store := st\<rparr>, ok))"

definition ResetAuthMetrics :: "AlarmManager \<Rightarrow> AlarmManager" where
  "ResetAuthMetrics m = m\<lparr>am_authTotal := 0, am_authFailures := 0\<rparr>"

definition Evaluate :: "AlarmThresholds \<Rightarrow> string \<Rightarrow> time \<Rightarrow> AlarmEvent \<Rightarrow> AlarmManager \<Rightarrow> AlarmManager" where
  "Evaluate th uuid now event m =
    (let kind = ev_EventType event; target = ev_Target event in
     if kind = ''AUTH_SUCCESS'' then m\<lparr>am_authTotal := am_authTotal m + 1\<rparr>
     else if kind = ''AUTH_FAILURE'' then
       let m = m\<lparr>am_authTotal := am_authTotal m + 1, am_authFailures := am_authFailures m + 1\<rparr> in
       if am_authTotal m > 0 \<and> at_exceeds th (am_authFailures m) (am_authTotal m)
          \<and> \<not> list_ex (\<lambda>a. al_AlarmType a = AlarmHighAuthFailureRate) (AlarmStore_List (am_store m))
       then fst (RaiseAlarm uuid now AlarmHighAuthFailureRate ''global'' (at_text th (am_authFailures m) (am_authTotal m)) SeverityMajor m)
       else m
     else if kind = ''CIRCUIT_BREAKER_OPEN'' then
       let m = m\<lparr>am_cbState := gm_put target True (am_cbState m)\<rparr> in
       if list_ex (\<lambda>a. al_AlarmType a = AlarmCircuitBreakerOpen \<and> al_BackupObject a = target) (AlarmStore_List (am_store m)) then m
       else fst (RaiseAlarm uuid now AlarmCircuitBreakerOpen target (''circuit breaker open for AAA server: '' @ target) SeverityMajor m)
     else if kind = ''CIRCUIT_BREAKER_CLOSED'' then
       if gm_get (am_cbState m) target = Some True
       then ClearByType AlarmCircuitBreakerOpen target (m\<lparr>am_cbState := gm_put target False (am_cbState m)\<rparr>)
       else m
     else if kind = ''AAA_UNREACHABLE'' then
       fst (RaiseAlarm uuid now AlarmAAAUnreachable target (''AAA server unreachable: '' @ target) SeverityCritical m)
     else if kind = ''DB_UNREACHABLE'' then fst (RaiseAlarm uuid now AlarmDBUnreachable ''postgres'' target SeverityCritical m)
     else if kind = ''REDIS_UNREACHABLE'' then fst (RaiseAlarm uuid now AlarmRedisUnreachable ''redis'' target SeverityMajor m)
     else if kind = ''NRF_UNREACHABLE'' then fst (RaiseAlarm uuid now AlarmNRFUnreachable ''nrf'' target SeverityMajor m)
     else m)"

section \<open>The handlers\<close>

text \<open>\<^verbatim>\<open>POST /internal/events\<close>: method, content type, decoded body.\<close>

definition handleEvents ::
  "AlarmThresholds \<Rightarrow> string \<Rightarrow> time \<Rightarrow> string \<Rightarrow> string \<Rightarrow> AlarmEvent option \<Rightarrow> AlarmManager option \<Rightarrow>
   AlarmManager option \<times> unit response" where
  "handleEvents th uuid now httpMethod contentType body alarmMgr =
    (if httpMethod \<noteq> ''POST'' then
       (alarmMgr, ProblemResponse (NewProblem 405 ''METHOD_NOT_ALLOWED'' (''POST required, got: '' @ httpMethod)))
     else if contentType \<noteq> ''application/json'' then
       (alarmMgr, ProblemResponse (NewProblem 415 ''UNSUPPORTED_MEDIA_TYPE''
          (''expected Content-Type: application/json, got: '' @ contentType)))
     else case body of
       None \<Rightarrow> (alarmMgr, ProblemResponse (ValidationProblem ''body'' ''invalid JSON format''))
     | Some event \<Rightarrow>
         (case alarmMgr of
            None \<Rightarrow> (None, ProblemResponse (InternalServerProblem ''alarm manager not initialized''))
          | Some m \<Rightarrow> (Some (Evaluate th uuid now event m), OkResponse ())))"

text \<open>The acknowledgement: the name in the body if it can be decoded, and the header over it.  The second
  component is the status.\<close>

definition HandleAck ::
  "time \<Rightarrow> string \<Rightarrow> string \<Rightarrow> string \<Rightarrow> string option \<Rightarrow> string \<Rightarrow> AlarmManager \<Rightarrow> AlarmManager \<times> int" where
  "HandleAck now httpMethod alarmID contentType bodyAckedBy header m =
    (if httpMethod \<noteq> ''POST'' then (m, 405)
     else if alarmID = '''' then (m, 404)
     else
       let ackedBy = (case bodyAckedBy of
                        Some b \<Rightarrow> if contentType = ''application/json'' \<and> b \<noteq> '''' then b else ''unknown''
                      | None \<Rightarrow> ''unknown'');
           ackedBy = (if header \<noteq> '''' then header else ackedBy)
       in case AckAlarm now alarmID ackedBy m of (m', acked) \<Rightarrow> (m', if acked then 204 else 404))"

definition tagFromStatus :: "int \<Rightarrow> string" where
  "tagFromStatus status =
    (if status = 400 then ''malformed-message''
     else if status = 404 then ''invalid-value''
     else if status = 405 then ''operation-not-supported''
     else if status = 406 then ''invalid-value''
     else if status = 415 then ''malformed-message''
     else if status = 500 then ''operation-failed''
     else if status = 503 \<or> status = 504 then ''resource-denied''
     else ''operation-failed'')"

section \<open>The client in the Biz pods\<close>

datatype push_outcome = PushError string | PushStatus int

definition nrm_push :: "push_outcome \<Rightarrow> string option" where
  "nrm_push r =
    (case r of
       PushError err \<Rightarrow> Some err
     | PushStatus s \<Rightarrow> if s \<noteq> 200 \<and> s \<noteq> 202 then Some (''NRM returned status '' @ show_nat (nat s)) else None)"

section \<open>The invariant of the store\<close>

text \<open>Alarms are kept under their identifier, a deduplication entry names an alarm of its key, and every
  alarm of an object is the one its key names.\<close>

definition alarms_inv :: "AlarmStore \<Rightarrow> bool" where
  "alarms_inv s =
    (gm_ok (as_alarms s) \<and> gm_ok (as_dedup s)
     \<and> (\<forall>i a. gm_get (as_alarms s) i = Some a \<longrightarrow> al_AlarmID a = i)
     \<and> (\<forall>k i d. gm_get (as_dedup s) k = Some (i, d) \<longrightarrow> (\<exists>a. gm_get (as_alarms s) i = Some a \<and> dedupKey a = k))
     \<and> (\<forall>i a. gm_get (as_alarms s) i = Some a \<longrightarrow> al_BackupObject a \<noteq> '''' \<longrightarrow> (\<exists>d. gm_get (as_dedup s) (dedupKey a) = Some (i, d))))"

lemma alarms_invD:
  assumes "alarms_inv s"
  shows "gm_ok (as_alarms s)" "gm_ok (as_dedup s)"
    "gm_get (as_alarms s) i = Some a \<Longrightarrow> al_AlarmID a = i"
    "gm_get (as_dedup s) k = Some (j, d) \<Longrightarrow> \<exists>b. gm_get (as_alarms s) j = Some b \<and> dedupKey b = k"
    "gm_get (as_alarms s) i = Some a \<Longrightarrow> al_BackupObject a \<noteq> '''' \<Longrightarrow> \<exists>d. gm_get (as_dedup s) (dedupKey a) = Some (i, d)"
  using assms unfolding alarms_inv_def by blast+

lemma alarms_invI:
  assumes "gm_ok (as_alarms s)" "gm_ok (as_dedup s)"
    "\<And>i a. gm_get (as_alarms s) i = Some a \<Longrightarrow> al_AlarmID a = i"
    "\<And>k i d. gm_get (as_dedup s) k = Some (i, d) \<Longrightarrow> \<exists>a. gm_get (as_alarms s) i = Some a \<and> dedupKey a = k"
    "\<And>i a. gm_get (as_alarms s) i = Some a \<Longrightarrow> al_BackupObject a \<noteq> '''' \<Longrightarrow> \<exists>d. gm_get (as_dedup s) (dedupKey a) = Some (i, d)"
  shows "alarms_inv s"
  using assms unfolding alarms_inv_def by blast

lemma alarms_inv_empty [simp]: "alarms_inv NewAlarmStore"
  by (simp add: alarms_inv_def NewAlarmStore_def)

lemma alarms_inv_unique:
  assumes "alarms_inv s" "gm_get (as_alarms s) i = Some a" "gm_get (as_alarms s) j = Some b"
    "dedupKey a = dedupKey b" "al_BackupObject a \<noteq> ''''"
  shows "i = j"
proof -
  have "al_BackupObject b \<noteq> ''''" using assms(4,5) by (simp add: dedupKey_def)
  then show ?thesis using alarms_invD(5) [OF assms(1,2,5)] alarms_invD(5) [OF assms(1,3)] assms(4) by auto
qed

definition without_key :: "string \<times> string \<Rightarrow> AlarmStore \<Rightarrow> bool" where
  "without_key k s = (\<forall>i a. gm_get (as_alarms s) i = Some a \<longrightarrow> dedupKey a \<noteq> k)"

lemma store_alarm_alarms:
  assumes "gm_ok (as_alarms s)"
  shows "\<exists>a'. gm_get (as_alarms (store_alarm now a s)) = (gm_get (as_alarms s))(al_AlarmID a \<mapsto> a') \<and> dedupKey a' = dedupKey a
    \<and> al_AlarmID a' = al_AlarmID a"
  using assms by (auto simp: store_alarm_def Let_def gm_simps dedupKey_def)

lemma store_alarm_inv:
  assumes "alarms_inv s" "gm_get (as_alarms s) (al_AlarmID a) = None" "al_BackupObject a \<noteq> '''' \<Longrightarrow> without_key (dedupKey a) s"
  shows "alarms_inv (store_alarm now a s)"
proof -
  note D = alarms_invD [OF assms(1)]
  define b where "b = (if al_EventTime a = zero_time then a\<lparr>al_EventTime := now\<rparr> else a)"
  have b: "al_AlarmID b = al_AlarmID a" "dedupKey b = dedupKey a" "al_BackupObject b = al_BackupObject a"
    by (simp_all add: b_def dedupKey_def)
  let ?s = "store_alarm now a s"
  have ga: "gm_get (as_alarms ?s) = (gm_get (as_alarms s))(al_AlarmID a \<mapsto> b)"
    and gd: "gm_get (as_dedup ?s) = (gm_get (as_dedup s))(dedupKey a \<mapsto> (al_AlarmID a, al_EventTime b + 5 * Minute))"
    using D(1,2) b by (simp_all add: store_alarm_def Let_def gm_simps flip: b_def)
  show ?thesis
  proof (rule alarms_invI)
    show "gm_ok (as_alarms ?s)" "gm_ok (as_dedup ?s)" using D(1,2) by (simp_all add: store_alarm_def Let_def gm_simps)
    show "al_AlarmID x = i" if "gm_get (as_alarms ?s) i = Some x" for i x
      using that D(3) b by (auto simp: ga split: if_splits)
    show "\<exists>x. gm_get (as_alarms ?s) i = Some x \<and> dedupKey x = k" if g: "gm_get (as_dedup ?s) k = Some (i, d)" for k i d
    proof (cases "k = dedupKey a")
      case True
      then show ?thesis using g b by (simp add: gd ga)
    next
      case False
      then obtain x where "gm_get (as_alarms s) i = Some x" "dedupKey x = k" using g D(4) [of k i d] by (auto simp: gd)
      then show ?thesis using assms(2) by (auto simp: ga)
    qed
    show "\<exists>d. gm_get (as_dedup ?s) (dedupKey x) = Some (i, d)" if x: "gm_get (as_alarms ?s) i = Some x" "al_BackupObject x \<noteq> ''''" for i x
    proof (cases "i = al_AlarmID a")
      case True
      then show ?thesis using x(1) b by (simp add: ga gd)
    next
      case False
      then have g: "gm_get (as_alarms s) i = Some x" using x(1) by (simp add: ga)
      have "dedupKey x \<noteq> dedupKey a" using assms(3) g x(2) by (auto simp: without_key_def dedupKey_def)
      then show ?thesis using D(5) [OF g x(2)] by (simp add: gd)
    qed
  qed
qed

text \<open>Saving an alarm leaves the alarms of other keys as they are and keeps the invariant.\<close>

lemma delete_alarm_inv:
  assumes "alarms_inv s" "gm_get (as_alarms s) i = Some a" "al_BackupObject a = '''' \<or> dedupKey a = k" "k = dedupKey a"
  shows "alarms_inv (s\<lparr>as_dedup := gm_del k (as_dedup s), as_alarms := gm_del i (as_alarms s)\<rparr>)"
proof (rule alarms_invI)
  note D = alarms_invD [OF assms(1)]
  let ?s = "s\<lparr>as_dedup := gm_del k (as_dedup s), as_alarms := gm_del i (as_alarms s)\<rparr>"
  have ga: "gm_get (gm_del i (as_alarms s)) = (gm_get (as_alarms s))(i := None)"
    and gd: "gm_get (gm_del k (as_dedup s)) = (gm_get (as_dedup s))(k := None)"
    using D(1,2) by (simp_all add: gm_simps)
  show "gm_ok (as_alarms ?s)" "gm_ok (as_dedup ?s)" using D(1,2) by (simp_all add: gm_simps)
  show "al_AlarmID x = j" if "gm_get (as_alarms ?s) j = Some x" for j x
    using that D(3) by (simp add: ga split: if_splits)
  show "\<exists>x. gm_get (as_alarms ?s) j = Some x \<and> dedupKey x = k'" if "gm_get (as_dedup ?s) k' = Some (j, d)" for k' j d
  proof -
    have k': "k' \<noteq> k" "gm_get (as_dedup s) k' = Some (j, d)" using that by (simp_all add: gd split: if_splits)
    then obtain x where x: "gm_get (as_alarms s) j = Some x" "dedupKey x = k'" using D(4) by blast
    then have "j \<noteq> i" using k'(1) assms(2,4) by auto
    then show ?thesis using x by (simp add: ga)
  qed
  show "\<exists>d. gm_get (as_dedup ?s) (dedupKey x) = Some (j, d)" if x: "gm_get (as_alarms ?s) j = Some x" "al_BackupObject x \<noteq> ''''" for j x
  proof -
    have g: "j \<noteq> i" "gm_get (as_alarms s) j = Some x" using x(1) by (simp_all add: ga split: if_splits)
    then have "dedupKey x \<noteq> k" using alarms_inv_unique [OF assms(1) g(2) assms(2)] x(2) assms(4) by blast
    then show ?thesis using D(5) [OF g(2) x(2)] by (simp add: gd)
  qed
qed

lemma Clear_inv: "alarms_inv s \<Longrightarrow> alarms_inv (fst (AlarmStore_Clear i s))"
  using delete_alarm_inv by (auto simp: AlarmStore_Clear_def split: option.split)

lemma Clear_alarms: "alarms_inv s \<Longrightarrow> gm_get (as_alarms (fst (AlarmStore_Clear i s))) = (gm_get (as_alarms s))(i := None)"
  by (auto simp: AlarmStore_Clear_def gm_simps alarms_invD(1) split: option.split)

lemma UpdateAck_inv:
  assumes "alarms_inv s"
  shows "alarms_inv (fst (AlarmStore_UpdateAck now i b by s))"
proof (cases "gm_get (as_alarms s) i")
  case (Some a)
  note D = alarms_invD [OF assms]
  let ?a = "a\<lparr>al_Acked := b, al_AckedBy := by, al_AckedAt := Some now\<rparr>"
  let ?s = "s\<lparr>as_alarms := gm_put i ?a (as_alarms s)\<rparr>"
  have ga: "gm_get (gm_put i ?a (as_alarms s)) = (gm_get (as_alarms s))(i \<mapsto> ?a)" using D(1) by (simp add: gm_simps)
  have k: "dedupKey ?a = dedupKey a" by (simp add: dedupKey_def)
  have "alarms_inv ?s"
  proof (rule alarms_invI)
    show "gm_ok (as_alarms ?s)" "gm_ok (as_dedup ?s)" using D(1,2) by (simp_all add: gm_simps)
    show "al_AlarmID x = j" if "gm_get (as_alarms ?s) j = Some x" for j x
      using that D(3) Some by (auto simp: ga split: if_splits)
    show "\<exists>x. gm_get (as_alarms ?s) j = Some x \<and> dedupKey x = k'" if "gm_get (as_dedup ?s) k' = Some (j, d)" for k' j d
      using that D(4) [of k' j d] Some k by (cases "j = i") (auto simp: ga)
    show "\<exists>d. gm_get (as_dedup ?s) (dedupKey x) = Some (j, d)" if "gm_get (as_alarms ?s) j = Some x" "al_BackupObject x \<noteq> ''''" for j x
      using that D(5) [of j] Some k by (cases "j = i") (auto simp: ga)
  qed
  then show ?thesis using Some by (simp add: AlarmStore_UpdateAck_def)
qed (simp add: AlarmStore_UpdateAck_def assms)

text \<open>What a successful save of a new alarm does.  If the alarm is deduplicated, one of its key is there;
  otherwise it is there and the others of its key, if it has an object, are gone.\<close>

definition saved :: "Alarm \<Rightarrow> AlarmStore \<Rightarrow> AlarmStore \<Rightarrow> bool" where
  "saved a s s' =
    (alarms_inv s'
     \<and> (\<exists>i b. gm_get (as_alarms s') i = Some b \<and> dedupKey b = dedupKey a)
     \<and> (\<forall>i b. dedupKey b \<noteq> dedupKey a \<longrightarrow> (gm_get (as_alarms s') i = Some b) = (gm_get (as_alarms s) i = Some b))
     \<and> (\<forall>i. gm_get (as_alarms s') i \<noteq> None \<longrightarrow> i = al_AlarmID a \<or> gm_get (as_alarms s) i \<noteq> None))"

lemma saved_store:
  assumes "alarms_inv t" "gm_get (as_alarms t) (al_AlarmID a) = None" "al_BackupObject a \<noteq> '''' \<Longrightarrow> without_key (dedupKey a) t"
  shows "saved a t (store_alarm now a t)"
proof -
  obtain a' where a': "gm_get (as_alarms (store_alarm now a t)) = (gm_get (as_alarms t))(al_AlarmID a \<mapsto> a')" "dedupKey a' = dedupKey a"
    using store_alarm_alarms [OF alarms_invD(1) [OF assms(1)]] by blast
  show ?thesis unfolding saved_def using store_alarm_inv [OF assms] a' assms(2) by auto
qed

lemma saved_after_delete:
  assumes "saved a t s'" "gm_get (as_alarms t) = (gm_get (as_alarms s))(j := None)"
    "gm_get (as_alarms s) j = Some b" "dedupKey b = dedupKey a"
  shows "saved a s s'"
proof -
  have "(gm_get (as_alarms t) i = Some x) = (gm_get (as_alarms s) i = Some x)" if "dedupKey x \<noteq> dedupKey a" for i x
    using that assms(2-4) by auto
  moreover have "gm_get (as_alarms t) i \<noteq> None \<Longrightarrow> gm_get (as_alarms s) i \<noteq> None" for i
    by (simp add: assms(2) split: if_splits)
  ultimately show ?thesis using assms(1) unfolding saved_def by blast
qed

lemma Save_effect:
  assumes "alarms_inv s" "gm_get (as_alarms s) (al_AlarmID a) = None" "al_AlarmID a \<noteq> ''''"
  shows "saved a s (fst (AlarmStore_Save u now (Some a) s))"
proof -
  note D = alarms_invD [OF assms(1)]
  show ?thesis
  proof (cases "if al_BackupObject a \<noteq> '''' then gm_get (as_dedup s) (dedupKey a) else None")
    case None
    have "without_key (dedupKey a) s" if "al_BackupObject a \<noteq> ''''"
    proof -
      have "dedupKey b \<noteq> dedupKey a" if "gm_get (as_alarms s) i = Some b" for i b
        using D(5) [OF that] None \<open>al_BackupObject a \<noteq> ''''\<close> by (auto simp: dedupKey_def)
      then show ?thesis by (simp add: without_key_def)
    qed
    then show ?thesis using saved_store [OF assms(1,2)] None assms(3) by (simp add: AlarmStore_Save_def Let_def)
  next
    case (Some p)
    obtain j d where p: "p = (j, d)" by (cases p)
    then have o: "al_BackupObject a \<noteq> ''''" and j: "gm_get (as_dedup s) (dedupKey a) = Some (j, d)" using Some by (auto split: if_splits)
    obtain b where b: "gm_get (as_alarms s) j = Some b" "dedupKey b = dedupKey a" using D(4) [OF j] by blast
    show ?thesis
    proof (cases "now < d")
      case True
      then have "AlarmStore_Save u now (Some a) s = (s, Inr j)" using o j assms(3) by (simp add: AlarmStore_Save_def Let_def)
      then show ?thesis using assms(1) b by (auto simp: saved_def)
    next
      case False
      define t where "t = s\<lparr>as_dedup := gm_del (dedupKey a) (as_dedup s), as_alarms := gm_del j (as_alarms s)\<rparr>"
      have t: "alarms_inv t" using delete_alarm_inv [OF assms(1) b(1)] b(2) by (simp add: t_def)
      have gt: "gm_get (as_alarms t) = (gm_get (as_alarms s))(j := None)" using D(1) by (simp add: t_def gm_simps)
      have w: "without_key (dedupKey a) t"
        using alarms_inv_unique [OF assms(1) _ b(1)] b(2) o by (auto simp: without_key_def gt dedupKey_def split: if_splits)
      have "AlarmStore_Save u now (Some a) s = (store_alarm now a t, Inr (al_AlarmID a))"
        using o j assms(3) False by (simp add: AlarmStore_Save_def Let_def t_def)
      moreover have "gm_get (as_alarms t) (al_AlarmID a) = None" using assms(2) by (simp add: gt)
      ultimately show ?thesis using saved_after_delete [OF saved_store [OF t _ w] gt b] by simp
    qed
  qed
qed

text \<open>Clearing by type removes exactly the alarms of the key.\<close>

lemma fold_Clear:
  assumes "alarms_inv s"
  shows "alarms_inv (fold (\<lambda>a st. if P a then fst (AlarmStore_Clear (al_AlarmID a) st) else st) xs s)
    \<and> gm_get (as_alarms (fold (\<lambda>a st. if P a then fst (AlarmStore_Clear (al_AlarmID a) st) else st) xs s))
      = (\<lambda>i. if \<exists>a \<in> set xs. P a \<and> al_AlarmID a = i then None else gm_get (as_alarms s) i)"
  using assms
proof (induction xs arbitrary: s)
  case (Cons x xs)
  show ?case
  proof (cases "P x")
    case True
    then show ?thesis using Cons.IH [OF Clear_inv [OF Cons.prems]] Clear_alarms [OF Cons.prems] by (auto simp: fun_eq_iff)
  next
    case False
    then show ?thesis using Cons.IH [OF Cons.prems] by (auto simp: fun_eq_iff)
  qed
qed simp

lemma set_List: "gm_ok (as_alarms s) \<Longrightarrow> a \<in> set (AlarmStore_List s) \<longleftrightarrow> (\<exists>i. gm_get (as_alarms s) i = Some a)"
  by (force simp: AlarmStore_List_def gm_get_def gm_ok_def)

lemma ClearByType_effect:
  assumes "alarms_inv (am_store m)"
  shows "alarms_inv (am_store (ClearByType ty ob m))"
    "gm_get (as_alarms (am_store (ClearByType ty ob m))) i = Some a \<longleftrightarrow>
       gm_get (as_alarms (am_store m)) i = Some a \<and> dedupKey a \<noteq> (ty, ob)"
proof -
  note F = fold_Clear [OF assms, of "\<lambda>a. al_AlarmType a = ty \<and> al_BackupObject a = ob" "AlarmStore_List (am_store m)"]
  show "alarms_inv (am_store (ClearByType ty ob m))" using F by (simp add: ClearByType_def)
  have "(\<exists>b \<in> set (AlarmStore_List (am_store m)). (al_AlarmType b = ty \<and> al_BackupObject b = ob) \<and> al_AlarmID b = i) \<longleftrightarrow>
      dedupKey a = (ty, ob)" if "gm_get (as_alarms (am_store m)) i = Some a"
    using that set_List [OF alarms_invD(1) [OF assms]] alarms_invD(3) [OF assms] by (auto simp: dedupKey_def)
  then show "gm_get (as_alarms (am_store (ClearByType ty ob m))) i = Some a \<longleftrightarrow>
       gm_get (as_alarms (am_store m)) i = Some a \<and> dedupKey a \<noteq> (ty, ob)"
    using F by (auto simp: ClearByType_def)
qed

section \<open>Runs of the manager\<close>

datatype nrm_op = NrmEvent string time AlarmEvent | NrmAck time string string | NrmClear string | NrmReset

fun nrm_step :: "AlarmThresholds \<Rightarrow> nrm_op \<Rightarrow> AlarmManager \<Rightarrow> AlarmManager" where
  "nrm_step th (NrmEvent uuid now event) m = Evaluate th uuid now event m"
| "nrm_step th (NrmAck now i by) m = fst (AckAlarm now i by m)"
| "nrm_step th (NrmClear i) m = fst (ClearAlarm i m)"
| "nrm_step th NrmReset m = ResetAuthMetrics m"

fun op_uuid :: "nrm_op \<Rightarrow> string list" where
  "op_uuid (NrmEvent uuid now event) = [uuid]"
| "op_uuid _ = []"

definition fresh_ids :: "nrm_op list \<Rightarrow> bool" where
  "fresh_ids ops = (distinct (concat (map op_uuid ops)) \<and> '''' \<notin> set (concat (map op_uuid ops)))"

definition unused :: "string list \<Rightarrow> AlarmManager \<Rightarrow> bool" where
  "unused us m = (\<forall>i \<in> set us. gm_get (as_alarms (am_store m)) i = None)"

text \<open>The effect of raising an alarm, and of an event.\<close>

lemma Raise_effect:
  assumes "alarms_inv (am_store m)" "gm_get (as_alarms (am_store m)) u = None" "u \<noteq> ''''"
    "m' = fst (RaiseAlarm u now ty ob sp sev m)"
  shows "alarms_inv (am_store m')" "am_cbState m' = am_cbState m"
    "\<exists>i a. gm_get (as_alarms (am_store m')) i = Some a \<and> dedupKey a = (ty, ob)"
    "dedupKey a \<noteq> (ty, ob) \<Longrightarrow> (gm_get (as_alarms (am_store m')) i = Some a) = (gm_get (as_alarms (am_store m)) i = Some a)"
    "gm_get (as_alarms (am_store m')) i \<noteq> None \<Longrightarrow> i = u \<or> gm_get (as_alarms (am_store m)) i \<noteq> None"
proof -
  define al where "al = \<lparr>al_AlarmID = u, al_AlarmType = ty, al_ProbableCause = probableCause ty,
     al_SpecificProblem = sp, al_Severity = sev, al_PerceivedSeverity = sev,
     al_BackupObject = ob, al_CorrelatedAlarms = [], al_ProposedRepairActions = proposedRepairAction ty,
     al_EventTime = now, al_Acked = False, al_AckedBy = '''', al_AckedAt = None\<rparr>"
  obtain st r where st: "AlarmStore_Save u now (Some al) (am_store m) = (st, r)" by fastforce
  have m': "m' = m\<lparr>am_store := st\<rparr>" using st unfolding assms(4) RaiseAlarm_def al_def by (cases r) simp_all
  have al: "al_AlarmID al = u" "dedupKey al = (ty, ob)" by (simp_all add: al_def dedupKey_def)
  note E = Save_effect [OF assms(1), of al u now, unfolded al st fst_conv, OF assms(2,3)]
  show "alarms_inv (am_store m')" "am_cbState m' = am_cbState m"
    "\<exists>i a. gm_get (as_alarms (am_store m')) i = Some a \<and> dedupKey a = (ty, ob)"
    "dedupKey a \<noteq> (ty, ob) \<Longrightarrow> (gm_get (as_alarms (am_store m')) i = Some a) = (gm_get (as_alarms (am_store m)) i = Some a)"
    "gm_get (as_alarms (am_store m')) i \<noteq> None \<Longrightarrow> i = u \<or> gm_get (as_alarms (am_store m)) i \<noteq> None"
    using E by (simp_all add: m' saved_def al)
qed

definition breaker_alarm :: "AlarmManager \<Rightarrow> string \<Rightarrow> bool" where
  "breaker_alarm m t = (\<exists>i a. gm_get (as_alarms (am_store m)) i = Some a \<and> dedupKey a = (AlarmCircuitBreakerOpen, t))"

definition nrm_inv :: "AlarmManager \<Rightarrow> bool" where
  "nrm_inv m = (alarms_inv (am_store m) \<and> gm_ok (am_cbState m))"

text \<open>Whether the last event on the breaker of a target was that it opened.\<close>

fun breaker_open :: "string \<Rightarrow> nrm_op \<Rightarrow> bool \<Rightarrow> bool" where
  "breaker_open t (NrmEvent uuid now event) b =
    (if ev_EventType event = ''CIRCUIT_BREAKER_OPEN'' \<and> ev_Target event = t then True
     else if ev_EventType event = ''CIRCUIT_BREAKER_CLOSED'' \<and> ev_Target event = t then False
     else b)"
| "breaker_open t _ b = b"

lemma list_ex_List:
  assumes "alarms_inv s"
  shows "list_ex (\<lambda>a. al_AlarmType a = ty \<and> al_BackupObject a = ob) (AlarmStore_List s) \<longleftrightarrow>
    (\<exists>i a. gm_get (as_alarms s) i = Some a \<and> dedupKey a = (ty, ob))"
  unfolding list_ex_iff Bex_def set_List [OF alarms_invD(1) [OF assms]] dedupKey_def prod.inject by blast

text \<open>An event that only raises an alarm of another kind, or none.\<close>

lemma raise_other:
  assumes "nrm_inv m" "gm_get (as_alarms (am_store m)) u = None" "u \<noteq> ''''" "ty \<noteq> AlarmCircuitBreakerOpen"
    "m' = fst (RaiseAlarm u now ty ob sp sev m)"
  shows "nrm_inv m'" "am_cbState m' = am_cbState m" "breaker_alarm m' t = breaker_alarm m t"
    "gm_get (as_alarms (am_store m')) i \<noteq> None \<Longrightarrow> i = u \<or> gm_get (as_alarms (am_store m)) i \<noteq> None"
proof -
  have inv: "alarms_inv (am_store m)" using assms(1) by (simp add: nrm_inv_def)
  note E = Raise_effect [OF inv assms(2,3,5)]
  show "nrm_inv m'" using E(1,2) assms(1) by (simp add: nrm_inv_def)
  show "am_cbState m' = am_cbState m" by (rule E(2))
  have "(gm_get (as_alarms (am_store m')) j = Some a) = (gm_get (as_alarms (am_store m)) j = Some a)"
    if "dedupKey a = (AlarmCircuitBreakerOpen, t)" for j a
    using E(4) [of a j] that assms(4) by simp
  then show "breaker_alarm m' t = breaker_alarm m t" unfolding breaker_alarm_def by blast
  show "gm_get (as_alarms (am_store m')) i \<noteq> None \<Longrightarrow> i = u \<or> gm_get (as_alarms (am_store m)) i \<noteq> None" by (rule E(5))
qed

definition stays :: "string \<Rightarrow> AlarmManager \<Rightarrow> AlarmManager \<Rightarrow> bool" where
  "stays u m m' = (\<forall>i. gm_get (as_alarms (am_store m')) i \<noteq> None \<longrightarrow> i = u \<or> gm_get (as_alarms (am_store m)) i \<noteq> None)"

definition tracks :: "AlarmManager \<Rightarrow> (string \<Rightarrow> bool) \<Rightarrow> bool" where
  "tracks m f = (\<forall>t. (gm_get (am_cbState m) t = Some True) = f t \<and> breaker_alarm m t = f t)"

lemma Evaluate_open:
  assumes "nrm_inv m" "gm_get (as_alarms (am_store m)) u = None" "u \<noteq> ''''" "ev_EventType e = ''CIRCUIT_BREAKER_OPEN''" "tracks m f"
  shows "nrm_inv (Evaluate th u now e m) \<and> stays u m (Evaluate th u now e m) \<and> tracks (Evaluate th u now e m) (f(ev_Target e := True))"
proof -
  define m1 where "m1 = m\<lparr>am_cbState := gm_put (ev_Target e) True (am_cbState m)\<rparr>"
  have m1: "nrm_inv m1" "am_store m1 = am_store m" "gm_get (am_cbState m1) = (gm_get (am_cbState m))(ev_Target e \<mapsto> True)"
    using assms(1) by (simp_all add: m1_def nrm_inv_def gm_simps)
  have inv: "alarms_inv (am_store m1)" using m1(1) by (simp add: nrm_inv_def)
  have ba: "breaker_alarm m1 t = breaker_alarm m t" for t using m1(2) by (simp add: breaker_alarm_def)
  have ex: "list_ex (\<lambda>a. al_AlarmType a = AlarmCircuitBreakerOpen \<and> al_BackupObject a = t) (AlarmStore_List (am_store m)) = breaker_alarm m t" for t
    using list_ex_List [OF inv] by (simp add: breaker_alarm_def m1(2))
  show ?thesis
  proof (cases "breaker_alarm m (ev_Target e)")
    case True
    then have "Evaluate th u now e m = m1"
      using assms(4) by (simp add: Evaluate_def Let_def ex m1_def)
    then show ?thesis using m1 assms(5) True by (simp add: stays_def tracks_def ba)
  next
    case False
    define m2 where "m2 = fst (RaiseAlarm u now AlarmCircuitBreakerOpen (ev_Target e) (''circuit breaker open for AAA server: '' @ ev_Target e) SeverityMajor m1)"
    have ev: "Evaluate th u now e m = m2"
      using False assms(4) by (simp add: Evaluate_def Let_def ex m1_def m2_def)
    note E = Raise_effect [OF inv _ assms(3) m2_def, unfolded m1(2), OF assms(2)]
    have "breaker_alarm m2 t = (t = ev_Target e \<or> breaker_alarm m t)" for t
    proof (cases "t = ev_Target e")
      case True
      then show ?thesis using E(3) by (simp add: breaker_alarm_def)
    next
      case False
      have "(gm_get (as_alarms (am_store m2)) j = Some a) = (gm_get (as_alarms (am_store m)) j = Some a)"
        if "dedupKey a = (AlarmCircuitBreakerOpen, t)" for j a
        using E(4) [of a j] that False by simp
      then show ?thesis using False unfolding breaker_alarm_def by blast
    qed
    then show ?thesis unfolding ev using E(1,2,5) m1 assms(1,5) by (simp add: nrm_inv_def stays_def tracks_def gm_simps)
  qed
qed

lemma Evaluate_closed:
  assumes "nrm_inv m" "ev_EventType e = ''CIRCUIT_BREAKER_CLOSED''" "tracks m f"
  shows "nrm_inv (Evaluate th u now e m) \<and> stays u m (Evaluate th u now e m) \<and> tracks (Evaluate th u now e m) (f(ev_Target e := False))"
proof (cases "gm_get (am_cbState m) (ev_Target e) = Some True")
  case True
  define m1 where "m1 = m\<lparr>am_cbState := gm_put (ev_Target e) False (am_cbState m)\<rparr>"
  have ok: "gm_ok (am_cbState m)" using assms(1) by (simp add: nrm_inv_def)
  have inv: "alarms_inv (am_store m1)" using assms(1) by (simp add: m1_def nrm_inv_def)
  have ev: "Evaluate th u now e m = ClearByType AlarmCircuitBreakerOpen (ev_Target e) m1"
    using True assms(2) by (simp add: Evaluate_def Let_def m1_def)
  note E = ClearByType_effect [OF inv, of AlarmCircuitBreakerOpen "ev_Target e"]
  have st: "am_store m1 = am_store m" by (simp add: m1_def)
  have cb: "am_cbState (ClearByType AlarmCircuitBreakerOpen (ev_Target e) m1) = gm_put (ev_Target e) False (am_cbState m)"
    by (simp add: ClearByType_def m1_def)
  have "breaker_alarm (ClearByType AlarmCircuitBreakerOpen (ev_Target e) m1) t = (t \<noteq> ev_Target e \<and> breaker_alarm m t)" for t
    unfolding breaker_alarm_def E(2) st by (metis prod.inject)
  moreover have "stays u m (ClearByType AlarmCircuitBreakerOpen (ev_Target e) m1)"
    unfolding stays_def using E(2) st by (metis not_None_eq)
  ultimately show ?thesis unfolding ev using E(1) cb ok assms(3)
    by (simp add: nrm_inv_def tracks_def gm_simps)
next
  case False
  then have "Evaluate th u now e m = m" using assms(2) by (simp add: Evaluate_def Let_def)
  moreover have "f(ev_Target e := False) = f" using False assms(3) by (auto simp: tracks_def fun_eq_iff)
  ultimately show ?thesis using assms(1,3) by (simp add: stays_def)
qed

lemma Evaluate_other:
  assumes "nrm_inv m" "gm_get (as_alarms (am_store m)) u = None" "u \<noteq> ''''"
    "ev_EventType e \<noteq> ''CIRCUIT_BREAKER_OPEN''" "ev_EventType e \<noteq> ''CIRCUIT_BREAKER_CLOSED''" "tracks m f"
  shows "nrm_inv (Evaluate th u now e m) \<and> stays u m (Evaluate th u now e m) \<and> tracks (Evaluate th u now e m) f"
proof -
  have raise: "nrm_inv (fst (RaiseAlarm u now ty ob sp sev k)) \<and> stays u m (fst (RaiseAlarm u now ty ob sp sev k))
      \<and> tracks (fst (RaiseAlarm u now ty ob sp sev k)) f"
    if k: "am_store k = am_store m" "am_cbState k = am_cbState m" and ty: "ty \<noteq> AlarmCircuitBreakerOpen" for k ty ob sp sev
  proof -
    have k': "nrm_inv k" "gm_get (as_alarms (am_store k)) u = None" "tracks k f"
      using k assms(1,2,6) by (simp_all add: nrm_inv_def tracks_def breaker_alarm_def)
    note R = raise_other [OF k'(1,2) assms(3) ty refl, of now ob sp sev]
    show ?thesis using R(1,3) R(4) k'(3) unfolding stays_def tracks_def R(2) k(1) [symmetric] by blast
  qed
  have keep: "nrm_inv k \<and> stays u m k \<and> tracks k f" if "am_store k = am_store m" "am_cbState k = am_cbState m" for k
    using that assms(1,6) by (simp add: nrm_inv_def tracks_def breaker_alarm_def stays_def)
  define G where "G k = (nrm_inv k \<and> stays u m k \<and> tracks k f)" for k
  have "G (Evaluate th u now e m)"
    using assms(4,5) by (simp add: Evaluate_def Let_def raise [folded G_def] keep [folded G_def])
  then show ?thesis by (simp only: G_def)
qed

lemma Evaluate_step:
  assumes "nrm_inv m" "gm_get (as_alarms (am_store m)) u = None" "u \<noteq> ''''" "tracks m f"
  shows "nrm_inv (Evaluate th u now e m) \<and> stays u m (Evaluate th u now e m)
    \<and> tracks (Evaluate th u now e m) (\<lambda>t. breaker_open t (NrmEvent u now e) (f t))"
proof -
  consider (op) "ev_EventType e = ''CIRCUIT_BREAKER_OPEN''" | (cl) "ev_EventType e = ''CIRCUIT_BREAKER_CLOSED''"
    | (other) "ev_EventType e \<noteq> ''CIRCUIT_BREAKER_OPEN''" "ev_EventType e \<noteq> ''CIRCUIT_BREAKER_CLOSED''" by blast
  then show ?thesis
  proof cases
    case op
    then have "(\<lambda>t. breaker_open t (NrmEvent u now e) (f t)) = f(ev_Target e := True)" by (auto simp: fun_eq_iff)
    then show ?thesis using Evaluate_open [OF assms(1,2,3) op assms(4)] by simp
  next
    case cl
    then have "(\<lambda>t. breaker_open t (NrmEvent u now e) (f t)) = f(ev_Target e := False)" by (auto simp: fun_eq_iff)
    then show ?thesis using Evaluate_closed [OF assms(1) cl assms(4)] by simp
  next
    case other
    then show ?thesis using Evaluate_other [OF assms(1,2,3) other assms(4)] by simp
  qed
qed

lemma Ack_step:
  assumes "nrm_inv m" "tracks m f"
  shows "nrm_inv (fst (AckAlarm now i who m)) \<and> stays u m (fst (AckAlarm now i who m)) \<and> tracks (fst (AckAlarm now i who m)) f"
proof -
  let ?s = "fst (AlarmStore_UpdateAck now i True who (am_store m))"
  have m': "fst (AckAlarm now i who m) = m\<lparr>am_store := ?s\<rparr>" by (simp add: AckAlarm_def split: prod.split)
  have inv: "alarms_inv (am_store m)" using assms(1) by (simp add: nrm_inv_def)
  note D = alarms_invD [OF inv]
  have none: "(gm_get (as_alarms ?s) j = None) = (gm_get (as_alarms (am_store m)) j = None)" for j
    using D(1) by (auto simp: AlarmStore_UpdateAck_def gm_simps split: option.split)
  have keys: "(\<exists>j a. gm_get (as_alarms ?s) j = Some a \<and> dedupKey a = k) = (\<exists>j a. gm_get (as_alarms (am_store m)) j = Some a \<and> dedupKey a = k)" for k
  proof (cases "gm_get (as_alarms (am_store m)) i")
    case None
    then show ?thesis by (simp add: AlarmStore_UpdateAck_def)
  next
    case (Some a)
    then have "as_alarms ?s = gm_put i (a\<lparr>al_Acked := True, al_AckedBy := who, al_AckedAt := Some now\<rparr>) (as_alarms (am_store m))"
      by (simp add: AlarmStore_UpdateAck_def)
    moreover have "dedupKey (a\<lparr>al_Acked := True, al_AckedBy := who, al_AckedAt := Some now\<rparr>) = dedupKey a" by (simp add: dedupKey_def)
    ultimately show ?thesis using D(1) Some by (simp add: gm_simps) (metis option.inject)
  qed
  show ?thesis unfolding m' using UpdateAck_inv [OF inv] assms none
    by (simp add: nrm_inv_def stays_def tracks_def breaker_alarm_def keys)
qed

fun not_clear :: "nrm_op \<Rightarrow> bool" where
  "not_clear (NrmClear i) = False"
| "not_clear _ = True"

lemma nrm_step_inv:
  assumes "nrm_inv m" "tracks m f" "not_clear p" "\<And>u. u \<in> set (op_uuid p) \<Longrightarrow> gm_get (as_alarms (am_store m)) u = None \<and> u \<noteq> ''''"
  shows "nrm_inv (nrm_step th p m) \<and> tracks (nrm_step th p m) (\<lambda>t. breaker_open t p (f t))
    \<and> (\<forall>i. gm_get (as_alarms (am_store (nrm_step th p m))) i \<noteq> None \<longrightarrow> i \<in> set (op_uuid p) \<or> gm_get (as_alarms (am_store m)) i \<noteq> None)"
proof (cases p)
  case (NrmEvent u now e)
  then show ?thesis using Evaluate_step [OF assms(1) _ _ assms(2), of u th now e] assms(4) by (auto simp: stays_def)
next
  case (NrmAck now i who)
  show ?thesis using Ack_step [OF assms(1,2), of now i who "''''"] Ack_step [OF assms(1,2), of now i who "''x''"]
    unfolding NrmAck stays_def by (simp, metis list.distinct(1))
next
  case (NrmClear i)
  then show ?thesis using assms(3) by simp
next
  case NrmReset
  then show ?thesis using assms(1,2) by (simp add: ResetAuthMetrics_def nrm_inv_def tracks_def breaker_alarm_def)
qed

lemma nrm_run_inv:
  assumes "nrm_inv m" "tracks m f" "list_all not_clear ops" "fresh_ids ops" "unused (concat (map op_uuid ops)) m"
  shows "nrm_inv (fold (nrm_step th) ops m) \<and> tracks (fold (nrm_step th) ops m) (\<lambda>t. fold (breaker_open t) ops (f t))"
  using assms
proof (induction ops arbitrary: m f)
  case (Cons p ops)
  note S = nrm_step_inv [OF Cons.prems(1,2), of p th]
  have pre: "not_clear p" "\<And>u. u \<in> set (op_uuid p) \<Longrightarrow> gm_get (as_alarms (am_store m)) u = None \<and> u \<noteq> ''''"
    using Cons.prems(3,4,5) by (auto simp: fresh_ids_def unused_def)
  have un: "unused (concat (map op_uuid ops)) (nrm_step th p m)"
    unfolding unused_def
  proof
    fix i assume i: "i \<in> set (concat (map op_uuid ops))"
    then have "i \<notin> set (op_uuid p)" "gm_get (as_alarms (am_store m)) i = None"
      using Cons.prems(4,5) by (auto simp: fresh_ids_def unused_def)
    then show "gm_get (as_alarms (am_store (nrm_step th p m))) i = None" using S [OF pre] by blast
  qed
  have "fresh_ids ops" "list_all not_clear ops" using Cons.prems(3,4) by (simp_all add: fresh_ids_def)
  then show ?case using Cons.IH [of "nrm_step th p m" "\<lambda>t. breaker_open t p (f t)"] S [OF pre] un by simp
qed simp

text \<open>The alarms of a key in the listing.\<close>

lemma listing_of_key:
  assumes "alarms_inv s" "ob \<noteq> ''''"
  shows "length (filter (\<lambda>a. al_AlarmType a = ty \<and> al_BackupObject a = ob) (AlarmStore_List s)) =
    (if \<exists>i a. gm_get (as_alarms s) i = Some a \<and> dedupKey a = (ty, ob) then 1 else 0)"
proof -
  let ?ys = "filter (\<lambda>a. al_AlarmType a = ty \<and> al_BackupObject a = ob) (AlarmStore_List s)"
  note D = alarms_invD [OF assms(1)]
  have "map al_AlarmID (map snd (as_alarms s)) = map fst (as_alarms s)"
    using D(1) D(3) by (auto simp: gm_get_def gm_ok_def)
  then have "distinct (map snd (as_alarms s))" using D(1) unfolding gm_ok_def by (metis distinct_map)
  then have dist: "distinct ?ys" by (simp add: AlarmStore_List_def)
  have mem: "a \<in> set ?ys \<longleftrightarrow> (\<exists>i. gm_get (as_alarms s) i = Some a) \<and> dedupKey a = (ty, ob)" for a
    using set_List [OF D(1)] by (auto simp: dedupKey_def)
  have one: "a = b" if ab: "a \<in> set ?ys" "b \<in> set ?ys" for a b
  proof -
    obtain i j where ij: "gm_get (as_alarms s) i = Some a" "gm_get (as_alarms s) j = Some b"
      "dedupKey a = (ty, ob)" "dedupKey b = (ty, ob)" using ab mem by blast
    then have "i = j" using alarms_inv_unique [OF assms(1), of i a j b] assms(2) by (simp add: dedupKey_def)
    then show ?thesis using ij by simp
  qed
  have "length ?ys = card (set ?ys)" by (rule distinct_card [OF dist, symmetric])
  also have "\<dots> = (if set ?ys = {} then 0 else 1)"
  proof (cases "set ?ys = {}")
    case False
    then obtain a where a: "a \<in> set ?ys" by (rule ex_in_conv [THEN iffD2, THEN exE])
    have "set ?ys = {a}" by (rule equalityI; rule subsetI; simp only: singleton_iff a; rule one [OF _ a])
    then show ?thesis by simp
  qed simp
  also have "(set ?ys = {}) = (\<not> (\<exists>i a. gm_get (as_alarms s) i = Some a \<and> dedupKey a = (ty, ob)))"
    unfolding set_eq_iff mem empty_iff by blast
  finally show ?thesis by simp
qed

section \<open>Properties\<close>

text \<open>C26. In any sequence of events, acknowledgements and counter resets in which every alarm gets a new
  identifier, whatever the times, thresholds and other events, the listing shows exactly one circuit-breaker
  alarm for a target if the last breaker event of that target was that it opened, and none otherwise:
  repeated openings raise nothing new, whether inside or outside the deduplication window.\<close>

theorem breaker_alarm_tracks_state:
  assumes "fresh_ids ops" "list_all not_clear ops" "t \<noteq> ''''"
  shows "length (filter (\<lambda>a. al_AlarmType a = AlarmCircuitBreakerOpen \<and> al_BackupObject a = t)
      (AlarmStore_List (am_store (fold (nrm_step th) ops NewAlarmManager)))) =
    (if fold (breaker_open t) ops False then 1 else 0)"
proof -
  have new: "nrm_inv NewAlarmManager" "tracks NewAlarmManager (\<lambda>_. False)" "unused us NewAlarmManager" for us
    by (simp_all add: NewAlarmManager_def NewAlarmStore_def nrm_inv_def alarms_inv_def tracks_def breaker_alarm_def unused_def)
  have run: "nrm_inv (fold (nrm_step th) ops NewAlarmManager)"
    "tracks (fold (nrm_step th) ops NewAlarmManager) (\<lambda>t. fold (breaker_open t) ops False)"
    using nrm_run_inv [OF new(1,2) assms(2,1) new(3)] by blast+
  then have "alarms_inv (am_store (fold (nrm_step th) ops NewAlarmManager))" by (simp add: nrm_inv_def)
  from listing_of_key [OF this assms(3)] show ?thesis using run(2) by (simp add: tracks_def breaker_alarm_def)
qed

theorem breaker_alarm_tracks_state_witness:
  "\<exists>ops th. fresh_ids ops \<and> list_all not_clear ops \<and> length ops = 3 \<and> fold (breaker_open ''aaa'') ops False \<and>
    length (filter (\<lambda>a. al_AlarmType a = AlarmCircuitBreakerOpen \<and> al_BackupObject a = ''aaa'')
      (AlarmStore_List (am_store (fold (nrm_step th) ops NewAlarmManager)))) = 1"
proof -
  define ev where "ev k = \<lparr>ev_EventType = k, ev_Target = ''aaa'', ev_SpecificProblem = ''''\<rparr>" for k
  let ?ops = "[NrmEvent ''1'' 0 (ev ''CIRCUIT_BREAKER_OPEN''), NrmEvent ''2'' 5 (ev ''CIRCUIT_BREAKER_CLOSED''),
     NrmEvent ''3'' 9 (ev ''CIRCUIT_BREAKER_OPEN'')]"
  have h: "fresh_ids ?ops" "list_all not_clear ?ops" "fold (breaker_open ''aaa'') ?ops False"
    by (simp_all add: fresh_ids_def ev_def)
  show ?thesis using h breaker_alarm_tracks_state [OF h(1,2), of "''aaa''"]
    by (intro exI [of _ ?ops] exI) auto
qed

end
