(* ===== verification/Restconf.thy ===== *)
theory Restconf
  imports Nrm Storage
begin

text \<open>
  The management interface of the NRM server (\<^verbatim>\<open>internal/restconf\<close>, the routes of
  \<^verbatim>\<open>internal/nrm/server.go\<close>) and the event client of the Biz pods (\<^verbatim>\<open>internal/nrm/client.go\<close>).
  A response is the status with what the handler encodes; the JSON text and the router of the third-party
  package chi are not modelled, so a handler takes the path parameter that the router extracts.
\<close>

section \<open>Views of the alarms\<close>

record AlarmInfo =
  ai_AlarmID :: string
  ai_AlarmType :: string
  ai_ProbableCause :: string
  ai_SpecificProblem :: string
  ai_Severity :: string
  ai_PerceivedSeverity :: string
  ai_BackupObject :: string
  ai_CorrelatedAlarms :: "string list"
  ai_ProposedRepairActions :: string
  ai_EventTime :: time
  ai_Acked :: bool
  ai_AckedBy :: string
  ai_AckedAt :: "time option"

definition ToAlarmInfo :: "Alarm \<Rightarrow> AlarmInfo" where
  "ToAlarmInfo a = \<lparr>ai_AlarmID = al_AlarmID a, ai_AlarmType = al_AlarmType a, ai_ProbableCause = al_ProbableCause a,
     ai_SpecificProblem = al_SpecificProblem a, ai_Severity = al_Severity a, ai_PerceivedSeverity = al_PerceivedSeverity a,
     ai_BackupObject = al_BackupObject a, ai_CorrelatedAlarms = al_CorrelatedAlarms a,
     ai_ProposedRepairActions = al_ProposedRepairActions a, ai_EventTime = al_EventTime a,
     ai_Acked = al_Acked a, ai_AckedBy = al_AckedBy a, ai_AckedAt = al_AckedAt a\<rparr>"

definition ListAlarmInfos :: "AlarmManager \<Rightarrow> AlarmInfo list" where
  "ListAlarmInfos m = map ToAlarmInfo (AlarmStore_List (am_store m))"

definition GetAlarmInfo :: "AlarmManager \<Rightarrow> string \<Rightarrow> AlarmInfo option" where
  "GetAlarmInfo m i = map_option ToAlarmInfo (AlarmStore_Get (am_store m) i)"

definition AckAlarmInfo :: "time \<Rightarrow> string \<Rightarrow> string \<Rightarrow> AlarmManager \<Rightarrow> AlarmManager \<times> bool" where
  "AckAlarmInfo now i ackedBy m = (case AlarmStore_UpdateAck now i True ackedBy (am_store m) of (st, ok) \<Rightarrow> (m\<lparr>am_store := st\<rparr>, ok))"

section \<open>Responses\<close>

record ErrorEntry =
  ee_ErrorType :: string
  ee_ErrorTag :: string
  ee_ErrorSeverity :: string
  ee_Path :: string
  ee_Message :: string

definition severityFromStatus :: "int \<Rightarrow> string" where
  "severityFromStatus status = ''error''"

definition NewErrorResponse :: "int \<Rightarrow> string \<Rightarrow> ErrorEntry list" where
  "NewErrorResponse status message =
    [\<lparr>ee_ErrorType = ''application'', ee_ErrorTag = tagFromStatus status, ee_ErrorSeverity = severityFromStatus status,
      ee_Path = '''', ee_Message = message\<rparr>]"

record NssaaFunctionEntry =
  nf_ManagedElementID :: string
  nf_ManagedElementTypeID :: string
  nf_PLMNInfoList :: "string list"
  nf_SBIFQDN :: string
  nf_CommModelList :: "string list"
  nf_SupiRanges :: "string list"
  nf_SupportedSecurityAlgo :: "string list"
  nf_EpN58 :: "(string \<times> string) list"
  nf_EpN59 :: "(string \<times> string) list"

text \<open>The body under its module key: the list of alarms, the list of functions, or one function.\<close>

datatype rc_data = RcAlarms "AlarmInfo list" | RcFunctions "NssaaFunctionEntry list" | RcFunction NssaaFunctionEntry

datatype rc_response =
    RcError int "ErrorEntry list"
  | RcPlainError int string
  | RcOk string rc_data
  | RcNoContent

definition WrapWithModule :: "rc_data \<Rightarrow> string \<Rightarrow> string \<Rightarrow> rc_response" where
  "WrapWithModule d modulePrefix container = RcOk (modulePrefix @ '':'' @ container) d"

definition NewNssaaFunctionData :: "NssaaFunctionEntry list \<Rightarrow> rc_response" where
  "NewNssaaFunctionData entries = WrapWithModule (RcFunctions entries) ''3gpp-nssaaf-nrm'' ''nssaa-function''"

definition NewAlarmData :: "AlarmInfo list \<Rightarrow> rc_response" where
  "NewAlarmData alarms = WrapWithModule (RcAlarms alarms) ''3gpp-nssaaf-nrm'' ''alarms''"

definition respondMethodNotAllowed :: rc_response where
  "respondMethodNotAllowed = RcError 405 (NewErrorResponse 405 ''Method not allowed'')"

definition lower_char :: "char \<Rightarrow> char" where
  "lower_char c = (if 65 \<le> code c \<and> code c \<le> 90 then char_of (code c + 32) else c)"

definition ToLower :: "string \<Rightarrow> string" where
  "ToLower s = map lower_char s"

definition respondNotFound :: "string \<Rightarrow> string \<Rightarrow> rc_response" where
  "respondNotFound resource i =
    RcError 404 (NewErrorResponse 404 (''Resource '' @ ToLower resource @ '' with id='' @ i @ '' does not exist''))"

section \<open>Handlers\<close>

definition nssaa_1 :: NssaaFunctionEntry where
  "nssaa_1 = \<lparr>nf_ManagedElementID = ''nssaa-1'', nf_ManagedElementTypeID = ''NSSAA_FUNCTION'',
     nf_PLMNInfoList = [''208001''], nf_SBIFQDN = ''nssAAF.operator.com'', nf_CommModelList = [''HTTP2_SBI''],
     nf_SupiRanges = [''208001*''], nf_SupportedSecurityAlgo = [''EAP-TLS'', ''EAP-TTLS''],
     nf_EpN58 = [(''n58-1'', ''10.0.1.50'')], nf_EpN59 = [(''n59-1'', ''10.0.1.50'')]\<rparr>"

definition handleGetNssaaFunction :: "string \<Rightarrow> rc_response" where
  "handleGetNssaaFunction httpMethod =
    (if httpMethod \<noteq> ''GET'' then respondMethodNotAllowed else NewNssaaFunctionData [nssaa_1])"

definition handleGetNssaaFunctionByID :: "string \<Rightarrow> string \<Rightarrow> rc_response" where
  "handleGetNssaaFunctionByID httpMethod i =
    (if httpMethod \<noteq> ''GET'' then respondMethodNotAllowed
     else if i \<noteq> ''nssaa-1'' then respondNotFound ''NSSAAFFunction'' i
     else WrapWithModule (RcFunction nssaa_1) ''3gpp-nssaaf-nrm'' ''nssaa-function'')"

definition handleGetAlarms :: "string \<Rightarrow> AlarmManager \<Rightarrow> rc_response" where
  "handleGetAlarms httpMethod m =
    (if httpMethod \<noteq> ''GET'' then respondMethodNotAllowed else NewAlarmData (ListAlarmInfos m))"

definition handleGetAlarm :: "string \<Rightarrow> string \<Rightarrow> AlarmManager \<Rightarrow> rc_response" where
  "handleGetAlarm httpMethod rawPath m =
    (if httpMethod \<noteq> ''GET'' then respondMethodNotAllowed
     else let alarmID = fst (SplitN2 (CHR ''/'') rawPath) in
       case GetAlarmInfo m alarmID of
         None \<Rightarrow> respondNotFound ''Alarm'' alarmID
       | Some alarm \<Rightarrow> NewAlarmData [alarm])"

definition handleAckAlarm :: "time \<Rightarrow> string \<Rightarrow> string \<Rightarrow> string \<Rightarrow> AlarmManager \<Rightarrow> AlarmManager \<times> rc_response" where
  "handleAckAlarm now httpMethod rawPath header m =
    (if httpMethod \<noteq> ''POST'' then (m, respondMethodNotAllowed)
     else let alarmID = fst (SplitN2 (CHR ''/'') rawPath);
              ackedBy = (if header = '''' then ''unknown'' else header)
       in case AckAlarmInfo now alarmID ackedBy m of
         (m', acked) \<Rightarrow> (m', if \<not> acked then respondNotFound ''Alarm'' alarmID else RcNoContent))"

text \<open>The POST route of the server: only \<^verbatim>\<open>alarms={id}/ack\<close> is served.\<close>

abbreviation alarmsPrefix :: string where "alarmsPrefix \<equiv> ''/restconf/data/3gpp-nssaaf-nrm:alarms=''"

definition post_data :: "time \<Rightarrow> string \<Rightarrow> string \<Rightarrow> string option \<Rightarrow> string \<Rightarrow> AlarmManager \<Rightarrow> AlarmManager \<times> int" where
  "post_data now path contentType bodyAckedBy header m =
    (let rest = drop (length alarmsPrefix) path in
     if HasPrefix path alarmsPrefix \<and> HasSuffix rest ''/ack''
     then HandleAck now ''POST'' (take (length rest - 4) rest) contentType bodyAckedBy header m
     else (m, 404))"

section \<open>The events of the Biz pods\<close>

definition AlarmEvent_of :: "string \<Rightarrow> string \<Rightarrow> AlarmEvent" where
  "AlarmEvent_of kind target = \<lparr>ev_EventType = kind, ev_Target = target, ev_SpecificProblem = ''''\<rparr>"

definition PushAuthSuccess :: AlarmEvent where "PushAuthSuccess = AlarmEvent_of ''AUTH_SUCCESS'' ''''"

definition PushAuthFailure :: AlarmEvent where "PushAuthFailure = AlarmEvent_of ''AUTH_FAILURE'' ''''"

definition PushCircuitBreakerOpen :: "string \<Rightarrow> AlarmEvent" where
  "PushCircuitBreakerOpen aaaServer = AlarmEvent_of ''CIRCUIT_BREAKER_OPEN'' aaaServer"

definition PushCircuitBreakerClosed :: "string \<Rightarrow> AlarmEvent" where
  "PushCircuitBreakerClosed aaaServer = AlarmEvent_of ''CIRCUIT_BREAKER_CLOSED'' aaaServer"

definition PushAAAUnreachable :: "string \<Rightarrow> AlarmEvent" where
  "PushAAAUnreachable aaaServer = AlarmEvent_of ''AAA_UNREACHABLE'' aaaServer"

definition PushDBUnreachable :: "string \<Rightarrow> AlarmEvent" where
  "PushDBUnreachable details = AlarmEvent_of ''DB_UNREACHABLE'' details"

definition PushRedisUnreachable :: "string \<Rightarrow> AlarmEvent" where
  "PushRedisUnreachable details = AlarmEvent_of ''REDIS_UNREACHABLE'' details"

definition PushNRFUnreachable :: "string \<Rightarrow> AlarmEvent" where
  "PushNRFUnreachable details = AlarmEvent_of ''NRF_UNREACHABLE'' details"

text \<open>An event sent by a pod, received by the server whose answer the client judges.\<close>

definition push_event :: "AlarmThresholds \<Rightarrow> string \<Rightarrow> time \<Rightarrow> AlarmEvent \<Rightarrow> AlarmManager \<Rightarrow> AlarmManager option \<times> string option" where
  "push_event th uuid now event m =
    (case handleEvents th uuid now ''POST'' ''application/json'' (Some event) (Some m) of
       (m', resp) \<Rightarrow> (m', nrm_push (PushStatus (status_code resp))))"

section \<open>Acknowledgement through the interface\<close>

lemma push_event_evaluates: "push_event th uuid now event m = (Some (Evaluate th uuid now event m), None)"
  by (simp add: push_event_def handleEvents_def nrm_push_def status_code_def)

lemma post_data_ack:
  assumes "i \<noteq> ''''"
  shows "post_data now (alarmsPrefix @ i @ ''/ack'') contentType body header m = HandleAck now ''POST'' i contentType body header m"
  by (simp add: post_data_def HasPrefix_def HasSuffix_def)

lemma ack_through_interface:
  assumes "gm_ok (as_alarms (am_store m))" "GetAlarmInfo m i = Some a" "i \<noteq> ''''" "header \<noteq> ''''"
    "post_data now (alarmsPrefix @ i @ ''/ack'') contentType body header m = (m', status)"
  shows "status = 204"
    "GetAlarmInfo m' j = (if j = i then Some (a\<lparr>ai_Acked := True, ai_AckedBy := header, ai_AckedAt := Some now\<rparr>) else GetAlarmInfo m j)"
proof -
  obtain x where x: "gm_get (as_alarms (am_store m)) i = Some x" "a = ToAlarmInfo x"
    using assms(2) by (auto simp: GetAlarmInfo_def AlarmStore_Get_def)
  have m': "m' = m\<lparr>am_store := (am_store m)\<lparr>as_alarms := gm_put i (x\<lparr>al_Acked := True, al_AckedBy := header, al_AckedAt := Some now\<rparr>)
      (as_alarms (am_store m))\<rparr>\<rparr> \<and> status = 204"
    using assms(3-5) x(1) unfolding post_data_ack [OF assms(3)]
    by (auto simp: HandleAck_def AckAlarm_def AlarmStore_UpdateAck_def)
  show "status = 204" using m' by simp
  show "GetAlarmInfo m' j = (if j = i then Some (a\<lparr>ai_Acked := True, ai_AckedBy := header, ai_AckedAt := Some now\<rparr>) else GetAlarmInfo m j)"
    using m' x(2) assms(1) by (simp add: GetAlarmInfo_def AlarmStore_Get_def gm_simps ToAlarmInfo_def)
qed

end
