(* ===== verification/Diameter.thy ===== *)
theory Diameter
  imports Radius Storage
begin

text \<open>
  Diameter (\<^verbatim>\<open>internal/diameter\<close>, \<^verbatim>\<open>internal/diameter/messages\<close>): the AVPs of an EAP request and
  answer, the typed messages, the table of pending requests that the client and the forwarder of the gateway
  keep by hop-by-hop identifier, and the client.  Messages and AVPs are the data the code reads; the functions
  of the third-party package go-diameter that build, search and serialise them are the fields of a record that
  every definition takes, and \<^verbatim>\<open>diam_library\<close> states what their documentation promises.
\<close>

section \<open>Messages\<close>

type_synonym u32 = "32 word"

datatype diam_data = UTF8String string | OctetString bytes | Unsigned32 u32 | DiameterIdentity string

record AVP =
  avp_Code :: u32
  avp_Flags :: byte
  avp_VendorID :: u32
  avp_Data :: diam_data

record diam_Message =
  hdr_CommandCode :: u32
  hdr_ApplicationID :: u32
  hdr_HopByHopID :: u32
  hdr_EndToEndID :: u32
  msg_AVP :: "AVP list"

record diam_lib =
  lib_NewAVP :: "u32 \<Rightarrow> byte \<Rightarrow> u32 \<Rightarrow> diam_data \<Rightarrow> AVP"
  lib_NewRequest :: "u32 \<Rightarrow> u32 \<Rightarrow> diam_Message"
  lib_msg_NewAVP :: "diam_Message \<Rightarrow> u32 \<Rightarrow> byte \<Rightarrow> u32 \<Rightarrow> diam_data \<Rightarrow> (string, diam_Message) result"
  lib_AddAVP :: "diam_Message \<Rightarrow> AVP \<Rightarrow> diam_Message"
  lib_FindAVPs :: "diam_Message \<Rightarrow> u32 \<Rightarrow> u32 \<Rightarrow> (string, AVP list) result"
  lib_Answer :: "diam_Message \<Rightarrow> u32 \<Rightarrow> diam_Message"
  lib_Serialize :: "diam_Message \<Rightarrow> (string, bytes) result"

locale diam_library =
  fixes L :: diam_lib
  assumes new_avp: "lib_NewAVP L c f v d = \<lparr>avp_Code = c, avp_Flags = f, avp_VendorID = v, avp_Data = d\<rparr>"
    and new_request: "msg_AVP (lib_NewRequest L cmd app) = []"
    and msg_new_avp: "lib_msg_NewAVP L m c f v d = Inr m' \<Longrightarrow> m' = m\<lparr>msg_AVP := msg_AVP m @ [lib_NewAVP L c f v d]\<rparr>"
    and add_avp: "lib_AddAVP L m a = m\<lparr>msg_AVP := msg_AVP m @ [a]\<rparr>"
    and find_avps: "lib_FindAVPs L m c v = Inr as \<Longrightarrow> as = filter (\<lambda>a. avp_Code a = c \<and> avp_VendorID a = v) (msg_AVP m)"
    and answer: "hd (msg_AVP (lib_Answer L m rc)) = lib_NewAVP L 268 0x40 0 (Unsigned32 rc)"
      "msg_AVP (lib_Answer L m rc) \<noteq> []" "hdr_CommandCode (lib_Answer L m rc) = hdr_CommandCode m"

abbreviation (input) VendorID3GPP :: u32 where "VendorID3GPP \<equiv> 10415"
abbreviation (input) AppIDAAP :: u32 where "AppIDAAP \<equiv> 5"

text \<open>The flags of the package: mandatory, vendor-specific, and both.\<close>

abbreviation (input) Mbit :: byte where "Mbit \<equiv> 0x40"
abbreviation (input) Vbit :: byte where "Vbit \<equiv> 0x80"
abbreviation (input) MVbit :: byte where "MVbit \<equiv> 0xC0"

text \<open>The codes of RFC 6733 by their name in the package.\<close>

abbreviation (input) avp_UserName :: u32 where "avp_UserName \<equiv> 1"
abbreviation (input) avp_AuthApplicationID :: u32 where "avp_AuthApplicationID \<equiv> 258"
abbreviation (input) avp_SessionID :: u32 where "avp_SessionID \<equiv> 263"
abbreviation (input) avp_OriginHost :: u32 where "avp_OriginHost \<equiv> 264"
abbreviation (input) avp_ResultCode :: u32 where "avp_ResultCode \<equiv> 268"
abbreviation (input) avp_AuthRequestType :: u32 where "avp_AuthRequestType \<equiv> 274"
abbreviation (input) avp_AuthSessionState :: u32 where "avp_AuthSessionState \<equiv> 277"
abbreviation (input) avp_OriginStateID :: u32 where "avp_OriginStateID \<equiv> 278"
abbreviation (input) avp_DestinationRealm :: u32 where "avp_DestinationRealm \<equiv> 283"
abbreviation (input) avp_ReAuthRequestType :: u32 where "avp_ReAuthRequestType \<equiv> 285"
abbreviation (input) avp_DestinationHost :: u32 where "avp_DestinationHost \<equiv> 293"
abbreviation (input) avp_TerminationCause :: u32 where "avp_TerminationCause \<equiv> 295"
abbreviation (input) avp_OriginRealm :: u32 where "avp_OriginRealm \<equiv> 296"
abbreviation (input) avp_ExperimentalResult :: u32 where "avp_ExperimentalResult \<equiv> 297"

section \<open>AVPs of the EAP application\<close>

abbreviation ErrInvalidSD :: string where "ErrInvalidSD \<equiv> ''SNSSAI SD must be exactly 6 hexadecimal characters''"

definition parseSDToBytes :: "string \<Rightarrow> (string, bytes) result" where
  "parseSDToBytes sd =
    (if length sd \<noteq> 6 then Inl ErrInvalidSD
     else case DecodeString sd of
       None \<Rightarrow> Inl ErrInvalidSD
     | Some b \<Rightarrow> if length b \<noteq> 3 then Inl ErrInvalidSD else Inr b)"

definition EncodeSnssaiAVP :: "diam_lib \<Rightarrow> byte \<Rightarrow> string \<Rightarrow> (string, AVP) result" where
  "EncodeSnssaiAVP L sst sd =
    (if sd \<noteq> '''' then
       (case parseSDToBytes sd of
          Inl err \<Rightarrow> Inl (''diameter: invalid SNSSAI SD '' @ [CHR 0x22] @ sd @ [CHR 0x22] @ '': '' @ err)
        | Inr sdBytes \<Rightarrow> Inr (lib_NewAVP L 200 MVbit VendorID3GPP (OctetString (sst # sdBytes))))
     else Inr (lib_NewAVP L 200 MVbit VendorID3GPP (OctetString [sst])))"

definition EncodeEapPayloadAVP :: "diam_lib \<Rightarrow> bytes \<Rightarrow> AVP" where
  "EncodeEapPayloadAVP L eapPayload = lib_NewAVP L 209 0 0 (OctetString eapPayload)"

definition EncodeUserNameAVP :: "diam_lib \<Rightarrow> string \<Rightarrow> AVP" where
  "EncodeUserNameAVP L userName = lib_NewAVP L avp_UserName Mbit 0 (UTF8String userName)"

definition EncodeSessionIDAVP :: "diam_lib \<Rightarrow> string \<Rightarrow> AVP" where
  "EncodeSessionIDAVP L sessionID = lib_NewAVP L avp_SessionID Mbit 0 (UTF8String sessionID)"

text \<open>The first EAP-Payload decides; another data type is an error, no payload is \<^verbatim>\<open>nil\<close>.\<close>

definition DecodeEapPayloadAVP :: "diam_Message \<Rightarrow> (string, bytes option) result" where
  "DecodeEapPayloadAVP m =
    (case List.find (\<lambda>a. avp_Code a = 209 \<and> avp_VendorID a = 0) (msg_AVP m) of
       None \<Rightarrow> Inr None
     | Some a \<Rightarrow>
         (case avp_Data a of
            OctetString os \<Rightarrow> Inr (Some os)
          | _ \<Rightarrow> Inl ''diameter: EAP-Payload AVP has unexpected type''))"

definition encodeHex :: "bytes \<Rightarrow> string" where
  "encodeHex b = concat (map (\<lambda>v. [''0123456789ABCDEF'' ! unat (drop_bit 4 v), ''0123456789ABCDEF'' ! unat (and v 0x0F)]) b)"

definition DecodeSnssaiAVP :: "diam_lib \<Rightarrow> diam_Message \<Rightarrow> (string, byte \<times> string) result" where
  "DecodeSnssaiAVP L m =
    (case lib_FindAVPs L m 200 VendorID3GPP of
       Inl err \<Rightarrow> Inl (''diameter: FindAVPs failed: '' @ err)
     | Inr [] \<Rightarrow> Inr (0, '''')
     | Inr (a # _) \<Rightarrow>
         (case avp_Data a of
            OctetString os \<Rightarrow>
              if length os < 1 then Inl ''diameter: 3GPP-S-NSSAI AVP too short: need at least 1 byte for SST''
              else Inr (os ! 0, if length os \<ge> 4 then encodeHex (subslice 1 4 os) else '''')
          | _ \<Rightarrow> Inl ''diameter: 3GPP-S-NSSAI AVP has unexpected type''))"

text \<open>The value of the first AVP of a code, if it is found and has the expected type.\<close>

definition first_avp :: "diam_lib \<Rightarrow> diam_Message \<Rightarrow> u32 \<Rightarrow> diam_data option" where
  "first_avp L m c = (case lib_FindAVPs L m c 0 of Inl _ \<Rightarrow> None | Inr [] \<Rightarrow> None | Inr (a # _) \<Rightarrow> Some (avp_Data a))"

definition DecodeResultCodeAVP :: "diam_lib \<Rightarrow> diam_Message \<Rightarrow> u32" where
  "DecodeResultCodeAVP L m = (case first_avp L m 268 of Some (Unsigned32 rc) \<Rightarrow> rc | _ \<Rightarrow> 0)"

definition DecodeAuthApplicationID :: "diam_lib \<Rightarrow> diam_Message \<Rightarrow> u32" where
  "DecodeAuthApplicationID L m = (case first_avp L m 258 of Some (Unsigned32 i) \<Rightarrow> i | _ \<Rightarrow> 0)"

text \<open>A sequence of \<^verbatim>\<open>NewAVP\<close> calls on a message; the first error ends it.\<close>

fun add_avps :: "diam_lib \<Rightarrow> (u32 \<times> byte \<times> u32 \<times> diam_data) list \<Rightarrow> diam_Message \<Rightarrow> (string, diam_Message) result" where
  "add_avps L [] m = Inr m"
| "add_avps L ((c, f, v, d) # rest) m = rbind (lib_msg_NewAVP L m c f v d) (add_avps L rest)"

section \<open>Typed messages\<close>

record SNSSAI =
  sn_SST :: byte
  sn_SD :: bytes
  sn_HasSD :: bool

definition NewSNSSAI :: "byte \<Rightarrow> string \<Rightarrow> (string, SNSSAI) result" where
  "NewSNSSAI sst sd =
    (if sd \<noteq> '''' then
       if length sd \<noteq> 6 then Inl ErrInvalidSD
       else (case DecodeString sd of
          None \<Rightarrow> Inl ErrInvalidSD
        | Some b \<Rightarrow> if length b \<noteq> 3 then Inl ErrInvalidSD else Inr \<lparr>sn_SST = sst, sn_SD = b, sn_HasSD = True\<rparr>)
     else Inr \<lparr>sn_SST = sst, sn_SD = [0, 0, 0], sn_HasSD = False\<rparr>)"

definition SNSSAI_MarshalBinary :: "SNSSAI \<Rightarrow> bytes" where
  "SNSSAI_MarshalBinary s = sn_SST s # (if sn_HasSD s then sn_SD s else [])"

text \<open>Decoding into the receiver \<^verbatim>\<open>s\<close>, whose SD is kept when the data has none.\<close>

definition SNSSAI_UnmarshalBinary :: "SNSSAI \<Rightarrow> bytes \<Rightarrow> (string, SNSSAI) result" where
  "SNSSAI_UnmarshalBinary s data =
    (if length data < 1 then Inl ''SNSSAI: need at least 1 byte for SST''
     else let s = s\<lparr>sn_SST := data ! 0\<rparr> in
       Inr (if length data \<ge> 4 then s\<lparr>sn_HasSD := True, sn_SD := subslice 1 4 data\<rparr> else s))"

definition SDString :: "SNSSAI \<Rightarrow> string" where
  "SDString s = (if \<not> sn_HasSD s then '''' else EncodeToString (sn_SD s))"

definition SNSSAI_String :: "SNSSAI \<Rightarrow> string" where
  "SNSSAI_String s = (if sn_HasSD s then show_nat (unat (sn_SST s)) @ ''-'' @ SDString s else show_nat (unat (sn_SST s)))"

record DER =
  der_SessionID :: string
  der_OriginHost :: string
  der_OriginRealm :: string
  der_DestinationHost :: string
  der_DestinationRealm :: string
  der_AuthApplicationID :: u32
  der_AuthRequestType :: u32
  der_AuthSessionState :: u32
  der_OriginStateID :: "64 word"
  der_UserName :: string
  der_CallingStationID :: string
  der_ExternalIdentifier :: string
  der_EAPPayload :: bytes
  der_SNSSAI :: "SNSSAI option"

definition NewDER :: "string \<Rightarrow> string \<Rightarrow> string \<Rightarrow> DER" where
  "NewDER originHost originRealm destRealm =
    \<lparr>der_SessionID = '''', der_OriginHost = originHost, der_OriginRealm = originRealm, der_DestinationHost = '''',
     der_DestinationRealm = destRealm, der_AuthApplicationID = 5, der_AuthRequestType = 2, der_AuthSessionState = 1,
     der_OriginStateID = 0, der_UserName = '''', der_CallingStationID = '''', der_ExternalIdentifier = '''',
     der_EAPPayload = [], der_SNSSAI = None\<rparr>"

definition AddSNSSAI :: "byte \<Rightarrow> string \<Rightarrow> DER \<Rightarrow> (string, DER) result" where
  "AddSNSSAI sst sd d = rbind (NewSNSSAI sst sd) (\<lambda>s. Inr (d\<lparr>der_SNSSAI := Some s\<rparr>))"

definition AddEAPPayload :: "bytes \<Rightarrow> DER \<Rightarrow> DER" where
  "AddEAPPayload payload d = d\<lparr>der_EAPPayload := payload\<rparr>"

definition DER_Encode :: "diam_lib \<Rightarrow> DER \<Rightarrow> (string, diam_Message) result" where
  "DER_Encode L d =
    add_avps L
      ([(avp_SessionID, Mbit, 0, UTF8String (der_SessionID d)),
        (avp_AuthApplicationID, Mbit, 0, Unsigned32 (der_AuthApplicationID d)),
        (avp_AuthRequestType, Mbit, 0, Unsigned32 (der_AuthRequestType d)),
        (avp_AuthSessionState, Mbit, 0, Unsigned32 (der_AuthSessionState d)),
        (avp_OriginHost, Mbit, 0, DiameterIdentity (der_OriginHost d)),
        (avp_OriginRealm, Mbit, 0, DiameterIdentity (der_OriginRealm d)),
        (avp_OriginStateID, Mbit, 0, Unsigned32 (ucast (der_OriginStateID d)))]
       @ (if der_DestinationHost d \<noteq> '''' then [(avp_DestinationHost, Mbit, 0, DiameterIdentity (der_DestinationHost d))] else [])
       @ [(avp_DestinationRealm, Mbit, 0, DiameterIdentity (der_DestinationRealm d))]
       @ (if der_UserName d \<noteq> '''' then [(avp_UserName, Mbit, 0, UTF8String (der_UserName d))] else [])
       @ (if der_CallingStationID d \<noteq> '''' then [(31, Mbit, 0, UTF8String (der_CallingStationID d))] else [])
       @ (if der_ExternalIdentifier d \<noteq> '''' then [(606, Mbit, 10415, UTF8String (der_ExternalIdentifier d))] else [])
       @ (if length (der_EAPPayload d) > 0 then [(209, Mbit, 0, OctetString (der_EAPPayload d))] else [])
       @ (case der_SNSSAI d of None \<Rightarrow> [] | Some s \<Rightarrow> [(200, Mbit, 10415, OctetString (SNSSAI_MarshalBinary s))]))
      (lib_NewRequest L 268 (der_AuthApplicationID d))"

text \<open>What a typed decoder reads: a field stays at its zero value when its AVP is missing or of another type.\<close>

definition get_utf8 :: "diam_lib \<Rightarrow> diam_Message \<Rightarrow> u32 \<Rightarrow> string \<Rightarrow> string" where
  "get_utf8 L m c s0 = (case first_avp L m c of Some (UTF8String s) \<Rightarrow> s | _ \<Rightarrow> s0)"

definition get_u32 :: "diam_lib \<Rightarrow> diam_Message \<Rightarrow> u32 \<Rightarrow> u32 \<Rightarrow> u32" where
  "get_u32 L m c u0 = (case first_avp L m c of Some (Unsigned32 u) \<Rightarrow> u | _ \<Rightarrow> u0)"

definition get_identity :: "diam_lib \<Rightarrow> diam_Message \<Rightarrow> u32 \<Rightarrow> string \<Rightarrow> string" where
  "get_identity L m c s0 = (case first_avp L m c of Some (DiameterIdentity s) \<Rightarrow> s | _ \<Rightarrow> s0)"

definition get_octets :: "diam_lib \<Rightarrow> diam_Message \<Rightarrow> u32 \<Rightarrow> bytes \<Rightarrow> bytes" where
  "get_octets L m c b0 = (case first_avp L m c of Some (OctetString b) \<Rightarrow> b | _ \<Rightarrow> b0)"

record DEA =
  dea_SessionID :: string
  dea_AuthApplicationID :: u32
  dea_AuthRequestType :: u32
  dea_ResultCode :: u32
  dea_AuthSessionState :: u32
  dea_OriginHost :: string
  dea_OriginRealm :: string
  dea_UserName :: string
  dea_EAPPayload :: bytes

definition NewDEA :: DEA where
  "NewDEA = \<lparr>dea_SessionID = '''', dea_AuthApplicationID = 0, dea_AuthRequestType = 0, dea_ResultCode = 0,
     dea_AuthSessionState = 0, dea_OriginHost = '''', dea_OriginRealm = '''', dea_UserName = '''', dea_EAPPayload = []\<rparr>"

definition DEA_Decode :: "diam_lib \<Rightarrow> diam_Message \<Rightarrow> DEA \<Rightarrow> DEA" where
  "DEA_Decode L m d =
    \<lparr>dea_SessionID = get_utf8 L m avp_SessionID (dea_SessionID d),
     dea_AuthApplicationID = get_u32 L m avp_AuthApplicationID (dea_AuthApplicationID d),
     dea_AuthRequestType = get_u32 L m avp_AuthRequestType (dea_AuthRequestType d),
     dea_ResultCode = get_u32 L m avp_ResultCode (dea_ResultCode d),
     dea_AuthSessionState = get_u32 L m avp_AuthSessionState (dea_AuthSessionState d),
     dea_OriginHost = get_identity L m avp_OriginHost (dea_OriginHost d),
     dea_OriginRealm = get_identity L m avp_OriginRealm (dea_OriginRealm d),
     dea_UserName = get_utf8 L m avp_UserName (dea_UserName d),
     dea_EAPPayload = get_octets L m 209 (dea_EAPPayload d)\<rparr>"

definition DEA_IsSuccess :: "DEA \<Rightarrow> bool" where
  "DEA_IsSuccess d = (dea_ResultCode d = 2001 \<or> dea_ResultCode d = 2002)"

record ASR =
  asr_SessionID :: string
  asr_OriginHost :: string
  asr_OriginRealm :: string
  asr_DestinationHost :: string
  asr_DestinationRealm :: string
  asr_AuthApplicationID :: u32
  asr_UserName :: string

definition NewASR :: "string \<Rightarrow> string \<Rightarrow> string \<Rightarrow> ASR" where
  "NewASR originHost originRealm destRealm =
    \<lparr>asr_SessionID = '''', asr_OriginHost = originHost, asr_OriginRealm = originRealm, asr_DestinationHost = '''',
     asr_DestinationRealm = destRealm, asr_AuthApplicationID = 5, asr_UserName = ''''\<rparr>"

definition ASR_Encode :: "diam_lib \<Rightarrow> ASR \<Rightarrow> (string, diam_Message) result" where
  "ASR_Encode L a =
    add_avps L
      ([(avp_SessionID, Mbit, 0, UTF8String (asr_SessionID a)),
        (avp_OriginHost, Mbit, 0, DiameterIdentity (asr_OriginHost a)),
        (avp_OriginRealm, Mbit, 0, DiameterIdentity (asr_OriginRealm a)),
        (avp_DestinationRealm, Mbit, 0, DiameterIdentity (asr_DestinationRealm a))]
       @ (if asr_DestinationHost a \<noteq> '''' then [(avp_DestinationHost, Mbit, 0, DiameterIdentity (asr_DestinationHost a))] else [])
       @ (if asr_AuthApplicationID a \<noteq> 0 then [(avp_AuthApplicationID, Mbit, 0, Unsigned32 (asr_AuthApplicationID a))] else [])
       @ (if asr_UserName a \<noteq> '''' then [(avp_UserName, Mbit, 0, UTF8String (asr_UserName a))] else []))
      (lib_NewRequest L 274 0)"

text \<open>The three answers are decoded into the same four fields.\<close>

record diam_Answer =
  ans_SessionID :: string
  ans_ResultCode :: u32
  ans_OriginHost :: string
  ans_OriginRealm :: string

definition ASA_Decode :: "diam_lib \<Rightarrow> diam_Message \<Rightarrow> diam_Answer \<Rightarrow> diam_Answer" where
  "ASA_Decode L m a =
    \<lparr>ans_SessionID = get_utf8 L m avp_SessionID (ans_SessionID a), ans_ResultCode = get_u32 L m avp_ResultCode (ans_ResultCode a),
     ans_OriginHost = get_identity L m avp_OriginHost (ans_OriginHost a),
     ans_OriginRealm = get_identity L m avp_OriginRealm (ans_OriginRealm a)\<rparr>"

definition ASA_IsSuccess :: "diam_Answer \<Rightarrow> bool" where
  "ASA_IsSuccess a = (ans_ResultCode a = 2001)"

record RAR =
  rar_SessionID :: string
  rar_OriginHost :: string
  rar_OriginRealm :: string
  rar_DestinationHost :: string
  rar_DestinationRealm :: string
  rar_ReAuthRequestType :: u32
  rar_UserName :: string

definition NewRAR :: "string \<Rightarrow> string \<Rightarrow> string \<Rightarrow> RAR" where
  "NewRAR originHost originRealm destRealm =
    \<lparr>rar_SessionID = '''', rar_OriginHost = originHost, rar_OriginRealm = originRealm, rar_DestinationHost = '''',
     rar_DestinationRealm = destRealm, rar_ReAuthRequestType = 1, rar_UserName = ''''\<rparr>"

definition RAR_Encode :: "diam_lib \<Rightarrow> RAR \<Rightarrow> (string, diam_Message) result" where
  "RAR_Encode L r =
    add_avps L
      ([(avp_SessionID, Mbit, 0, UTF8String (rar_SessionID r)),
        (avp_OriginHost, Mbit, 0, DiameterIdentity (rar_OriginHost r)),
        (avp_OriginRealm, Mbit, 0, DiameterIdentity (rar_OriginRealm r)),
        (avp_DestinationRealm, Mbit, 0, DiameterIdentity (rar_DestinationRealm r))]
       @ (if rar_DestinationHost r \<noteq> '''' then [(avp_DestinationHost, Mbit, 0, DiameterIdentity (rar_DestinationHost r))] else [])
       @ [(avp_ReAuthRequestType, Mbit, 0, Unsigned32 (rar_ReAuthRequestType r))]
       @ (if rar_UserName r \<noteq> '''' then [(avp_UserName, Mbit, 0, UTF8String (rar_UserName r))] else []))
      (lib_NewRequest L 258 0)"

definition RAA_Decode :: "diam_lib \<Rightarrow> diam_Message \<Rightarrow> diam_Answer \<Rightarrow> diam_Answer" where
  "RAA_Decode L m r =
    \<lparr>ans_SessionID = get_utf8 L m avp_SessionID (ans_SessionID r), ans_ResultCode = get_u32 L m avp_ResultCode (ans_ResultCode r),
     ans_OriginHost = get_identity L m avp_OriginHost (ans_OriginHost r),
     ans_OriginRealm = get_identity L m avp_OriginRealm (ans_OriginRealm r)\<rparr>"

definition RAA_IsSuccess :: "diam_Answer \<Rightarrow> bool" where
  "RAA_IsSuccess r = (ans_ResultCode r = 2001)"

record SessionTerminationRequest =
  str_SessionID :: string
  str_OriginHost :: string
  str_OriginRealm :: string
  str_DestinationHost :: string
  str_DestinationRealm :: string
  str_AuthApplicationID :: u32
  str_TerminationCause :: u32
  str_UserName :: string

definition NewSTR :: "string \<Rightarrow> string \<Rightarrow> string \<Rightarrow> SessionTerminationRequest" where
  "NewSTR originHost originRealm destRealm =
    \<lparr>str_SessionID = '''', str_OriginHost = originHost, str_OriginRealm = originRealm, str_DestinationHost = '''',
     str_DestinationRealm = destRealm, str_AuthApplicationID = 5, str_TerminationCause = 0, str_UserName = ''''\<rparr>"

definition STR_Encode :: "diam_lib \<Rightarrow> SessionTerminationRequest \<Rightarrow> (string, diam_Message) result" where
  "STR_Encode L s =
    add_avps L
      ([(avp_SessionID, Mbit, 0, UTF8String (str_SessionID s)),
        (avp_OriginHost, Mbit, 0, DiameterIdentity (str_OriginHost s)),
        (avp_OriginRealm, Mbit, 0, DiameterIdentity (str_OriginRealm s)),
        (avp_AuthApplicationID, Mbit, 0, Unsigned32 (str_AuthApplicationID s)),
        (avp_TerminationCause, Mbit, 0, Unsigned32 (str_TerminationCause s))]
       @ (if str_DestinationHost s \<noteq> '''' then [(avp_DestinationHost, Mbit, 0, DiameterIdentity (str_DestinationHost s))] else [])
       @ (if str_DestinationRealm s \<noteq> '''' then [(avp_DestinationRealm, Mbit, 0, DiameterIdentity (str_DestinationRealm s))] else [])
       @ (if str_UserName s \<noteq> '''' then [(avp_UserName, Mbit, 0, UTF8String (str_UserName s))] else []))
      (lib_NewRequest L 275 0)"

definition STA_Decode :: "diam_lib \<Rightarrow> diam_Message \<Rightarrow> diam_Answer \<Rightarrow> diam_Answer" where
  "STA_Decode L m s =
    \<lparr>ans_SessionID = get_utf8 L m avp_SessionID (ans_SessionID s), ans_ResultCode = get_u32 L m avp_ResultCode (ans_ResultCode s),
     ans_OriginHost = get_identity L m avp_OriginHost (ans_OriginHost s),
     ans_OriginRealm = get_identity L m avp_OriginRealm (ans_OriginRealm s)\<rparr>"

definition STA_IsSuccess :: "diam_Answer \<Rightarrow> bool" where
  "STA_IsSuccess s = (ans_ResultCode s = 2001)"

section \<open>Pending requests\<close>

text \<open>The table of pending requests and the channels it names.  A channel has room for one message, and
  \<^verbatim>\<open>Some None\<close> is the \<^verbatim>\<open>nil\<close> that signals a lost connection.  A request is known by its identifier and its
  channel, which only the goroutine that sent it holds.\<close>

record pending_table =
  pt_pending :: "(u32, nat) gomap"
  pt_cells :: "nat \<Rightarrow> diam_Message option option"
  pt_next :: nat
  pt_seq :: "64 word"

type_synonym request = "u32 \<times> nat"

definition no_pending :: pending_table where
  "no_pending = \<lparr>pt_pending = [], pt_cells = (\<lambda>_. None), pt_next = 0, pt_seq = 0\<rparr>"

definition nextHopByHopID :: "pending_table \<Rightarrow> pending_table \<times> u32" where
  "nextHopByHopID t = (let n = pt_seq t + 1 in (t\<lparr>pt_seq := n\<rparr>, ucast n))"

definition addPending :: "u32 \<Rightarrow> nat \<Rightarrow> pending_table \<Rightarrow> pending_table" where
  "addPending hopByHop ch t = t\<lparr>pt_pending := gm_put hopByHop ch (pt_pending t)\<rparr>"

definition removePending :: "u32 \<Rightarrow> pending_table \<Rightarrow> pending_table" where
  "removePending hopByHop t = t\<lparr>pt_pending := gm_del hopByHop (pt_pending t)\<rparr>"

text \<open>The start of a request: a channel, an identifier, and their entry.\<close>

definition open_request :: "pending_table \<Rightarrow> pending_table \<times> request" where
  "open_request t =
    (let ch = pt_next t; (t, hopByHop) = nextHopByHopID (t\<lparr>pt_next := Suc ch\<rparr>) in
     (addPending hopByHop ch t, (hopByHop, ch)))"

text \<open>The handler of an answer.  The flag says that the send blocks: the channel still holds a message.\<close>

definition dispatch_answer :: "diam_Message \<Rightarrow> pending_table \<Rightarrow> pending_table \<times> bool" where
  "dispatch_answer m t =
    (case gm_get (pt_pending t) (hdr_HopByHopID m) of
       None \<Rightarrow> (t, False)
     | Some ch \<Rightarrow>
         (case pt_cells t ch of
            None \<Rightarrow> (t\<lparr>pt_cells := (pt_cells t)(ch := Some (Some m))\<rparr>, False)
          | Some _ \<Rightarrow> (t, True)))"

definition offer_nil :: "nat \<Rightarrow> pending_table \<Rightarrow> pending_table" where
  "offer_nil ch t = (case pt_cells t ch of None \<Rightarrow> t\<lparr>pt_cells := (pt_cells t)(ch := Some None)\<rparr> | Some _ \<Rightarrow> t)"

definition clearPending :: "pending_table \<Rightarrow> pending_table" where
  "clearPending t = (fold (\<lambda>(i, ch). offer_nil ch) (pt_pending t) t)\<lparr>pt_pending := []\<rparr>"

text \<open>The two branches of the final \<^verbatim>\<open>select\<close>: what the channel holds, and the end of the context.  Both end
  with the deferred removal.\<close>

definition take_answer :: "request \<Rightarrow> pending_table \<Rightarrow> (pending_table \<times> diam_Message option) option" where
  "take_answer q t =
    (case pt_cells t (snd q) of
       None \<Rightarrow> None
     | Some x \<Rightarrow> Some (removePending (fst q) (t\<lparr>pt_cells := (pt_cells t)(snd q := None)\<rparr>), x))"

definition abandon :: "request \<Rightarrow> pending_table \<Rightarrow> pending_table" where
  "abandon q t = removePending (fst q) t"

section \<open>The client\<close>

record diam_Config =
  dc_OriginHost :: string
  dc_OriginRealm :: string
  dc_DestinationHost :: string
  dc_DestinationRealm :: string
  dc_ServerAddress :: string
  dc_Network :: string
  dc_UseTLS :: bool

record diam_Client =
  cl_cfg :: diam_Config
  cl_conn :: "nat option"
  cl_table :: pending_table

definition NewClient :: "diam_Config \<Rightarrow> diam_Client" where
  "NewClient cfg = \<lparr>cl_cfg = cfg, cl_conn = None, cl_table = no_pending\<rparr>"

text \<open>\<^verbatim>\<open>dial\<close> is the outcome of the connection with its handshake: an error or the new connection.\<close>

definition Client_Connect :: "(bool \<Rightarrow> string \<Rightarrow> string \<Rightarrow> (string, nat) result) \<Rightarrow> diam_Client \<Rightarrow> (string, diam_Client) result" where
  "Client_Connect dial c =
    (let network = (if dc_Network (cl_cfg c) = '''' then ''tcp'' else dc_Network (cl_cfg c)) in
     case dial (dc_UseTLS (cl_cfg c)) network (dc_ServerAddress (cl_cfg c)) of
       Inl err \<Rightarrow> Inl (''diameter: failed to connect to '' @ dc_ServerAddress (cl_cfg c) @ '': '' @ err)
     | Inr conn \<Rightarrow> Inr (c\<lparr>cl_conn := Some conn\<rparr>))"

definition Client_Close :: "diam_Client \<Rightarrow> diam_Client" where
  "Client_Close c = c\<lparr>cl_conn := None\<rparr>"

definition Client_getConn :: "(bool \<Rightarrow> string \<Rightarrow> string \<Rightarrow> (string, nat) result) \<Rightarrow> diam_Client \<Rightarrow> (string, diam_Client) result" where
  "Client_getConn dial c = (if cl_conn c \<noteq> None then Inr c else Client_Connect dial c)"

definition Client_buildDERMessage ::
  "diam_lib \<Rightarrow> diam_Config \<Rightarrow> u32 \<Rightarrow> string \<Rightarrow> string \<Rightarrow> bytes \<Rightarrow> byte \<Rightarrow> string \<Rightarrow> (string, diam_Message) result" where
  "Client_buildDERMessage L cfg hopByHop sessionID userName eapPayload sst sd =
    rbind (add_avps L
        [(avp_SessionID, Mbit, 0, UTF8String sessionID),
         (avp_AuthApplicationID, Mbit, 0, Unsigned32 AppIDAAP),
         (avp_AuthRequestType, Mbit, 0, Unsigned32 1),
         (avp_AuthSessionState, Mbit, 0, Unsigned32 1),
         (avp_OriginHost, Mbit, 0, DiameterIdentity (dc_OriginHost cfg)),
         (avp_OriginRealm, Mbit, 0, DiameterIdentity (dc_OriginRealm cfg)),
         (avp_OriginStateID, Mbit, 0, Unsigned32 1),
         (avp_DestinationHost, Mbit, 0, DiameterIdentity (dc_DestinationHost cfg)),
         (avp_DestinationRealm, Mbit, 0, DiameterIdentity (dc_DestinationRealm cfg)),
         (avp_UserName, Mbit, 0, UTF8String userName),
         (209, 0, 0, OctetString eapPayload)]
        ((lib_NewRequest L 268 AppIDAAP)\<lparr>hdr_HopByHopID := hopByHop\<rparr>))
      (\<lambda>m. case EncodeSnssaiAVP L sst sd of
             Inl err \<Rightarrow> Inl (''diameter: failed to encode SNSSAI AVP: '' @ err)
           | Inr a \<Rightarrow> Inr (lib_AddAVP L m a))"

text \<open>\<^verbatim>\<open>SendDER\<close> up to its \<^verbatim>\<open>select\<close>: \<^verbatim>\<open>write\<close> is the outcome of writing the message, which is returned as
  the message on the wire with the request that waits for its answer.\<close>

definition SendDER ::
  "diam_lib \<Rightarrow> (bool \<Rightarrow> string \<Rightarrow> string \<Rightarrow> (string, nat) result) \<Rightarrow> (diam_Message \<Rightarrow> string option) \<Rightarrow>
   string \<Rightarrow> string \<Rightarrow> bytes \<Rightarrow> byte \<Rightarrow> string \<Rightarrow> diam_Client \<Rightarrow> diam_Client \<times> (string, request \<times> diam_Message) result" where
  "SendDER L dial write sessionID userName eapPayload sst sd c =
    (case Client_getConn dial c of
       Inl err \<Rightarrow> (c, Inl err)
     | Inr c \<Rightarrow>
         let (t, q) = open_request (cl_table c) in
         (case Client_buildDERMessage L (cl_cfg c) (fst q) sessionID userName eapPayload sst sd of
            Inl err \<Rightarrow> (c\<lparr>cl_table := removePending (fst q) t\<rparr>, Inl err)
          | Inr m \<Rightarrow>
              (case write m of
                 Some err \<Rightarrow> (c\<lparr>cl_table := removePending (fst q) t\<rparr>, Inl (''diameter: failed to send DER: '' @ err))
               | None \<Rightarrow> (c\<lparr>cl_table := t\<rparr>, Inr (q, m)))))"

definition SendDER_receive :: "diam_lib \<Rightarrow> request \<Rightarrow> diam_Client \<Rightarrow> (diam_Client \<times> (string, bytes) result) option" where
  "SendDER_receive L q c =
    (case take_answer q (cl_table c) of
       None \<Rightarrow> None
     | Some (_, None) \<Rightarrow> None
     | Some (t, Some resp) \<Rightarrow>
         Some (c\<lparr>cl_table := t\<rparr>,
               case lib_Serialize L resp of Inl err \<Rightarrow> Inl (''diameter: failed to serialize DEA: '' @ err) | Inr data \<Rightarrow> Inr data))"

definition Client_handleDEA :: "diam_Message \<Rightarrow> diam_Client \<Rightarrow> diam_Client \<times> bool" where
  "Client_handleDEA m c = (case dispatch_answer m (cl_table c) of (t, blocked) \<Rightarrow> (c\<lparr>cl_table := t\<rparr>, blocked))"

definition diameter_decodeSnssaiKey :: "string \<Rightarrow> byte \<times> string" where
  "diameter_decodeSnssaiKey key =
    (if key = '''' then (0, '''')
     else
       let parts = SplitN2 CHR ''-'' key in
       case ParseUint (fst parts) 8 of
         None \<Rightarrow> (0, '''')
       | Some sstVal \<Rightarrow> (of_nat sstVal, case snd parts of None \<Rightarrow> '''' | Some sd \<Rightarrow> sd))"

definition Diameter_RoutingContext :: "Session \<Rightarrow> RoutingContext" where
  "Diameter_RoutingContext session =
    (let (sst, sd) = diameter_decodeSnssaiKey (es_SnssaiKey session) in
     \<lparr>rc_GPSI = es_Gpsi session, rc_Sst = sst, rc_Sd = sd, rc_AuthCtxID = es_AuthCtxID session\<rparr>)"

section \<open>What a request carries\<close>

fun avp_of :: "u32 \<times> byte \<times> u32 \<times> diam_data \<Rightarrow> AVP" where
  "avp_of (c, f, v, d) = \<lparr>avp_Code = c, avp_Flags = f, avp_VendorID = v, avp_Data = d\<rparr>"

lemma add_avps_spec:
  assumes "diam_library L" "add_avps L xs m = Inr m'"
  shows "m' = m\<lparr>msg_AVP := msg_AVP m @ map avp_of xs\<rparr>"
  using assms(2)
proof (induction xs arbitrary: m)
  case (Cons x xs)
  obtain c f v d where x: "x = (c, f, v, d)" by (cases x)
  obtain m1 where m1: "lib_msg_NewAVP L m c f v d = Inr m1" "add_avps L xs m1 = Inr m'"
    using Cons.prems unfolding x by (cases "lib_msg_NewAVP L m c f v d") simp_all
  show ?case using Cons.IH [OF m1(2)] diam_library.msg_new_avp [OF assms(1) m1(1)]
    by (simp add: x diam_library.new_avp [OF assms(1)])
qed simp

lemma encodeHex_upper: "encodeHex bs = ToUpper (EncodeToString bs)"
proof -
  have d: "''0123456789ABCDEF'' ! n = upper_char (hex_digit n)" if "n < 16" for n
  proof -
    have "''0123456789ABCDEF'' = map (\<lambda>n. upper_char (hex_digit n)) [0..<16]"
      by (simp add: upt_rec upper_char_def hex_digit_def char_of_def bit_Suc_0_iff)
    then show ?thesis using that by simp
  qed
  have m: "(0x0F :: byte) = mask 4" by (simp add: mask_eq_exp_minus_1)
  have n: "unat (drop_bit 4 v) = unat v div 16" "unat (and v 0x0F) = unat v mod 16" for v :: byte
    by (simp_all add: unat_drop_bit_eq drop_bit_eq_div m take_bit_eq_mask [symmetric] unsigned_take_bit_eq take_bit_eq_mod
        unat_div unat_mod)
  show ?thesis unfolding encodeHex_def EncodeToString_def ToUpper_def n
    by (induction bs) (simp_all add: d)
qed

lemma parseSD_upper:
  assumes "parseSDToBytes sd = Inr b"
  shows "encodeHex b = ToUpper sd" "length b = 3"
proof -
  have "DecodeString sd = Some b" "length b = 3"
    using assms by (auto simp: parseSDToBytes_def split: if_splits option.splits)
  then show "encodeHex b = ToUpper sd" "length b = 3" by (simp_all add: encodeHex_upper ToUpper_EncodeToString)
qed

section \<open>Dispatch of answers\<close>

text \<open>Every entry names a channel that was made, a channel is named once, and unmade channels are empty.\<close>

definition table_inv :: "pending_table \<Rightarrow> bool" where
  "table_inv t =
    (gm_ok (pt_pending t)
     \<and> (\<forall>i ch. gm_get (pt_pending t) i = Some ch \<longrightarrow> ch < pt_next t)
     \<and> (\<forall>i j ch. gm_get (pt_pending t) i = Some ch \<longrightarrow> gm_get (pt_pending t) j = Some ch \<longrightarrow> i = j)
     \<and> (\<forall>ch \<ge> pt_next t. pt_cells t ch = None))"

lemma table_invD:
  assumes "table_inv t"
  shows "gm_ok (pt_pending t)" "gm_get (pt_pending t) i = Some ch \<Longrightarrow> ch < pt_next t"
    "gm_get (pt_pending t) i = Some ch \<Longrightarrow> gm_get (pt_pending t) j = Some ch \<Longrightarrow> i = j"
    "pt_next t \<le> ch \<Longrightarrow> pt_cells t ch = None"
  using assms unfolding table_inv_def by blast+

lemma no_pending_inv: "table_inv no_pending"
  by (simp add: table_inv_def no_pending_def)

datatype pt_op = PtOpen | PtAnswer diam_Message | PtTake request | PtAbandon request | PtClear

fun pt_exec :: "pt_op \<Rightarrow> pending_table \<Rightarrow> pending_table" where
  "pt_exec PtOpen t = fst (open_request t)"
| "pt_exec (PtAnswer m) t = fst (dispatch_answer m t)"
| "pt_exec (PtTake q) t = (case take_answer q t of None \<Rightarrow> t | Some (t', _) \<Rightarrow> t')"
| "pt_exec (PtAbandon q) t = abandon q t"
| "pt_exec PtClear t = clearPending t"

lemma open_request_eq:
  "open_request t = (t\<lparr>pt_next := Suc (pt_next t), pt_seq := pt_seq t + 1,
      pt_pending := gm_put (ucast (pt_seq t + 1)) (pt_next t) (pt_pending t)\<rparr>, (ucast (pt_seq t + 1), pt_next t))"
  by (simp add: open_request_def nextHopByHopID_def addPending_def Let_def)

lemma offer_nil_fields [simp]:
  "pt_pending (offer_nil ch t) = pt_pending t" "pt_next (offer_nil ch t) = pt_next t" "pt_seq (offer_nil ch t) = pt_seq t"
  "pt_cells (offer_nil ch t) c = (if c = ch \<and> pt_cells t c = None then Some None else pt_cells t c)"
  by (auto simp: offer_nil_def split: option.split)

lemma fold_offer_nil:
  "pt_pending (fold (\<lambda>(i, ch). offer_nil ch) xs t) = pt_pending t"
  "pt_next (fold (\<lambda>(i, ch). offer_nil ch) xs t) = pt_next t"
  "pt_seq (fold (\<lambda>(i, ch). offer_nil ch) xs t) = pt_seq t"
  by (induction xs arbitrary: t) auto

lemma fold_offer_nil_cells:
  "pt_cells (fold (\<lambda>(i, ch). offer_nil ch) xs t) c = (if c \<in> snd ` set xs \<and> pt_cells t c = None then Some None else pt_cells t c)"
proof (induction xs arbitrary: t)
  case (Cons x xs)
  show ?case using Cons.IH [of "offer_nil (snd x) t"] by (cases x) (auto split: if_splits)
qed simp

lemma clearPending_fields [simp]:
  "pt_pending (clearPending t) = []" "pt_next (clearPending t) = pt_next t" "pt_seq (clearPending t) = pt_seq t"
  "pt_cells (clearPending t) c = (if c \<in> snd ` set (pt_pending t) \<and> pt_cells t c = None then Some None else pt_cells t c)"
  by (simp_all add: clearPending_def fold_offer_nil fold_offer_nil_cells)

lemma pending_channels:
  assumes "gm_ok (pt_pending t)" "c \<in> snd ` set (pt_pending t)"
  obtains i where "gm_get (pt_pending t) i = Some c"
  using assms by (force simp: gm_get_def gm_ok_def)

lemma pt_exec_inv:
  assumes "table_inv t"
  shows "table_inv (pt_exec p t)"
proof -
  note D = table_invD [OF assms]
  have rem: "table_inv (removePending i s)" if "table_inv s" for i s
    using that by (auto simp: table_inv_def removePending_def gm_simps split: if_splits)
  show ?thesis
  proof (cases p)
    case PtOpen
    have "gm_get (pt_pending t) i \<noteq> Some (pt_next t)" for i using D(2) [of i "pt_next t"] by auto
    then show ?thesis unfolding PtOpen
      using D by (auto simp: open_request_eq table_inv_def gm_simps less_SucI split: if_splits)
  next
    case (PtAnswer m)
    show ?thesis
    proof (cases "gm_get (pt_pending t) (hdr_HopByHopID m)")
      case (Some ch)
      then have "ch < pt_next t" by (rule D(2))
      then have "pt_next t \<le> c \<Longrightarrow> c \<noteq> ch" for c by linarith
      then show ?thesis using assms(1) Some unfolding PtAnswer
        by (cases "pt_cells t ch") (simp_all add: dispatch_answer_def table_inv_def)
    qed (simp add: PtAnswer dispatch_answer_def assms(1))
  next
    case (PtTake q)
    have "table_inv (t\<lparr>pt_cells := (pt_cells t)(snd q := None)\<rparr>)" using assms(1) by (simp add: table_inv_def)
    then show ?thesis using rem assms(1) by (simp add: PtTake take_answer_def split: option.split)
  next
    case (PtAbandon q)
    then show ?thesis using rem [OF assms(1)] by (simp add: abandon_def)
  next
    case PtClear
    have "c < pt_next t" if "c \<in> snd ` set (pt_pending t)" for c
      using pending_channels [OF D(1) that] D(2) by metis
    then show ?thesis using D(4) by (fastforce simp: PtClear table_inv_def)
  qed
qed

text \<open>From an empty table the identifiers follow the channels: the request of channel \<^verbatim>\<open>ch\<close> has identifier
  \<^verbatim>\<open>ch + 1\<close>, and a channel only ever holds an answer with the identifier of its request.\<close>

definition own_id :: "nat \<Rightarrow> u32" where
  "own_id ch = of_nat (Suc ch)"

definition dispatch_inv :: "pending_table \<Rightarrow> bool" where
  "dispatch_inv t =
    (table_inv t \<and> pt_seq t = of_nat (pt_next t)
     \<and> (\<forall>i ch. gm_get (pt_pending t) i = Some ch \<longrightarrow> i = own_id ch)
     \<and> (\<forall>ch m. pt_cells t ch = Some (Some m) \<longrightarrow> hdr_HopByHopID m = own_id ch))"

lemma dispatch_invD:
  assumes "dispatch_inv t"
  shows "table_inv t" "pt_seq t = of_nat (pt_next t)" "gm_get (pt_pending t) i = Some ch \<Longrightarrow> i = own_id ch"
    "pt_cells t ch = Some (Some m) \<Longrightarrow> hdr_HopByHopID m = own_id ch"
  using assms unfolding dispatch_inv_def by blast+

lemma no_pending_dispatch: "dispatch_inv no_pending"
  by (simp add: dispatch_inv_def no_pending_inv) (simp add: no_pending_def)

lemma own_id_inj: "a < 2 ^ 32 \<Longrightarrow> b < 2 ^ 32 \<Longrightarrow> own_id a = own_id b \<Longrightarrow> a = b"
proof -
  assume a: "a < 2 ^ 32" and b: "b < 2 ^ 32" and e: "own_id a = own_id b"
  have "(of_nat a :: u32) = of_nat b" using e by (simp add: own_id_def)
  then have "unat (of_nat a :: u32) = unat (of_nat b :: u32)" by simp
  then show "a = b" using a b by (simp add: unat_of_nat take_bit_eq_mod)
qed

lemma open_request_own:
  assumes "pt_seq t = of_nat (pt_next t)"
  shows "snd (open_request t) = (own_id (pt_next t), pt_next t)"
proof -
  have "(ucast (of_nat (Suc n) :: 64 word) :: u32) = of_nat (Suc n)" for n
    by (simp only: unsigned_of_nat word_unat_eq_iff unat_of_nat) (simp add: take_bit_take_bit)
  then show ?thesis using assms by (simp add: open_request_eq own_id_def add.commute)
qed

lemma pt_exec_dispatch:
  assumes "dispatch_inv t"
  shows "dispatch_inv (pt_exec p t)"
proof -
  note D = dispatch_invD [OF assms]
  have ok: "gm_ok (pt_pending t)" by (rule table_invD(1) [OF D(1)])
  have rem: "pt_seq (removePending i s) = pt_seq s" "pt_next (removePending i s) = pt_next s" "pt_cells (removePending i s) = pt_cells s"
    "gm_ok (pt_pending s) \<Longrightarrow> gm_get (pt_pending (removePending i s)) j = (if j = i then None else gm_get (pt_pending s) j)" for i j s
    by (simp_all add: removePending_def gm_simps)
  have "pt_seq (pt_exec p t) = of_nat (pt_next (pt_exec p t))
    \<and> (\<forall>i ch. gm_get (pt_pending (pt_exec p t)) i = Some ch \<longrightarrow> i = own_id ch)
    \<and> (\<forall>ch m. pt_cells (pt_exec p t) ch = Some (Some m) \<longrightarrow> hdr_HopByHopID m = own_id ch)"
  proof (cases p)
    case PtOpen
    have q: "(ucast (pt_seq t + 1) :: u32) = own_id (pt_next t)" using open_request_own [OF D(2)] by (simp add: open_request_eq)
    show ?thesis unfolding PtOpen pt_exec.simps open_request_eq q
      using D(2,3,4) ok by (simp add: gm_simps)
  next
    case (PtAnswer m)
    show ?thesis unfolding PtAnswer using D(2,3,4) by (auto simp: dispatch_answer_def split: option.split if_splits)
  next
    case (PtTake q)
    show ?thesis unfolding PtTake using D(2,3,4) ok by (auto simp: take_answer_def rem split: option.split if_splits)
  next
    case (PtAbandon q)
    show ?thesis unfolding PtAbandon using D(2,3,4) ok by (auto simp: abandon_def rem split: if_splits)
  next
    case PtClear
    show ?thesis unfolding PtClear using D(2,4) by (auto split: if_splits)
  qed
  then show ?thesis using pt_exec_inv [OF D(1)] by (simp add: dispatch_inv_def)
qed

text \<open>A request that waits, and what leaves it waiting.\<close>

definition waiting :: "request \<Rightarrow> pending_table \<Rightarrow> bool" where
  "waiting q t = (gm_get (pt_pending t) (fst q) = Some (snd q) \<and> pt_cells t (snd q) = None)"

fun spares :: "request \<Rightarrow> pt_op \<Rightarrow> pending_table \<Rightarrow> bool" where
  "spares q PtOpen t = (Suc (pt_next t) < 2 ^ 32)"
| "spares q (PtAnswer m) t = (hdr_HopByHopID m \<noteq> fst q)"
| "spares q (PtTake r) t = (fst r \<noteq> fst q \<and> snd r \<noteq> snd q)"
| "spares q (PtAbandon r) t = (fst r \<noteq> fst q)"
| "spares q PtClear t = False"

lemma open_waiting:
  assumes "dispatch_inv t" "open_request t = (t', q)"
  shows "waiting q t'" "q = (own_id (pt_next t), pt_next t)"
proof -
  show q: "q = (own_id (pt_next t), pt_next t)" using open_request_own dispatch_invD(2) [OF assms(1)] assms(2) by (metis snd_conv)
  have "gm_ok (pt_pending t)" "pt_cells t (pt_next t) = None"
    using table_invD(1,4) [OF dispatch_invD(1) [OF assms(1)]] by blast+
  then show "waiting q t'" using assms(2) by (auto simp: waiting_def open_request_eq gm_simps)
qed

lemma waiting_step:
  assumes "dispatch_inv t" "waiting q t" "spares q p t"
  shows "waiting q (pt_exec p t)"
proof -
  note D = dispatch_invD [OF assms(1)] and T = table_invD [OF dispatch_invD(1) [OF assms(1)]]
  have w: "gm_get (pt_pending t) (fst q) = Some (snd q)" "pt_cells t (snd q) = None" using assms(2) by (simp_all add: waiting_def)
  have q: "fst q = own_id (snd q)" "snd q < pt_next t" using D(3) [OF w(1)] T(2) [OF w(1)] by blast+
  show ?thesis
  proof (cases p)
    case PtOpen
    have "own_id (snd q) \<noteq> own_id (pt_next t)"
      using own_id_inj [of "snd q" "pt_next t"] q(2) assms(3) by (auto simp: PtOpen)
    moreover have "(ucast (pt_seq t + 1) :: u32) = own_id (pt_next t)" using open_request_own [OF D(2)] by (simp add: open_request_eq)
    ultimately show ?thesis using w q T(1) by (simp add: PtOpen open_request_eq waiting_def gm_simps)
  next
    case (PtAnswer m)
    have "ch \<noteq> snd q" if "gm_get (pt_pending t) (hdr_HopByHopID m) = Some ch" for ch
      using T(3) [OF w(1), of "hdr_HopByHopID m"] that assms(3) by (auto simp: PtAnswer)
    then show ?thesis using w by (auto simp: PtAnswer dispatch_answer_def waiting_def split: option.split)
  next
    case (PtTake r)
    then show ?thesis using w T(1) assms(3)
      by (auto simp: take_answer_def waiting_def removePending_def gm_simps split: option.split)
  next
    case (PtAbandon r)
    then show ?thesis using w T(1) assms(3) by (simp add: abandon_def waiting_def removePending_def gm_simps)
  next
    case PtClear
    then show ?thesis using assms(3) by simp
  qed
qed

lemma answer_waiting:
  assumes "waiting q t" "hdr_HopByHopID m = fst q"
  shows "pt_cells (fst (dispatch_answer m t)) (snd q) = Some (Some m)" "snd (dispatch_answer m t) = False"
    "pt_next (fst (dispatch_answer m t)) = pt_next t"
  using assms by (simp_all add: waiting_def dispatch_answer_def)

lemma answer_kept:
  assumes "pt_cells t c = Some x" "\<And>r. p = PtTake r \<Longrightarrow> snd r \<noteq> c"
  shows "pt_cells (pt_exec p t) c = Some x"
proof (cases p)
  case (PtAnswer m)
  then show ?thesis using assms(1) by (auto simp: dispatch_answer_def split: option.split)
next
  case (PtTake r)
  then show ?thesis using assms by (auto simp: take_answer_def removePending_def split: option.split)
qed (use assms(1) in \<open>simp_all add: open_request_eq abandon_def removePending_def\<close>)

end
