(* ===== verification/Gateway_Diameter.thy ===== *)
theory Gateway_Diameter
  imports Diameter Gateway
begin

text \<open>
  The Diameter forwarder of the AAA gateway (\<^verbatim>\<open>internal/aaa/gateway/diameter_forward.go\<close>): the connection
  to the AAA server with its reconnection, requests of the Biz pods as DER messages whose answers are dispatched
  by hop-by-hop identifier, and the requests of the server (ASR, RAR, STR), which are registered, forwarded to a
  Biz pod and answered with its result.  A connection is a number; the outcomes of dialling and of writing are
  arguments.  A server request is split where its goroutine waits: reception, and the answer once the registry
  has a response.
\<close>

section \<open>State\<close>

record ConnectionStats =
  cs_ConnectedAt :: time
  cs_LastDWA :: time
  cs_LastDWR :: time
  cs_MessagesSent :: "64 word"
  cs_MessagesRecv :: "64 word"
  cs_HandshakeAt :: time
  cs_Errors :: "64 word"

record diamForwarderConfig =
  fc_Transport :: string
  fc_AuthRequestType :: u32
  fc_AuthApplicationID :: u32

record diamForwarder =
  df_addr :: string
  df_network :: string
  df_originHost :: string
  df_originRealm :: string
  df_destHost :: string
  df_destRealm :: string
  df_cfg :: diamForwarderConfig
  df_conn :: "nat option"
  df_connected :: bool
  df_originStateID :: "64 word"
  df_table :: pending_table
  df_connStats :: ConnectionStats

definition newDiamForwarder ::
  "string \<Rightarrow> string \<Rightarrow> string \<Rightarrow> string \<Rightarrow> string \<Rightarrow> string \<Rightarrow> diamForwarderConfig \<Rightarrow> diamForwarder" where
  "newDiamForwarder addr network originHost originRealm destHost destRealm cfg =
    \<lparr>df_addr = addr, df_network = network, df_originHost = originHost, df_originRealm = originRealm,
     df_destHost = destHost, df_destRealm = destRealm,
     df_cfg = \<lparr>fc_Transport = (if fc_Transport cfg = '''' then ''tcp'' else fc_Transport cfg),
               fc_AuthRequestType = (if fc_AuthRequestType cfg = 0 then 2 else fc_AuthRequestType cfg),
               fc_AuthApplicationID = (if fc_AuthApplicationID cfg = 0 then AppIDAAP else fc_AuthApplicationID cfg)\<rparr>,
     df_conn = None, df_connected = False, df_originStateID = 0, df_table = no_pending,
     df_connStats = \<lparr>cs_ConnectedAt = zero_time, cs_LastDWA = zero_time, cs_LastDWR = zero_time, cs_MessagesSent = 0,
       cs_MessagesRecv = 0, cs_HandshakeAt = zero_time, cs_Errors = 0\<rparr>\<rparr>"

section \<open>The connection\<close>

definition incrementOriginStateID :: "diamForwarder \<Rightarrow> diamForwarder \<times> 64 word" where
  "incrementOriginStateID df = (let n = df_originStateID df + 1 in (df\<lparr>df_originStateID := n\<rparr>, n))"

definition df_Connect :: "(string, nat) result \<Rightarrow> time \<Rightarrow> diamForwarder \<Rightarrow> (string, diamForwarder) result" where
  "df_Connect dial now df =
    (case dial of
       Inl err \<Rightarrow> Inl (''diameter_forward: failed to connect to '' @ df_addr df @ '': '' @ err)
     | Inr conn \<Rightarrow>
         Inr (fst (incrementOriginStateID
           (df\<lparr>df_conn := Some conn, df_connected := True,
               df_connStats := (df_connStats df)\<lparr>cs_ConnectedAt := now, cs_HandshakeAt := now\<rparr>\<rparr>))))"

text \<open>The notification that connection \<^verbatim>\<open>conn\<close>, which a goroutine watches, was closed by the peer.\<close>

definition watchDisconnect :: "nat \<Rightarrow> diamForwarder \<Rightarrow> diamForwarder" where
  "watchDisconnect conn df =
    (if df_conn df = Some conn
     then df\<lparr>df_conn := None, df_connected := False, df_table := clearPending (df_table df)\<rparr>
     else df)"

abbreviation maxBackoff :: duration where "maxBackoff \<equiv> 30 * Second"

text \<open>One turn of the monitor: the new back-off and the pause before the next turn.\<close>

definition monitor_turn :: "(string, nat) result \<Rightarrow> time \<Rightarrow> duration \<Rightarrow> diamForwarder \<Rightarrow> diamForwarder \<times> duration \<times> duration" where
  "monitor_turn dial now backoff df =
    (if \<not> df_connected df then
       (case dial of
          Inl err \<Rightarrow> (df, min (backoff * 2) maxBackoff, backoff)
        | Inr newConn \<Rightarrow>
            (df\<lparr>df_conn := Some newConn, df_connected := True,
                df_connStats := (df_connStats df)\<lparr>cs_ConnectedAt := now\<rparr>,
                df_table := clearPending (df_table df)\<rparr>, 1 * Second, 2 * Second))
     else (df, backoff, 2 * Second))"

definition df_Close :: "diamForwarder \<Rightarrow> diamForwarder" where
  "df_Close df = (if df_conn df \<noteq> None then df\<lparr>df_conn := None, df_connected := False\<rparr> else df)"

definition df_getConn :: "(string, nat) result \<Rightarrow> diamForwarder \<Rightarrow> (string, diamForwarder) result" where
  "df_getConn dial df =
    (if df_conn df \<noteq> None then Inr df
     else case dial of
       Inl err \<Rightarrow> Inl (''diameter_forward: reconnect failed: '' @ err)
     | Inr newConn \<Rightarrow> Inr (df\<lparr>df_conn := Some newConn, df_connected := True\<rparr>))"

definition recordDWR :: "time \<Rightarrow> diamForwarder \<Rightarrow> diamForwarder" where
  "recordDWR now df = df\<lparr>df_connStats := (df_connStats df)\<lparr>cs_LastDWR := now\<rparr>\<rparr>"

definition recordDWA :: "time \<Rightarrow> diamForwarder \<Rightarrow> diamForwarder" where
  "recordDWA now df = df\<lparr>df_connStats := (df_connStats df)\<lparr>cs_LastDWA := now\<rparr>\<rparr>"

definition incrementMessagesSent :: "diamForwarder \<Rightarrow> diamForwarder" where
  "incrementMessagesSent df = df\<lparr>df_connStats := (df_connStats df)\<lparr>cs_MessagesSent := cs_MessagesSent (df_connStats df) + 1\<rparr>\<rparr>"

definition incrementMessagesRecv :: "diamForwarder \<Rightarrow> diamForwarder" where
  "incrementMessagesRecv df = df\<lparr>df_connStats := (df_connStats df)\<lparr>cs_MessagesRecv := cs_MessagesRecv (df_connStats df) + 1\<rparr>\<rparr>"

section \<open>Requests of the Biz pods\<close>

definition der_avps :: "diamForwarder \<Rightarrow> string \<Rightarrow> bytes \<Rightarrow> string \<Rightarrow> (u32 \<times> byte \<times> u32 \<times> diam_data) list" where
  "der_avps df sessionID eapPayload gpsi =
    [(avp_SessionID, Mbit, 0, UTF8String sessionID),
     (avp_AuthApplicationID, Mbit, 0, Unsigned32 (fc_AuthApplicationID (df_cfg df))),
     (avp_AuthRequestType, Mbit, 0, Unsigned32 (fc_AuthRequestType (df_cfg df))),
     (avp_AuthSessionState, Mbit, 0, Unsigned32 1),
     (avp_OriginHost, Mbit, 0, DiameterIdentity (df_originHost df)),
     (avp_OriginRealm, Mbit, 0, DiameterIdentity (df_originRealm df)),
     (avp_OriginStateID, Mbit, 0, Unsigned32 (ucast (df_originStateID df))),
     (avp_DestinationHost, Mbit, 0, DiameterIdentity (df_destHost df)),
     (avp_DestinationRealm, Mbit, 0, DiameterIdentity (df_destRealm df)),
     (avp_UserName, Mbit, 0, UTF8String gpsi),
     (209, Mbit, 0, OctetString eapPayload)]"

definition df_buildDERMessage ::
  "diam_lib \<Rightarrow> diamForwarder \<Rightarrow> u32 \<Rightarrow> string \<Rightarrow> bytes \<Rightarrow> byte \<Rightarrow> string \<Rightarrow> string \<Rightarrow> (string, diam_Message) result" where
  "df_buildDERMessage L df hopByHop sessionID eapPayload sst sd gpsi =
    rbind (add_avps L (der_avps df sessionID eapPayload gpsi)
        ((lib_NewRequest L 268 (fc_AuthApplicationID (df_cfg df)))\<lparr>hdr_HopByHopID := hopByHop\<rparr>))
      (\<lambda>m. case EncodeSnssaiAVP L sst sd of
             Inl err \<Rightarrow> Inl (''diameter_forward: failed to encode SNSSAI: '' @ err)
           | Inr a \<Rightarrow> Inr (lib_AddAVP L m a))"

record der_args =
  da_eapPayload :: bytes
  da_sessionID :: string
  da_sst :: byte
  da_sd :: string
  da_gpsi :: string

text \<open>\<^verbatim>\<open>Forward\<close> up to its \<^verbatim>\<open>select\<close>, and the branches of the \<^verbatim>\<open>select\<close>.\<close>

definition Forward ::
  "diam_lib \<Rightarrow> (string, nat) result \<Rightarrow> (diam_Message \<Rightarrow> string option) \<Rightarrow> der_args \<Rightarrow> diamForwarder \<Rightarrow>
   diamForwarder \<times> (string, request \<times> diam_Message) result" where
  "Forward L dial wr args df =
    (case df_getConn dial df of
       Inl err \<Rightarrow> (df, Inl (''diameter_forward: no connection: '' @ err))
     | Inr df \<Rightarrow>
         let (t, q) = open_request (df_table df) in
         (case df_buildDERMessage L df (fst q) (da_sessionID args) (da_eapPayload args) (da_sst args) (da_sd args) (da_gpsi args) of
            Inl err \<Rightarrow> (df\<lparr>df_table := removePending (fst q) t\<rparr>, Inl err)
          | Inr m \<Rightarrow>
              (case wr m of
                 Some err \<Rightarrow> (df\<lparr>df_table := removePending (fst q) t\<rparr>, Inl (''diameter_forward: failed to send DER: '' @ err))
               | None \<Rightarrow> (incrementMessagesSent (df\<lparr>df_table := t\<rparr>), Inr (q, m)))))"

definition Forward_receive :: "diam_lib \<Rightarrow> request \<Rightarrow> diamForwarder \<Rightarrow> (diamForwarder \<times> (string, bytes) result) option" where
  "Forward_receive L q df =
    (case take_answer q (df_table df) of
       None \<Rightarrow> None
     | Some (t, None) \<Rightarrow> Some (df\<lparr>df_table := t\<rparr>, Inl ''diameter_forward: connection lost'')
     | Some (t, Some resp) \<Rightarrow>
         Some (df\<lparr>df_table := t\<rparr>,
               case lib_Serialize L resp of
                 Inl err \<Rightarrow> Inl (''diameter_forward: failed to serialize DEA: '' @ err)
               | Inr data \<Rightarrow> Inr data))"

definition Forward_done :: "string \<Rightarrow> request \<Rightarrow> diamForwarder \<Rightarrow> diamForwarder \<times> (string, bytes) result" where
  "Forward_done ctxErr q df = (df\<lparr>df_table := abandon q (df_table df)\<rparr>, Inl ctxErr)"

definition handleDEA :: "diam_Message \<Rightarrow> diamForwarder \<Rightarrow> diamForwarder \<times> bool" where
  "handleDEA m df =
    (let df = incrementMessagesRecv df in
     case dispatch_answer m (df_table df) of (t, blocked) \<Rightarrow> (df\<lparr>df_table := t\<rparr>, blocked))"

section \<open>Requests of the server\<close>

definition extractAuthCtxID :: "diam_Message \<Rightarrow> string" where
  "extractAuthCtxID m =
    (case List.find (\<lambda>a. avp_Code a = 258 \<and> (case avp_Data a of Unsigned32 _ \<Rightarrow> True | UTF8String _ \<Rightarrow> True | _ \<Rightarrow> False)) (msg_AVP m) of
       None \<Rightarrow> ''''
     | Some a \<Rightarrow> (case avp_Data a of Unsigned32 u \<Rightarrow> show_nat (unat u) | UTF8String s \<Rightarrow> s | _ \<Rightarrow> ''''))"

definition extractSessionIDFromMsg :: "diam_Message \<Rightarrow> string" where
  "extractSessionIDFromMsg m =
    (case List.find (\<lambda>a. avp_Code a = 263 \<and> (case avp_Data a of UTF8String _ \<Rightarrow> True | OctetString _ \<Rightarrow> True | _ \<Rightarrow> False)) (msg_AVP m) of
       None \<Rightarrow> ''''
     | Some a \<Rightarrow> (case avp_Data a of UTF8String s \<Rightarrow> s | OctetString b \<Rightarrow> string_of b | _ \<Rightarrow> ''''))"

text \<open>The errors of \<^verbatim>\<open>NewAVP\<close> are ignored: the message stays as it was.\<close>

definition try_avp :: "diam_lib \<Rightarrow> u32 \<Rightarrow> diam_data \<Rightarrow> diam_Message \<Rightarrow> diam_Message" where
  "try_avp L c d m = (case lib_msg_NewAVP L m c Mbit 0 d of Inl _ \<Rightarrow> m | Inr m' \<Rightarrow> m')"

definition answer_base :: "diam_lib \<Rightarrow> diamForwarder \<Rightarrow> diam_Message \<Rightarrow> u32 \<Rightarrow> diam_Message" where
  "answer_base L df req rc =
    try_avp L avp_OriginRealm (DiameterIdentity (df_originRealm df))
      (try_avp L avp_OriginHost (DiameterIdentity (df_originHost df))
        ((lib_Answer L req rc)\<lparr>hdr_HopByHopID := hdr_HopByHopID req, hdr_EndToEndID := hdr_EndToEndID req\<rparr>))"

text \<open>The answers written to the connection.  A payload that is \<^verbatim>\<open>nil\<close> is the empty list.\<close>

definition sendASAWithResult :: "diam_lib \<Rightarrow> diamForwarder \<Rightarrow> diam_Message \<Rightarrow> ServerInitiatedResponse \<Rightarrow> diam_Message" where
  "sendASAWithResult L df req resp =
    (let ans = answer_base L df req (sr_ResultCode resp) in
     if sr_Payload resp \<noteq> [] then try_avp L avp_ExperimentalResult (OctetString (sr_Payload resp)) ans else ans)"

definition sendRAAWithResult :: "diam_lib \<Rightarrow> diamForwarder \<Rightarrow> diam_Message \<Rightarrow> ServerInitiatedResponse \<Rightarrow> diam_Message" where
  "sendRAAWithResult L df req resp =
    (let ans = answer_base L df req (sr_ResultCode resp) in
     if sr_Payload resp \<noteq> [] then try_avp L 209 (OctetString (sr_Payload resp)) ans else ans)"

definition sendSTAWithResult :: "diam_lib \<Rightarrow> diamForwarder \<Rightarrow> diam_Message \<Rightarrow> ServerInitiatedResponse \<Rightarrow> diam_Message" where
  "sendSTAWithResult L df req resp =
    (let ans = answer_base L df req (sr_ResultCode resp) in
     if sr_Payload resp \<noteq> [] then try_avp L 209 (OctetString (sr_Payload resp)) ans else ans)"

definition sendASA :: "diam_lib \<Rightarrow> diamForwarder \<Rightarrow> diam_Message \<Rightarrow> diam_Message" where
  "sendASA L df m = answer_base L df m 2001"

definition sendRAA :: "diam_lib \<Rightarrow> diamForwarder \<Rightarrow> diam_Message \<Rightarrow> diam_Message" where
  "sendRAA L df m = answer_base L df m 2001"

definition sendSTA :: "diam_lib \<Rightarrow> diamForwarder \<Rightarrow> diam_Message \<Rightarrow> diam_Message" where
  "sendSTA L df m = answer_base L df m 2001"

text \<open>A server request either is answered at once, or is registered and leaves a goroutine that forwards the
  message to the Biz pods under the session identifier and waits on the channel.\<close>

datatype inbound = InboundAnswered diam_Message | InboundWaiting string string bytes ResponseChannel

definition si_failure :: "string \<Rightarrow> ServerInitiatedResponse" where
  "si_failure cause = \<lparr>sr_AuthCtxID = '''', sr_ResultCode = 3002, sr_Payload = [], sr_ErrorCause = cause\<rparr>"

definition df_handleASR ::
  "diam_lib \<Rightarrow> diamForwarder \<Rightarrow> time \<Rightarrow> diam_Message \<Rightarrow> ServerInitiatedRegistry \<Rightarrow> ServerInitiatedRegistry \<times> inbound" where
  "df_handleASR L df now m reg =
    (let sessionID = (if extractSessionIDFromMsg m = '''' then ''unknown'' else extractSessionIDFromMsg m);
         authCtxID = extractAuthCtxID m
     in case lib_Serialize L m of
          Inl err \<Rightarrow> (reg, InboundAnswered (sendASAWithResult L df m (si_failure ''serialize_failed'')))
        | Inr raw \<Rightarrow>
            (case Register reg sessionID authCtxID ''ASR'' (10 * Second) now of
               (reg, rc) \<Rightarrow> (reg, InboundWaiting sessionID ''ASR'' raw rc)))"

definition df_handleRAR ::
  "diam_lib \<Rightarrow> diamForwarder \<Rightarrow> time \<Rightarrow> diam_Message \<Rightarrow> ServerInitiatedRegistry \<Rightarrow> ServerInitiatedRegistry \<times> inbound" where
  "df_handleRAR L df now m reg =
    (let sessionID = (if extractSessionIDFromMsg m = '''' then ''unknown'' else extractSessionIDFromMsg m);
         authCtxID = extractAuthCtxID m
     in case lib_Serialize L m of
          Inl err \<Rightarrow> (reg, InboundAnswered (sendRAAWithResult L df m (si_failure ''serialize_failed'')))
        | Inr raw \<Rightarrow>
            (case Register reg sessionID authCtxID ''RAR'' (10 * Second) now of
               (reg, rc) \<Rightarrow> (reg, InboundWaiting sessionID ''RAR'' raw rc)))"

definition df_handleSTR ::
  "diam_lib \<Rightarrow> diamForwarder \<Rightarrow> time \<Rightarrow> diam_Message \<Rightarrow> ServerInitiatedRegistry \<Rightarrow> ServerInitiatedRegistry \<times> inbound" where
  "df_handleSTR L df now m reg =
    (let sessionID = (if extractSessionIDFromMsg m = '''' then ''unknown'' else extractSessionIDFromMsg m);
         authCtxID = extractAuthCtxID m
     in case lib_Serialize L m of
          Inl err \<Rightarrow> (reg, InboundAnswered (sendSTAWithResult L df m (si_failure ''serialize_failed'')))
        | Inr raw \<Rightarrow>
            (case Register reg sessionID authCtxID ''STR'' (10 * Second) now of
               (reg, rc) \<Rightarrow> (reg, InboundWaiting sessionID ''STR'' raw rc)))"

text \<open>The end of the goroutine: the response of the registry is written as the answer to the request.\<close>

text \<open>The wait has two ends, a response and the time-out of the registry.\<close>

definition finish_ASR :: "diam_lib \<Rightarrow> diamForwarder \<Rightarrow> diam_Message \<Rightarrow> ResponseChannel \<Rightarrow> ServerInitiatedRegistry \<Rightarrow> (ServerInitiatedRegistry \<times> diam_Message) option" where
  "finish_ASR L df m rc reg = map_option (\<lambda>(reg, resp). (reg, sendASAWithResult L df m resp)) (Wait_receive reg rc)"

definition finish_RAR :: "diam_lib \<Rightarrow> diamForwarder \<Rightarrow> diam_Message \<Rightarrow> ResponseChannel \<Rightarrow> ServerInitiatedRegistry \<Rightarrow> (ServerInitiatedRegistry \<times> diam_Message) option" where
  "finish_RAR L df m rc reg = map_option (\<lambda>(reg, resp). (reg, sendRAAWithResult L df m resp)) (Wait_receive reg rc)"

definition finish_STR :: "diam_lib \<Rightarrow> diamForwarder \<Rightarrow> diam_Message \<Rightarrow> ResponseChannel \<Rightarrow> ServerInitiatedRegistry \<Rightarrow> (ServerInitiatedRegistry \<times> diam_Message) option" where
  "finish_STR L df m rc reg = map_option (\<lambda>(reg, resp). (reg, sendSTAWithResult L df m resp)) (Wait_receive reg rc)"

definition expire_ASR :: "diam_lib \<Rightarrow> diamForwarder \<Rightarrow> diam_Message \<Rightarrow> ResponseChannel \<Rightarrow> ServerInitiatedRegistry \<Rightarrow> ServerInitiatedRegistry \<times> diam_Message" where
  "expire_ASR L df m rc reg = (case Wait_timeout reg rc of (reg, resp) \<Rightarrow> (reg, sendASAWithResult L df m resp))"

definition expire_RAR :: "diam_lib \<Rightarrow> diamForwarder \<Rightarrow> diam_Message \<Rightarrow> ResponseChannel \<Rightarrow> ServerInitiatedRegistry \<Rightarrow> ServerInitiatedRegistry \<times> diam_Message" where
  "expire_RAR L df m rc reg = (case Wait_timeout reg rc of (reg, resp) \<Rightarrow> (reg, sendRAAWithResult L df m resp))"

definition expire_STR :: "diam_lib \<Rightarrow> diamForwarder \<Rightarrow> diam_Message \<Rightarrow> ResponseChannel \<Rightarrow> ServerInitiatedRegistry \<Rightarrow> ServerInitiatedRegistry \<times> diam_Message" where
  "expire_STR L df m rc reg = (case Wait_timeout reg rc of (reg, resp) \<Rightarrow> (reg, sendSTAWithResult L df m resp))"

section \<open>Histories of the forwarder\<close>

text \<open>Requests with the outcomes of dialling and writing, answers of the peer, the ends of requests, and the
  events of the connection.\<close>

datatype df_op =
    DfForward "(string, nat) result" "diam_Message \<Rightarrow> string option" der_args
  | DfAnswer diam_Message
  | DfReceive request
  | DfDone string request
  | DfConnect "(string, nat) result" time
  | DfLost nat
  | DfMonitor "(string, nat) result" time duration
  | DfClose
  | DfWatchdog bool time

fun df_exec :: "diam_lib \<Rightarrow> df_op \<Rightarrow> diamForwarder \<Rightarrow> diamForwarder" where
  "df_exec L (DfForward dial wr args) df = fst (Forward L dial wr args df)"
| "df_exec L (DfAnswer m) df = fst (handleDEA m df)"
| "df_exec L (DfReceive q) df = (case Forward_receive L q df of None \<Rightarrow> df | Some (df', _) \<Rightarrow> df')"
| "df_exec L (DfDone err q) df = fst (Forward_done err q df)"
| "df_exec L (DfConnect dial now) df = (case df_Connect dial now df of Inl _ \<Rightarrow> df | Inr df' \<Rightarrow> df')"
| "df_exec L (DfLost conn) df = watchDisconnect conn df"
| "df_exec L (DfMonitor dial now backoff) df = fst (monitor_turn dial now backoff df)"
| "df_exec L DfClose df = df_Close df"
| "df_exec L (DfWatchdog answer now) df = (if answer then recordDWA now df else recordDWR now df)"

text \<open>What an operation does to the table of pending requests.\<close>

definition forward_ops :: "(string, request \<times> diam_Message) result \<Rightarrow> (string, diamForwarder) result \<Rightarrow> request \<Rightarrow> pt_op list" where
  "forward_ops r conn q = (case conn of Inl _ \<Rightarrow> [] | Inr _ \<Rightarrow> (case r of Inl _ \<Rightarrow> [PtOpen, PtAbandon q] | Inr _ \<Rightarrow> [PtOpen]))"

fun table_ops :: "diam_lib \<Rightarrow> df_op \<Rightarrow> diamForwarder \<Rightarrow> pt_op list" where
  "table_ops L (DfForward dial wr args) df =
    forward_ops (snd (Forward L dial wr args df)) (df_getConn dial df) (snd (open_request (df_table df)))"
| "table_ops L (DfAnswer m) df = [PtAnswer m]"
| "table_ops L (DfReceive q) df = [PtTake q]"
| "table_ops L (DfDone err q) df = [PtAbandon q]"
| "table_ops L (DfLost conn) df = (if df_conn df = Some conn then [PtClear] else [])"
| "table_ops L (DfMonitor dial now backoff) df = (if \<not> df_connected df \<and> isOk dial then [PtClear] else [])"
| "table_ops L _ df = []"

lemma getConn_table: "df_getConn dial df = Inr df' \<Longrightarrow> df_table df' = df_table df"
  by (auto simp: df_getConn_def split: if_splits sum.splits)

lemma Forward_cases:
  obtains (unconnected) err where "df_getConn dial df = Inl err" "Forward L dial wr args df = (df, Inl (''diameter_forward: no connection: '' @ err))"
  | (failed) df' t q err where "df_getConn dial df = Inr df'" "open_request (df_table df) = (t, q)"
      "Forward L dial wr args df = (df'\<lparr>df_table := removePending (fst q) t\<rparr>, Inl err)"
  | (sent) df' t q m where "df_getConn dial df = Inr df'" "open_request (df_table df) = (t, q)"
      "df_buildDERMessage L df' (fst q) (da_sessionID args) (da_eapPayload args) (da_sst args) (da_sd args) (da_gpsi args) = Inr m"
      "Forward L dial wr args df = (incrementMessagesSent (df'\<lparr>df_table := t\<rparr>), Inr (q, m))"
proof (cases "df_getConn dial df")
  case (Inl err)
  then show thesis using unconnected by (simp add: Forward_def)
next
  case (Inr df')
  note c = Inr
  obtain t q where o: "open_request (df_table df) = (t, q)" by (cases "open_request (df_table df)")
  have F: "Forward L dial wr args df =
     (case df_buildDERMessage L df' (fst q) (da_sessionID args) (da_eapPayload args) (da_sst args) (da_sd args) (da_gpsi args) of
        Inl err \<Rightarrow> (df'\<lparr>df_table := removePending (fst q) t\<rparr>, Inl err)
      | Inr m \<Rightarrow> (case wr m of
           Some err \<Rightarrow> (df'\<lparr>df_table := removePending (fst q) t\<rparr>, Inl (''diameter_forward: failed to send DER: '' @ err))
         | None \<Rightarrow> (incrementMessagesSent (df'\<lparr>df_table := t\<rparr>), Inr (q, m))))"
    using c o getConn_table [OF c] by (simp add: Forward_def)
  show thesis
  proof (cases "df_buildDERMessage L df' (fst q) (da_sessionID args) (da_eapPayload args) (da_sst args) (da_sd args) (da_gpsi args)")
    case (Inl err)
    then show thesis using failed [OF c o] F by simp
  next
    case (Inr m)
    then show thesis using failed [OF c o] sent [OF c o Inr] F by (cases "wr m") simp_all
  qed
qed

lemma df_exec_table: "df_table (df_exec L p df) = fold pt_exec (table_ops L p df) (df_table df)"
proof (cases p)
  case (DfForward dial wr args)
  show ?thesis unfolding DfForward
    by (cases rule: Forward_cases [of dial df L wr args])
      (simp_all add: forward_ops_def getConn_table incrementMessagesSent_def abandon_def)
next
  case (DfReceive q)
  then show ?thesis by (simp add: Forward_receive_def split: option.split)
next
  case (DfConnect dial now)
  then show ?thesis by (simp add: df_Connect_def incrementOriginStateID_def Let_def split: sum.split)
next
  case (DfMonitor dial now backoff)
  then show ?thesis by (simp add: monitor_turn_def isOk_def split: sum.split)
qed (simp_all add: handleDEA_def incrementMessagesRecv_def Forward_done_def watchDisconnect_def df_Close_def
       recordDWA_def recordDWR_def Let_def split: prod.split)

lemma pt_run_dispatch: "dispatch_inv t \<Longrightarrow> dispatch_inv (fold pt_exec ps t)"
  by (induction ps arbitrary: t) (simp_all add: pt_exec_dispatch)

lemma df_run_dispatch: "dispatch_inv (df_table df) \<Longrightarrow> dispatch_inv (df_table (fold (df_exec L) ops df))"
  by (induction ops arbitrary: df) (simp_all add: df_exec_table pt_run_dispatch)

lemma pt_next_exec: "pt_next (pt_exec p t) = (if p = PtOpen then Suc (pt_next t) else pt_next t)"
  by (cases p) (auto simp: open_request_eq dispatch_answer_def take_answer_def abandon_def removePending_def split: option.split)

lemma pt_run_next: "pt_next (fold pt_exec ps t) = pt_next t + length (filter ((=) PtOpen) ps)"
  by (induction ps arbitrary: t) (auto simp: pt_next_exec)

lemma df_next: "pt_next (df_table (df_exec L p df)) \<le> Suc (pt_next (df_table df))"
proof -
  have "length (filter ((=) PtOpen) (table_ops L p df)) \<le> 1"
    by (cases p) (auto simp: forward_ops_def split: sum.split)
  then show ?thesis by (simp add: df_exec_table pt_run_next)
qed

lemma df_run_next: "pt_next (df_table (fold (df_exec L) ops df)) \<le> pt_next (df_table df) + length ops"
proof (induction ops arbitrary: df)
  case (Cons p ops)
  show ?case using Cons [of "df_exec L p df"] df_next [of L p df] by simp
qed simp

lemma df_run_next_mono: "pt_next (df_table df) \<le> pt_next (df_table (fold (df_exec L) ops df))"
proof (induction ops arbitrary: df)
  case (Cons p ops)
  have "pt_next (df_table df) \<le> pt_next (df_table (df_exec L p df))" by (simp add: df_exec_table pt_run_next)
  then show ?case using Cons [of "df_exec L p df"] by simp
qed simp

lemma buildDER_spec:
  assumes "diam_library L" "df_buildDERMessage L df h sessionID eap sst sd gpsi = Inr m"
  obtains a where "EncodeSnssaiAVP L sst sd = Inr a"
    "m = (lib_NewRequest L 268 (fc_AuthApplicationID (df_cfg df)))\<lparr>hdr_HopByHopID := h, msg_AVP := map avp_of (der_avps df sessionID eap gpsi) @ [a]\<rparr>"
proof -
  let ?m0 = "(lib_NewRequest L 268 (fc_AuthApplicationID (df_cfg df)))\<lparr>hdr_HopByHopID := h\<rparr>"
  obtain m1 a where m1: "add_avps L (der_avps df sessionID eap gpsi) ?m0 = Inr m1"
    and a: "EncodeSnssaiAVP L sst sd = Inr a" "m = lib_AddAVP L m1 a"
    using assms(2) unfolding df_buildDERMessage_def by (cases "EncodeSnssaiAVP L sst sd") auto
  show thesis using that [OF a(1)] a(2) add_avps_spec [OF assms(1) m1]
    by (simp add: diam_library.new_request [OF assms(1)] diam_library.add_avp [OF assms(1)])
qed

lemma buildDER_header:
  assumes "diam_library L" "df_buildDERMessage L df h sessionID eap sst sd gpsi = Inr m"
  shows "hdr_HopByHopID m = h"
  by (rule buildDER_spec [OF assms]) simp

lemma new_table: "df_table (newDiamForwarder a n oh orl dh dr cfg) = no_pending"
  by (simp add: newDiamForwarder_def)

lemma Forward_sent:
  assumes "diam_library L" "dispatch_inv (df_table df)" "Forward L dial wr args df = (df1, Inr (q, der))"
  shows "waiting q (df_table df1)" "q = (own_id (pt_next (df_table df)), pt_next (df_table df))"
    "hdr_HopByHopID der = fst q" "pt_next (df_table df1) = Suc (pt_next (df_table df))"
proof -
  obtain df' t where h: "open_request (df_table df) = (t, q)" "df1 = incrementMessagesSent (df'\<lparr>df_table := t\<rparr>)"
      "df_buildDERMessage L df' (fst q) (da_sessionID args) (da_eapPayload args) (da_sst args) (da_sd args) (da_gpsi args) = Inr der"
    using assms(3) by (cases rule: Forward_cases [of dial df L wr args]) auto
  have t: "df_table df1 = t" using h(2) by (simp add: incrementMessagesSent_def)
  show "waiting q (df_table df1)" "q = (own_id (pt_next (df_table df)), pt_next (df_table df))"
    using open_waiting [OF assms(2) h(1)] t by simp_all
  show "hdr_HopByHopID der = fst q" by (rule buildDER_header [OF assms(1) h(3)])
  show "pt_next (df_table df1) = Suc (pt_next (df_table df))" using pt_next_exec [of PtOpen "df_table df"] h(1) t by simp
qed

text \<open>What may happen while a request waits: anything but the loss of the connection, an answer with its
  identifier, and the ends of the request itself.\<close>

fun loses_connection :: "df_op \<Rightarrow> diamForwarder \<Rightarrow> bool" where
  "loses_connection (DfLost conn) df = (df_conn df = Some conn)"
| "loses_connection (DfMonitor dial now backoff) df = (\<not> df_connected df \<and> isOk dial)"
| "loses_connection _ df = False"

fun concerns :: "request \<Rightarrow> df_op \<Rightarrow> bool" where
  "concerns q (DfAnswer m) = (hdr_HopByHopID m = fst q)"
| "concerns q (DfReceive r) = (fst r = fst q \<or> snd r = snd q)"
| "concerns q (DfDone err r) = (fst r = fst q)"
| "concerns q _ = False"

fun undisturbed :: "diam_lib \<Rightarrow> request \<Rightarrow> df_op list \<Rightarrow> diamForwarder \<Rightarrow> bool" where
  "undisturbed L q [] df = True"
| "undisturbed L q (p # ops) df = (\<not> loses_connection p df \<and> \<not> concerns q p \<and> undisturbed L q ops (df_exec L p df))"

lemma waiting_op:
  assumes "dispatch_inv (df_table df)" "waiting q (df_table df)" "Suc (pt_next (df_table df)) < 2 ^ 32"
    "\<not> loses_connection p df" "\<not> concerns q p"
  shows "waiting q (df_table (df_exec L p df))"
proof (cases p)
  case (DfForward dial wr args)
  let ?t = "df_table df" and ?r = "snd (open_request (df_table df))"
  have r: "?r = (own_id (pt_next ?t), pt_next ?t)" by (rule open_request_own [OF dispatch_invD(2) [OF assms(1)]])
  have q: "fst q = own_id (snd q)" "snd q < pt_next ?t"
    using dispatch_invD(3) [OF assms(1), of "fst q" "snd q"] table_invD(2) [OF dispatch_invD(1) [OF assms(1)], of "fst q" "snd q"] assms(2)
    by (simp_all add: waiting_def)
  have ne: "own_id (pt_next ?t) \<noteq> own_id (snd q)" using own_id_inj [of "snd q" "pt_next ?t"] q(2) assms(3) by auto
  have w: "waiting q (pt_exec PtOpen ?t)" by (rule waiting_step [OF assms(1,2)]) (use assms(3) in simp)
  have "waiting q (pt_exec (PtAbandon ?r) (pt_exec PtOpen ?t))"
    by (rule waiting_step [OF pt_exec_dispatch [OF assms(1)] w]) (use ne q(1) r in simp)
  then show ?thesis unfolding df_exec_table DfForward using w assms(2) by (simp add: forward_ops_def split: sum.split)
next
  case (DfAnswer m)
  then show ?thesis unfolding df_exec_table using waiting_step [OF assms(1,2), of "PtAnswer m"] assms(5) by simp
next
  case (DfReceive r)
  then show ?thesis unfolding df_exec_table using waiting_step [OF assms(1,2), of "PtTake r"] assms(5) by simp
next
  case (DfDone err r)
  then show ?thesis unfolding df_exec_table using waiting_step [OF assms(1,2), of "PtAbandon r"] assms(5) by simp
qed (use assms(2,4) in \<open>auto simp: df_exec_table simp del: df_exec.simps\<close>)

lemma waiting_run:
  assumes "dispatch_inv (df_table df)" "waiting q (df_table df)" "Suc (pt_next (df_table df) + length ops) < 2 ^ 32" "undisturbed L q ops df"
  shows "waiting q (df_table (fold (df_exec L) ops df))"
  using assms
proof (induction ops arbitrary: df)
  case (Cons p ops)
  have "waiting q (df_table (df_exec L p df))"
    by (rule waiting_op [OF Cons.prems(1,2)]) (use Cons.prems(3,4) in simp_all)
  moreover have "dispatch_inv (df_table (df_exec L p df))" using df_run_dispatch [OF Cons.prems(1), of L "[p]"] by simp
  moreover have "Suc (pt_next (df_table (df_exec L p df)) + length ops) < 2 ^ 32" using df_next [of L p df] Cons.prems(3) by simp
  ultimately show ?case using Cons.IH [of "df_exec L p df"] Cons.prems(4) by simp
qed simp

lemma answer_kept_run:
  assumes "pt_cells (df_table df) c = Some x" "\<And>r. DfReceive r \<in> set ops \<Longrightarrow> snd r \<noteq> c"
  shows "pt_cells (df_table (fold (df_exec L) ops df)) c = Some x"
  using assms
proof (induction ops arbitrary: df)
  case (Cons p ops)
  have "pt_cells (fold pt_exec ps t) c = Some x" if "pt_cells t c = Some x" "\<And>r. PtTake r \<in> set ps \<Longrightarrow> snd r \<noteq> c" for ps t
    using that
  proof (induction ps arbitrary: t)
    case (Cons p ps)
    have "pt_cells (pt_exec p t) c = Some x" by (rule answer_kept [OF Cons.prems(1)]) (use Cons.prems(2) in simp)
    then show ?case using Cons.IH [of "pt_exec p t"] Cons.prems(2) by simp
  qed simp
  moreover have "PtTake r \<in> set (table_ops L p df) \<Longrightarrow> snd r \<noteq> c" for r
    using Cons.prems(2) by (cases p) (auto simp: forward_ops_def split: sum.splits if_splits)
  ultimately have "pt_cells (df_table (df_exec L p df)) c = Some x" using Cons.prems(1) by (simp add: df_exec_table)
  then show ?case using Cons.IH [of "df_exec L p df"] Cons.prems(2) by simp
qed simp

section \<open>A library with the documented behaviour\<close>

text \<open>Every code is known, messages are built as described, and a message is serialised as the low byte of its identifier.\<close>

definition plain_lib :: diam_lib where
  "plain_lib =
    \<lparr>lib_NewAVP = (\<lambda>c f v d. \<lparr>avp_Code = c, avp_Flags = f, avp_VendorID = v, avp_Data = d\<rparr>),
     lib_NewRequest = (\<lambda>cmd app. \<lparr>hdr_CommandCode = cmd, hdr_ApplicationID = app, hdr_HopByHopID = 0, hdr_EndToEndID = 0, msg_AVP = []\<rparr>),
     lib_msg_NewAVP = (\<lambda>m c f v d. Inr (m\<lparr>msg_AVP := msg_AVP m @ [\<lparr>avp_Code = c, avp_Flags = f, avp_VendorID = v, avp_Data = d\<rparr>]\<rparr>)),
     lib_AddAVP = (\<lambda>m a. m\<lparr>msg_AVP := msg_AVP m @ [a]\<rparr>),
     lib_FindAVPs = (\<lambda>m c v. Inr (filter (\<lambda>a. avp_Code a = c \<and> avp_VendorID a = v) (msg_AVP m))),
     lib_Answer = (\<lambda>m rc. m\<lparr>msg_AVP := [\<lparr>avp_Code = 268, avp_Flags = 0x40, avp_VendorID = 0, avp_Data = Unsigned32 rc\<rparr>]\<rparr>),
     lib_Serialize = (\<lambda>m. Inr [ucast (hdr_HopByHopID m)])\<rparr>"

interpretation plain: diam_library plain_lib
  by unfold_locales (simp_all add: plain_lib_def)

lemma plain_library: "diam_library plain_lib"
  by (rule plain.diam_library_axioms)

definition ex_df :: diamForwarder where
  "ex_df = newDiamForwarder ''aaa:3868'' ''tcp'' ''gw'' ''realm'' ''aaa'' ''realm'' \<lparr>fc_Transport = '''', fc_AuthRequestType = 0, fc_AuthApplicationID = 0\<rparr>"

definition ex_der :: der_args where
  "ex_der = \<lparr>da_eapPayload = [2, 1, 0, 4], da_sessionID = ''s1'', da_sst = 1, da_sd = ''0a1B2c'', da_gpsi = ''msisdn-1''\<rparr>"

definition ex_answer :: "u32 \<Rightarrow> diam_Message" where
  "ex_answer h = \<lparr>hdr_CommandCode = 268, hdr_ApplicationID = 5, hdr_HopByHopID = h, hdr_EndToEndID = 0, msg_AVP = []\<rparr>"

lemma plain_add_avps: "add_avps plain_lib xs m = Inr (m\<lparr>msg_AVP := msg_AVP m @ map avp_of xs\<rparr>)"
proof (induction xs arbitrary: m)
  case (Cons x xs)
  obtain c f v d where x: "x = (c, f, v, d)" by (cases x)
  show ?case using Cons [of "m\<lparr>msg_AVP := msg_AVP m @ [avp_of x]\<rparr>"] by (simp add: x plain_lib_def)
qed simp

lemma ex_sd: "parseSDToBytes ''0a1B2c'' = Inr [10, 27, 44]"
  by (simp add: parseSDToBytes_def is_hex_def is_digit_def hex_val_def)

lemma plain_forward:
  obtains df' q m where "Forward plain_lib (Inr c) (\<lambda>_. None) ex_der df = (df', Inr (q, m))"
proof -
  have b: "\<exists>m. df_buildDERMessage plain_lib d h ''s1'' [2, 1, 0, 4] 1 ''0a1B2c'' ''msisdn-1'' = Inr m" for d h
    by (simp add: df_buildDERMessage_def plain_add_avps EncodeSnssaiAVP_def ex_sd)
  show thesis
  proof (cases rule: Forward_cases [of "Inr c" df plain_lib "\<lambda>_. None" ex_der])
    case (unconnected err)
    then show thesis by (simp add: df_getConn_def split: if_splits)
  next
    case (failed df' t q err)
    then show thesis using b [of df' "fst q"] getConn_table [OF failed(1)] by (auto simp: Forward_def ex_der_def)
  next
    case (sent df' t q m)
    then show thesis by (intro that)
  qed
qed

lemma ex_forward:
  obtains df1 der where "Forward plain_lib (Inr 1) (\<lambda>_. None) ex_der ex_df = (df1, Inr ((1, 0), der))" "hdr_HopByHopID der = 1"
proof -
  obtain m where m: "df_buildDERMessage plain_lib (ex_df\<lparr>df_conn := Some 1, df_connected := True\<rparr>) 1 ''s1'' [2, 1, 0, 4] 1 ''0a1B2c'' ''msisdn-1'' = Inr m"
    by (simp add: df_buildDERMessage_def plain_add_avps EncodeSnssaiAVP_def ex_sd)
  define t where "t = fst (open_request no_pending)"
  have o: "open_request (df_table ex_df) = (t, (1, 0))"
    by (simp add: t_def ex_df_def newDiamForwarder_def open_request_eq no_pending_def)
  have g: "df_getConn (Inr 1) ex_df = Inr (ex_df\<lparr>df_conn := Some 1, df_connected := True\<rparr>)"
    by (simp add: df_getConn_def ex_df_def newDiamForwarder_def)
  have "Forward plain_lib (Inr 1) (\<lambda>_. None) ex_der ex_df =
      (incrementMessagesSent (ex_df\<lparr>df_conn := Some 1, df_connected := True, df_table := t\<rparr>), Inr ((1, 0), m))"
    unfolding Forward_def g using m o by (simp add: ex_der_def)
  then show thesis by (rule that) (rule buildDER_header [OF plain_library m])
qed

section \<open>Properties\<close>



text \<open>C28. No request is given the answer of another: over any history, what a request finds in its channel is
  the loss of the connection or a message with the hop-by-hop identifier of its own DER, and while fewer than
  the 32-bit number of requests have been made, no other DER has that identifier.\<close>

theorem answers_not_mixed:
  assumes "diam_library L"
    "Forward L dial wr args (fold (df_exec L) ops (newDiamForwarder addr net oh orl dh dr cfg)) = (df1, Inr (q, der))"
    "take_answer q (df_table (fold (df_exec L) ops1 df1)) = Some (t, Some m)"
    "Forward L dial' wr' args' (fold (df_exec L) ops2 df1) = (df2, Inr (q', der'))"
    "length ops + length ops2 < 2 ^ 32 - 2"
  shows "hdr_HopByHopID m = hdr_HopByHopID der \<and> hdr_HopByHopID der' \<noteq> hdr_HopByHopID der"
proof -
  let ?df = "fold (df_exec L) ops (newDiamForwarder addr net oh orl dh dr cfg)"
  have d0: "dispatch_inv (df_table ?df)" by (rule df_run_dispatch) (simp add: new_table no_pending_dispatch)
  have n0: "pt_next (df_table ?df) \<le> length ops"
    using df_run_next [of L ops "newDiamForwarder addr net oh orl dh dr cfg"] by (simp add: new_table no_pending_def)
  note S = Forward_sent [OF assms(1) d0 assms(2)]
  have d1: "dispatch_inv (df_table df1)" using df_run_dispatch [OF d0, of L "[DfForward dial wr args]"] assms(2) by simp
  have "pt_cells (df_table (fold (df_exec L) ops1 df1)) (snd q) = Some (Some m)"
    using assms(3) by (auto simp: take_answer_def split: option.splits)
  from dispatch_invD(4) [OF df_run_dispatch [OF d1] this] have m: "hdr_HopByHopID m = hdr_HopByHopID der"
    using S(2,3) by simp
  note S' = Forward_sent [OF assms(1) df_run_dispatch [OF d1] assms(4)]
  have "pt_next (df_table df1) \<le> pt_next (df_table (fold (df_exec L) ops2 df1))" by (rule df_run_next_mono)
  moreover have "pt_next (df_table (fold (df_exec L) ops2 df1)) \<le> pt_next (df_table df1) + length ops2" by (rule df_run_next)
  ultimately have "own_id (pt_next (df_table (fold (df_exec L) ops2 df1))) \<noteq> own_id (pt_next (df_table ?df))"
    using own_id_inj [of "pt_next (df_table (fold (df_exec L) ops2 df1))" "pt_next (df_table ?df)"] S(4) n0 assms(5) by auto
  then show ?thesis using m S(2,3) S'(2,3) by simp
qed

theorem answers_not_mixed_witness:
  "\<exists>df1 der df2 der' q t. Forward plain_lib (Inr 1) (\<lambda>_. None) ex_der ex_df = (df1, Inr ((1, 0), der))
     \<and> take_answer (1, 0) (df_table (df_exec plain_lib (DfAnswer (ex_answer 1)) df1)) = Some (t, Some (ex_answer 1))
     \<and> Forward plain_lib (Inr 1) (\<lambda>_. None) ex_der df1 = (df2, Inr (q, der')) \<and> hdr_HopByHopID der' \<noteq> hdr_HopByHopID der"
proof -
  obtain df1 der where F: "Forward plain_lib (Inr 1) (\<lambda>_. None) ex_der ex_df = (df1, Inr ((1, 0), der))" and h: "hdr_HopByHopID der = 1"
    by (rule ex_forward)
  have F0: "Forward plain_lib (Inr 1) (\<lambda>_. None) ex_der (fold (df_exec plain_lib) [] (newDiamForwarder ''aaa:3868'' ''tcp'' ''gw'' ''realm'' ''aaa'' ''realm''
      \<lparr>fc_Transport = '''', fc_AuthRequestType = 0, fc_AuthApplicationID = 0\<rparr>)) = (df1, Inr ((1, 0), der))"
    using F by (simp only: ex_df_def fold_simps(1))
  have d0: "dispatch_inv (df_table ex_df)" by (simp add: ex_df_def new_table no_pending_dispatch)
  have w: "waiting (1, 0) (df_table df1)" by (rule Forward_sent(1) [OF plain_library d0 F])
  obtain t where T: "take_answer (1, 0) (df_table (df_exec plain_lib (DfAnswer (ex_answer 1)) df1)) = Some (t, Some (ex_answer 1))"
    using answer_waiting(1) [OF w, of "ex_answer 1"] by (simp add: df_exec_table take_answer_def ex_answer_def del: df_exec.simps)
  obtain df2 q der' where G: "Forward plain_lib (Inr 1) (\<lambda>_. None) ex_der df1 = (df2, Inr (q, der'))"
    by (rule plain_forward)
  have T0: "take_answer (1, 0) (df_table (fold (df_exec plain_lib) [DfAnswer (ex_answer 1)] df1)) = Some (t, Some (ex_answer 1))"
    and G0: "Forward plain_lib (Inr 1) (\<lambda>_. None) ex_der (fold (df_exec plain_lib) [] df1) = (df2, Inr (q, der'))"
    using T G by (simp_all only: fold_simps)
  have len: "length ([] :: df_op list) + length ([] :: df_op list) < 2 ^ 32 - 2" by simp
  have ne: "hdr_HopByHopID der' \<noteq> hdr_HopByHopID der" using answers_not_mixed [OF plain_library F0 T0 G0 len] by blast
  show ?thesis by (intro exI conjI; fact F T G ne)
qed

text \<open>C29. What the AAA server reads in a DER of the gateway: the EAP message, the session identifier and the
  slice that were given, the slice differentiator in upper case, where the dictionary knows the AVP of the
  slice.\<close>

theorem der_readable:
  assumes "diam_library L" "df_buildDERMessage L df h sessionID eap sst sd gpsi = Inr m" "lib_FindAVPs L m 200 VendorID3GPP = Inr as"
  shows "DecodeEapPayloadAVP m = Inr (Some eap) \<and> extractSessionIDFromMsg m = sessionID \<and> DecodeSnssaiAVP L m = Inr (sst, ToUpper sd)"
proof -
  obtain a where a: "EncodeSnssaiAVP L sst sd = Inr a" and m: "msg_AVP m = map avp_of (der_avps df sessionID eap gpsi) @ [a]"
    by (rule buildDER_spec [OF assms(1,2)]) simp
  obtain b where b: "a = \<lparr>avp_Code = 200, avp_Flags = MVbit, avp_VendorID = VendorID3GPP, avp_Data = OctetString (sst # b)\<rparr>"
    "b = [] \<and> sd = '''' \<or> parseSDToBytes sd = Inr b"
    using a by (auto simp: EncodeSnssaiAVP_def diam_library.new_avp [OF assms(1)] split: if_splits sum.splits)
  have "as = [a]" using diam_library.find_avps [OF assms(1,3)] by (simp add: m der_avps_def b(1))
  then have "DecodeSnssaiAVP L m = Inr (sst, if length b \<ge> 3 then encodeHex (take 3 b) else '''')"
    using assms(3) by (simp add: DecodeSnssaiAVP_def b(1) subslice_def)
  moreover have "(if length b \<ge> 3 then encodeHex (take 3 b) else '''') = ToUpper sd"
    using b(2) parseSD_upper [of sd b] by (auto simp: ToUpper_def)
  ultimately show ?thesis by (simp add: DecodeEapPayloadAVP_def extractSessionIDFromMsg_def m der_avps_def)
qed

theorem der_readable_witness:
  "\<exists>m. df_buildDERMessage plain_lib ex_df 1 ''s1'' [2, 1, 0, 4] 1 ''0a1B2c'' ''msisdn-1'' = Inr m
     \<and> DecodeSnssaiAVP plain_lib m = Inr (1, ''0A1B2C'')"
proof -
  obtain m where m: "df_buildDERMessage plain_lib ex_df 1 ''s1'' [2, 1, 0, 4] 1 ''0a1B2c'' ''msisdn-1'' = Inr m"
    by (simp add: df_buildDERMessage_def plain_add_avps EncodeSnssaiAVP_def ex_sd)
  have f: "lib_FindAVPs plain_lib m 200 VendorID3GPP = Inr (filter (\<lambda>a. avp_Code a = 200 \<and> avp_VendorID a = VendorID3GPP) (msg_AVP m))"
    by (simp add: plain_lib_def)
  have "ToUpper ''0a1B2c'' = ''0A1B2C''" by (simp add: ToUpper_def upper_char_def char_of_def bit_Suc_0_iff)
  then show ?thesis using m der_readable [OF plain_library m f] by auto
qed

text \<open>The answers keep the identifiers of the request and start with the result code.\<close>

lemma try_avp_keeps:
  assumes "diam_library L"
  shows "hdr_HopByHopID (try_avp L c d m) = hdr_HopByHopID m" "hdr_EndToEndID (try_avp L c d m) = hdr_EndToEndID m"
    "msg_AVP m \<noteq> [] \<Longrightarrow> hd (msg_AVP (try_avp L c d m)) = hd (msg_AVP m) \<and> msg_AVP (try_avp L c d m) \<noteq> []"
  using diam_library.msg_new_avp [OF assms, of m c Mbit 0 d] by (auto simp: try_avp_def split: sum.split)

definition answers :: "diam_lib \<Rightarrow> diam_Message \<Rightarrow> u32 \<Rightarrow> diam_Message \<Rightarrow> bool" where
  "answers L req rc ans =
    (hdr_HopByHopID ans = hdr_HopByHopID req \<and> hdr_EndToEndID ans = hdr_EndToEndID req
     \<and> (\<forall>as. lib_FindAVPs L ans 268 0 = Inr as \<longrightarrow> DecodeResultCodeAVP L ans = rc))"

lemma answersI:
  assumes "diam_library L" "hdr_HopByHopID ans = hdr_HopByHopID req" "hdr_EndToEndID ans = hdr_EndToEndID req"
    "msg_AVP ans \<noteq> []" "hd (msg_AVP ans) = lib_NewAVP L 268 0x40 0 (Unsigned32 rc)"
  shows "answers L req rc ans"
proof -
  obtain rest where r: "msg_AVP ans = lib_NewAVP L 268 0x40 0 (Unsigned32 rc) # rest" using assms(4,5) by (cases "msg_AVP ans") auto
  have "DecodeResultCodeAVP L ans = rc" if f: "lib_FindAVPs L ans 268 0 = Inr as" for as
    using diam_library.find_avps [OF assms(1) f] f
    by (simp add: DecodeResultCodeAVP_def first_avp_def r diam_library.new_avp [OF assms(1)])
  then show ?thesis using assms(2,3) by (simp add: answers_def)
qed

lemma answer_base_keeps:
  assumes "diam_library L"
  shows "hdr_HopByHopID (answer_base L df req rc) = hdr_HopByHopID req" "hdr_EndToEndID (answer_base L df req rc) = hdr_EndToEndID req"
    "msg_AVP (answer_base L df req rc) \<noteq> []" "hd (msg_AVP (answer_base L df req rc)) = lib_NewAVP L 268 0x40 0 (Unsigned32 rc)"
  unfolding answer_base_def
  using try_avp_keeps [OF assms] diam_library.answer(1,2) [OF assms, of req rc] by simp_all

lemma sendASA_answers:
  assumes "diam_library L"
  shows "answers L m (sr_ResultCode resp) (sendASAWithResult L df m resp)"
  by (rule answersI [OF assms])
    (simp_all add: sendASAWithResult_def Let_def try_avp_keeps [OF assms] answer_base_keeps [OF assms])

text \<open>An abort request of the AAA server waits for the Biz pod, whatever happens to other requests: once the
  response for its session is posted, the server gets an answer with that result code and the identifiers of
  its request; without a response nothing is answered before the time-out, and then the result code is 3002.\<close>

theorem asr_answered:
  assumes "diam_library L" "si_inv reg" "gm_get (si_pending reg) (registryKey s ''ASR'') = None"
    "df_handleASR L df now m reg = (reg1, InboundWaiting s ''ASR'' raw rc)"
    "\<forall>c\<in>set cmds. si_target c \<noteq> registryKey s ''ASR''"
    "sip_SessionID resp = s" "sip_MessageType resp = '''' \<or> sip_MessageType resp = ''ASR''"
  shows "(\<exists>reg2 ans. finish_ASR L df m rc (fst (HandleServerInitiatedResponse ''POST'' (Some resp) (fold si_exec cmds reg1))) = Some (reg2, ans)
      \<and> answers L m (sip_ResultCode resp) ans)
    \<and> finish_ASR L df m rc (fold si_exec cmds reg1) = None
    \<and> answers L m 3002 (snd (expire_ASR L df m rc (fold si_exec cmds reg1)))"
proof -
  obtain a where R: "Register reg s a ''ASR'' (10 * Second) now = (reg1, rc)"
    using assms(4) by (auto simp: df_handleASR_def Let_def split: sum.splits prod.splits if_splits)
  have inv1: "si_inv reg1" using Register_inv [OF assms(2), of s a "''ASR''" "10 * Second" now] R by simp
  note st = si_execs_other [OF inv1 Register_pending [OF assms(2,3) R] assms(5)]
  let ?reg = "fold si_exec cmds reg1"
  let ?resp = "\<lparr>sr_AuthCtxID = sip_AuthCtxID resp, sr_ResultCode = sip_ResultCode resp, sr_Payload = sip_Payload resp, sr_ErrorCause = sip_ErrorCause resp\<rparr>"
  have "fst (HandleServerInitiatedResponse ''POST'' (Some resp) ?reg) = Complete ?reg s ''ASR'' ?resp"
    using assms(6,7) by (auto simp: HandleServerInitiatedResponse_def Let_def)
  then have "finish_ASR L df m rc (fst (HandleServerInitiatedResponse ''POST'' (Some resp) ?reg)) =
      Some ((Complete ?reg s ''ASR'' ?resp)\<lparr>si_cells := (si_cells (Complete ?reg s ''ASR'' ?resp))(rc_Response rc := None)\<rparr>,
        sendASAWithResult L df m ?resp)"
    using Complete_delivers(1) [OF conjunct2 [OF st] conjunct1 [OF st], of ?resp] by (simp add: finish_ASR_def Wait_receive_def)
  moreover have "answers L m (sip_ResultCode resp) (sendASAWithResult L df m ?resp)" using sendASA_answers [OF assms(1), of m ?resp df] by simp
  moreover have "finish_ASR L df m rc ?reg = None" using st by (auto simp: finish_ASR_def Wait_receive_def si_inv_def)
  moreover have "answers L m 3002 (snd (expire_ASR L df m rc ?reg))"
    using sendASA_answers [OF assms(1), of m "\<lparr>sr_AuthCtxID = '''', sr_ResultCode = 3002, sr_Payload = [], sr_ErrorCause = ''timeout''\<rparr>" df]
    by (simp add: expire_ASR_def Wait_timeout_def)
  ultimately show ?thesis by blast
qed

definition ex_asr :: diam_Message where
  "ex_asr = \<lparr>hdr_CommandCode = 274, hdr_ApplicationID = 5, hdr_HopByHopID = 9, hdr_EndToEndID = 4,
     msg_AVP = [\<lparr>avp_Code = 263, avp_Flags = 0, avp_VendorID = 0, avp_Data = UTF8String ''s1''\<rparr>]\<rparr>"

end
