(* ===== verification/Auth.thy ===== *)
theory Auth
  imports Stores Encodings
begin

text \<open>
  Validation of access tokens in the HTTP gateway (\<^verbatim>\<open>internal/auth\<close>): the cache of the public keys of
  the NRF, the validator and the middleware before the service interfaces.  The third-party package that parses
  and verifies JSON web tokens is a parameter; \<^verbatim>\<open>jwt_library\<close> states what its documentation promises.
  The outcome of a fetch of the key set and the clock are arguments.
\<close>

section \<open>Strings\<close>

text \<open>The bytes of the white-space character at the start of UTF-8 text, and \<^verbatim>\<open>strings.Fields\<close>.\<close>

definition space_len :: "nat list \<Rightarrow> nat" where
  "space_len bs =
    (case bs of
       [] \<Rightarrow> 0
     | a # xs \<Rightarrow>
         if a \<in> {9, 10, 11, 12, 13, 32} then 1
         else (case xs of
            [] \<Rightarrow> 0
          | b # ys \<Rightarrow>
              if a = 0xC2 \<and> (b = 0x85 \<or> b = 0xA0) then 2
              else (case ys of
                 [] \<Rightarrow> 0
               | c # _ \<Rightarrow>
                   if (a = 0xE1 \<and> b = 0x9A \<and> c = 0x80)
                     \<or> (a = 0xE2 \<and> b = 0x80 \<and> ((0x80 \<le> c \<and> c \<le> 0x8A) \<or> c = 0xA8 \<or> c = 0xA9 \<or> c = 0xAF))
                     \<or> (a = 0xE2 \<and> b = 0x81 \<and> c = 0x9F)
                     \<or> (a = 0xE3 \<and> b = 0x80 \<and> c = 0x80)
                   then 3 else 0)))"

fun split_fields :: "string \<Rightarrow> string \<Rightarrow> string list" where
  "split_fields acc [] = (if acc = [] then [] else [rev acc])"
| "split_fields acc (c # s) =
    (let k = space_len (map of_char (c # s)) in
     if k = 0 then split_fields (c # acc) s
     else (if acc = [] then [] else [rev acc]) @ split_fields [] (drop (k - 1) s))"

definition Fields :: "string \<Rightarrow> string list" where
  "Fields s = split_fields [] s"

definition StrContains :: "string \<Rightarrow> string \<Rightarrow> bool" where
  "StrContains s p = list_ex (\<lambda>i. HasPrefix (drop i s) p) [0..<Suc (length s)]"

definition replace_char :: "char \<Rightarrow> char \<Rightarrow> string \<Rightarrow> string" where
  "replace_char a b s = map (\<lambda>c. if c = a then b else c) s"

section \<open>The key set\<close>

record JWKSKey =
  jk_Kty :: string
  jk_Kid :: string
  jk_Use :: string
  jk_Alg :: string
  jk_N :: string
  jk_E :: string
  jk_Crv :: string
  jk_X :: string
  jk_Y :: string

datatype PublicKey = RSAKey nat int | ECKey string nat nat

definition base64URLDecode :: "string \<Rightarrow> bytes option" where
  "base64URLDecode s =
    (let s = replace_char CHR ''_'' CHR ''/'' (replace_char CHR ''-'' CHR ''+'' s);
         s = (if length s mod 4 = 2 then s @ ''=='' else if length s mod 4 = 3 then s @ ''='' else s)
     in b64_decode s)"

text \<open>\<^verbatim>\<open>Int64\<close> keeps the low 64 bits of the exponent.\<close>

definition parseRSAKey :: "JWKSKey \<Rightarrow> (string, PublicKey) result" where
  "parseRSAKey k =
    (case base64URLDecode (jk_N k) of
       None \<Rightarrow> Inl ''invalid N''
     | Some nBytes \<Rightarrow>
         (case base64URLDecode (jk_E k) of
            None \<Rightarrow> Inl ''invalid E''
          | Some eBytes \<Rightarrow> Inr (RSAKey (of_be nBytes) (sint (of_nat (of_be eBytes) :: 64 word)))))"

definition parseECKey :: "JWKSKey \<Rightarrow> (string, PublicKey) result" where
  "parseECKey k =
    (if jk_Crv k = '''' \<or> jk_X k = '''' \<or> jk_Y k = '''' then Inl ''EC key missing curve, x, or y''
     else if jk_Crv k \<notin> {''P-256'', ''P-384'', ''P-521''} then Inl (''unsupported curve: '' @ jk_Crv k)
     else case base64URLDecode (jk_X k) of
       None \<Rightarrow> Inl ''invalid X''
     | Some xBytes \<Rightarrow>
         (case base64URLDecode (jk_Y k) of
            None \<Rightarrow> Inl ''invalid Y''
          | Some yBytes \<Rightarrow> Inr (ECKey (jk_Crv k) (of_be xBytes) (of_be yBytes))))"

text \<open>The keys of a key set; malformed keys and other types are skipped, a later key replaces an earlier one.\<close>

definition add_key :: "JWKSKey \<Rightarrow> (string, PublicKey) gomap \<Rightarrow> (string, PublicKey) gomap" where
  "add_key k m =
    (if jk_Kty k = ''RSA'' then (case parseRSAKey k of Inl _ \<Rightarrow> m | Inr key \<Rightarrow> gm_put (jk_Kid k) key m)
     else if jk_Kty k = ''EC'' then (case parseECKey k of Inl _ \<Rightarrow> m | Inr key \<Rightarrow> gm_put (jk_Kid k) key m)
     else m)"

definition parse_keys :: "JWKSKey list \<Rightarrow> (string, PublicKey) gomap" where
  "parse_keys ks = fold add_key ks []"

record JWKSFetcher =
  jf_jwksURL :: string
  jf_entries :: "(string, PublicKey) gomap"
  jf_fetchedAt :: time
  jf_ttl :: duration

definition NewJWKSFetcher :: "string \<Rightarrow> duration \<Rightarrow> JWKSFetcher" where
  "NewJWKSFetcher url ttl =
    \<lparr>jf_jwksURL = url, jf_entries = [], jf_fetchedAt = zero_time, jf_ttl = (if ttl = 0 then 15 * Minute else ttl)\<rparr>"

text \<open>The outcome of the request for the key set.\<close>

datatype jwks_fetch = JwksFailed string | JwksStatus int | JwksInvalid string | JwksKeys "JWKSKey list"

abbreviation ErrJWKSFetch :: string where "ErrJWKSFetch \<equiv> ''failed to fetch JWKS''"

definition jf_fresh :: "time \<Rightarrow> JWKSFetcher \<Rightarrow> bool" where
  "jf_fresh now f = (now - jf_fetchedAt f \<le> jf_ttl f)"

text \<open>\<^verbatim>\<open>now\<close> is the time of the check, \<^verbatim>\<open>dn\<close> that after the answer.\<close>

definition refreshLocked :: "jwks_fetch \<Rightarrow> time \<Rightarrow> time \<Rightarrow> JWKSFetcher \<Rightarrow> (string, JWKSFetcher) result" where
  "refreshLocked fetch now dn f =
    (if jf_fresh now f \<and> length (jf_entries f) > 0 then Inr f
     else case fetch of
       JwksFailed err \<Rightarrow> Inl (ErrJWKSFetch @ '': '' @ err)
     | JwksStatus s \<Rightarrow> Inl (ErrJWKSFetch @ '': NRF JWKS returned '' @ show_nat (nat s))
     | JwksInvalid err \<Rightarrow> Inl (ErrJWKSFetch @ '': invalid JSON: '' @ err)
     | JwksKeys ks \<Rightarrow> Inr (f\<lparr>jf_entries := parse_keys ks, jf_fetchedAt := dn\<rparr>))"

definition lookup_key :: "string \<Rightarrow> (string, PublicKey) gomap \<Rightarrow> (string, PublicKey) result" where
  "lookup_key kid m =
    (case gm_get m kid of None \<Rightarrow> Inl (''key '' @ [CHR 0x22] @ kid @ [CHR 0x22] @ '' not found in JWKS'') | Some key \<Rightarrow> Inr key)"

definition GetKey :: "jwks_fetch \<Rightarrow> time \<Rightarrow> time \<Rightarrow> string \<Rightarrow> JWKSFetcher \<Rightarrow> JWKSFetcher \<times> (string, PublicKey) result" where
  "GetKey fetch now dn kid f =
    (case (gm_get (jf_entries f) kid, jf_fresh now f) of
       (Some key, True) \<Rightarrow> (f, Inr key)
     | _ \<Rightarrow>
         (case refreshLocked fetch now dn f of
            Inl err \<Rightarrow> (f, Inl err)
          | Inr f \<Rightarrow> (f, lookup_key kid (jf_entries f))))"

section \<open>The validator\<close>

record TokenClaims =
  tc_Issuer :: string
  tc_Audience :: "string list"
  tc_Scope :: string
  tc_ClientID :: string
  tc_NfType :: string
  tc_NfID :: string
  tc_CN :: string

record TokenValidator =
  tv_jwksFetcher :: JWKSFetcher
  tv_issuer :: string
  tv_audiences :: "string list"
  tv_allowedNfTypes :: "string list"
  tv_allowedScopes :: "string list"

record TokenValidatorConfig =
  tvc_JWKSURL :: string
  tvc_Issuer :: string
  tvc_Audiences :: "string list"
  tvc_AllowedNfTypes :: "string list"
  tvc_AllowedScopes :: "string list"
  tvc_JWKSTTL :: duration

text \<open>\<^verbatim>\<open>Inl\<close> is a panic.\<close>

definition NewTokenValidator :: "TokenValidatorConfig \<Rightarrow> (string, TokenValidator) result" where
  "NewTokenValidator cfg =
    (if tvc_JWKSURL cfg = '''' then Inl ''JWKSURL is required''
     else if tvc_Issuer cfg = '''' then Inl ''Issuer is required''
     else
       let services = [''nnssaaf-nssaa'', ''nnssaaf-aiw''] in
       Inr \<lparr>tv_jwksFetcher = NewJWKSFetcher (tvc_JWKSURL cfg) (if tvc_JWKSTTL cfg = 0 then 15 * Minute else tvc_JWKSTTL cfg),
            tv_issuer = tvc_Issuer cfg,
            tv_audiences = (if tvc_Audiences cfg = [] then services else tvc_Audiences cfg),
            tv_allowedNfTypes = (if tvc_AllowedNfTypes cfg = [] then [''AMF'', ''AUSF''] else tvc_AllowedNfTypes cfg),
            tv_allowedScopes = (if tvc_AllowedScopes cfg = [] then services else tvc_AllowedScopes cfg)\<rparr>)"

datatype AuthError =
    ErrInvalidToken string | ErrTokenExpired | ErrInvalidIssuer | ErrInvalidAudience | ErrInsufficientScope | ErrInvalidNfType

text \<open>The token package: the \<^verbatim>\<open>kid\<close> of the unverified header, which may be absent or not a string, and the
  verified parse, which asks a key function for the key of the token's algorithm.\<close>

datatype header_value = HvString string | HvOther

record jwt_lib =
  jwt_unverified :: "string \<Rightarrow> (string, header_value option) result"
  jwt_parse :: "(string \<Rightarrow> (string, PublicKey) result) \<Rightarrow> time \<Rightarrow> string \<Rightarrow> (string, TokenClaims) result"

locale jwt_library =
  fixes J :: jwt_lib and alg :: "string \<Rightarrow> string" and verifies :: "PublicKey \<Rightarrow> string \<Rightarrow> bool"
    and claims :: "string \<Rightarrow> TokenClaims" and exp_at :: "string \<Rightarrow> time option"
  assumes parse_sound: "jwt_parse J kf now tok = Inr c \<Longrightarrow>
    (\<exists>k. kf (alg tok) = Inr k \<and> verifies k tok) \<and> c = claims tok \<and> (\<forall>e. exp_at tok = Some e \<longrightarrow> now < e)"

abbreviation signing_methods :: "string list" where
  "signing_methods \<equiv> [''RS256'', ''RS384'', ''RS512'', ''ES256'', ''ES384'', ''ES512'']"

definition key_for :: "PublicKey \<Rightarrow> string \<Rightarrow> (string, PublicKey) result" where
  "key_for pubKey a = (if a \<in> set signing_methods then Inr pubKey else Inl ''invalid signing method'')"

text \<open>The checks of the claims.\<close>

definition check_claims :: "TokenValidator \<Rightarrow> string \<Rightarrow> TokenClaims \<Rightarrow> (AuthError, TokenClaims) result" where
  "check_claims v requiredScope c =
    (if tc_Issuer c \<noteq> tv_issuer v then Inl ErrInvalidIssuer
     else if \<not> list_ex (\<lambda>aud. aud \<in> set (tv_audiences v)) (tc_Audience c) then Inl ErrInvalidAudience
     else if \<not> list_ex (\<lambda>s. s = requiredScope) (Fields (tc_Scope c)) then Inl ErrInsufficientScope
     else if \<not> list_ex (\<lambda>allowed. tc_NfType c = allowed) (tv_allowedNfTypes v) then Inl ErrInvalidNfType
     else Inr c)"

definition Validate ::
  "jwt_lib \<Rightarrow> jwks_fetch \<Rightarrow> time \<Rightarrow> time \<Rightarrow> string \<Rightarrow> string \<Rightarrow> TokenValidator \<Rightarrow> TokenValidator \<times> (AuthError, TokenClaims) result" where
  "Validate J fetch now dn tokenString requiredScope v =
    (case jwt_unverified J tokenString of
       Inl err \<Rightarrow> (v, Inl (ErrInvalidToken (''parse failed: '' @ err)))
     | Inr kid \<Rightarrow>
         let kidStr = (case kid of Some (HvString s) \<Rightarrow> s | _ \<Rightarrow> '''') in
         if kidStr \<noteq> '''' then
           (case GetKey fetch now dn kidStr (tv_jwksFetcher v) of
              (f, r) \<Rightarrow>
                let v = v\<lparr>tv_jwksFetcher := f\<rparr> in
                (v, case r of
                      Inl err \<Rightarrow> Inl (ErrInvalidToken (''JWKS fetch: '' @ err))
                    | Inr pubKey \<Rightarrow>
                        (case jwt_parse J (key_for pubKey) dn tokenString of
                           Inl err \<Rightarrow> if StrContains err ''token is expired'' then Inl ErrTokenExpired else Inl (ErrInvalidToken err)
                         | Inr parsedClaims \<Rightarrow> check_claims v requiredScope parsedClaims)))
         else (v, Inl (ErrInvalidToken ''no kid in token header'')))"

section \<open>The cache of validated tokens\<close>

type_synonym TokenCache = "(string, TokenClaims) gomap"

definition NewTokenCache :: TokenCache where "NewTokenCache = []"

definition TokenCache_Get :: "string \<Rightarrow> TokenCache \<Rightarrow> TokenClaims option" where
  "TokenCache_Get tokenHash c = gm_get c tokenHash"

definition TokenCache_Set :: "string \<Rightarrow> TokenClaims \<Rightarrow> TokenCache \<Rightarrow> TokenCache" where
  "TokenCache_Set tokenHash claims c = gm_put tokenHash claims c"

definition TokenCache_Remove :: "string \<Rightarrow> TokenCache \<Rightarrow> TokenCache" where
  "TokenCache_Remove tokenHash c = gm_del tokenHash c"

section \<open>The middleware\<close>

text \<open>The next handler is called, with claims if a token was validated, or the request is answered with status
  401 and a detail.\<close>

datatype auth_outcome = AuthNext "TokenClaims option" | AuthRejected string

definition NewAuthMiddleware ::
  "jwt_lib \<Rightarrow> jwks_fetch \<Rightarrow> time \<Rightarrow> time \<Rightarrow> bool \<Rightarrow> string \<Rightarrow> string \<Rightarrow> TokenValidator \<Rightarrow> TokenValidator \<times> auth_outcome" where
  "NewAuthMiddleware J fetch now dn disabled env authHeader v =
    (if disabled \<or> env = ''1'' then (v, AuthNext None)
     else if authHeader = '''' then (v, AuthRejected ''missing authorization header'')
     else if \<not> HasPrefix authHeader ''Bearer '' then (v, AuthRejected ''invalid authorization scheme'')
     else
       let token = TrimPrefix authHeader ''Bearer '' in
       if token = '''' then (v, AuthRejected ''empty token'')
       else case Validate J fetch now dn token '''' v of
         (v, Inl err) \<Rightarrow> (v, AuthRejected ''invalid token'')
       | (v, Inr c) \<Rightarrow> (v, AuthNext (Some c)))"

definition TokenHash :: "(bytes \<Rightarrow> bytes) \<Rightarrow> string \<Rightarrow> string" where
  "TokenHash sha256 token = EncodeToString (take 8 (sha256 (bytes_of token)))"

definition Middleware ::
  "jwt_lib \<Rightarrow> jwks_fetch \<Rightarrow> time \<Rightarrow> time \<Rightarrow> string \<Rightarrow> string \<Rightarrow> string \<Rightarrow> TokenValidator \<Rightarrow> TokenValidator \<times> auth_outcome" where
  "Middleware J fetch now dn requiredScope env authHeader v = NewAuthMiddleware J fetch now dn False env authHeader v"

definition MiddlewareWithOptions ::
  "jwt_lib \<Rightarrow> jwks_fetch \<Rightarrow> time \<Rightarrow> time \<Rightarrow> string list \<Rightarrow> string \<Rightarrow> string \<Rightarrow> string \<Rightarrow> TokenValidator \<Rightarrow> TokenValidator \<times> auth_outcome" where
  "MiddlewareWithOptions J fetch now dn skipPaths path env authHeader v =
    (if path \<in> set skipPaths then (v, AuthNext None) else NewAuthMiddleware J fetch now dn False env authHeader v)"

section \<open>Lemmas\<close>

lemma split_fields_nonempty: "'''' \<notin> set (split_fields acc s)"
  by (induction acc s rule: split_fields.induct) (auto simp: Let_def)

lemma Fields_nonempty: "'''' \<notin> set (Fields s)"
  by (simp add: Fields_def split_fields_nonempty)

lemma check_claims_accepts:
  "check_claims v scope c = Inr c' \<longleftrightarrow>
    c' = c \<and> tc_Issuer c = tv_issuer v \<and> set (tc_Audience c) \<inter> set (tv_audiences v) \<noteq> {}
    \<and> scope \<in> set (Fields (tc_Scope c)) \<and> tc_NfType c \<in> set (tv_allowedNfTypes v)"
  by (auto simp: check_claims_def list_ex_iff)

lemma check_claims_cong:
  "tv_issuer v = tv_issuer w \<Longrightarrow> tv_audiences v = tv_audiences w \<Longrightarrow> tv_allowedNfTypes v = tv_allowedNfTypes w \<Longrightarrow>
   check_claims v scope c = check_claims w scope c"
  by (simp add: check_claims_def)

lemma Validate_accepts:
  assumes "Validate J fetch now dn tok scope v = (v', Inr c)"
  obtains kid key f where "jwt_unverified J tok = Inr (Some (HvString kid))" "kid \<noteq> ''''"
    "GetKey fetch now dn kid (tv_jwksFetcher v) = (f, Inr key)" "v' = v\<lparr>tv_jwksFetcher := f\<rparr>"
    "jwt_parse J (key_for key) dn tok = Inr c" "check_claims v scope c = Inr c"
proof -
  obtain hd where hd: "jwt_unverified J tok = Inr hd" using assms by (auto simp: Validate_def split: sum.splits)
  define kid where "kid = (case hd of Some (HvString s) \<Rightarrow> s | _ \<Rightarrow> '''')"
  have k: "kid \<noteq> ''''" using assms hd by (auto simp: Validate_def kid_def Let_def split: if_splits)
  then have hd': "hd = Some (HvString kid)" by (auto simp: kid_def split: option.splits header_value.splits)
  obtain f r where g: "GetKey fetch now dn kid (tv_jwksFetcher v) = (f, r)" by (cases "GetKey fetch now dn kid (tv_jwksFetcher v)")
  have e: "v' = v\<lparr>tv_jwksFetcher := f\<rparr>"
    "(case r of Inl err \<Rightarrow> Inl (ErrInvalidToken (''JWKS fetch: '' @ err))
       | Inr pubKey \<Rightarrow> (case jwt_parse J (key_for pubKey) dn tok of
            Inl err \<Rightarrow> if StrContains err ''token is expired'' then Inl ErrTokenExpired else Inl (ErrInvalidToken err)
          | Inr parsedClaims \<Rightarrow> check_claims (v\<lparr>tv_jwksFetcher := f\<rparr>) scope parsedClaims)) = Inr c"
    using assms hd hd' k g by (simp_all add: Validate_def Let_def)
  obtain key where r: "r = Inr key" using e(2) by (cases r) simp_all
  obtain c0 where p: "jwt_parse J (key_for key) dn tok = Inr c0" "check_claims (v\<lparr>tv_jwksFetcher := f\<rparr>) scope c0 = Inr c"
    using e(2) r by (cases "jwt_parse J (key_for key) dn tok") (simp_all split: if_splits)
  have "check_claims v scope c0 = Inr c" using p(2) by (simp add: check_claims_accepts)
  then have "c = c0" "check_claims v scope c = Inr c" by (simp_all add: check_claims_accepts)
  then show thesis using that hd hd' k g r e(1) p(1) by simp
qed

text \<open>Where a key comes from: the entries are those of the last key set received.\<close>

definition from_fetch :: "JWKSFetcher \<Rightarrow> (jwks_fetch \<times> time) list \<Rightarrow> bool" where
  "from_fetch f fs = (jf_entries f = [] \<or> (\<exists>ks. (JwksKeys ks, jf_fetchedAt f) \<in> set fs \<and> jf_entries f = parse_keys ks))"

lemma lookup_key_Inr [simp]: "lookup_key kid m = Inr key \<longleftrightarrow> gm_get m kid = Some key"
  by (simp add: lookup_key_def split: option.split)

lemma GetKey_cases:
  assumes "GetKey fetch now dn kid f = (f', r)"
  obtains (cached) "jf_fresh now f" "f' = f" "r = lookup_key kid (jf_entries f)"
  | (failed) e where "f' = f" "r = Inl e"
  | (fetched) ks where "fetch = JwksKeys ks" "f' = f\<lparr>jf_entries := parse_keys ks, jf_fetchedAt := dn\<rparr>" "r = lookup_key kid (parse_keys ks)"
proof (cases "gm_get (jf_entries f) kid \<noteq> None \<and> jf_fresh now f")
  case True
  then obtain k where k: "gm_get (jf_entries f) kid = Some k" "jf_fresh now f" by blast
  then have "f' = f" "r = Inr k" using assms by (simp_all add: GetKey_def)
  then show thesis using cached k by (simp add: lookup_key_def)
next
  case False
  have G: "GetKey fetch now dn kid f = (case refreshLocked fetch now dn f of Inl err \<Rightarrow> (f, Inl err) | Inr f \<Rightarrow> (f, lookup_key kid (jf_entries f)))"
    using False unfolding GetKey_def by (cases "gm_get (jf_entries f) kid"; cases "jf_fresh now f") simp_all
  show thesis
  proof (cases "jf_fresh now f \<and> length (jf_entries f) > 0")
    case True
    then have "f' = f" "r = lookup_key kid (jf_entries f)" using assms unfolding G by (auto simp: refreshLocked_def)
    then show thesis using cached True by blast
  next
    case False
    then have R: "refreshLocked fetch now dn f = (case fetch of
       JwksFailed err \<Rightarrow> Inl (ErrJWKSFetch @ '': '' @ err)
     | JwksStatus s \<Rightarrow> Inl (ErrJWKSFetch @ '': NRF JWKS returned '' @ show_nat (nat s))
     | JwksInvalid err \<Rightarrow> Inl (ErrJWKSFetch @ '': invalid JSON: '' @ err)
     | JwksKeys ks \<Rightarrow> Inr (f\<lparr>jf_entries := parse_keys ks, jf_fetchedAt := dn\<rparr>))" by (auto simp: refreshLocked_def)
    show thesis
    proof (cases "\<exists>ks. fetch = JwksKeys ks")
      case True
      then obtain ks where "fetch = JwksKeys ks" by blast
      then show thesis using assms fetched [of ks] unfolding G R by simp
    next
      case False
      then obtain err where "refreshLocked fetch now dn f = Inl err" unfolding R by (cases fetch) simp_all
      then have "f' = f" "r = Inl err" using assms unfolding G by simp_all
      then show thesis by (rule failed)
    qed
  qed
qed

lemma GetKey_from_fetch:
  assumes "from_fetch f fs" "GetKey fetch now dn kid f = (f', r)"
  shows "from_fetch f' ((fetch, dn) # fs)" "jf_ttl f' = jf_ttl f"
    "r = Inr key \<Longrightarrow> \<exists>ks t. (JwksKeys ks, t) \<in> set ((fetch, dn) # fs) \<and> gm_get (parse_keys ks) kid = Some key
       \<and> (t = dn \<or> now - t \<le> jf_ttl f)"
proof -
  have "from_fetch f' ((fetch, dn) # fs) \<and> jf_ttl f' = jf_ttl f
    \<and> (r = Inr key \<longrightarrow> (\<exists>ks t. (JwksKeys ks, t) \<in> set ((fetch, dn) # fs) \<and> gm_get (parse_keys ks) kid = Some key
       \<and> (t = dn \<or> now - t \<le> jf_ttl f)))"
  proof (cases rule: GetKey_cases [OF assms(2)])
    case 1
    show ?thesis
    proof (cases "jf_entries f = []")
      case True
      then show ?thesis using 1 by (simp add: from_fetch_def)
    next
      case False
      then obtain ks where "(JwksKeys ks, jf_fetchedAt f) \<in> set fs" "jf_entries f = parse_keys ks"
        using assms(1) by (auto simp: from_fetch_def)
      then show ?thesis using 1 by (auto simp: from_fetch_def jf_fresh_def)
    qed
  next
    case (2 e)
    then show ?thesis using assms(1) by (auto simp: from_fetch_def)
  next
    case (3 ks)
    then show ?thesis by (auto simp: from_fetch_def)
  qed
  then show "from_fetch f' ((fetch, dn) # fs)" "jf_ttl f' = jf_ttl f"
    "r = Inr key \<Longrightarrow> \<exists>ks t. (JwksKeys ks, t) \<in> set ((fetch, dn) # fs) \<and> gm_get (parse_keys ks) kid = Some key
       \<and> (t = dn \<or> now - t \<le> jf_ttl f)" by blast+
qed

fun jwks_run :: "(jwks_fetch \<times> time \<times> time \<times> string) list \<Rightarrow> JWKSFetcher \<Rightarrow> JWKSFetcher" where
  "jwks_run [] f = f"
| "jwks_run ((fetch, now, dn, kid) # calls) f = jwks_run calls (fst (GetKey fetch now dn kid f))"

lemma jwks_run_from_fetch:
  assumes "from_fetch f fs"
  shows "from_fetch (jwks_run calls f) (rev (map (\<lambda>(fetch, now, dn, kid). (fetch, dn)) calls) @ fs)"
    "jf_ttl (jwks_run calls f) = jf_ttl f"
proof -
  have "from_fetch (jwks_run calls f) (rev (map (\<lambda>(fetch, now, dn, kid). (fetch, dn)) calls) @ fs) \<and> jf_ttl (jwks_run calls f) = jf_ttl f"
    using assms
  proof (induction calls arbitrary: f fs)
    case (Cons x calls)
    obtain fetch now dn kid where x: "x = (fetch, now, dn, kid)" by (cases x)
    obtain f' r where g: "GetKey fetch now dn kid f = (f', r)" by (cases "GetKey fetch now dn kid f")
    show ?case using Cons.IH [OF GetKey_from_fetch(1) [OF Cons.prems g]] GetKey_from_fetch(2) [OF Cons.prems g] by (simp add: x g)
  qed simp
  then show "from_fetch (jwks_run calls f) (rev (map (\<lambda>(fetch, now, dn, kid). (fetch, dn)) calls) @ fs)"
    "jf_ttl (jwks_run calls f) = jf_ttl f" by blast+
qed

section \<open>A token package\<close>

text \<open>Tokens that name their key and are accepted by it whenever the key function gives one.\<close>

definition ex_claims :: TokenClaims where
  "ex_claims = \<lparr>tc_Issuer = ''nrf'', tc_Audience = [''nnssaaf-nssaa''], tc_Scope = ''nnssaaf-nssaa nnssaaf-aiw'', tc_ClientID = ''c'',
     tc_NfType = ''AMF'', tc_NfID = ''amf-1'', tc_CN = ''amf''\<rparr>"

definition plain_jwt :: jwt_lib where
  "plain_jwt = \<lparr>jwt_unverified = (\<lambda>tok. Inr (Some (HvString tok))),
     jwt_parse = (\<lambda>kf now tok. case kf ''RS256'' of Inl err \<Rightarrow> Inl err | Inr k \<Rightarrow> Inr ex_claims)\<rparr>"

interpretation plain_jwt: jwt_library plain_jwt "\<lambda>_. ''RS256''" "\<lambda>_ _. True" "\<lambda>_. ex_claims" "\<lambda>_. None"
  by unfold_locales (auto simp: plain_jwt_def split: sum.splits)

definition ex_jwk :: JWKSKey where
  "ex_jwk = \<lparr>jk_Kty = ''RSA'', jk_Kid = ''k1'', jk_Use = ''sig'', jk_Alg = ''RS256'', jk_N = ''AQAB'', jk_E = ''AQAB'', jk_Crv = '''', jk_X = '''', jk_Y = ''''\<rparr>"

definition ex_validator :: TokenValidator where
  "ex_validator = \<lparr>tv_jwksFetcher = NewJWKSFetcher ''http://nrf/jwks'' 0, tv_issuer = ''nrf'', tv_audiences = [''nnssaaf-nssaa''],
     tv_allowedNfTypes = [''AMF''], tv_allowedScopes = [''nnssaaf-nssaa'']\<rparr>"

lemma ex_key: "parse_keys [ex_jwk] = [(''k1'', RSAKey 65537 65537)]"
  by (simp add: parse_keys_def add_key_def parseRSAKey_def ex_jwk_def base64URLDecode_def replace_char_def b64_decode_def b64_val_def
      Let_def gm_put_def of_be_def)

lemma ex_scope: "Fields ''nnssaaf-nssaa nnssaaf-aiw'' = [''nnssaaf-nssaa'', ''nnssaaf-aiw'']"
  by (simp add: Fields_def space_len_def Let_def)

lemma ex_get: "GetKey (JwksKeys [ex_jwk]) 0 1 ''k1'' (NewJWKSFetcher ''http://nrf/jwks'' 0)
    = ((NewJWKSFetcher ''http://nrf/jwks'' 0)\<lparr>jf_entries := parse_keys [ex_jwk], jf_fetchedAt := 1\<rparr>, Inr (RSAKey 65537 65537))"
  by (simp add: GetKey_def refreshLocked_def NewJWKSFetcher_def lookup_key_def ex_key gm_get_def)

section \<open>Properties\<close>

text \<open>C30. A token is accepted only if it names a key of the cache or of the key set just fetched, this key verifies
  it under one of the six asymmetric algorithms, it has not expired, and its claims have the configured issuer,
  an accepted audience, the required scope and an accepted type of network function.\<close>

theorem accepted_token_is_trusted:
  assumes "jwt_library J alg verifies claims exp_at" "Validate J fetch now dn tok scope v = (v', Inr c)"
  shows "c = claims tok \<and> alg tok \<in> set signing_methods \<and> (\<forall>e. exp_at tok = Some e \<longrightarrow> dn < e)
    \<and> (\<exists>kid key. jwt_unverified J tok = Inr (Some (HvString kid)) \<and> verifies key tok
        \<and> gm_get (jf_entries (tv_jwksFetcher v')) kid = Some key)
    \<and> tc_Issuer c = tv_issuer v \<and> set (tc_Audience c) \<inter> set (tv_audiences v) \<noteq> {}
    \<and> scope \<in> set (Fields (tc_Scope c)) \<and> tc_NfType c \<in> set (tv_allowedNfTypes v)"
proof (rule Validate_accepts [OF assms(2)])
  fix kid key f
  assume h: "jwt_unverified J tok = Inr (Some (HvString kid))" "GetKey fetch now dn kid (tv_jwksFetcher v) = (f, Inr key)"
    "v' = v\<lparr>tv_jwksFetcher := f\<rparr>" "jwt_parse J (key_for key) dn tok = Inr c" "check_claims v scope c = Inr c"
  note P = jwt_library.parse_sound [OF assms(1) h(4)]
  have a: "alg tok \<in> set signing_methods" "verifies key tok"
    using P by (auto simp: key_for_def split: if_splits)
  have "gm_get (jf_entries f) kid = Some key"
    by (cases rule: GetKey_cases [OF h(2)]) (auto simp: eq_commute [of "Inr key"])
  then have "gm_get (jf_entries (tv_jwksFetcher v')) kid = Some key" by (simp add: h(3))
  moreover have "tc_Issuer c = tv_issuer v \<and> set (tc_Audience c) \<inter> set (tv_audiences v) \<noteq> {}
    \<and> scope \<in> set (Fields (tc_Scope c)) \<and> tc_NfType c \<in> set (tv_allowedNfTypes v)"
    using h(5) unfolding check_claims_accepts by blast
  ultimately show ?thesis using a P h(1) by blast
qed

lemma ex_validate:
  "\<exists>v'. Validate plain_jwt (JwksKeys [ex_jwk]) 0 1 ''k1'' ''nnssaaf-aiw'' ex_validator = (v', Inr ex_claims)"
proof -
  have "check_claims v ''nnssaaf-aiw'' ex_claims = Inr ex_claims"
    if "tv_issuer v = ''nrf''" "tv_audiences v = [''nnssaaf-nssaa'']" "tv_allowedNfTypes v = [''AMF'']" for v
    using that by (simp add: check_claims_def ex_claims_def ex_scope)
  then show ?thesis
    by (simp add: Validate_def plain_jwt_def ex_validator_def ex_get key_for_def)
qed

theorem accepted_token_is_trusted_witness:
  "\<exists>v'. Validate plain_jwt (JwksKeys [ex_jwk]) 0 1 ''k1'' ''nnssaaf-aiw'' ex_validator = (v', Inr ex_claims)
     \<and> ''nnssaaf-aiw'' \<in> set (Fields (tc_Scope ex_claims)) \<and> tc_NfType ex_claims \<in> set (tv_allowedNfTypes ex_validator)"
proof -
  obtain v' where V: "Validate plain_jwt (JwksKeys [ex_jwk]) 0 1 ''k1'' ''nnssaaf-aiw'' ex_validator = (v', Inr ex_claims)"
    using ex_validate by blast
  show ?thesis using accepted_token_is_trusted [OF plain_jwt.jwt_library_axioms V] V by blast
qed

text \<open>C31. With validation enabled no request reaches the service: the middleware asks for the empty scope, and the
  fields of a scope claim are never empty, so whatever the header, the token package, the key set and the time,
  the request is answered with 401.\<close>

theorem enabled_auth_rejects_all:
  assumes "\<not> disabled" "env \<noteq> ''1''"
  shows "\<exists>v' detail. NewAuthMiddleware J fetch now dn disabled env authHeader v = (v', AuthRejected detail)"
proof -
  have "\<exists>v' err. Validate J fetch now dn tok '''' v = (v', Inl err)" for tok
  proof (cases "Validate J fetch now dn tok '''' v")
    case (Pair v' r)
    show ?thesis
    proof (cases r)
      case (Inr c)
      then have "Validate J fetch now dn tok '''' v = (v', Inr c)" using Pair by simp
      then have "check_claims v '''' c = Inr c" by (rule Validate_accepts)
      then show ?thesis using Fields_nonempty by (simp add: check_claims_accepts)
    qed (use Pair in simp)
  qed
  then obtain v' err where "Validate J fetch now dn (TrimPrefix authHeader ''Bearer '') '''' v = (v', Inl err)" by blast
  then show ?thesis using assms by (simp add: NewAuthMiddleware_def Let_def)
qed

theorem enabled_auth_rejects_all_witness:
  "\<exists>v' detail. NewAuthMiddleware plain_jwt (JwksKeys [ex_jwk]) 0 1 False '''' ''Bearer k1'' ex_validator = (v', AuthRejected detail)"
  by (rule enabled_auth_rejects_all) simp_all

text \<open>A key is used at most its time to live after it was received: in any sequence of look-ups from a new cache,
  whatever the fetches return, a key that a look-up finds was in a key set that this look-up fetched or that
  was received within the time to live before it.  A key that the NRF withdraws is not accepted longer.\<close>

theorem keys_at_most_ttl_old:
  assumes "GetKey fetch now dn kid (jwks_run calls (NewJWKSFetcher url ttl)) = (f, Inr key)"
  shows "\<exists>ks t. (JwksKeys ks, t) \<in> set ((fetch, dn) # map (\<lambda>(fetch, now, dn, kid). (fetch, dn)) calls)
    \<and> gm_get (parse_keys ks) kid = Some key \<and> (t = dn \<or> now - t \<le> (if ttl = 0 then 15 * Minute else ttl))"
proof -
  have "from_fetch (NewJWKSFetcher url ttl) []" "jf_ttl (NewJWKSFetcher url ttl) = (if ttl = 0 then 15 * Minute else ttl)"
    by (simp_all add: from_fetch_def NewJWKSFetcher_def)
  note R = jwks_run_from_fetch [OF this(1), of calls] and ttl = this(2)
  from GetKey_from_fetch(3) [OF R(1) assms refl] show ?thesis using R(2) ttl by simp
qed

end
