(* ===== verification/Nrf.thy ===== *)
theory Nrf
  imports Stores Encodings
begin

text \<open>
  The client of the NRF (\<^verbatim>\<open>internal/nrf\<close>): the profile, registration and discovery with their cache, the
  access token, and the heartbeat manager with its re-registration loops.  The HTTP call is an argument that
  gives the outcome of a request, an error or a status with a body; the JSON and YAML codecs are arguments too.
\<close>

section \<open>The profile\<close>

record PLMN =
  plmn_MCC :: string
  plmn_MNC :: string

record nrf_Snssai =
  nsn_SST :: int
  nsn_SD :: string

record IPEndPoint =
  ip_IPv4Address :: string
  ip_IPv6Address :: string
  ip_Transport :: string
  ip_Port :: int

record NFService =
  svc_ServiceInstanceID :: string
  svc_ServiceName :: string
  svc_Versions :: "string list"
  svc_Scheme :: string
  svc_NFServiceStatus :: string
  svc_FQDN :: string
  svc_APIPrefix :: string
  svc_IPEndPoints :: "IPEndPoint list"
  svc_Capacity :: int
  svc_Priority :: int
  svc_SupportedFeatures :: string
  svc_AllowedNfTypes :: "string list"
  svc_AllowedNfDomains :: "string list"

record SupiRange =
  sr_Start :: string
  sr_End :: string
  sr_Pattern :: string
  sr_Size :: string

record NssaafInfo =
  ni_SupiRanges :: "SupiRange list"
  ni_GroupRanges :: "(string \<times> string) list"

record CustomInfo =
  ci_SupportedAaaProtocols :: "string list"
  ci_MaxEapRounds :: int
  ci_EapTimeoutSeconds :: int

record NFProfile =
  nfp_NFInstanceID :: string
  nfp_NFType :: string
  nfp_NFStatus :: string
  nfp_HeartBeatTimer :: int
  nfp_Load :: int
  nfp_InstanceName :: string
  nfp_FQDN :: string
  nfp_Locality :: string
  nfp_NFSetID :: string
  nfp_PLMNList :: "PLMN list"
  nfp_SNSSAIList :: "nrf_Snssai list"
  nfp_NfServices :: "NFService list"
  nfp_NssaafInfo :: "NssaafInfo option"
  nfp_CustomInfo :: "CustomInfo option"

record YAMLService =
  ys_ServiceInstanceID :: string
  ys_APIPrefix :: string
  ys_AllowedNfTypes :: "string list"
  ys_AllowedNfDomains :: "string list"
  ys_Capacity :: int
  ys_Priority :: int
  ys_SupportedFeatures :: string

text \<open>The services are listed in the order in which the loop visits the map.\<close>

record YAMLProfile =
  yp_InstanceID :: string
  yp_InstanceName :: string
  yp_FQDN :: string
  yp_Locality :: string
  yp_NFSetID :: string
  yp_IPv4Addresses :: "string list"
  yp_HeartbeatTimer :: int
  yp_PLMNList :: "PLMN list"
  yp_SNSSAIList :: "nrf_Snssai list"
  yp_NSSAAServices :: "(string \<times> YAMLService) list"
  yp_NSSAAFInfo :: "NssaafInfo option"
  yp_CustomInfo :: "CustomInfo option"

text \<open>\<^verbatim>\<open>file\<close> is the outcome of reading the file, \<^verbatim>\<open>unmarshal\<close> the YAML decoder.\<close>

definition LoadProfileFromYAML ::
  "(string, bytes) result \<Rightarrow> (bytes \<Rightarrow> (string, YAMLProfile) result) \<Rightarrow> (string, YAMLProfile) result" where
  "LoadProfileFromYAML file unmarshal =
    (case file of
       Inl err \<Rightarrow> Inl (''reading profile config: '' @ err)
     | Inr data \<Rightarrow>
         (case unmarshal data of
            Inl err \<Rightarrow> Inl (''parsing profile config: '' @ err)
          | Inr profile \<Rightarrow>
              if yp_InstanceID profile = '''' then Inl ''instanceId is required in NFProfile config'' else Inr profile))"

definition build_service :: "YAMLProfile \<Rightarrow> string \<times> YAMLService \<Rightarrow> NFService" where
  "build_service y e =
    (case e of (name, svc) \<Rightarrow>
      \<lparr>svc_ServiceInstanceID = ys_ServiceInstanceID svc, svc_ServiceName = name, svc_Versions = [''v1''], svc_Scheme = ''https'',
       svc_NFServiceStatus = ''REGISTERED'', svc_FQDN = yp_FQDN y, svc_APIPrefix = ''https://'' @ yp_FQDN y @ ys_APIPrefix svc,
       svc_IPEndPoints = map (\<lambda>addr. \<lparr>ip_IPv4Address = addr, ip_IPv6Address = '''', ip_Transport = ''TCP'', ip_Port = 443\<rparr>) (yp_IPv4Addresses y),
       svc_Capacity = ys_Capacity svc, svc_Priority = ys_Priority svc, svc_SupportedFeatures = ys_SupportedFeatures svc,
       svc_AllowedNfTypes = ys_AllowedNfTypes svc, svc_AllowedNfDomains = ys_AllowedNfDomains svc\<rparr>)"

definition BuildNFProfile :: "YAMLProfile \<Rightarrow> int \<Rightarrow> NFProfile" where
  "BuildNFProfile y heartbeatTimer =
    \<lparr>nfp_NFInstanceID = yp_InstanceID y, nfp_NFType = ''NSSAAF'', nfp_NFStatus = ''REGISTERED'',
     nfp_HeartBeatTimer = (if yp_HeartbeatTimer y = 0 then heartbeatTimer else yp_HeartbeatTimer y),
     nfp_Load = 0, nfp_InstanceName = yp_InstanceName y, nfp_FQDN = yp_FQDN y, nfp_Locality = yp_Locality y, nfp_NFSetID = yp_NFSetID y,
     nfp_PLMNList = yp_PLMNList y, nfp_SNSSAIList = yp_SNSSAIList y,
     nfp_NfServices = map (build_service y) (yp_NSSAAServices y),
     nfp_NssaafInfo = yp_NSSAAFInfo y, nfp_CustomInfo = yp_CustomInfo y\<rparr>"

section \<open>The discovery cache\<close>

record NRFDiscoveryCache =
  dc_cache :: "(string, string \<times> time) gomap"
  dc_ttl :: duration

definition DiscoveryCache_Get :: "time \<Rightarrow> string \<Rightarrow> bool \<Rightarrow> NRFDiscoveryCache \<Rightarrow> string option" where
  "DiscoveryCache_Get now key allowStale c =
    (case gm_get (dc_cache c) key of
       None \<Rightarrow> None
     | Some (data, expiresAt) \<Rightarrow> if now < expiresAt then Some data else if allowStale then Some data else None)"

definition DiscoveryCache_Set :: "time \<Rightarrow> string \<Rightarrow> string \<Rightarrow> NRFDiscoveryCache \<Rightarrow> NRFDiscoveryCache" where
  "DiscoveryCache_Set now key data c = c\<lparr>dc_cache := gm_put key (data, now + dc_ttl c) (dc_cache c)\<rparr>"

section \<open>The client\<close>

text \<open>A request with its headers, and its outcome.\<close>

record nrf_request =
  rq_method :: string
  rq_path :: string
  rq_headers :: "(string \<times> string) list"
  rq_body :: bytes

type_synonym transport = "nrf_request \<Rightarrow> (string, int \<times> bytes) result"

text \<open>An instance of a discovery answer: its services with their end points.\<close>

type_synonym nf_instance = "(string, (string \<times> int) list) gomap"

text \<open>The JSON codec at the types the client uses it with: the marshalled profile, and the fields
  \<^verbatim>\<open>heartBeatTimer\<close>, \<^verbatim>\<open>etag\<close>, \<^verbatim>\<open>nfInstances\<close> (as end points and as profiles) and \<^verbatim>\<open>nfInstanceId\<close> of a body.\<close>

record nrf_json =
  js_profile :: "NFProfile \<Rightarrow> (string, bytes) result"
  js_timer :: "bytes \<Rightarrow> (string, int) result"
  js_etag :: "bytes \<Rightarrow> (string, string) result"
  js_endpoints :: "bytes \<Rightarrow> (string, nf_instance list) result"
  js_instance :: "bytes \<Rightarrow> (string, string) result"
  js_profiles :: "bytes \<Rightarrow> (string, NFProfile list) result"

record TokenConfig =
  tkc_Enabled :: bool
  tkc_AuthServer :: string
  tkc_ClientID :: string
  tkc_ClientSecret :: string
  tkc_Scope :: string

record HeartbeatConfig =
  hc_InitialInterval :: duration
  hc_AcceptNegotiatedInterval :: bool
  hc_MaxConsecutiveFailures :: int

record DiscoveryCacheConfig =
  dcc_Enabled :: bool
  dcc_DefaultTTL :: duration

record NRFConfig =
  nrf_BaseURL :: string
  nrf_DiscoverTimeout :: duration
  nrf_CacheTTL :: duration
  nrf_InstanceID :: string
  nrf_ProfilePath :: string
  nrf_AccessToken :: TokenConfig
  nrf_Heartbeat :: HeartbeatConfig
  nrf_DiscoveryCache :: DiscoveryCacheConfig

record nrf_Client =
  nc_baseURL :: string
  nc_nfInstanceID :: string
  nc_cache :: NRFDiscoveryCache
  nc_registered :: bool

definition NewClientWithConfig :: "nat \<Rightarrow> NRFConfig \<Rightarrow> nrf_Client" where
  "NewClientWithConfig nowNano cfg =
    \<lparr>nc_baseURL = nrf_BaseURL cfg,
     nc_nfInstanceID = (if nrf_InstanceID cfg = '''' then ''nssAAF-instance-'' @ show_nat nowNano else nrf_InstanceID cfg),
     nc_cache = \<lparr>dc_cache = [], dc_ttl = (if nrf_CacheTTL cfg = 0 then 5 * Minute else nrf_CacheTTL cfg)\<rparr>,
     nc_registered = False\<rparr>"

abbreviation instance_path :: "string \<Rightarrow> string" where
  "instance_path i \<equiv> ''/nnrf-disc/v1/nf-instances/'' @ i"

abbreviation plain_request :: "string \<Rightarrow> string \<Rightarrow> bytes \<Rightarrow> nrf_request" where
  "plain_request method path body \<equiv> \<lparr>rq_method = method, rq_path = path, rq_headers = [], rq_body = body\<rparr>"

text \<open>The message of an unexpected status.\<close>

definition status_error :: "string \<Rightarrow> int \<Rightarrow> bytes \<Rightarrow> string" where
  "status_error what status body = ''nrf: '' @ what @ '' '' @ show_int status @ '': '' @ string_of body"

text \<open>A number of seconds as a 64-bit duration.\<close>

definition seconds :: "int \<Rightarrow> duration" where
  "seconds n = sint (of_int n * of_int Second :: 64 word)"

definition parseHeartbeatInterval :: "nrf_json \<Rightarrow> bytes \<Rightarrow> duration" where
  "parseHeartbeatInterval J body = (case js_timer J body of Inr t \<Rightarrow> if t > 0 then seconds t else 0 | Inl _ \<Rightarrow> 0)"

definition parseETag :: "nrf_json \<Rightarrow> bytes \<Rightarrow> string" where
  "parseETag J body = (case js_etag J body of Inr t \<Rightarrow> if t \<noteq> '''' then t else '''' | Inl _ \<Rightarrow> '''')"

definition plain_profile :: "string \<Rightarrow> int \<Rightarrow> NFProfile" where
  "plain_profile i timer = \<lparr>nfp_NFInstanceID = i, nfp_NFType = ''NSSAAF'', nfp_NFStatus = ''REGISTERED'', nfp_HeartBeatTimer = timer,
     nfp_Load = 0, nfp_InstanceName = '''', nfp_FQDN = '''', nfp_Locality = '''', nfp_NFSetID = '''', nfp_PLMNList = [],
     nfp_SNSSAIList = [], nfp_NfServices = [], nfp_NssaafInfo = None, nfp_CustomInfo = None\<rparr>"

definition Nrf_Register ::
  "nrf_json \<Rightarrow> transport \<Rightarrow> NFProfile option \<Rightarrow> nrf_Client \<Rightarrow> nrf_Client \<times> (string, duration \<times> string) result" where
  "Nrf_Register J http profile c =
    (let profile = (case profile of None \<Rightarrow> plain_profile (nc_nfInstanceID c) 300 | Some p \<Rightarrow> p) in
     case js_profile J profile of
       Inl err \<Rightarrow> (c, Inl (''nrf: marshal profile: '' @ err))
     | Inr body \<Rightarrow>
         (case http (plain_request ''PUT'' (instance_path (nc_nfInstanceID c)) body) of
            Inl err \<Rightarrow> (c, Inl (''nrf: register: '' @ err))
          | Inr (status, respBody) \<Rightarrow>
              if status \<noteq> 201 \<and> status \<noteq> 200 then (c, Inl (status_error ''unexpected status'' status respBody))
              else (c\<lparr>nc_registered := True\<rparr>, Inr (parseHeartbeatInterval J respBody, parseETag J respBody))))"

definition Nrf_Heartbeat :: "nrf_json \<Rightarrow> transport \<Rightarrow> string \<Rightarrow> string \<Rightarrow> (string, string) result" where
  "Nrf_Heartbeat J http instanceID etag =
    (case http \<lparr>rq_method = ''PATCH'', rq_path = instance_path instanceID,
                rq_headers = [(''Content-Type'', ''application/json-patch+json''), (''If-Match'', etag)],
                rq_body = bytes_of ''{\"nfStatus\":\"REGISTERED\"}''\<rparr> of
       Inl err \<Rightarrow> Inl (''nrf: heartbeat: '' @ err)
     | Inr (status, respBody) \<Rightarrow>
         if status \<noteq> 204 then Inl (status_error ''heartbeat status'' status respBody) else Inr (parseETag J respBody))"

definition Nrf_Deregister :: "transport \<Rightarrow> string \<Rightarrow> nrf_Client \<Rightarrow> nrf_Client \<times> string option" where
  "Nrf_Deregister http instanceID c =
    (case http (plain_request ''DELETE'' (instance_path instanceID) []) of
       Inl err \<Rightarrow> (c, Some (''nrf: deregister: '' @ err))
     | Inr (status, respBody) \<Rightarrow>
         if status \<noteq> 204 \<and> status \<noteq> 200 then (c, Some (status_error ''deregister status'' status respBody))
         else (c\<lparr>nc_registered := False\<rparr>, None))"

text \<open>The first end point of the first instance that has the service and an end point of it.\<close>

fun first_endpoint :: "string \<Rightarrow> nf_instance list \<Rightarrow> string option" where
  "first_endpoint service [] = None"
| "first_endpoint service (inst # rest) =
    (case gm_get inst service of
       Some ((addr, port) # _) \<Rightarrow> Some (''http://'' @ addr @ '':'' @ show_int port)
     | _ \<Rightarrow> first_endpoint service rest)"

definition DiscoverUDM ::
  "nrf_json \<Rightarrow> transport \<Rightarrow> time \<Rightarrow> string \<Rightarrow> nrf_Client \<Rightarrow> nrf_Client \<times> (string, string) result" where
  "DiscoverUDM J http now plmnID c =
    (let key = ''udm:uem:'' @ plmnID in
     case DiscoveryCache_Get now key True (nc_cache c) of
       Some endpoint \<Rightarrow> (c, Inr endpoint)
     | None \<Rightarrow>
         (case http (plain_request ''GET'' ''/nnrf-disc/v1/nf-instances?target-nf-type=UDM&service-names=nudm-uem'' []) of
            Inl err \<Rightarrow> (c, Inl (''nrf: discover udm: '' @ err))
          | Inr (status, respBody) \<Rightarrow>
              if status \<noteq> 200 then (c, Inl (status_error ''discover udm status'' status respBody))
              else (case js_endpoints J respBody of
                 Inl err \<Rightarrow> (c, Inl (''nrf: decode discovery: '' @ err))
               | Inr instances \<Rightarrow>
                   (case first_endpoint ''nudm-uem'' instances of
                      Some endpoint \<Rightarrow> (c\<lparr>nc_cache := DiscoveryCache_Set now key endpoint (nc_cache c)\<rparr>, Inr endpoint)
                    | None \<Rightarrow> (c, Inl (''nrf: no UDM found for plmnId '' @ plmnID))))))"

definition DiscoverAMF ::
  "nrf_json \<Rightarrow> transport \<Rightarrow> time \<Rightarrow> string \<Rightarrow> nrf_Client \<Rightarrow> nrf_Client \<times> (string, string) result" where
  "DiscoverAMF J http now amfID c =
    (let key = ''amf:'' @ amfID in
     case DiscoveryCache_Get now key True (nc_cache c) of
       Some endpoint \<Rightarrow> (c, Inr endpoint)
     | None \<Rightarrow>
         (case http (plain_request ''GET'' (instance_path amfID) []) of
            Inl err \<Rightarrow> (c, Inl (''nrf: discover amf: '' @ err))
          | Inr (status, respBody) \<Rightarrow>
              if status \<noteq> 200 then (c, Inl (status_error ''discover amf status'' status respBody))
              else (case js_instance J respBody of
                 Inl err \<Rightarrow> (c, Inl (''nrf: decode amf: '' @ err))
               | Inr i \<Rightarrow> (c\<lparr>nc_cache := DiscoveryCache_Set now key i (nc_cache c)\<rparr>, Inr i))))"

definition FindNF :: "nrf_json \<Rightarrow> transport \<Rightarrow> string \<Rightarrow> (string, NFProfile option) result" where
  "FindNF J http nfType =
    (case http (plain_request ''GET'' (''/nnrf-disc/v1/nf-instances?target-nf-type='' @ ToUpper nfType) []) of
       Inl err \<Rightarrow> Inl (''nrf: find nf: '' @ err)
     | Inr (status, respBody) \<Rightarrow>
         if status \<noteq> 200 then Inl (status_error ''find nf status'' status respBody)
         else (case js_profiles J respBody of
            Inl err \<Rightarrow> Inl (''nrf: decode find result: '' @ err)
          | Inr [] \<Rightarrow> Inr None
          | Inr (p # _) \<Rightarrow> Inr (Some p)))"

text \<open>One attempt of \<^verbatim>\<open>RegisterAsync\<close>: the loop ends, or pauses for the back-off and goes on with the next one.\<close>

definition RegisterAsync_turn :: "nrf_json \<Rightarrow> transport \<Rightarrow> duration \<Rightarrow> nrf_Client \<Rightarrow> nrf_Client \<times> duration option" where
  "RegisterAsync_turn J http backoff c =
    (case Nrf_Register J http None c of
       (c, Inl _) \<Rightarrow> (c, Some (if backoff < 30 * Second then backoff * 2 else backoff))
     | (c, Inr _) \<Rightarrow> (c\<lparr>nc_registered := True\<rparr>, None))"

text \<open>The attempts of the loop against a sequence of NRF behaviours, with the pauses between them.\<close>

fun RegisterAsync :: "nrf_json \<Rightarrow> transport list \<Rightarrow> duration \<Rightarrow> nrf_Client \<Rightarrow> nrf_Client \<times> duration list" where
  "RegisterAsync J [] backoff c = (c, [])"
| "RegisterAsync J (http # rest) backoff c =
    (case RegisterAsync_turn J http backoff c of
       (c, None) \<Rightarrow> (c, [])
     | (c, Some backoff') \<Rightarrow> (case RegisterAsync J rest backoff' c of (c, pauses) \<Rightarrow> (c, backoff # pauses)))"

section \<open>The access token\<close>

type_synonym nrf_TokenCache = "(string \<times> time) option"

text \<open>The outcome of the token request: no request, no answer, a status, a body that does not decode, a token.\<close>

datatype token_answer = TokenRequestInvalid string | TokenFailed string | TokenStatus int | TokenInvalid string | TokenGranted string int

definition token_valid :: "time \<Rightarrow> nrf_TokenCache \<Rightarrow> string option" where
  "token_valid now c = (case c of Some (token, expiresAt) \<Rightarrow> if expiresAt - now > 5 * Minute then Some token else None | None \<Rightarrow> None)"

definition fetchToken :: "token_answer \<Rightarrow> time \<Rightarrow> nrf_TokenCache \<Rightarrow> nrf_TokenCache \<times> (string, string) result" where
  "fetchToken r now c =
    (case r of
       TokenRequestInvalid err \<Rightarrow> (c, Inl (''creating token request: '' @ err))
     | TokenFailed err \<Rightarrow> (c, Inl (''token request failed: '' @ err))
     | TokenStatus s \<Rightarrow> (c, Inl (''token request failed with status '' @ show_int s))
     | TokenInvalid err \<Rightarrow> (c, Inl (''parsing token response: '' @ err))
     | TokenGranted token expiresIn \<Rightarrow> (Some (token, now + seconds expiresIn), Inr token))"

definition nrf_refresh :: "token_answer \<Rightarrow> time \<Rightarrow> nrf_TokenCache \<Rightarrow> nrf_TokenCache \<times> (string, string) result" where
  "nrf_refresh r now c = (case token_valid now c of Some token \<Rightarrow> (c, Inr token) | None \<Rightarrow> fetchToken r now c)"

definition GetToken :: "token_answer \<Rightarrow> time \<Rightarrow> nrf_TokenCache \<Rightarrow> nrf_TokenCache \<times> (string, string) result" where
  "GetToken r now c = (case token_valid now c of Some token \<Rightarrow> (c, Inr token) | None \<Rightarrow> nrf_refresh r now c)"

section \<open>The heartbeat manager\<close>

text \<open>The tickers are those of the running \<^verbatim>\<open>run\<close> goroutines; the loops are the running \<^verbatim>\<open>reRegisterLoop\<close>
  goroutines, by the number of their failed attempts.\<close>

record HeartbeatManager =
  hm_client :: nrf_Client
  hm_cfg :: HeartbeatConfig
  hm_instanceID :: string
  hm_registered :: bool
  hm_heartbeatInterval :: duration
  hm_consecutiveFailures :: int
  hm_etag :: string
  hm_stopClosed :: bool
  hm_tickers :: "duration list"
  hm_loops :: "nat list"

definition NewHeartbeatManager :: "nrf_Client \<Rightarrow> string \<Rightarrow> HeartbeatConfig \<Rightarrow> HeartbeatManager" where
  "NewHeartbeatManager client instanceID cfg =
    \<lparr>hm_client = client, hm_cfg = cfg, hm_instanceID = instanceID, hm_registered = False,
     hm_heartbeatInterval = hc_InitialInterval cfg, hm_consecutiveFailures = 0, hm_etag = '''',
     hm_stopClosed = False, hm_tickers = [], hm_loops = []\<rparr>"

definition SetProfilePath ::
  "(string, bytes) result \<Rightarrow> (bytes \<Rightarrow> (string, YAMLProfile) result) \<Rightarrow> HeartbeatConfig \<Rightarrow> nrf_Client \<Rightarrow> (string, HeartbeatManager) result" where
  "SetProfilePath file unmarshal cfg c =
    (case LoadProfileFromYAML file unmarshal of
       Inl err \<Rightarrow> Inl (''loading profile: '' @ err)
     | Inr profile \<Rightarrow>
         let c = (if yp_InstanceID profile \<noteq> '''' then c\<lparr>nc_nfInstanceID := yp_InstanceID profile\<rparr> else c) in
         Inr (NewHeartbeatManager c (nc_nfInstanceID c) cfg))"

text \<open>The truncation of a duration to seconds.\<close>

definition whole_seconds :: "duration \<Rightarrow> int" where
  "whole_seconds d = (if d < 0 then - ((- d) div Second) else d div Second)"

text \<open>The flag says whether the registration succeeded.\<close>

definition hm_register :: "nrf_json \<Rightarrow> transport \<Rightarrow> HeartbeatManager \<Rightarrow> HeartbeatManager \<times> bool" where
  "hm_register J http m =
    (case Nrf_Register J http (Some (plain_profile (hm_instanceID m) (whole_seconds (hc_InitialInterval (hm_cfg m))))) (hm_client m) of
       (c, Inl err) \<Rightarrow> (m\<lparr>hm_client := c\<rparr>, False)
     | (c, Inr (interval, etag)) \<Rightarrow>
         (m\<lparr>hm_client := c, hm_registered := True, hm_etag := etag,
            hm_heartbeatInterval := (if hc_AcceptNegotiatedInterval (hm_cfg m) \<and> interval > 0 then interval else hm_heartbeatInterval m)\<rparr>, True))"

text \<open>A ticker of an interval that is not positive panics.\<close>

definition hm_Start :: "nrf_json \<Rightarrow> transport \<Rightarrow> HeartbeatManager \<Rightarrow> HeartbeatManager option" where
  "hm_Start J http m =
    (case hm_register J http (m\<lparr>hm_stopClosed := False\<rparr>) of
       (m, ok) \<Rightarrow>
         let m = (if ok then m else m\<lparr>hm_loops := hm_loops m @ [0]\<rparr>) in
         if hm_heartbeatInterval m \<le> 0 then None else Some (m\<lparr>hm_tickers := hm_tickers m @ [hm_heartbeatInterval m]\<rparr>))"

definition hm_handleFailure :: "HeartbeatManager \<Rightarrow> HeartbeatManager" where
  "hm_handleFailure m =
    (let failures = hm_consecutiveFailures m + 1; m = m\<lparr>hm_consecutiveFailures := failures\<rparr> in
     if failures \<ge> hc_MaxConsecutiveFailures (hm_cfg m) then m\<lparr>hm_registered := False, hm_loops := hm_loops m @ [0]\<rparr> else m)"

definition hm_heartbeat :: "nrf_json \<Rightarrow> transport \<Rightarrow> HeartbeatManager \<Rightarrow> HeartbeatManager \<times> bool" where
  "hm_heartbeat J http m =
    (case Nrf_Heartbeat J http (hm_instanceID m) (hm_etag m) of
       Inl err \<Rightarrow> (m, False)
     | Inr newEtag \<Rightarrow> (m\<lparr>hm_etag := newEtag\<rparr>, True))"

text \<open>A tick of \<^verbatim>\<open>run\<close>.\<close>

definition hm_tick :: "nrf_json \<Rightarrow> transport \<Rightarrow> HeartbeatManager \<Rightarrow> HeartbeatManager" where
  "hm_tick J http m =
    (case hm_heartbeat J http m of (m, ok) \<Rightarrow> if ok then m\<lparr>hm_consecutiveFailures := 0\<rparr> else hm_handleFailure m)"

text \<open>\<^verbatim>\<open>exponentialBackoff\<close>: durations are 64-bit integers, a shift by 64 or more is 0, and \<^verbatim>\<open>rand n\<close> is the random
  number, at least 0 and less than \<^verbatim>\<open>n\<close>.\<close>

definition backoff_delay :: "nat \<Rightarrow> duration" where
  "backoff_delay attempt =
    (let delay = sint (5000000000 * push_bit attempt 1 :: 64 word) in
     if delay > 5 * Minute \<or> delay \<le> 0 then 5 * Minute else delay)"

definition exponentialBackoff :: "(int \<Rightarrow> int) \<Rightarrow> nat \<Rightarrow> duration" where
  "exponentialBackoff rand attempt = (let delay = backoff_delay attempt in delay + rand (delay div 5))"

text \<open>A turn of the re-registration loop at position \<^verbatim>\<open>i\<close>: it ends with a registration, or pauses.\<close>

definition reRegisterLoop_turn ::
  "nrf_json \<Rightarrow> transport \<Rightarrow> (int \<Rightarrow> int) \<Rightarrow> nat \<Rightarrow> HeartbeatManager \<Rightarrow> HeartbeatManager \<times> duration option" where
  "reRegisterLoop_turn J http rand i m =
    (case hm_register J http m of
       (m, ok) \<Rightarrow>
         if ok then (m\<lparr>hm_consecutiveFailures := 0, hm_loops := take i (hm_loops m) @ drop (Suc i) (hm_loops m)\<rparr>, None)
         else let attempt = Suc (hm_loops m ! i) in
              (m\<lparr>hm_loops := (hm_loops m)[i := attempt]\<rparr>, Some (exponentialBackoff rand attempt)))"

definition hm_deregister :: "transport \<Rightarrow> HeartbeatManager \<Rightarrow> HeartbeatManager" where
  "hm_deregister http m =
    (if \<not> hm_registered m then m
     else case Nrf_Deregister http (hm_instanceID m) (hm_client m) of
       (c, Some err) \<Rightarrow> m\<lparr>hm_client := c\<rparr>
     | (c, None) \<Rightarrow> m\<lparr>hm_client := c, hm_registered := False\<rparr>)"

text \<open>\<^verbatim>\<open>Stop\<close> waits until every \<^verbatim>\<open>run\<close> has deregistered and ended; closing the channel twice panics.\<close>

definition hm_Stop :: "transport \<Rightarrow> HeartbeatManager \<Rightarrow> HeartbeatManager option" where
  "hm_Stop http m =
    (if hm_stopClosed m then None
     else Some ((((hm_deregister http) ^^ length (hm_tickers m)) (m\<lparr>hm_stopClosed := True\<rparr>))\<lparr>hm_tickers := []\<rparr>))"

section \<open>Discovery\<close>

text \<open>The operations of the client that change its state.\<close>

datatype nrf_op =
    NrfRegister transport "NFProfile option" | NrfDeregister transport string
  | NrfDiscoverUDM transport time string | NrfDiscoverAMF transport time string

fun nrf_exec :: "nrf_json \<Rightarrow> nrf_op \<Rightarrow> nrf_Client \<Rightarrow> nrf_Client" where
  "nrf_exec J (NrfRegister http profile) c = fst (Nrf_Register J http profile c)"
| "nrf_exec J (NrfDeregister http i) c = fst (Nrf_Deregister http i c)"
| "nrf_exec J (NrfDiscoverUDM http now plmn) c = fst (DiscoverUDM J http now plmn c)"
| "nrf_exec J (NrfDiscoverAMF http now amf) c = fst (DiscoverAMF J http now amf c)"

abbreviation cached :: "nrf_Client \<Rightarrow> string \<Rightarrow> (string \<times> time) option" where
  "cached c key \<equiv> gm_get (dc_cache (nc_cache c)) key"

lemma gm_get_put_any: "gm_get (gm_put k v m) = (gm_get m)(k \<mapsto> v)"
  by (rule ext) (simp add: gm_get_def gm_put_def update_conv')

lemma stale_hit: "DiscoveryCache_Get now key True d = map_option fst (gm_get (dc_cache d) key)"
  by (simp add: DiscoveryCache_Get_def split: option.splits)

lemma Set_keeps:
  assumes "gm_get (dc_cache d) k = Some v" and "gm_get (dc_cache d) key = None"
  shows "gm_get (dc_cache (DiscoveryCache_Set now key data d)) k = Some v"
  using assms by (auto simp: DiscoveryCache_Set_def gm_get_put_any)

lemma DiscoverUDM_keeps: "cached c k = Some v \<Longrightarrow> cached (fst (DiscoverUDM J http now plmn c)) k = Some v"
  by (auto simp: DiscoverUDM_def Let_def stale_hit Set_keeps split: option.splits sum.splits prod.splits)

lemma DiscoverAMF_keeps: "cached c k = Some v \<Longrightarrow> cached (fst (DiscoverAMF J http now amf c)) k = Some v"
  by (auto simp: DiscoverAMF_def Let_def stale_hit Set_keeps split: option.splits sum.splits prod.splits)

lemma Register_keeps: "nc_cache (fst (Nrf_Register J http profile c)) = nc_cache c"
  by (simp add: Nrf_Register_def Let_def split: sum.splits prod.splits)

lemma Deregister_keeps: "nc_cache (fst (Nrf_Deregister http i c)) = nc_cache c"
  by (simp add: Nrf_Deregister_def split: sum.splits prod.splits)

lemma nrf_exec_keeps: "cached c k = Some v \<Longrightarrow> cached (nrf_exec J op c) k = Some v"
  by (cases op) (simp_all add: DiscoverUDM_keeps DiscoverAMF_keeps Register_keeps Deregister_keeps)

lemma nrf_run_keeps: "cached c k = Some v \<Longrightarrow> cached (fold (nrf_exec J) ops c) k = Some v"
  by (induction ops arbitrary: c) (simp_all add: nrf_exec_keeps)

lemma DiscoverUDM_caches:
  assumes "DiscoverUDM J http now plmn c = (c', Inr e)"
  obtains t where "cached c' (''udm:uem:'' @ plmn) = Some (e, t)"
  using assms by (auto simp: DiscoverUDM_def Let_def stale_hit DiscoveryCache_Set_def gm_get_put_any split: option.splits sum.splits prod.splits if_splits)

lemma DiscoverAMF_caches:
  assumes "DiscoverAMF J http now amf c = (c', Inr e)"
  obtains t where "cached c' (''amf:'' @ amf) = Some (e, t)"
  using assms by (auto simp: DiscoverAMF_def Let_def stale_hit DiscoveryCache_Set_def gm_get_put_any split: option.splits sum.splits prod.splits if_splits)

lemma DiscoverUDM_hit: "cached c (''udm:uem:'' @ plmn) = Some (e, t) \<Longrightarrow> DiscoverUDM J http now plmn c = (c, Inr e)"
  by (simp add: DiscoverUDM_def stale_hit)

lemma DiscoverAMF_hit: "cached c (''amf:'' @ amf) = Some (e, t) \<Longrightarrow> DiscoverAMF J http now amf c = (c, Inr e)"
  by (simp add: DiscoverAMF_def stale_hit)

text \<open>C32.  A discovery is never repeated.  After a UDM or an AMF was discovered once, every later discovery for
  the same key returns the same result, at any time, after any further operations of the client, and whatever
  the NRF would answer: the look-ups accept expired entries, so the time to live of the cache has no effect.\<close>

theorem discovery_never_refreshed:
  "(DiscoverUDM J http now plmn c = (c', Inr e) \<longrightarrow>
      DiscoverUDM J http' now' plmn (fold (nrf_exec J) ops c') = (fold (nrf_exec J) ops c', Inr e)) \<and>
   (DiscoverAMF J http now amf c = (c', Inr e) \<longrightarrow>
      DiscoverAMF J http' now' amf (fold (nrf_exec J) ops c') = (fold (nrf_exec J) ops c', Inr e))"
  by (intro conjI impI; erule DiscoverUDM_caches DiscoverAMF_caches; rule DiscoverUDM_hit DiscoverAMF_hit; erule nrf_run_keeps)

definition test_json :: nrf_json where
  "test_json = \<lparr>js_profile = \<lambda>p. Inr [], js_timer = \<lambda>b. Inr 60, js_etag = \<lambda>b. Inl ''unexpected end'',
     js_endpoints = \<lambda>b. Inr [[(''nudm-uem'', [(''10.0.0.1'', 80)])]], js_instance = \<lambda>b. Inr ''amf-1'', js_profiles = \<lambda>b. Inr []\<rparr>"

definition test_client :: nrf_Client where
  "test_client = \<lparr>nc_baseURL = ''http://nrf'', nc_nfInstanceID = ''n1'', nc_cache = \<lparr>dc_cache = [], dc_ttl = 5 * Minute\<rparr>, nc_registered = False\<rparr>"

text \<open>A year after the discovery, with an NRF that does not answer.\<close>

theorem discovery_never_refreshed_witness:
  "DiscoverUDM test_json (\<lambda>r. Inr (200, [])) 0 ''00101'' test_client = (fst (DiscoverUDM test_json (\<lambda>r. Inr (200, [])) 0 ''00101'' test_client), Inr ''http://10.0.0.1:80'') \<and>
   DiscoverAMF test_json (\<lambda>r. Inr (200, [])) 0 ''a'' test_client = (fst (DiscoverAMF test_json (\<lambda>r. Inr (200, [])) 0 ''a'' test_client), Inr ''amf-1'') \<and>
   snd (DiscoverUDM test_json (\<lambda>r. Inl ''refused'') (525600 * Minute) ''00101'' (fst (DiscoverUDM test_json (\<lambda>r. Inr (200, [])) 0 ''00101'' test_client))) = Inr ''http://10.0.0.1:80'' \<and>
   snd (DiscoverAMF test_json (\<lambda>r. Inl ''refused'') (525600 * Minute) ''a'' (fst (DiscoverAMF test_json (\<lambda>r. Inr (200, [])) 0 ''a'' test_client))) = Inr ''amf-1''"
proof -
  let ?ok = "\<lambda>r :: nrf_request. Inr (200, []) :: (string, int \<times> bytes) result"
  let ?no = "\<lambda>r :: nrf_request. Inl ''refused'' :: (string, int \<times> bytes) result"
  let ?u = "DiscoverUDM test_json ?ok 0 ''00101'' test_client"
  let ?a = "DiscoverAMF test_json ?ok 0 ''a'' test_client"
  obtain cu where u: "?u = (cu, Inr ''http://10.0.0.1:80'')"
    by (simp add: DiscoverUDM_def stale_hit test_client_def test_json_def gm_get_def show_int_def show_nat.simps digit_char_def char_of_eq_iff)
  obtain ca where a: "?a = (ca, Inr ''amf-1'')"
    by (simp add: DiscoverAMF_def stale_hit test_client_def test_json_def)
  show ?thesis
    using discovery_never_refreshed [of test_json ?ok 0 "''00101''" test_client cu "''http://10.0.0.1:80''" ?no "525600 * Minute" "[]" "''a''"]
      discovery_never_refreshed [of test_json ?ok 0 "''00101''" test_client ca "''amf-1''" ?no "525600 * Minute" "[]" "''a''"]
    by (simp add: u a)
qed

section \<open>The back-off\<close>

lemma backoff_word: "(5000000000 * push_bit a 1 :: 64 word) = of_int (5000000000 * 2 ^ a)"
  by (simp add: push_bit_eq_mult)

lemma sint_of_int64: "sint (of_int x :: 64 word) = (x + 2 ^ 63) mod 2 ^ 64 - 2 ^ 63"
  by (simp add: sint_sbintrunc' signed_take_bit_eq_take_bit_shift take_bit_eq_mod)

lemma backoff_small:
  assumes "a \<le> 30"
  shows "sint (5000000000 * push_bit a 1 :: 64 word) = 5000000000 * 2 ^ a"
proof -
  have "(2 :: int) ^ a \<le> 2 ^ 30" using assms by (intro power_increasing) auto
  then have "5000000000 * 2 ^ a < (2 :: int) ^ 63" by simp
  moreover have "- (2 ^ 63) \<le> 5000000000 * (2 :: int) ^ a" by (rule order.trans [of _ 0]) simp_all
  ultimately show ?thesis unfolding backoff_word by (simp only: sint_of_int64) simp
qed

text \<open>From the attempt at which the product leaves 64 bits on, it is a multiple of \<^verbatim>\<open>2^40\<close> even after it wraps around.\<close>

lemma backoff_wrapped:
  assumes "31 \<le> a"
  shows "sint (5000000000 * push_bit a 1 :: 64 word) \<le> 0 \<or> 2 ^ 40 \<le> sint (5000000000 * push_bit a 1 :: 64 word)"
proof -
  let ?x = "5000000000 * 2 ^ a :: int"
  have "(2 :: int) ^ 40 dvd 2 ^ (9 + a)" using assms by (intro le_imp_power_dvd) simp
  then have d: "(2 :: int) ^ 40 dvd ?x" 
    by (rule dvd_trans) (rule dvdI [of _ _ 9765625], simp add: power_add)
  have "(2 :: int) ^ 40 dvd (?x + 2 ^ 63) mod 2 ^ 64 - 2 ^ 63"
    using d by (intro dvd_diff dvd_mod dvd_add le_imp_power_dvd) simp_all
  then have "2 ^ 40 dvd sint (of_int ?x :: 64 word)" by (simp only: sint_of_int64)
  then show ?thesis unfolding backoff_word by (metis not_le zdvd_imp_le)
qed

lemma backoff_reference: "backoff_delay a = min (5 * Second * 2 ^ a) (5 * Minute)"
proof -
  define w where "w = sint (5000000000 * push_bit a 1 :: 64 word)"
  have delay: "backoff_delay a = (if w > 5 * Minute \<or> w \<le> 0 then 5 * Minute else w)"
    unfolding backoff_delay_def w_def Let_def ..
  show ?thesis
  proof (cases "a \<le> 30")
    case True
    then have "w = 5000000000 * 2 ^ a" unfolding w_def by (rule backoff_small)
    then show ?thesis unfolding delay by (simp add: min_def not_le)
  next
    case False
    then have "(2 :: int) ^ 31 \<le> 2 ^ a" by (intro power_increasing) auto
    then show ?thesis using backoff_wrapped [of a, folded w_def] False unfolding delay by (auto simp: min_def)
  qed
qed

text \<open>C33.  The back-off between registrations.  Although the code computes it in wrapping 64-bit arithmetic, the
  delay before the jitter is, for every number of attempts, the ideal one: five seconds doubled with each
  attempt and cut at five minutes.  With the jitter the pause is at least that and less than six fifths of
  it, so a loop never waits for six minutes and never retries without a pause.\<close>

theorem backoff_matches_reference:
  assumes "\<And>n. 0 < n \<Longrightarrow> 0 \<le> rand n \<and> rand n < n"
  shows "backoff_delay a = min (5 * Second * 2 ^ a) (5 * Minute) \<and>
    backoff_delay a \<le> exponentialBackoff rand a \<and> 5 * exponentialBackoff rand a < 6 * backoff_delay a \<and>
    5 * Second \<le> exponentialBackoff rand a \<and> exponentialBackoff rand a < 6 * Minute"
proof -
  have "(1 :: int) \<le> 2 ^ a" by simp
  then have "5 * Second \<le> backoff_delay a" "backoff_delay a \<le> 5 * Minute" by (simp_all add: backoff_reference)
  moreover define r where "r = rand (backoff_delay a div 5)"
  moreover have "0 \<le> r" "r < backoff_delay a div 5"
    using assms [of "backoff_delay a div 5"] calculation(1) unfolding r_def by linarith+
  moreover from this have "5 * r < backoff_delay a" by linarith
  ultimately show ?thesis
    unfolding exponentialBackoff_def Let_def r_def [symmetric] by (intro conjI backoff_reference; simp)
qed

text \<open>The hundredth attempt, at which the shift is out of range.\<close>

theorem backoff_matches_reference_witness:
  "backoff_delay 100 = 5 * Minute \<and> exponentialBackoff (\<lambda>n. n - 1) 100 < 6 * Minute"
  using backoff_matches_reference [of "\<lambda>n. n - 1" 100] by simp

section \<open>The heartbeat manager\<close>

text \<open>The steps of a manager: a start, a tick of a heartbeat loop, a turn of a re-registration loop, a stop.\<close>

inductive hm_step :: "nrf_json \<Rightarrow> HeartbeatManager \<Rightarrow> HeartbeatManager \<Rightarrow> bool" for J where
  step_start: "hm_Start J http m = Some m' \<Longrightarrow> hm_step J m m'"
| step_tick: "hm_tickers m \<noteq> [] \<Longrightarrow> hm_step J m (hm_tick J http m)"
| step_loop: "i < length (hm_loops m) \<Longrightarrow> hm_step J m (fst (reRegisterLoop_turn J http rand i m))"
| step_stop: "hm_Stop http m = Some m' \<Longrightarrow> hm_step J m m'"

definition hm_inv :: "HeartbeatManager \<Rightarrow> bool" where
  "hm_inv m \<longleftrightarrow> (hm_tickers m \<noteq> [] \<longrightarrow> hm_registered m \<or> hm_loops m \<noteq> [])"

lemma hm_register_cases:
  obtains (failed) c where "hm_register J http m = (m\<lparr>hm_client := c\<rparr>, False)"
  | (ok) c etag i where "hm_register J http m = (m\<lparr>hm_client := c, hm_registered := True, hm_etag := etag, hm_heartbeatInterval := i\<rparr>, True)"
proof (cases "Nrf_Register J http (Some (plain_profile (hm_instanceID m) (whole_seconds (hc_InitialInterval (hm_cfg m))))) (hm_client m)")
  case (Pair c r)
  then show ?thesis using that by (cases r) (auto simp: hm_register_def)
qed

lemma hm_heartbeat_keeps:
  "hm_registered (fst (hm_heartbeat J http m)) = hm_registered m \<and> hm_loops (fst (hm_heartbeat J http m)) = hm_loops m
   \<and> hm_tickers (fst (hm_heartbeat J http m)) = hm_tickers m"
  by (simp add: hm_heartbeat_def split: sum.splits)

lemma hm_deregister_keeps: "hm_loops ((hm_deregister http ^^ n) m) = hm_loops m"
  by (induction n) (auto simp: hm_deregister_def split: prod.splits option.splits)

lemma hm_step_inv:
  assumes "hm_step J m m'" and "hm_inv m"
  shows "hm_inv m'"
  using assms(1)
proof (cases rule: hm_step.cases)
  case (step_start http)
  then show ?thesis
    by (cases J http "m\<lparr>hm_stopClosed := False\<rparr>" rule: hm_register_cases) (auto simp: hm_Start_def hm_inv_def Let_def split: if_splits)
next
  case (step_tick http)
  then show ?thesis using assms(2) hm_heartbeat_keeps [of J http m]
    by (auto simp: hm_tick_def hm_handleFailure_def hm_inv_def Let_def split: prod.splits)
next
  case (step_loop i http rand)
  then show ?thesis using assms(2)
    by (cases J http m rule: hm_register_cases) (auto simp: reRegisterLoop_turn_def hm_inv_def Let_def)
next
  case (step_stop http)
  then show ?thesis by (auto simp: hm_Stop_def hm_inv_def split: if_splits)
qed

lemma hm_run_inv:
  assumes "(hm_step J)\<^sup>*\<^sup>* m m'" and "hm_inv m"
  shows "hm_inv m'"
  using assms by induction (auto intro: hm_step_inv)

text \<open>An NRF that accepts the registration of the manager.\<close>

definition accepts :: "nrf_json \<Rightarrow> transport \<Rightarrow> HeartbeatManager \<Rightarrow> bool" where
  "accepts J http m \<longleftrightarrow> isOk (snd (Nrf_Register J http
     (Some (plain_profile (hm_instanceID m) (whole_seconds (hc_InitialInterval (hm_cfg m))))) (hm_client m)))"

lemma accepted_turn:
  assumes "accepts J http m" and "i < length (hm_loops m)"
  shows "snd (reRegisterLoop_turn J http rand i m) = None \<and> hm_registered (fst (reRegisterLoop_turn J http rand i m)) \<and>
    hm_consecutiveFailures (fst (reRegisterLoop_turn J http rand i m)) = 0 \<and>
    Suc (length (hm_loops (fst (reRegisterLoop_turn J http rand i m)))) = length (hm_loops m) \<and>
    hm_tickers (fst (reRegisterLoop_turn J http rand i m)) = hm_tickers m"
  using assms by (auto simp: accepts_def isOk_def reRegisterLoop_turn_def hm_register_def Let_def split: prod.splits sum.splits)

text \<open>C34.  Recovery of the registration.  In every state a new manager can reach by starts, stops, heartbeats and
  turns of its re-registration loops, against any behaviour of the NRF, a manager that sends heartbeats
  and is not registered has a re-registration loop, and the next turn of any of these loops that the NRF
  accepts registers the manager, resets its failures and ends that loop.\<close>

theorem unregistered_is_recovering:
  assumes "(hm_step J)\<^sup>*\<^sup>* (NewHeartbeatManager c instanceID cfg) m" and "hm_tickers m \<noteq> []" and "\<not> hm_registered m"
  shows "hm_loops m \<noteq> [] \<and>
    (\<forall>i http rand. i < length (hm_loops m) \<and> accepts J http m \<longrightarrow>
       (let (m', pause) = reRegisterLoop_turn J http rand i m in
        pause = None \<and> hm_registered m' \<and> hm_consecutiveFailures m' = 0 \<and>
        Suc (length (hm_loops m')) = length (hm_loops m) \<and> hm_tickers m' = hm_tickers m))"
proof -
  have "hm_inv (NewHeartbeatManager c instanceID cfg)" by (simp add: hm_inv_def NewHeartbeatManager_def)
  then have "hm_loops m \<noteq> []" using hm_run_inv [OF assms(1)] assms(2,3) by (simp add: hm_inv_def)
  then show ?thesis using accepted_turn [of J _ m] by (simp add: Let_def split_beta)
qed

definition test_hb :: HeartbeatConfig where
  "test_hb = \<lparr>hc_InitialInterval = 60 * Second, hc_AcceptNegotiatedInterval = True, hc_MaxConsecutiveFailures = 3\<rparr>"

definition test_manager :: HeartbeatManager where
  "test_manager = NewHeartbeatManager test_client ''n1'' test_hb"

definition test_started :: HeartbeatManager where
  "test_started = test_manager\<lparr>hm_tickers := [60 * Second], hm_loops := [0]\<rparr>"

lemma test_start: "hm_Start test_json (\<lambda>r. Inl ''refused'') test_manager = Some test_started"
  by (simp add: hm_Start_def hm_register_def Nrf_Register_def Let_def test_json_def test_manager_def test_started_def
      NewHeartbeatManager_def test_hb_def)

text \<open>A manager that was started while the NRF refused the registration.\<close>

theorem unregistered_is_recovering_witness:
  "(hm_step test_json)\<^sup>*\<^sup>* test_manager test_started \<and> hm_tickers test_started \<noteq> [] \<and> \<not> hm_registered test_started \<and>
   hm_registered (fst (reRegisterLoop_turn test_json (\<lambda>r. Inr (201, [])) (\<lambda>n. 0) 0 test_started))"
proof -
  have "(hm_step test_json)\<^sup>*\<^sup>* test_manager test_started" using test_start by (blast intro: step_start)
  moreover have s: "hm_tickers test_started \<noteq> []" "\<not> hm_registered test_started" "0 < length (hm_loops test_started)"
    by (simp_all add: test_started_def test_manager_def NewHeartbeatManager_def)
  moreover have "accepts test_json (\<lambda>r. Inr (201, [])) test_started"
    by (simp add: accepts_def isOk_def Nrf_Register_def test_json_def)
  ultimately show ?thesis
    using unregistered_is_recovering [of test_json test_client "''n1''" test_hb test_started, folded test_manager_def]
    by (auto simp: Let_def split_beta)
qed

lemma Stop_keeps_loops: "hm_Stop http m = Some m' \<Longrightarrow> hm_loops m' = hm_loops m \<and> hm_tickers m' = []"
  by (auto simp: hm_Stop_def hm_deregister_keeps split: if_splits)

text \<open> A stop does not end the re-registration loops.  Every loop of a manager is still there after a stop,
  and when the NRF accepts its next attempt the stopped manager is registered, with no loop that sends heartbeats.\<close>

theorem stopped_manager_registers:
  assumes "hm_Stop http m = Some m'" and "i < length (hm_loops m)" and "accepts J http' m'"
  shows "hm_stopClosed m' \<and> hm_loops m' = hm_loops m \<and>
    hm_registered (fst (reRegisterLoop_turn J http' rand i m')) \<and> hm_tickers (fst (reRegisterLoop_turn J http' rand i m')) = []"
proof -
  have "hm_stopClosed ((hm_deregister http ^^ n) (m\<lparr>hm_stopClosed := True\<rparr>))" for n
    by (induction n) (auto simp: hm_deregister_def split: prod.splits option.splits)
  then have "hm_stopClosed m'" using assms(1) by (auto simp: hm_Stop_def split: if_splits)
  then show ?thesis using accepted_turn [OF assms(3), of i rand] Stop_keeps_loops [OF assms(1)] assms(2) by simp
qed

text \<open>While the NRF is away each heartbeat beyond the tolerance starts one more loop.\<close>

lemma failed_tick:
  "hm_tick J (\<lambda>r. Inl err) m = hm_handleFailure m"
  by (simp add: hm_tick_def hm_heartbeat_def Nrf_Heartbeat_def)

lemma loops_accumulate:
  assumes "hc_MaxConsecutiveFailures (hm_cfg m) \<le> hm_consecutiveFailures m + 1"
  shows "hm_loops ((hm_tick J (\<lambda>r. Inl err) ^^ n) m) = hm_loops m @ replicate n 0"
proof -
  have "hm_loops ((hm_tick J (\<lambda>r. Inl err) ^^ n) m) = hm_loops m @ replicate n 0 \<and>
    hm_cfg ((hm_tick J (\<lambda>r. Inl err) ^^ n) m) = hm_cfg m \<and>
    hm_consecutiveFailures ((hm_tick J (\<lambda>r. Inl err) ^^ n) m) = hm_consecutiveFailures m + int n"
    using assms by (induction n) (simp_all add: failed_tick hm_handleFailure_def Let_def replicate_append_same)
  then show ?thesis by blast
qed

text \<open>The entity tag is read from the body of the answer to a heartbeat; an answer without a body leaves no tag, and the
  next heartbeat sends an empty \<^verbatim>\<open>If-Match\<close>.\<close>

lemma heartbeat_loses_etag:
  assumes "js_etag J [] = Inl e"
  shows "hm_etag (hm_tick J (\<lambda>r. Inr (204, [])) m) = ''''"
  using assms by (simp add: hm_tick_def hm_heartbeat_def Nrf_Heartbeat_def parseETag_def)

section \<open>The token and the first registration\<close>

text \<open>A token that is returned was fetched by this call or has more than five minutes left.\<close>

lemma token_fresh:
  assumes "GetToken r now c = (c', Inr token)"
  shows "(\<exists>t. c' = Some (token, t) \<and> (t - now > 5 * Minute \<or> (\<exists>n. r = TokenGranted token n \<and> t = now + seconds n)))"
  using assms by (auto simp: GetToken_def nrf_refresh_def fetchToken_def token_valid_def split: option.splits if_splits token_answer.splits)

text \<open>A token that is granted for at most five minutes is fetched again by the next call.\<close>

lemma short_token_refetched:
  assumes "0 \<le> n" and "n \<le> 300" and "now \<le> now'"
  shows "snd (GetToken r now' (fst (GetToken (TokenGranted token n) now None))) = snd (fetchToken r now' None)"
proof -
  have "seconds n = n * Second"
    using assms unfolding seconds_def of_int_mult [symmetric] by (simp only: sint_of_int64) simp
  then show ?thesis using assms
    by (auto simp: GetToken_def nrf_refresh_def token_valid_def fetchToken_def split: token_answer.splits)
qed

text \<open>The pauses of the first registration grow and stay under a minute.\<close>

lemma RegisterAsync_pauses:
  assumes "backoff < 60 * Second" and "0 < backoff" and "p \<in> set (snd (RegisterAsync J hs backoff c))"
  shows "backoff \<le> p \<and> p < 60 * Second"
  using assms
proof (induction hs arbitrary: backoff c)
  case (Cons http hs)
  obtain c1 b where t: "RegisterAsync_turn J http backoff c = (c1, b)" by fastforce
  show ?case
  proof (cases b)
    case (Some b')
    have b': "b' = (if backoff < 30 * Second then backoff * 2 else backoff)"
      using t Some by (auto simp: RegisterAsync_turn_def split: prod.splits sum.splits)
    show ?thesis
    proof (cases "p = backoff")
      case False
      then have p: "p \<in> set (snd (RegisterAsync J hs b' c1))"
        using Cons.prems(3) by (auto simp: t Some split: prod.splits)
      have "b' < 60 * Second" "0 < b'" "backoff \<le> b'" using b' Cons.prems(1,2) by auto
      then show ?thesis using Cons.IH [OF _ _ p] by simp
    qed (use Cons.prems in auto)
  qed (use Cons.prems t in auto)
qed simp

end
