(* ===== verification/Config.thy ===== *)
theory Config
  imports Biz Nrf Resilience
begin

text \<open>
  The configuration of the binaries (\<^verbatim>\<open>internal/config\<close>): the records, the expansion of environment variables
  in the file, the defaults, and the validation per component.  The file, the environment, the YAML decoder
  and \<^verbatim>\<open>time.ParseDuration\<close> are arguments.
\<close>

section \<open>The records\<close>

record TLSConfig =
  tls_Cert :: string
  tls_Key :: string
  tls_CA :: string

record VaultConfig =
  vc_Address :: string
  vc_KeyName :: string
  vc_AuthMethod :: string
  vc_K8sRole :: string
  vc_Token :: string
  vc_TokenFile :: string

record SoftHSMConfig =
  hsc_LibraryPath :: string
  hsc_TokenLabel :: string
  hsc_PIN :: string

record CryptoConfig =
  cc_KeyManager :: string
  cc_MasterKeyHex :: string
  cc_VaultConfig :: "VaultConfig option"
  cc_SoftHSMConfig :: "SoftHSMConfig option"
  cc_KEKOverlapDays :: int

record BizConfig =
  bc_AAAGatewayURL :: string
  bc_UseMTLS :: bool
  bc_TLSCert :: string
  bc_TLSKey :: string
  bc_TLSCA :: string
  bc_TLS :: "TLSConfig option"
  bc_Snssai :: SnssaiRoutingConfig

record DLQConfig =
  dlqc_MaxRetries :: int
  dlqc_PollInterval :: duration

record AAAgwConfig =
  ac_BizServiceURL :: string
  ac_ListenRADIUS :: string
  ac_DiameterServerAddress :: string
  ac_DiameterRealm :: string
  ac_DiameterHost :: string
  ac_DiameterTransport :: string
  ac_RadiusServerAddress :: string
  ac_RadiusSharedSecret :: string
  ac_RedisMode :: string
  ac_VIPAddress :: string
  ac_DLQ :: DLQConfig

record HTTPgwConfig =
  gc_BizServiceURL :: string
  gc_DiscoveryURL :: string
  gc_AuthDisabled :: "bool option"
  gc_TLS :: "TLSConfig option"

record ServerConfig =
  sc_Addr :: string
  sc_ReadTimeout :: duration
  sc_WriteTimeout :: duration
  sc_IdleTimeout :: duration

record DatabaseConfig =
  dbc_Host :: string
  dbc_Port :: int
  dbc_Name :: string
  dbc_User :: string
  dbc_Password :: string
  dbc_MaxConns :: int
  dbc_MinConns :: int
  dbc_ConnMaxLifetime :: duration
  dbc_SSLMode :: string

record RedisConfig =
  rc_Addr :: string
  rc_Addrs :: "string list"
  rc_Password :: string
  rc_DB :: int
  rc_PoolSize :: int

record EAPConfig =
  ec_MaxRounds :: int
  ec_RoundTimeout :: duration
  ec_SessionTTL :: duration

record AAAConfig =
  aac_ResponseTimeout :: duration
  aac_MaxRetries :: int
  aac_FailureThreshold :: int
  aac_RecoveryTimeout :: duration

record RateLimitConfig =
  rlc_PerGpsiPerMin :: int
  rlc_PerAmfPerSec :: int
  rlc_GlobalPerSec :: int

record LoggingConfig =
  lc_Level :: string
  lc_Format :: string

record MetricsConfig =
  mc_Enabled :: bool
  mc_Path :: string

record DebugConfig =
  dgc_Enabled :: bool
  dgc_RedisAddr :: string
  dgc_TTL :: duration
  dgc_MaxLen :: int

text \<open>The settings of the UDM and of the AUSF.\<close>

record PeerConfig =
  pc_BaseURL :: string
  pc_Timeout :: duration

text \<open>A floating-point threshold is its mantissa and its exponent.\<close>

record NRMConfig =
  nc_ListenAddr :: string
  nc_AlarmThresholds :: "((int \<times> int) \<times> int) option"
  nc_NRMURL :: string
  nc_ReadTimeout :: int
  nc_WriteTimeout :: int
  nc_IdleTimeout :: int

record RadiusConfig =
  rdc_MaxRetries :: int
  rdc_Timeout :: duration
  rdc_ResponseWindow :: duration

record TLSClientConfig =
  tcc_CACert :: string
  tcc_ClientCert :: string
  tcc_ClientKey :: string
  tcc_ServerName :: string

record CircuitBreakerConfig =
  cbc_FailureThreshold :: int
  cbc_RecoveryTimeout :: duration
  cbc_SuccessThreshold :: int

record ConnectionPoolConfig =
  cpc_MaxIdleConns :: int
  cpc_MaxIdleConnsPerHost :: int
  cpc_IdleConnTimeout :: duration
  cpc_DialTimeout :: duration

record NativeCommConfig =
  nat_Timeout :: duration
  nat_Retry :: RetryConfig
  nat_CB :: CircuitBreakerConfig
  nat_Pool :: ConnectionPoolConfig
  nat_TLS :: "TLSClientConfig option"
  nat_KeepalivedHealthURL :: string
  nat_Radius :: RadiusConfig

record InternalCommConfig =
  icc_Mode :: string
  icc_Native :: NativeCommConfig
  icc_TrustDomain :: string

record Config =
  cfg_Component :: string
  cfg_Version :: string
  cfg_Server :: ServerConfig
  cfg_Database :: DatabaseConfig
  cfg_Redis :: RedisConfig
  cfg_EAP :: EAPConfig
  cfg_AAA :: AAAConfig
  cfg_RateLimit :: RateLimitConfig
  cfg_Logging :: LoggingConfig
  cfg_Metrics :: MetricsConfig
  cfg_NRF :: NRFConfig
  cfg_UDM :: PeerConfig
  cfg_AUSF :: PeerConfig
  cfg_Crypto :: CryptoConfig
  cfg_InternalComm :: InternalCommConfig
  cfg_Debug :: DebugConfig
  cfg_Biz :: "BizConfig option"
  cfg_AAAgw :: "AAAgwConfig option"
  cfg_HTTPgw :: "HTTPgwConfig option"
  cfg_NRM :: "NRMConfig option"

abbreviation ComponentBiz :: string where "ComponentBiz \<equiv> ''biz''"
abbreviation ComponentAAAGateway :: string where "ComponentAAAGateway \<equiv> ''aaa-gateway''"
abbreviation ComponentHTTPGateway :: string where "ComponentHTTPGateway \<equiv> ''http-gateway''"
abbreviation ComponentNRM :: string where "ComponentNRM \<equiv> ''nrm''"

section \<open>Durations in the file\<close>

text \<open>A value of the YAML decoder; of a floating-point number the product with a second is given, truncated.\<close>

datatype yaml_value = YNil | YInt int | YFloatSeconds int | YString string | YOther string

text \<open>The duration, and whether one was given.\<close>

definition decodeDurationLike :: "(string \<Rightarrow> (string, duration) result) \<Rightarrow> yaml_value \<Rightarrow> (string, duration option) result" where
  "decodeDurationLike ParseDuration v =
    (case v of
       YNil \<Rightarrow> Inr None
     | YInt x \<Rightarrow> Inr (Some (seconds x))
     | YFloatSeconds d \<Rightarrow> Inr (Some d)
     | YString x \<Rightarrow>
         (case ParseDuration x of
            Inl err \<Rightarrow> Inl (''invalid duration \"'' @ x @ ''\": '' @ err)
          | Inr d \<Rightarrow> Inr (Some d))
     | YOther t \<Rightarrow> Inl (''unsupported type '' @ t))"

text \<open>\<^verbatim>\<open>raw\<close> is the outcome of the decoder on the node.\<close>

definition HeartbeatConfig_UnmarshalYAML ::
  "(string \<Rightarrow> (string, duration) result) \<Rightarrow> (string, yaml_value \<times> bool \<times> int) result \<Rightarrow> HeartbeatConfig \<Rightarrow> (string, HeartbeatConfig) result" where
  "HeartbeatConfig_UnmarshalYAML ParseDuration raw c =
    (case raw of
       Inl err \<Rightarrow> Inl err
     | Inr (interval, accept, maxConsecutive) \<Rightarrow>
         (case decodeDurationLike ParseDuration interval of
            Inl err \<Rightarrow> Inl (''heartbeat.initialIntervalSeconds: '' @ err)
          | Inr d \<Rightarrow>
              Inr (c\<lparr>hc_InitialInterval := (case d of Some d \<Rightarrow> d | None \<Rightarrow> hc_InitialInterval c),
                     hc_AcceptNegotiatedInterval := accept, hc_MaxConsecutiveFailures := maxConsecutive\<rparr>)))"

definition DiscoveryCacheConfig_UnmarshalYAML ::
  "(string \<Rightarrow> (string, duration) result) \<Rightarrow> (string, bool \<times> yaml_value) result \<Rightarrow> DiscoveryCacheConfig \<Rightarrow> (string, DiscoveryCacheConfig) result" where
  "DiscoveryCacheConfig_UnmarshalYAML ParseDuration raw c =
    (case raw of
       Inl err \<Rightarrow> Inl err
     | Inr (enabled, ttl) \<Rightarrow>
         (case decodeDurationLike ParseDuration ttl of
            Inl err \<Rightarrow> Inl (''discoveryCache.defaultTTLSeconds: '' @ err)
          | Inr d \<Rightarrow> Inr (c\<lparr>dcc_Enabled := enabled, dcc_DefaultTTL := (case d of Some d \<Rightarrow> d | None \<Rightarrow> dcc_DefaultTTL c)\<rparr>)))"

section \<open>Environment variables\<close>

text \<open>A match of \<^verbatim>\<open>\$\{([^}:]+)(?::-([^}]*))?\}\<close> at the head of the text: the name, the default, and the rest.\<close>

definition env_match :: "string \<Rightarrow> (string \<times> string \<times> string) option" where
  "env_match s =
    (if \<not> HasPrefix s ''${'' then None
     else let body = drop 2 s;
              key = takeWhile (\<lambda>c. c \<noteq> CHR ''}'' \<and> c \<noteq> CHR '':'') body;
              after = dropWhile (\<lambda>c. c \<noteq> CHR ''}'' \<and> c \<noteq> CHR '':'') body in
          if key = [] then None
          else if HasPrefix after ''}'' then Some (key, '''', drop 1 after)
          else if HasPrefix after '':-'' then
            (let text = drop 2 after; end = dropWhile (\<lambda>c. c \<noteq> CHR ''}'') text in
             if end = [] then None else Some (key, takeWhile (\<lambda>c. c \<noteq> CHR ''}'') text, drop 1 end))
          else None)"

lemma HasPrefix_length: "HasPrefix s p \<Longrightarrow> length p \<le> length s"
  unfolding HasPrefix_def by (metis length_take min.cobounded1)

lemma env_match_shorter: "env_match s = Some (key, d, rest) \<Longrightarrow> length rest < length s"
proof -
  assume a: "env_match s = Some (key, d, rest)"
  let ?P = "\<lambda>c. c \<noteq> CHR ''}'' \<and> c \<noteq> CHR '':''"
  have "HasPrefix s ''${''" using a by (simp add: env_match_def split: if_splits)
  then have n: "2 \<le> length s" using HasPrefix_length [of s "''${''"] by simp
  have l: "length (dropWhile ?P (drop 2 s)) \<le> length s - 2" using length_dropWhile_le [of ?P "drop 2 s"] by simp
  have m: "length (dropWhile (\<lambda>c. c \<noteq> CHR ''}'') (drop 2 (dropWhile ?P (drop 2 s)))) \<le> length s - 2"
    using length_dropWhile_le [of "\<lambda>c. c \<noteq> CHR ''}''" "drop 2 (dropWhile ?P (drop 2 s))"] l by simp
  have "rest = drop 1 (dropWhile ?P (drop 2 s)) \<or> rest = drop 1 (dropWhile (\<lambda>c. c \<noteq> CHR ''}'') (drop 2 (dropWhile ?P (drop 2 s))))"
    using a unfolding env_match_def Let_def by (simp only: split: if_splits) blast+
  then have "length rest \<le> length s - 2" using l m by fastforce
  then show ?thesis using n by simp
qed

text \<open>\<^verbatim>\<open>expandEnv\<close> replaces the leftmost matches one after the other; replaced text is not looked at again.\<close>

function expandEnv :: "(string \<Rightarrow> string) \<Rightarrow> string \<Rightarrow> string" where
  "expandEnv getenv s =
    (case env_match s of
       Some (key, defaultVal, rest) \<Rightarrow> (if getenv key \<noteq> '''' then getenv key else defaultVal) @ expandEnv getenv rest
     | None \<Rightarrow> (case s of [] \<Rightarrow> [] | c # s' \<Rightarrow> c # expandEnv getenv s'))"
  by pat_completeness auto
termination
  by (relation "measure (\<lambda>(g, s). length s)") (auto dest: env_match_shorter)

declare expandEnv.simps [simp del]

section \<open>Defaults\<close>

text \<open>\<^verbatim>\<open>if x == zero { x = d }\<close>\<close>

definition or_default :: "'a \<Rightarrow> 'a \<Rightarrow> 'a \<Rightarrow> 'a" where
  "or_default zero d x = (if x = zero then d else x)"

definition server_defaults :: "ServerConfig \<Rightarrow> ServerConfig" where
  "server_defaults s = s\<lparr>sc_Addr := or_default '''' '':8080'' (sc_Addr s), sc_ReadTimeout := or_default 0 (10 * Second) (sc_ReadTimeout s),
     sc_WriteTimeout := or_default 0 (30 * Second) (sc_WriteTimeout s), sc_IdleTimeout := or_default 0 (120 * Second) (sc_IdleTimeout s)\<rparr>"

definition eap_defaults :: "EAPConfig \<Rightarrow> EAPConfig" where
  "eap_defaults e = e\<lparr>ec_MaxRounds := or_default 0 20 (ec_MaxRounds e), ec_RoundTimeout := or_default 0 (30 * Second) (ec_RoundTimeout e),
     ec_SessionTTL := or_default 0 (5 * Minute) (ec_SessionTTL e)\<rparr>"

definition aaa_defaults :: "AAAConfig \<Rightarrow> AAAConfig" where
  "aaa_defaults a = a\<lparr>aac_ResponseTimeout := or_default 0 (10 * Second) (aac_ResponseTimeout a), aac_MaxRetries := or_default 0 3 (aac_MaxRetries a),
     aac_FailureThreshold := or_default 0 5 (aac_FailureThreshold a), aac_RecoveryTimeout := or_default 0 (30 * Second) (aac_RecoveryTimeout a)\<rparr>"

definition redis_defaults :: "RedisConfig \<Rightarrow> RedisConfig" where
  "redis_defaults r =
    (let addr = (if rc_Addr r = '''' \<and> rc_Addrs r \<noteq> [] then hd (rc_Addrs r) else rc_Addr r) in
     r\<lparr>rc_PoolSize := or_default 0 50 (rc_PoolSize r), rc_Addr := or_default '''' ''localhost:6379'' addr\<rparr>)"

definition gateway_defaults :: "AAAgwConfig \<Rightarrow> AAAgwConfig" where
  "gateway_defaults g = g\<lparr>ac_ListenRADIUS := or_default '''' '':1812'' (ac_ListenRADIUS g), ac_RedisMode := or_default '''' ''standalone'' (ac_RedisMode g),
     ac_DiameterServerAddress := or_default '''' ''nss-aaa-server:3868'' (ac_DiameterServerAddress g),
     ac_DiameterRealm := or_default '''' ''operator.com'' (ac_DiameterRealm g),
     ac_DiameterHost := or_default '''' ''nssaa-gw.operator.com'' (ac_DiameterHost g),
     ac_DiameterTransport := or_default '''' ''tcp'' (ac_DiameterTransport g),
     ac_DLQ := (ac_DLQ g)\<lparr>dlqc_MaxRetries := or_default 0 10 (dlqc_MaxRetries (ac_DLQ g)),
                            dlqc_PollInterval := or_default 0 (30 * Second) (dlqc_PollInterval (ac_DLQ g))\<rparr>\<rparr>"

definition nrf_defaults :: "NRFConfig \<Rightarrow> NRFConfig" where
  "nrf_defaults n = n\<lparr>nrf_CacheTTL := or_default 0 (5 * Minute) (nrf_CacheTTL n),
     nrf_Heartbeat := (nrf_Heartbeat n)\<lparr>hc_InitialInterval := or_default 0 (5 * Minute) (hc_InitialInterval (nrf_Heartbeat n)),
        hc_MaxConsecutiveFailures := or_default 0 3 (hc_MaxConsecutiveFailures (nrf_Heartbeat n))\<rparr>,
     nrf_DiscoveryCache := (nrf_DiscoveryCache n)\<lparr>dcc_DefaultTTL := or_default 0 (60 * Minute) (dcc_DefaultTTL (nrf_DiscoveryCache n))\<rparr>\<rparr>"

definition native_defaults :: "NativeCommConfig \<Rightarrow> NativeCommConfig" where
  "native_defaults n = n\<lparr>nat_Timeout := or_default 0 (30 * Second) (nat_Timeout n),
     nat_Radius := (nat_Radius n)\<lparr>rdc_MaxRetries := or_default 0 3 (rdc_MaxRetries (nat_Radius n)),
        rdc_Timeout := or_default 0 (10 * Second) (rdc_Timeout (nat_Radius n)),
        rdc_ResponseWindow := or_default 0 (15 * Second) (rdc_ResponseWindow (nat_Radius n))\<rparr>\<rparr>"

definition nrm_defaults :: "NRMConfig \<Rightarrow> NRMConfig" where
  "nrm_defaults n = n\<lparr>nc_ListenAddr := or_default '''' '':8081'' (nc_ListenAddr n), nc_ReadTimeout := or_default 0 10 (nc_ReadTimeout n),
     nc_WriteTimeout := or_default 0 30 (nc_WriteTimeout n), nc_IdleTimeout := or_default 0 120 (nc_IdleTimeout n)\<rparr>"

definition crypto_defaults :: "(string \<Rightarrow> string) \<Rightarrow> CryptoConfig \<Rightarrow> CryptoConfig" where
  "crypto_defaults getenv c =
    (let km = or_default '''' ''soft'' (cc_KeyManager c) in
     c\<lparr>cc_KeyManager := km, cc_KEKOverlapDays := or_default 0 30 (cc_KEKOverlapDays c),
        cc_MasterKeyHex := (if km = ''soft'' then or_default '''' (getenv ''MASTER_KEY_HEX'') (cc_MasterKeyHex c) else cc_MasterKeyHex c)\<rparr>)"

definition ausf_defaults :: "string \<Rightarrow> PeerConfig \<Rightarrow> PeerConfig" where
  "ausf_defaults nrfURL a = a\<lparr>pc_BaseURL := or_default '''' nrfURL (pc_BaseURL a), pc_Timeout := or_default 0 (10 * Second) (pc_Timeout a)\<rparr>"

definition applyDefaults :: "(string \<Rightarrow> string) \<Rightarrow> Config \<Rightarrow> Config" where
  "applyDefaults getenv cfg =
    cfg\<lparr>cfg_Server := server_defaults (cfg_Server cfg), cfg_EAP := eap_defaults (cfg_EAP cfg), cfg_AAA := aaa_defaults (cfg_AAA cfg),
        cfg_Metrics := (cfg_Metrics cfg)\<lparr>mc_Path := or_default '''' ''/metrics'' (mc_Path (cfg_Metrics cfg))\<rparr>,
        cfg_Redis := redis_defaults (cfg_Redis cfg), cfg_AAAgw := map_option gateway_defaults (cfg_AAAgw cfg),
        cfg_NRF := nrf_defaults (cfg_NRF cfg),
        cfg_InternalComm := (cfg_InternalComm cfg)\<lparr>icc_Native := native_defaults (icc_Native (cfg_InternalComm cfg))\<rparr>,
        cfg_AUSF := ausf_defaults (nrf_BaseURL (cfg_NRF cfg)) (cfg_AUSF cfg),
        cfg_NRM := (if cfg_Component cfg = ComponentNRM then map_option nrm_defaults (cfg_NRM cfg) else cfg_NRM cfg),
        cfg_Crypto := crypto_defaults getenv (cfg_Crypto cfg)\<rparr>"

section \<open>Validation\<close>

text \<open>The first condition that holds gives the error.\<close>

fun first_error :: "(bool \<times> string) list \<Rightarrow> string option" where
  "first_error [] = None"
| "first_error ((bad, message) # rest) = (if bad then Some message else first_error rest)"

definition biz_error :: "BizConfig option \<Rightarrow> string option" where
  "biz_error biz =
    (case biz of
       None \<Rightarrow> Some ''config.biz is required for component=biz''
     | Some b \<Rightarrow> first_error
         [(bc_AAAGatewayURL b = '''', ''config.biz.aaaGatewayUrl is required''),
          (bc_UseMTLS b \<and> bc_TLSCert b = '''', ''config.biz.tlsCert is required when useMTLS is true''),
          (bc_UseMTLS b \<and> bc_TLSKey b = '''', ''config.biz.tlsKey is required when useMTLS is true''),
          (bc_UseMTLS b \<and> bc_TLSCA b = '''', ''config.biz.tlsCa is required when useMTLS is true'')])"

definition gateway_error :: "AAAgwConfig option \<Rightarrow> string option" where
  "gateway_error gw =
    (case gw of
       None \<Rightarrow> Some ''config.aaaGateway is required for component=aaa-gateway''
     | Some g \<Rightarrow> first_error [(ac_BizServiceURL g = '''', ''config.aaaGateway.bizServiceUrl is required'')])"

definition http_error :: "HTTPgwConfig option \<Rightarrow> string option" where
  "http_error gw =
    (case gw of
       None \<Rightarrow> Some ''config.httpGateway is required for component=http-gateway''
     | Some g \<Rightarrow>
         (case gc_TLS g of
            None \<Rightarrow> None
          | Some t \<Rightarrow> first_error
              [(tls_Cert t = '''', ''config.httpGateway.tls.cert is required when TLS is configured''),
               (tls_Key t = '''', ''config.httpGateway.tls.key is required when TLS is configured'')]))"

definition nrm_error :: "NRMConfig option \<Rightarrow> string option" where
  "nrm_error nrm =
    (case nrm of
       None \<Rightarrow> Some ''config.nrm is required for component=nrm''
     | Some n \<Rightarrow> first_error [(nc_ListenAddr n = '''', ''config.nrm.listenAddr is required'')])"

definition soft_error :: "string \<Rightarrow> string option" where
  "soft_error keyHex = first_error
    [(keyHex = '''', ''config.crypto.masterKeyHex is required when keyManager is soft (or set MASTER_KEY_HEX env var)''),
     (length keyHex \<noteq> 64, ''config.crypto.masterKeyHex must be 64 hex chars (32 bytes), got '' @ show_nat (length keyHex)),
     (DecodeString keyHex = None, ''config.crypto.masterKeyHex is not valid hex: encoding/hex: invalid byte'')]"

definition vault_error :: "VaultConfig option \<Rightarrow> string option" where
  "vault_error vault =
    (case vault of
       None \<Rightarrow> Some ''config.crypto.vault is required when keyManager is vault''
     | Some v \<Rightarrow> first_error
         [(vc_Address v = '''', ''config.crypto.vault.address is required''),
          (vc_KeyName v = '''', ''config.crypto.vault.keyName is required''),
          (vc_AuthMethod v = '''', ''config.crypto.vault.authMethod is required (kubernetes or token)''),
          (vc_AuthMethod v = ''kubernetes'' \<and> vc_K8sRole v = '''', ''config.crypto.vault.k8sRole is required when authMethod is kubernetes''),
          (vc_AuthMethod v = ''token'' \<and> vc_Token v = '''' \<and> vc_TokenFile v = '''',
           ''config.crypto.vault.token or config.crypto.vault.tokenFile is required when authMethod is token'')])"

definition softhsm_error :: "SoftHSMConfig option \<Rightarrow> string option" where
  "softhsm_error hsm =
    (case hsm of
       None \<Rightarrow> Some ''config.crypto.softHSM is required when keyManager is softhsm''
     | Some h \<Rightarrow> first_error
         [(hsc_TokenLabel h = '''', ''config.crypto.softHSM.tokenLabel is required''),
          (hsc_PIN h = '''', ''config.crypto.softHSM.pin is required'')])"

text \<open>The errors of the \<^verbatim>\<open>switch\<close> on the component.\<close>

definition component_error :: "Config \<Rightarrow> string option" where
  "component_error c =
    (if cfg_Component c = ComponentBiz then biz_error (cfg_Biz c)
     else if cfg_Component c = ComponentAAAGateway then gateway_error (cfg_AAAgw c)
     else if cfg_Component c = ComponentHTTPGateway then http_error (cfg_HTTPgw c)
     else if cfg_Component c = ComponentNRM then nrm_error (cfg_NRM c)
     else None)"

definition crypto_error :: "CryptoConfig \<Rightarrow> string option" where
  "crypto_error c =
    (if cc_KeyManager c = ''soft'' then soft_error (cc_MasterKeyHex c)
     else if cc_KeyManager c = ''vault'' then vault_error (cc_VaultConfig c)
     else if cc_KeyManager c = ''softhsm'' then softhsm_error (cc_SoftHSMConfig c)
     else None)"

text \<open>\<^verbatim>\<open>Validate\<close> also fills in the path of the SoftHSM library.\<close>

definition Config_Validate :: "Config \<Rightarrow> (string, Config) result" where
  "Config_Validate c =
    (case component_error c of
       Some err \<Rightarrow> Inl err
     | None \<Rightarrow>
         if cfg_Component c = ComponentNRM then Inr c
         else case crypto_error (cfg_Crypto c) of
           Some err \<Rightarrow> Inl err
         | None \<Rightarrow>
             if cc_KeyManager (cfg_Crypto c) = ''softhsm''
             then Inr (c\<lparr>cfg_Crypto := (cfg_Crypto c)\<lparr>cc_SoftHSMConfig := map_option
                    (\<lambda>h. h\<lparr>hsc_LibraryPath := or_default '''' ''/usr/lib/softhsm/libsofthsm2.so'' (hsc_LibraryPath h)\<rparr>)
                    (cc_SoftHSMConfig (cfg_Crypto c))\<rparr>\<rparr>)
             else Inr c)"

definition Config_Load ::
  "(string \<Rightarrow> string) \<Rightarrow> (string \<Rightarrow> (string, string) result) \<Rightarrow> (string \<Rightarrow> (string, Config) result) \<Rightarrow> string \<Rightarrow> (string, Config) result" where
  "Config_Load getenv ReadFile Unmarshal path =
    (case ReadFile path of
       Inl err \<Rightarrow> Inl (''failed to read config file \"'' @ path @ ''\": '' @ err)
     | Inr data \<Rightarrow>
         (case Unmarshal (expandEnv getenv data) of
            Inl err \<Rightarrow> Inl (''failed to parse config file \"'' @ path @ ''\": '' @ err)
          | Inr cfg \<Rightarrow> Config_Validate (applyDefaults getenv cfg)))"

section \<open>What the expansion does\<close>

text \<open>A text made of plain parts and placeholders, as it is written in the file, and its meaning.\<close>

datatype segment = Plain string | Placeholder string "string option"

fun render :: "segment \<Rightarrow> string" where
  "render (Plain t) = t"
| "render (Placeholder key None) = ''${'' @ key @ ''}''"
| "render (Placeholder key (Some d)) = ''${'' @ key @ '':-'' @ d @ ''}''"

fun meaning :: "(string \<Rightarrow> string) \<Rightarrow> segment \<Rightarrow> string" where
  "meaning getenv (Plain t) = t"
| "meaning getenv (Placeholder key d) =
    (if getenv key \<noteq> '''' then getenv key else case d of Some d \<Rightarrow> d | None \<Rightarrow> '''')"

fun segment_ok :: "segment \<Rightarrow> bool" where
  "segment_ok (Plain t) \<longleftrightarrow> CHR ''$'' \<notin> set t"
| "segment_ok (Placeholder key d) \<longleftrightarrow> key \<noteq> [] \<and> CHR ''}'' \<notin> set key \<and> CHR '':'' \<notin> set key
     \<and> (case d of Some d \<Rightarrow> CHR ''}'' \<notin> set d | None \<Rightarrow> True)"

lemma takeWhile_stop: "list_all P xs \<Longrightarrow> \<not> P y \<Longrightarrow> takeWhile P (xs @ y # ys) = xs \<and> dropWhile P (xs @ y # ys) = y # ys"
  by (induction xs) auto

lemma env_match_bare:
  assumes "segment_ok (Placeholder key None)"
  shows "env_match (CHR ''$'' # CHR ''{'' # key @ CHR ''}'' # rest) = Some (key, '''', rest)"
proof -
  have "list_all (\<lambda>c. c \<noteq> CHR ''}'' \<and> c \<noteq> CHR '':'') key" using assms by (auto simp: list_all_iff)
  from takeWhile_stop [OF this, of "CHR ''}''" rest]
  show ?thesis using assms by (simp add: env_match_def Let_def HasPrefix_def)
qed

lemma env_match_default:
  assumes "segment_ok (Placeholder key (Some d))"
  shows "env_match (CHR ''$'' # CHR ''{'' # key @ CHR '':'' # CHR ''-'' # d @ CHR ''}'' # rest) = Some (key, d, rest)"
proof -
  have "list_all (\<lambda>c. c \<noteq> CHR ''}'' \<and> c \<noteq> CHR '':'') key" using assms by (auto simp: list_all_iff)
  note k = takeWhile_stop [OF this, of "CHR '':''" "CHR ''-'' # d @ CHR ''}'' # rest"]
  have "list_all (\<lambda>c. c \<noteq> CHR ''}'') d" using assms by (auto simp: list_all_iff)
  note d = takeWhile_stop [OF this, of "CHR ''}''" rest]
  show ?thesis using assms k d by (simp add: env_match_def Let_def HasPrefix_def)
qed

lemma expandEnv_plain: "CHR ''$'' \<notin> set t \<Longrightarrow> expandEnv getenv (t @ rest) = t @ expandEnv getenv rest"
proof (induction t)
  case (Cons c t)
  then have "c \<noteq> CHR ''$''" by auto
  then have "env_match (c # t @ rest) = None" by (simp add: env_match_def HasPrefix_def)
  then show ?case using Cons by (simp add: expandEnv.simps [of getenv "c # t @ rest"])
qed simp

lemma expandEnv_segment:
  assumes "segment_ok x"
  shows "expandEnv getenv (render x @ rest) = meaning getenv x @ expandEnv getenv rest"
proof (cases x)
  case (Plain t)
  then show ?thesis using assms by (simp add: expandEnv_plain)
next
  case (Placeholder key d)
  show ?thesis
  proof (cases d)
    case None
    then show ?thesis using assms Placeholder by (simp add: expandEnv.simps [of getenv "CHR ''$'' # s" for s] env_match_bare)
  next
    case (Some v)
    then show ?thesis using assms Placeholder by (simp add: expandEnv.simps [of getenv "CHR ''$'' # s" for s] env_match_default)
  qed
qed

text \<open>Expansion of the configuration file.  A file that is made of text without dollar signs and of placeholders,
  with or without a default, expands to the text with every placeholder replaced by the value of its
  variable, by its default where the variable is unset or empty, or by nothing where there is no default.\<close>

theorem expandEnv_correct:
  assumes "list_all segment_ok xs"
  shows "expandEnv getenv (concat (map render xs)) = concat (map (meaning getenv) xs)"
  using assms
proof (induction xs)
  case Nil
  then show ?case by (simp add: expandEnv.simps [of getenv "[]"] env_match_def HasPrefix_def)
next
  case (Cons x xs)
  then show ?case by (simp add: expandEnv_segment)
qed

section \<open>What a loaded configuration satisfies\<close>

lemma or_default_idem [simp]: "or_default z d (or_default z d x) = or_default z d x"
  by (simp add: or_default_def)

lemma redis_defaults_idem: "redis_defaults (redis_defaults r) = redis_defaults r"
  by (simp add: redis_defaults_def Let_def or_default_def)

lemma crypto_defaults_idem: "crypto_defaults getenv (crypto_defaults getenv c) = crypto_defaults getenv c"
  by (simp add: crypto_defaults_def Let_def)

lemmas defaults_idem =
  redis_defaults_idem crypto_defaults_idem server_defaults_def eap_defaults_def aaa_defaults_def nrf_defaults_def
  native_defaults_def ausf_defaults_def

lemma gateway_defaults_idem: "gateway_defaults (gateway_defaults g) = gateway_defaults g"
  by (simp add: gateway_defaults_def)

lemma nrm_defaults_idem: "nrm_defaults (nrm_defaults n) = nrm_defaults n"
  by (simp add: nrm_defaults_def)

lemma applyDefaults_idem: "applyDefaults getenv (applyDefaults getenv cfg) = applyDefaults getenv cfg"
  by (simp add: applyDefaults_def defaults_idem gateway_defaults_idem nrm_defaults_idem option.map_comp o_def)

lemma Validate_cases:
  assumes "Config_Validate c = Inr c'"
  obtains (nrm) "cfg_Component c = ComponentNRM" "component_error c = None" "c' = c"
  | (other) "cfg_Component c \<noteq> ComponentNRM" "component_error c = None" "crypto_error (cfg_Crypto c) = None"
      "cc_KeyManager (cfg_Crypto c) \<noteq> ''softhsm''" "c' = c"
  | (softhsm) h where "cfg_Component c \<noteq> ComponentNRM" "component_error c = None"
      "cc_KeyManager (cfg_Crypto c) = ''softhsm''" "cc_SoftHSMConfig (cfg_Crypto c) = Some h" "softhsm_error (Some h) = None"
      "c' = c\<lparr>cfg_Crypto := (cfg_Crypto c)\<lparr>cc_SoftHSMConfig := Some (h\<lparr>hsc_LibraryPath :=
         or_default '''' ''/usr/lib/softhsm/libsofthsm2.so'' (hsc_LibraryPath h)\<rparr>)\<rparr>\<rparr>"
proof (cases "cfg_Component c = ComponentNRM")
  case True
  then have "component_error c = None" "c' = c"
    using assms by (simp_all add: Config_Validate_def split: option.splits)
  then show ?thesis by (rule nrm [OF True])
next
  case False
  then have e: "component_error c = None" "crypto_error (cfg_Crypto c) = None"
    using assms by (auto simp: Config_Validate_def split: option.splits)
  show ?thesis
  proof (cases "cc_KeyManager (cfg_Crypto c) = ''softhsm''")
    case True
    then have k: "softhsm_error (cc_SoftHSMConfig (cfg_Crypto c)) = None" using e(2) by (simp add: crypto_error_def)
    then obtain h where h: "cc_SoftHSMConfig (cfg_Crypto c) = Some h"
      by (cases "cc_SoftHSMConfig (cfg_Crypto c)") (simp_all add: softhsm_error_def)
    have "c' = c\<lparr>cfg_Crypto := (cfg_Crypto c)\<lparr>cc_SoftHSMConfig := Some (h\<lparr>hsc_LibraryPath :=
         or_default '''' ''/usr/lib/softhsm/libsofthsm2.so'' (hsc_LibraryPath h)\<rparr>)\<rparr>\<rparr>"
      using assms e True False h unfolding Config_Validate_def by auto
    then show ?thesis by (rule softhsm [OF False e(1) True h k [unfolded h]])
  next
    case n: False
    then have "c' = c" using assms e False unfolding Config_Validate_def by auto
    then show ?thesis by (rule other [OF False e n])
  qed
qed

lemma Validate_component: "Config_Validate c = Inr c' \<Longrightarrow> component_error c = None"
  by (auto simp: Config_Validate_def split: option.splits)

lemma Validate_crypto: "Config_Validate c = Inr c' \<Longrightarrow> cfg_Component c \<noteq> ComponentNRM \<Longrightarrow> crypto_error (cfg_Crypto c) = None"
  by (auto simp: Config_Validate_def split: option.splits)

lemma softhsm_error_path: "softhsm_error (Some (h\<lparr>hsc_LibraryPath := p\<rparr>)) = softhsm_error (Some h)"
  by (simp add: softhsm_error_def)

lemma component_error_crypto: "component_error (c\<lparr>cfg_Crypto := k\<rparr>) = component_error c"
  by (simp add: component_error_def)

lemma Validate_idem:
  assumes "Config_Validate c = Inr c'"
  shows "Config_Validate c' = Inr c'"
  using assms
proof (cases rule: Validate_cases)
  case (softhsm h)
  then show ?thesis
    by (simp add: Config_Validate_def component_error_crypto crypto_error_def softhsm_error_path)
qed (use assms in simp_all)

lemma applyDefaults_softhsm:
  assumes "cc_KeyManager (cfg_Crypto c) = ''softhsm''" and "applyDefaults getenv c = c"
  shows "applyDefaults getenv (c\<lparr>cfg_Crypto := (cfg_Crypto c)\<lparr>cc_SoftHSMConfig := h\<rparr>\<rparr>) = c\<lparr>cfg_Crypto := (cfg_Crypto c)\<lparr>cc_SoftHSMConfig := h\<rparr>\<rparr>"
proof -
  have f: "crypto_defaults getenv (cfg_Crypto c) = cfg_Crypto c"
    using arg_cong [OF assms(2), of cfg_Crypto] by (simp add: applyDefaults_def)
  have "or_default 0 30 (cc_KEKOverlapDays (cfg_Crypto c)) = cc_KEKOverlapDays (cfg_Crypto c)"
    using arg_cong [OF f, of cc_KEKOverlapDays] by (simp add: crypto_defaults_def Let_def)
  then have "crypto_defaults getenv ((cfg_Crypto c)\<lparr>cc_SoftHSMConfig := h\<rparr>) = (cfg_Crypto c)\<lparr>cc_SoftHSMConfig := h\<rparr>"
    using assms(1) by (cases "cfg_Crypto c") (simp add: crypto_defaults_def or_default_def)
  moreover have "applyDefaults getenv (c\<lparr>cfg_Crypto := k\<rparr>) = (applyDefaults getenv c)\<lparr>cfg_Crypto := crypto_defaults getenv k\<rparr>" for k
    by (simp add: applyDefaults_def)
  ultimately show ?thesis using assms(2) by simp
qed

lemma first_error_None: "first_error xs = None \<longleftrightarrow> list_all (\<lambda>(bad, m). \<not> bad) xs"
  by (induction xs rule: first_error.induct) simp_all

lemma soft_error_None: "soft_error k = None \<longleftrightarrow> (\<exists>bs. DecodeString k = Some bs \<and> length bs = 32)"
proof
  assume "soft_error k = None"
  then show "\<exists>bs. DecodeString k = Some bs \<and> length bs = 32"
    using DecodeString_length [of k] by (fastforce simp: soft_error_def split: if_splits)
next
  assume "\<exists>bs. DecodeString k = Some bs \<and> length bs = 32"
  then obtain bs where bs: "DecodeString k = Some bs" "length bs = 32" by blast
  then have "length k = 64" using DecodeString_length [OF bs(1)] by simp
  then show "soft_error k = None" using bs by (auto simp: soft_error_def)
qed

lemma biz_error_None:
  "biz_error biz = None \<Longrightarrow> \<exists>b. biz = Some b \<and> bc_AAAGatewayURL b \<noteq> '''' \<and>
     (bc_UseMTLS b \<longrightarrow> bc_TLSCert b \<noteq> '''' \<and> bc_TLSKey b \<noteq> '''' \<and> bc_TLSCA b \<noteq> '''')"
  by (cases biz) (auto simp: biz_error_def split: if_splits)

lemma gateway_error_None: "gateway_error gw = None \<Longrightarrow> \<exists>g. gw = Some g \<and> ac_BizServiceURL g \<noteq> ''''"
  by (cases gw) (auto simp: gateway_error_def split: if_splits)

lemma nrm_error_None: "nrm_error nrm = None \<Longrightarrow> \<exists>n. nrm = Some n \<and> nc_ListenAddr n \<noteq> ''''"
  by (cases nrm) (auto simp: nrm_error_def split: if_splits)

lemma vault_error_None:
  "vault_error v = None \<Longrightarrow> \<exists>v'. v = Some v' \<and> vc_Address v' \<noteq> '''' \<and> vc_KeyName v' \<noteq> '''' \<and>
     (vc_AuthMethod v' = ''token'' \<longrightarrow> vc_Token v' \<noteq> '''' \<or> vc_TokenFile v' \<noteq> '''')"
  by (cases v) (auto simp: vault_error_def split: if_splits)

lemma softhsm_error_None: "softhsm_error h = None \<Longrightarrow> \<exists>h'. h = Some h' \<and> hsc_TokenLabel h' \<noteq> '''' \<and> hsc_PIN h' \<noteq> ''''"
  by (cases h) (auto simp: softhsm_error_def split: if_splits)

lemma defaults_listen:
  assumes "applyDefaults getenv c = c" and "cfg_AAAgw c = Some g"
  shows "ac_ListenRADIUS g \<noteq> ''''"
proof -
  have "Some (gateway_defaults g) = Some g"
    using arg_cong [OF assms(1), of cfg_AAAgw] assms(2) by (simp add: applyDefaults_def)
  from arg_cong [OF this, of "ac_ListenRADIUS \<circ> the"] show ?thesis
    by (auto simp: gateway_defaults_def or_default_def split: if_splits)
qed

lemma validated_library:
  assumes "Config_Validate c = Inr c" and "cfg_Component c \<noteq> ComponentNRM" and "cc_KeyManager (cfg_Crypto c) = ''softhsm''"
    and "cc_SoftHSMConfig (cfg_Crypto c) = Some h"
  shows "hsc_LibraryPath h \<noteq> ''''"
  using assms(1)
proof (cases rule: Validate_cases)
  case (softhsm h')
  from arg_cong [OF softhsm(6), of "hsc_LibraryPath \<circ> the \<circ> cc_SoftHSMConfig \<circ> cfg_Crypto"] show ?thesis
    using softhsm(4) assms(4) by (auto simp: or_default_def split: if_splits)
qed (use assms in simp_all)

lemma Load_validated:
  assumes "Config_Load getenv ReadFile Unmarshal path = Inr c"
  shows "Config_Validate c = Inr c"
proof -
  obtain raw where "Config_Validate (applyDefaults getenv raw) = Inr c"
    using assms by (auto simp: Config_Load_def split: sum.splits)
  then show ?thesis by (rule Validate_idem)
qed


text \<open>What the decoder leaves of a file that sets nothing.\<close>

definition zero_config :: Config where
  "zero_config = \<lparr>cfg_Component = '''', cfg_Version = '''',
     cfg_Server = \<lparr>sc_Addr = '''', sc_ReadTimeout = 0, sc_WriteTimeout = 0, sc_IdleTimeout = 0\<rparr>,
     cfg_Database = \<lparr>dbc_Host = '''', dbc_Port = 0, dbc_Name = '''', dbc_User = '''', dbc_Password = '''', dbc_MaxConns = 0,
       dbc_MinConns = 0, dbc_ConnMaxLifetime = 0, dbc_SSLMode = ''''\<rparr>,
     cfg_Redis = \<lparr>rc_Addr = '''', rc_Addrs = [], rc_Password = '''', rc_DB = 0, rc_PoolSize = 0\<rparr>,
     cfg_EAP = \<lparr>ec_MaxRounds = 0, ec_RoundTimeout = 0, ec_SessionTTL = 0\<rparr>,
     cfg_AAA = \<lparr>aac_ResponseTimeout = 0, aac_MaxRetries = 0, aac_FailureThreshold = 0, aac_RecoveryTimeout = 0\<rparr>,
     cfg_RateLimit = \<lparr>rlc_PerGpsiPerMin = 0, rlc_PerAmfPerSec = 0, rlc_GlobalPerSec = 0\<rparr>,
     cfg_Logging = \<lparr>lc_Level = '''', lc_Format = ''''\<rparr>, cfg_Metrics = \<lparr>mc_Enabled = False, mc_Path = ''''\<rparr>,
     cfg_NRF = \<lparr>nrf_BaseURL = '''', nrf_DiscoverTimeout = 0, nrf_CacheTTL = 0, nrf_InstanceID = '''', nrf_ProfilePath = '''',
       nrf_AccessToken = \<lparr>tkc_Enabled = False, tkc_AuthServer = '''', tkc_ClientID = '''', tkc_ClientSecret = '''', tkc_Scope = ''''\<rparr>,
       nrf_Heartbeat = \<lparr>hc_InitialInterval = 0, hc_AcceptNegotiatedInterval = False, hc_MaxConsecutiveFailures = 0\<rparr>,
       nrf_DiscoveryCache = \<lparr>dcc_Enabled = False, dcc_DefaultTTL = 0\<rparr>\<rparr>,
     cfg_UDM = \<lparr>pc_BaseURL = '''', pc_Timeout = 0\<rparr>, cfg_AUSF = \<lparr>pc_BaseURL = '''', pc_Timeout = 0\<rparr>,
     cfg_Crypto = \<lparr>cc_KeyManager = '''', cc_MasterKeyHex = '''', cc_VaultConfig = None, cc_SoftHSMConfig = None, cc_KEKOverlapDays = 0\<rparr>,
     cfg_InternalComm = \<lparr>icc_Mode = '''', icc_Native = \<lparr>nat_Timeout = 0, nat_Retry = \<lparr>rt_MaxAttempts = 0, rt_BaseDelay = 0, rt_MaxDelay = 0\<rparr>,
       nat_CB = \<lparr>cbc_FailureThreshold = 0, cbc_RecoveryTimeout = 0, cbc_SuccessThreshold = 0\<rparr>,
       nat_Pool = \<lparr>cpc_MaxIdleConns = 0, cpc_MaxIdleConnsPerHost = 0, cpc_IdleConnTimeout = 0, cpc_DialTimeout = 0\<rparr>, nat_TLS = None,
       nat_KeepalivedHealthURL = '''', nat_Radius = \<lparr>rdc_MaxRetries = 0, rdc_Timeout = 0, rdc_ResponseWindow = 0\<rparr>\<rparr>, icc_TrustDomain = ''''\<rparr>,
     cfg_Debug = \<lparr>dgc_Enabled = False, dgc_RedisAddr = '''', dgc_TTL = 0, dgc_MaxLen = 0\<rparr>,
     cfg_Biz = None, cfg_AAAgw = None, cfg_HTTPgw = None, cfg_NRM = None\<rparr>"

definition vault_config :: Config where
  "vault_config = zero_config\<lparr>cfg_Component := ComponentBiz,
     cfg_Biz := Some \<lparr>bc_AAAGatewayURL = ''http://gw'', bc_UseMTLS = False, bc_TLSCert = '''', bc_TLSKey = '''', bc_TLSCA = '''', bc_TLS = None,
       bc_Snssai = \<lparr>src_Default = None, src_SST = [], src_Exact = []\<rparr>\<rparr>,
     cfg_Crypto := \<lparr>cc_KeyManager = ''vault'', cc_MasterKeyHex = '''',
       cc_VaultConfig = Some \<lparr>vc_Address = ''http://vault'', vc_KeyName = ''kek'', vc_AuthMethod = ''token'', vc_K8sRole = '''',
         vc_Token = ''t'', vc_TokenFile = ''''\<rparr>, cc_SoftHSMConfig = None, cc_KEKOverlapDays = 0\<rparr>\<rparr>"

lemma vault_config_loads:
  "Config_Load (\<lambda>k. '''') (\<lambda>p. Inr '''') (\<lambda>s. Inr vault_config) ''biz.yaml'' = Inr (applyDefaults (\<lambda>k. '''') vault_config)"
  by (simp add: Config_Load_def Config_Validate_def component_error_def biz_error_def crypto_error_def vault_error_def
      applyDefaults_def crypto_defaults_def or_default_def vault_config_def Let_def)


end
