(* ===== verification/Migrate.thy ===== *)
theory Migrate
  imports Encodings "HOL-Library.List_Lexorder" "HOL-Library.Char_ord"
begin

text \<open>
  The migrations of the database (\<^verbatim>\<open>internal/storage/postgres/migrate.go\<close>): the list of the files, the loop that
  applies and records the pending ones, the rollback and the status.  A file is the list of its
  statements.  Where a transaction is opened and closed matters, because every migration file of the
  repository opens and commits a transaction of its own.
\<close>

section \<open>File names\<close>

text \<open>\<^verbatim>\<open>strings.TrimSpace\<close>\<close>

definition TrimSpace :: "string \<Rightarrow> string" where
  "TrimSpace s =
    (let t = drop (last (filter (\<lambda>k. blank (take k s)) [0..<Suc (length s)])) s in
     take (hd (filter (\<lambda>k. blank (drop k t)) [0..<Suc (length t)])) t)"

record Migration =
  mig_Version :: string
  mig_Filename :: string

text \<open>The files of the directory in the order of \<^verbatim>\<open>fs.ReadDir\<close>; none is a directory.\<close>

definition listMigrations :: "string \<Rightarrow> string list \<Rightarrow> Migration list" where
  "listMigrations direction names =
    sort_key mig_Version
      (map (\<lambda>name. \<lparr>mig_Version = takeWhile (\<lambda>c. c \<noteq> CHR ''_'') name, mig_Filename = name\<rparr>)
        (filter (\<lambda>name. CHR ''_'' \<in> set name \<and> HasSuffix name (''.'' @ direction @ ''.sql'')) names))"

definition getDescription :: "string \<Rightarrow> string" where
  "getDescription filename =
    (let name = TrimSuffix (TrimSuffix filename ''.up.sql'') ''.down.sql'';
         name = (if CHR ''_'' \<in> set name then drop 1 (dropWhile (\<lambda>c. c \<noteq> CHR ''_'') name) else name) in
     TrimSpace (map (\<lambda>c. if c = CHR ''_'' then CHR '' '' else c) name))"

section \<open>The database\<close>

text \<open>A statement of a file: the two that delimit a transaction, or one that changes the schema.\<close>

datatype sql_stmt = SqlBegin | SqlCommit | SqlChange string

text \<open>What is durable, the changes and the recorded versions with their descriptions, and what the open transaction sees.\<close>

record schema_db =
  sd_changes :: "string list"
  sd_records :: "(string \<times> string) list"
  sd_tx :: "(string list \<times> (string \<times> string) list) option"

definition begin_tx :: "schema_db \<Rightarrow> schema_db" where
  "begin_tx d = (case sd_tx d of None \<Rightarrow> d\<lparr>sd_tx := Some (sd_changes d, sd_records d)\<rparr> | Some _ \<Rightarrow> d)"

definition commit_tx :: "schema_db \<Rightarrow> schema_db" where
  "commit_tx d =
    (case sd_tx d of
       None \<Rightarrow> d
     | Some (changes, records) \<Rightarrow> d\<lparr>sd_changes := changes, sd_records := records, sd_tx := None\<rparr>)"

definition rollback_tx :: "schema_db \<Rightarrow> schema_db" where
  "rollback_tx d = d\<lparr>sd_tx := None\<rparr>"

text \<open>Outside of a transaction a statement is durable at once.\<close>

definition change :: "string \<Rightarrow> schema_db \<Rightarrow> schema_db" where
  "change c d =
    (case sd_tx d of
       None \<Rightarrow> d\<lparr>sd_changes := sd_changes d @ [c]\<rparr>
     | Some (changes, records) \<Rightarrow> d\<lparr>sd_tx := Some (changes @ [c], records)\<rparr>)"

definition record_version :: "string \<Rightarrow> string \<Rightarrow> schema_db \<Rightarrow> schema_db" where
  "record_version v desc d =
    (case sd_tx d of
       None \<Rightarrow> d\<lparr>sd_records := sd_records d @ [(v, desc)]\<rparr>
     | Some (changes, records) \<Rightarrow> d\<lparr>sd_tx := Some (changes, records @ [(v, desc)])\<rparr>)"

definition remove_version :: "string \<Rightarrow> schema_db \<Rightarrow> schema_db" where
  "remove_version v d =
    (case sd_tx d of
       None \<Rightarrow> d\<lparr>sd_records := filter (\<lambda>r. fst r \<noteq> v) (sd_records d)\<rparr>
     | Some (changes, records) \<Rightarrow> d\<lparr>sd_tx := Some (changes, filter (\<lambda>r. fst r \<noteq> v) records)\<rparr>)"

text \<open>The statements of a file one after the other; \<^verbatim>\<open>fails\<close> tells the changes that the server refuses.\<close>

fun run_script :: "(string \<Rightarrow> string option) \<Rightarrow> sql_stmt list \<Rightarrow> schema_db \<Rightarrow> schema_db \<times> string option" where
  "run_script fails [] d = (d, None)"
| "run_script fails (SqlBegin # rest) d = run_script fails rest (begin_tx d)"
| "run_script fails (SqlCommit # rest) d = run_script fails rest (commit_tx d)"
| "run_script fails (SqlChange c # rest) d = (case fails c of Some err \<Rightarrow> (d, Some err) | None \<Rightarrow> run_script fails rest (change c d))"

section \<open>The migrator\<close>

text \<open>The embedded files, and the errors that the server or the connection gives: of creating the table of records, of the
  query for them, and for a file of opening, of recording and of committing.\<close>

record mig_env =
  me_names :: "string list"
  me_read :: "string \<Rightarrow> (string, sql_stmt list) result"
  me_ensure :: "string option"
  me_query :: "string option"
  me_begin :: "string \<Rightarrow> string option"
  me_fails :: "string \<Rightarrow> string option"
  me_record :: "string \<Rightarrow> string option"
  me_commit :: "string \<Rightarrow> string option"

text \<open>\<^verbatim>\<open>getAppliedMigrations\<close>: only upward records are ever written.\<close>

definition getAppliedMigrations :: "mig_env \<Rightarrow> schema_db \<Rightarrow> (string, string list) result" where
  "getAppliedMigrations e d =
    (case me_ensure e of
       Some err \<Rightarrow> Inl (''create schema_migrations table: '' @ err)
     | None \<Rightarrow> (case me_query e of Some err \<Rightarrow> Inl (''query applied migrations: '' @ err) | None \<Rightarrow> Inr (map fst (sd_records d))))"

text \<open>One pending migration.\<close>

definition apply_migration :: "mig_env \<Rightarrow> Migration \<Rightarrow> schema_db \<Rightarrow> schema_db \<times> string option" where
  "apply_migration e mig d =
    (case me_read e (mig_Filename mig) of
       Inl err \<Rightarrow> (d, Some (''read '' @ mig_Filename mig @ '': '' @ err))
     | Inr script \<Rightarrow>
         (case me_begin e (mig_Filename mig) of
            Some err \<Rightarrow> (d, Some (''begin transaction: '' @ err))
          | None \<Rightarrow>
              (case run_script (me_fails e) script (begin_tx d) of
                 (d, Some err) \<Rightarrow> (rollback_tx d, Some (''apply migration '' @ mig_Filename mig @ '': '' @ err))
               | (d, None) \<Rightarrow>
                   (case me_record e (mig_Filename mig) of
                      Some err \<Rightarrow> (rollback_tx d, Some (''record migration '' @ mig_Filename mig @ '': '' @ err))
                    | None \<Rightarrow>
                        (let d = record_version (mig_Version mig) (getDescription (mig_Filename mig)) d in
                         case me_commit e (mig_Filename mig) of
                           Some err \<Rightarrow> (rollback_tx d, Some (''commit migration '' @ mig_Filename mig @ '': '' @ err))
                         | None \<Rightarrow> (commit_tx d, None))))))"

fun migrate_loop :: "mig_env \<Rightarrow> string list \<Rightarrow> Migration list \<Rightarrow> schema_db \<Rightarrow> schema_db \<times> string option" where
  "migrate_loop e applied [] d = (d, None)"
| "migrate_loop e applied (mig # rest) d =
    (if mig_Version mig \<in> set applied then migrate_loop e applied rest d
     else case apply_migration e mig d of (d, Some err) \<Rightarrow> (d, Some err) | (d, None) \<Rightarrow> migrate_loop e applied rest d)"

definition Migrate :: "mig_env \<Rightarrow> schema_db \<Rightarrow> schema_db \<times> string option" where
  "Migrate e d =
    (case me_ensure e of
       Some err \<Rightarrow> (d, Some (''create schema_migrations table: '' @ err))
     | None \<Rightarrow>
         (case getAppliedMigrations e d of
            Inl err \<Rightarrow> (d, Some (''get applied migrations: '' @ err))
          | Inr applied \<Rightarrow> migrate_loop e applied (listMigrations ''up'' (me_names e)) d))"

text \<open>\<^verbatim>\<open>strings.Replace(name, ".up.sql", ".down.sql", 1)\<close> on a name with this suffix.\<close>

definition downFile :: "string \<Rightarrow> string" where
  "downFile name = TrimSuffix name ''.up.sql'' @ ''.down.sql''"

text \<open>The loop of \<^verbatim>\<open>Rollback\<close>: a migration without a file for the way back is passed over, and at least one is undone.\<close>

fun rollback_loop :: "mig_env \<Rightarrow> string list \<Rightarrow> int \<Rightarrow> Migration list \<Rightarrow> schema_db \<Rightarrow> schema_db \<times> string option" where
  "rollback_loop e applied steps [] d = (d, None)"
| "rollback_loop e applied steps (mig # rest) d =
    (if mig_Version mig \<notin> set applied then rollback_loop e applied steps rest d
     else case me_read e (downFile (mig_Filename mig)) of
       Inl _ \<Rightarrow> rollback_loop e applied steps rest d
     | Inr script \<Rightarrow>
         (case me_begin e (mig_Filename mig) of
            Some err \<Rightarrow> (d, Some (''begin transaction: '' @ err))
          | None \<Rightarrow>
              (case run_script (me_fails e) script (begin_tx d) of
                 (d, Some err) \<Rightarrow> (rollback_tx d, Some (''rollback migration '' @ mig_Filename mig @ '': '' @ err))
               | (d, None) \<Rightarrow>
                   (case me_record e (mig_Filename mig) of
                      Some err \<Rightarrow> (rollback_tx d, Some (''remove migration record '' @ mig_Filename mig @ '': '' @ err))
                    | None \<Rightarrow>
                        (let d = remove_version (mig_Version mig) d in
                         case me_commit e (mig_Filename mig) of
                           Some err \<Rightarrow> (rollback_tx d, Some (''commit rollback '' @ mig_Filename mig @ '': '' @ err))
                         | None \<Rightarrow> if 1 \<ge> steps then (commit_tx d, None) else rollback_loop e applied (steps - 1) rest (commit_tx d))))))"

definition Rollback :: "mig_env \<Rightarrow> int \<Rightarrow> schema_db \<Rightarrow> schema_db \<times> string option" where
  "Rollback e steps d =
    (case me_ensure e of
       Some err \<Rightarrow> (d, Some (''create schema_migrations table: '' @ err))
     | None \<Rightarrow>
         (case getAppliedMigrations e d of
            Inl err \<Rightarrow> (d, Some (''get applied migrations: '' @ err))
          | Inr applied \<Rightarrow> rollback_loop e applied steps (rev (listMigrations ''up'' (me_names e))) d))"

definition Status :: "mig_env \<Rightarrow> schema_db \<Rightarrow> (string, string list \<times> string list) result" where
  "Status e d =
    (case me_ensure e of
       Some err \<Rightarrow> Inl (''create schema_migrations table: '' @ err)
     | None \<Rightarrow>
         (case getAppliedMigrations e d of
            Inl err \<Rightarrow> Inl (''get applied migrations: '' @ err)
          | Inr applied \<Rightarrow>
              (let name = (\<lambda>mig. mig_Version mig @ ''_'' @ getDescription (mig_Filename mig)); migs = listMigrations ''up'' (me_names e) in
               Inr (map name (filter (\<lambda>mig. mig_Version mig \<in> set applied) migs), map name (filter (\<lambda>mig. mig_Version mig \<notin> set applied) migs)))))"

section \<open>Scripts\<close>

text \<open>A file without statements for transactions, and one that opens and commits its own, as all files of the repository do.\<close>

definition plain_script :: "string list \<Rightarrow> sql_stmt list" where
  "plain_script cs = map SqlChange cs"

definition own_transaction :: "string list \<Rightarrow> sql_stmt list" where
  "own_transaction cs = SqlBegin # map SqlChange cs @ [SqlCommit]"

lemma run_changes:
  assumes "\<forall>c \<in> set cs. fails c = None" and "sd_tx d = Some (ch, r)"
  shows "run_script fails (map SqlChange cs @ rest) d = run_script fails rest (d\<lparr>sd_tx := Some (ch @ cs, r)\<rparr>)"
  using assms
proof (induction cs arbitrary: d ch)
  case (Cons c cs)
  then have "sd_tx (change c d) = Some (ch @ [c], r)" by (simp add: change_def)
  from Cons.IH [OF _ this] show ?case using Cons.prems by (simp add: change_def)
next
  case Nil
  then show ?case by (cases d) simp
qed

lemma run_plain:
  assumes "\<forall>c \<in> set cs. fails c = None" and "sd_tx d = None"
  shows "run_script fails (plain_script cs) (begin_tx d) = (d\<lparr>sd_tx := Some (sd_changes d @ cs, sd_records d)\<rparr>, None)"
  using run_changes [OF assms(1), of "begin_tx d" "sd_changes d" "sd_records d" "[]"] assms(2) by (simp add: plain_script_def begin_tx_def)

lemma run_own:
  assumes "\<forall>c \<in> set cs. fails c = None" and "sd_tx d = None"
  shows "run_script fails (own_transaction cs) (begin_tx d) = (d\<lparr>sd_changes := sd_changes d @ cs\<rparr>, None)"
  using run_changes [OF assms(1), of "begin_tx d" "sd_changes d" "sd_records d" "[SqlCommit]"] assms(2)
  by (simp add: own_transaction_def begin_tx_def commit_tx_def)

section \<open>Migrations that succeed\<close>

text \<open>The database answers without errors, and the files are of one of the two forms.\<close>

definition mig_ok :: "mig_env \<Rightarrow> (string \<Rightarrow> string list) \<Rightarrow> bool" where
  "mig_ok e cs \<longleftrightarrow> me_ensure e = None \<and> me_query e = None \<and>
    (\<forall>mig \<in> set (listMigrations ''up'' (me_names e)).
       (me_read e (mig_Filename mig) = Inr (plain_script (cs (mig_Filename mig))) \<or>
        me_read e (mig_Filename mig) = Inr (own_transaction (cs (mig_Filename mig)))) \<and>
       (\<forall>c \<in> set (cs (mig_Filename mig)). me_fails e c = None) \<and>
       me_begin e (mig_Filename mig) = None \<and> me_record e (mig_Filename mig) = None \<and> me_commit e (mig_Filename mig) = None)"

lemma apply_migration_ok:
  assumes "mig_ok e cs" "mig \<in> set (listMigrations ''up'' (me_names e))" "sd_tx d = None"
  shows "apply_migration e mig d =
    (d\<lparr>sd_changes := sd_changes d @ cs (mig_Filename mig),
       sd_records := sd_records d @ [(mig_Version mig, getDescription (mig_Filename mig))]\<rparr>, None)"
proof -
  have m: "\<forall>c \<in> set (cs (mig_Filename mig)). me_fails e c = None" "me_begin e (mig_Filename mig) = None"
    "me_record e (mig_Filename mig) = None" "me_commit e (mig_Filename mig) = None"
    using assms(1,2) unfolding mig_ok_def by blast+
  consider "me_read e (mig_Filename mig) = Inr (plain_script (cs (mig_Filename mig)))"
    | "me_read e (mig_Filename mig) = Inr (own_transaction (cs (mig_Filename mig)))"
    using assms(1,2) unfolding mig_ok_def by blast
  then show ?thesis
  proof cases
    case 1
    then show ?thesis using m assms(3)
      by (simp add: apply_migration_def run_plain record_version_def commit_tx_def Let_def)
  next
    case 2
    then show ?thesis using m assms(3)
      by (simp add: apply_migration_def run_own record_version_def commit_tx_def Let_def)
  qed
qed

lemma migrate_loop_ok:
  assumes "mig_ok e cs" "set migs \<subseteq> set (listMigrations ''up'' (me_names e))" "sd_tx d = None"
  shows "migrate_loop e applied migs d =
    (let todo = filter (\<lambda>mig. mig_Version mig \<notin> set applied) migs in
     (d\<lparr>sd_changes := sd_changes d @ concat (map (cs \<circ> mig_Filename) todo),
        sd_records := sd_records d @ map (\<lambda>mig. (mig_Version mig, getDescription (mig_Filename mig))) todo\<rparr>, None))"
  using assms(2,3)
proof (induction migs arbitrary: d)
  case (Cons mig migs)
  then show ?case using apply_migration_ok [OF assms(1), of mig d] by (simp add: Let_def)
qed simp

text \<open>C40.  Migrations.  Where the database answers without errors, \<^verbatim>\<open>Migrate\<close> applies exactly the migrations whose version is not
  recorded, in the order of their versions and each once, records all of them, and leaves nothing to do: a
  second run changes nothing.\<close>

theorem migrate_applies_pending:
  assumes "mig_ok e cs" and "sd_tx d = None" and "Migrate e d = (d', err)"
  shows "let todo = filter (\<lambda>mig. mig_Version mig \<notin> set (map fst (sd_records d))) (listMigrations ''up'' (me_names e)) in
    err = None \<and> sorted (map mig_Version todo) \<and>
    sd_changes d' = sd_changes d @ concat (map (cs \<circ> mig_Filename) todo) \<and>
    set (map fst (sd_records d')) = set (map fst (sd_records d)) \<union> set (map mig_Version (listMigrations ''up'' (me_names e))) \<and>
    Migrate e d' = (d', None)"
proof -
  let ?all = "listMigrations ''up'' (me_names e)"
  let ?todo = "filter (\<lambda>mig. mig_Version mig \<notin> set (map fst (sd_records d))) ?all"
  have run: "Migrate e x = migrate_loop e (map fst (sd_records x)) ?all x" for x
    using assms(1) by (simp add: Migrate_def getAppliedMigrations_def mig_ok_def)
  note loop = migrate_loop_ok [OF assms(1) order_refl, unfolded Let_def]
  have d': "d' = d\<lparr>sd_changes := sd_changes d @ concat (map (cs \<circ> mig_Filename) ?todo),
      sd_records := sd_records d @ map (\<lambda>mig. (mig_Version mig, getDescription (mig_Filename mig))) ?todo\<rparr>" "err = None"
    using assms(3) loop [OF assms(2), of "map fst (sd_records d)"] unfolding run by auto
  have versions: "set (map fst (sd_records d')) = set (map fst (sd_records d)) \<union> set (map mig_Version ?all)"
    unfolding d'(1) by force
  then have none: "filter (\<lambda>mig. mig_Version mig \<notin> set (map fst (sd_records d'))) ?all = []" by (auto simp: filter_empty_conv)
  have "sd_tx d' = None" unfolding d'(1) using assms(2) by simp
  then have "Migrate e d' = (d', None)" using loop [of d' "map fst (sd_records d')"] none unfolding run by simp
  moreover have "sorted (map mig_Version ?todo)" by (rule sorted_filter) (simp add: listMigrations_def)
  ultimately show ?thesis using d' versions by (simp add: Let_def)
qed

section \<open>Migrations that fail\<close>

text \<open> A migration is not atomic.  Suppose the statements of a migration succeed and recording its version fails.  If its file
  has no transaction of its own, nothing of it remains.  If the file opens and commits a transaction, as
  every file of the repository does, its changes are durable although \<^verbatim>\<open>Migrate\<close> has rolled back and
  returned an error, and its version is not recorded, so that the next run executes the file again.\<close>

theorem migration_not_atomic:
  assumes "sd_tx d = None" and "\<forall>c \<in> set cs. me_fails e c = None" and "me_begin e (mig_Filename mig) = None"
    and "me_record e (mig_Filename mig) = Some err"
  shows "(me_read e (mig_Filename mig) = Inr (plain_script cs) \<longrightarrow> (\<exists>msg. apply_migration e mig d = (d, Some msg))) \<and>
    (me_read e (mig_Filename mig) = Inr (own_transaction cs) \<longrightarrow>
       (\<exists>msg. apply_migration e mig d = (d\<lparr>sd_changes := sd_changes d @ cs\<rparr>, Some msg)))"
  using assms by (auto simp: apply_migration_def run_plain run_own rollback_tx_def)

definition ex_mig_env :: "sql_stmt list \<Rightarrow> string option \<Rightarrow> mig_env" where
  "ex_mig_env script record_err = \<lparr>me_names = [''000001_a.up.sql''], me_read = \<lambda>f. Inr script, me_ensure = None, me_query = None,
     me_begin = \<lambda>f. None, me_fails = \<lambda>c. None, me_record = \<lambda>f. record_err, me_commit = \<lambda>f. None\<rparr>"

definition ex_schema :: schema_db where
  "ex_schema = \<lparr>sd_changes = [], sd_records = [], sd_tx = None\<rparr>"

definition ex_mig :: Migration where
  "ex_mig = \<lparr>mig_Version = ''000001'', mig_Filename = ''000001_a.up.sql''\<rparr>"

lemma ex_list: "listMigrations ''up'' [''000001_a.up.sql''] = [ex_mig]"
  by (simp add: listMigrations_def HasSuffix_def ex_mig_def)

theorem migrate_applies_pending_witness:
  "mig_ok (ex_mig_env (own_transaction [''t'']) None) (\<lambda>f. [''t'']) \<and>
   (\<exists>d'. Migrate (ex_mig_env (own_transaction [''t'']) None) ex_schema = (d', None) \<and> sd_changes d' = [''t''] \<and>
      Migrate (ex_mig_env (own_transaction [''t'']) None) d' = (d', None))"
proof -
  have ok: "mig_ok (ex_mig_env (own_transaction [''t'']) None) (\<lambda>f. [''t''])"
    by (simp add: mig_ok_def ex_mig_env_def)
  obtain d' err where m: "Migrate (ex_mig_env (own_transaction [''t'']) None) ex_schema = (d', err)" by fastforce
  have "sd_tx ex_schema = None" by (simp add: ex_schema_def)
  from migrate_applies_pending [OF ok this m] ok m show ?thesis
    by (simp add: Let_def ex_mig_env_def ex_schema_def ex_list [unfolded ex_mig_def])
qed

end
