(* ===== verification/Startup.thy ===== *)
theory Startup
  imports Config Crypto Storage_Pg Eap_Session Migrate
begin

text \<open>
  Start of the Biz Pod: the Vault key manager (\<^verbatim>\<open>internal/crypto/kms.go\<close>), the initialisation of the key manager
  (\<^verbatim>\<open>internal/crypto/config.go\<close>), and the factory that builds the pod from its configuration
  (\<^verbatim>\<open>cmd/biz/factory.go\<close>).  The connections to the database and to Redis, the migration, Vault and the file
  system are arguments.
\<close>

section \<open>The Vault key manager\<close>

record VaultKeyManager =
  vkm_address :: string
  vkm_keyName :: string
  vkm_authMethod :: string
  vkm_k8sRole :: string
  vkm_token :: string
  vkm_tokenFile :: string

definition NewVaultKeyManager :: "VaultConfig \<Rightarrow> VaultKeyManager" where
  "NewVaultKeyManager cfg = \<lparr>vkm_address = vc_Address cfg, vkm_keyName = vc_KeyName cfg, vkm_authMethod = vc_AuthMethod cfg,
     vkm_k8sRole = vc_K8sRole cfg, vkm_token = vc_Token cfg, vkm_tokenFile = vc_TokenFile cfg\<rparr>"

text \<open>The \<^verbatim>\<open>Authorization\<close> header; \<^verbatim>\<open>ReadFile\<close> is the outcome of reading a file.\<close>

definition setAuthHeader :: "(string \<Rightarrow> (string, string) result) \<Rightarrow> VaultKeyManager \<Rightarrow> (string, string) result" where
  "setAuthHeader ReadFile m =
    (if vkm_authMethod m = ''kubernetes'' then
       (case ReadFile ''/var/run/secrets/kubernetes.io/serviceaccount/token'' of
          Inl err \<Rightarrow> Inl (''read k8s SA token: '' @ err)
        | Inr token \<Rightarrow> Inr (''Bearer '' @ token))
     else if vkm_authMethod m = ''token'' then
       rbind (if vkm_tokenFile m \<noteq> '''' then
           (case ReadFile (vkm_tokenFile m) of
              Inl err \<Rightarrow> Inl (''read Vault token from '' @ vkm_tokenFile m @ '': '' @ err)
            | Inr data \<Rightarrow> Inr (TrimSpace data))
         else Inr (vkm_token m)) (\<lambda>token.
       if token = '''' then Inl ''vault token is empty (set token or tokenFile)'' else Inr (''Bearer '' @ token))
     else Inl (''unsupported auth method: '' @ vkm_authMethod m))"

text \<open>The transit engine of Vault, as the client sees it: for a method, a URL, the \<^verbatim>\<open>Authorization\<close> header and the text in
  the body, a failed request, or a status with what the decoder finds in the body.\<close>

datatype transit_body = TransitText string | TransitKeys "(string \<times> int) list" | TransitInvalid string

type_synonym transit = "string \<Rightarrow> string \<Rightarrow> string \<Rightarrow> string \<Rightarrow> (string, int \<times> string \<times> transit_body) result"

text \<open>\<^verbatim>\<open>fmt.Sscanf(v, "%d", &vInt)\<close> for an \<^verbatim>\<open>int\<close>.\<close>

definition Sscanf_d_int :: "string \<Rightarrow> int option" where
  "Sscanf_d_int s =
    (let t = dropWhile scan_blank s;
         negative = HasPrefix t ''-'';
         u = (if negative \<or> HasPrefix t ''+'' then drop 1 t else t) in
     case read_nat (takeWhile is_digit u) of
       None \<Rightarrow> None
     | Some n \<Rightarrow>
         let i = (if negative then - int n else int n) in
         if - (2 ^ 63) \<le> i \<and> i < 2 ^ 63 then Some i else None)"

definition max_version :: "(string \<times> int) list \<Rightarrow> int" where
  "max_version keys =
    fold (\<lambda>(v, _) maxVer. case Sscanf_d_int v of Some vInt \<Rightarrow> if vInt > maxVer then vInt else maxVer | None \<Rightarrow> maxVer) keys 0"

definition Vault_GetKeyVersion :: "(string \<Rightarrow> (string, string) result) \<Rightarrow> transit \<Rightarrow> VaultKeyManager \<Rightarrow> (CryptoError, int) result" where
  "Vault_GetKeyVersion ReadFile vault m =
    (case setAuthHeader ReadFile m of
       Inl err \<Rightarrow> Inl (ErrCrypto (''vault keyversion: auth: '' @ err))
     | Inr auth \<Rightarrow>
         (case vault ''GET'' (vkm_address m @ ''/v1/transit/keys/'' @ vkm_keyName m) auth '''' of
            Inl err \<Rightarrow> Inl (ErrCrypto (''vault keyversion: request: '' @ err))
          | Inr (status, body, dec) \<Rightarrow>
              if status \<noteq> 200 then Inl (ErrCrypto (''vault keyversion: status '' @ show_int status))
              else (case dec of
                 TransitInvalid err \<Rightarrow> Inl (ErrCrypto (''vault keyversion: decode: '' @ err))
               | TransitText _ \<Rightarrow> Inr 1
               | TransitKeys keys \<Rightarrow> Inr (if max_version keys = 0 then 1 else max_version keys))))"

text \<open>A body without the field that is decoded leaves the empty text.\<close>

definition transit_text :: "transit_body \<Rightarrow> (string, string) result" where
  "transit_text b = (case b of TransitInvalid err \<Rightarrow> Inl err | TransitText t \<Rightarrow> Inr t | TransitKeys _ \<Rightarrow> Inr '''')"

definition Vault_Wrap ::
  "(string \<Rightarrow> (string, string) result) \<Rightarrow> transit \<Rightarrow> bytes \<Rightarrow> VaultKeyManager \<Rightarrow> (CryptoError, bytes \<times> int) result" where
  "Vault_Wrap ReadFile vault dek m =
    (case setAuthHeader ReadFile m of
       Inl err \<Rightarrow> Inl (ErrCrypto (''vault wrap: auth: '' @ err))
     | Inr auth \<Rightarrow>
         (case vault ''POST'' (vkm_address m @ ''/v1/transit/encrypt/'' @ vkm_keyName m) auth (b64_encode dek) of
            Inl err \<Rightarrow> Inl (ErrCrypto (''vault wrap: request: '' @ err))
          | Inr (status, body, dec) \<Rightarrow>
              if status \<noteq> 200 then Inl (ErrCrypto (''vault wrap: status '' @ show_int status @ '': '' @ body))
              else (case transit_text dec of
                 Inl err \<Rightarrow> Inl (ErrCrypto (''vault wrap: decode: '' @ err))
               | Inr ciphertext \<Rightarrow>
                   Inr (bytes_of ciphertext, case Vault_GetKeyVersion ReadFile vault m of Inl _ \<Rightarrow> 1 | Inr ver \<Rightarrow> ver))))"

definition Vault_Unwrap ::
  "(string \<Rightarrow> (string, string) result) \<Rightarrow> transit \<Rightarrow> VaultKeyManager \<Rightarrow> bytes \<Rightarrow> (CryptoError, bytes) result" where
  "Vault_Unwrap ReadFile vault m wrappedDEK =
    (case setAuthHeader ReadFile m of
       Inl err \<Rightarrow> Inl (ErrCrypto (''vault unwrap: auth: '' @ err))
     | Inr auth \<Rightarrow>
         (case vault ''POST'' (vkm_address m @ ''/v1/transit/decrypt/'' @ vkm_keyName m) auth (string_of wrappedDEK) of
            Inl err \<Rightarrow> Inl (ErrCrypto (''vault unwrap: request: '' @ err))
          | Inr (status, body, dec) \<Rightarrow>
              if status \<noteq> 200 then Inl (ErrCrypto (''vault unwrap: status '' @ show_int status @ '': '' @ body))
              else (case transit_text dec of
                 Inl err \<Rightarrow> Inl (ErrCrypto (''vault unwrap: decode: '' @ err))
               | Inr plaintext \<Rightarrow>
                   (case b64_decode plaintext of
                      None \<Rightarrow> Inl (ErrCrypto ''vault unwrap: decode base64: illegal base64 data'')
                    | Some dek \<Rightarrow> Inr dek))))"

definition Vault_RotateKey :: "(string \<Rightarrow> (string, string) result) \<Rightarrow> transit \<Rightarrow> VaultKeyManager \<Rightarrow> CryptoError option" where
  "Vault_RotateKey ReadFile vault m =
    (case setAuthHeader ReadFile m of
       Inl err \<Rightarrow> Some (ErrCrypto (''vault rotate: auth: '' @ err))
     | Inr auth \<Rightarrow>
         (case vault ''POST'' (vkm_address m @ ''/v1/transit/rotate/'' @ vkm_keyName m) auth '''' of
            Inl err \<Rightarrow> Some (ErrCrypto (''vault rotate: request: '' @ err))
          | Inr (status, body, dec) \<Rightarrow>
              if status \<noteq> 204 \<and> status \<noteq> 200 then Some (ErrCrypto (''vault rotate: status '' @ show_int status @ '': '' @ body)) else None))"

section \<open>The key manager of the process\<close>

datatype KeyManager = SoftKM SoftKeyManager | VaultKM VaultKeyManager | SoftHSMKM SoftHSMKeyManager

definition KeyManager_GetKey :: "KeyManager \<Rightarrow> bytes option" where
  "KeyManager_GetKey km = (case km of SoftKM m \<Rightarrow> Some (km_masterKey m) | VaultKM _ \<Rightarrow> None | SoftHSMKM _ \<Rightarrow> None)"

text \<open>\<^verbatim>\<open>Init\<close> sets the global key manager.\<close>

definition Init :: "CryptoConfig \<Rightarrow> KeyManager option \<Rightarrow> (string, KeyManager) result" where
  "Init cfg globalKM =
    (if globalKM \<noteq> None then Inl ''crypto.Init called twice''
     else if cc_KeyManager cfg = ''soft'' then
       (if cc_MasterKeyHex cfg = '''' then Inl ''crypto: MasterKeyHex required for soft key manager''
        else if length (cc_MasterKeyHex cfg) \<noteq> 64 then Inl ''crypto: MasterKeyHex must be 64 hex chars (32 bytes)''
        else case DecodeString (cc_MasterKeyHex cfg) of
          None \<Rightarrow> Inl ''crypto: invalid MasterKeyHex: encoding/hex: invalid byte''
        | Some key \<Rightarrow> Inr (SoftKM \<lparr>km_masterKey = key, km_currentVer = 1, km_kekOverlap = cc_KEKOverlapDays cfg, km_previousKey = None\<rparr>))
     else if cc_KeyManager cfg = ''vault'' then
       (case cc_VaultConfig cfg of
          None \<Rightarrow> Inl ''crypto: Vault.Address required for vault key manager''
        | Some v \<Rightarrow>
            if vc_Address v = '''' then Inl ''crypto: Vault.Address required for vault key manager''
            else if vc_KeyName v = '''' then Inl ''crypto: Vault.KeyName required''
            else Inr (VaultKM (NewVaultKeyManager v)))
     else if cc_KeyManager cfg = ''softhsm'' then
       (case cc_SoftHSMConfig cfg of
          None \<Rightarrow> Inl ''crypto: SoftHSMConfig required for softhsm key manager''
        | Some h \<Rightarrow> Inr (SoftHSMKM \<lparr>hsm_libraryPath = hsc_LibraryPath h, hsm_tokenLabel = hsc_TokenLabel h, hsm_pin = hsc_PIN h\<rparr>))
     else Inl (''crypto: unknown key manager: '' @ cc_KeyManager cfg))"

definition NewEncryptorFromKeyManager :: "KeyManager \<Rightarrow> (CryptoError, bytes) result" where
  "NewEncryptorFromKeyManager km =
    (case KeyManager_GetKey km of
       Some key \<Rightarrow> NewEncryptor key
     | None \<Rightarrow> Inl (ErrCrypto ''encryptor: unsupported key manager backend''))"

section \<open>The factory\<close>

text \<open>A slice beyond the end of the string panics.\<close>

definition hasScheme :: "string \<Rightarrow> bool option" where
  "hasScheme s =
    (if length s < 7 then Some False
     else if take 7 s = ''http://'' then Some True
     else if length s < 8 then None
     else Some (take 8 s = ''https://''))"

definition newNFRegistry :: "CircuitBreakerConfig \<Rightarrow> Registry" where
  "newNFRegistry cfg =
    NewRegistry (or_default 0 3 (cbc_FailureThreshold cfg)) (or_default 0 (10 * Second) (cbc_RecoveryTimeout cfg)) (or_default 0 2 (cbc_SuccessThreshold cfg))"

text \<open>The windows and limits of the two rate limiters.\<close>

definition newRateLimiterSet :: "RateLimitConfig \<Rightarrow> (duration \<times> int) \<times> (duration \<times> int)" where
  "newRateLimiterSet cfg = ((1 * Second, rlc_PerAmfPerSec cfg), (1 * Minute, rlc_PerGpsiPerMin cfg))"

text \<open>What the factory hands to the components of the pod.\<close>

record BizPod =
  bp_apiRoot :: string
  bp_key :: bytes
  bp_redisAddr :: string
  bp_nfRegistry :: Registry
  bp_amfRegistry :: Registry
  bp_discoveryURL :: string
  bp_rateLimiters :: "(duration \<times> int) \<times> (duration \<times> int)"
  bp_aaaGatewayURL :: string
  bp_aaaTLS :: TLSClientConfig
  bp_snssai :: SnssaiRoutingConfig
  bp_server :: ServerConfig

datatype build_outcome = Built BizPod | BuildFailed string | BuildPanic

text \<open>The outcomes of the connections: of the pool, of the migration, of Redis.\<close>

record build_env =
  be_pool :: "string option"
  be_migrate :: "string option"
  be_redis :: "string option"

text \<open>The configuration of the key manager that the factory passes on.\<close>

definition factory_crypto :: "CryptoConfig \<Rightarrow> CryptoConfig" where
  "factory_crypto c = c\<lparr>cc_SoftHSMConfig := None\<rparr>"

definition aaa_tls :: "BizConfig \<Rightarrow> InternalCommConfig \<Rightarrow> TLSClientConfig" where
  "aaa_tls b comm =
    (if bc_UseMTLS b
     then \<lparr>tcc_CACert = bc_TLSCA b, tcc_ClientCert = bc_TLSCert b, tcc_ClientKey = bc_TLSKey b, tcc_ServerName = ''aaa-gateway''\<rparr>
     else case nat_TLS (icc_Native comm) of
       Some t \<Rightarrow> t
     | None \<Rightarrow> \<lparr>tcc_CACert = '''', tcc_ClientCert = '''', tcc_ClientKey = '''', tcc_ServerName = ''''\<rparr>)"

text \<open>\<^verbatim>\<open>Build\<close>, from the second database step on: the key manager, the encryptor, Redis and the clients.  The
  sections \<^verbatim>\<open>cfg.HTTPgw\<close> and \<^verbatim>\<open>cfg.Biz\<close> are dereferenced without a test.\<close>

definition build_clients :: "build_env \<Rightarrow> string \<Rightarrow> Config \<Rightarrow> bytes \<Rightarrow> build_outcome" where
  "build_clients e apiRoot cfg key =
    (case be_redis e of
       Some err \<Rightarrow> BuildFailed (''redis pool: '' @ err)
     | None \<Rightarrow>
         (case (cfg_HTTPgw cfg, cfg_Biz cfg) of
            (Some gw, Some b) \<Rightarrow>
              Built \<lparr>bp_apiRoot = apiRoot, bp_key = key, bp_redisAddr = rc_Addr (cfg_Redis cfg),
                bp_nfRegistry = newNFRegistry (nat_CB (icc_Native (cfg_InternalComm cfg))), bp_amfRegistry = NewRegistry 3 (15 * Second) 2,
                bp_discoveryURL = or_default '''' ''http://172.0.3.14:8443'' (gc_DiscoveryURL gw),
                bp_rateLimiters = newRateLimiterSet (cfg_RateLimit cfg), bp_aaaGatewayURL = bc_AAAGatewayURL b,
                bp_aaaTLS = aaa_tls b (cfg_InternalComm cfg), bp_snssai = bc_Snssai b, bp_server = cfg_Server cfg\<rparr>
          | _ \<Rightarrow> BuildPanic))"

definition Build :: "build_env \<Rightarrow> KeyManager option \<Rightarrow> Config \<Rightarrow> build_outcome" where
  "Build e globalKM cfg =
    (case hasScheme (sc_Addr (cfg_Server cfg)) of
       None \<Rightarrow> BuildPanic
     | Some scheme \<Rightarrow>
         let apiRoot = (if scheme then sc_Addr (cfg_Server cfg) else ''http://'' @ sc_Addr (cfg_Server cfg)) in
         case be_pool e of
           Some err \<Rightarrow> BuildFailed (''postgres pool: '' @ err)
         | None \<Rightarrow>
             (case be_migrate e of
                Some err \<Rightarrow> BuildFailed (''database migration: '' @ err)
              | None \<Rightarrow>
                  (case Init (factory_crypto (cfg_Crypto cfg)) globalKM of
                     Inl err \<Rightarrow> BuildFailed (''crypto initialization: '' @ err)
                   | Inr km \<Rightarrow>
                       (case NewEncryptorFromKeyManager km of
                          Inl err \<Rightarrow> BuildFailed (''session encryptor: '' @ (case err of ErrCrypto m \<Rightarrow> m | _ \<Rightarrow> ''''))
                        | Inr key \<Rightarrow> build_clients e apiRoot cfg key))))"

section \<open>Which configurations start\<close>

lemma hasScheme_panic: "hasScheme s = None \<longleftrightarrow> length s = 7 \<and> s \<noteq> ''http://''"
  by (auto simp: hasScheme_def)

lemma Init_soft:
  assumes "cc_KeyManager k = ''soft''" and "DecodeString (cc_MasterKeyHex k) = Some key" and "length key = 32"
  shows "\<exists>m. Init k None = Inr (SoftKM m) \<and> km_masterKey m = key"
proof -
  have "length (cc_MasterKeyHex k) = 64" using DecodeString_length [OF assms(2)] assms(3) by simp
  then show ?thesis using assms by (auto simp: Init_def)
qed

text \<open>Only the soft key manager hands out its key.\<close>

lemma encryptor_soft:
  assumes "Init (factory_crypto k) g = Inr km" and "NewEncryptorFromKeyManager km = Inr key"
  shows "cc_KeyManager k = ''soft'' \<and> DecodeString (cc_MasterKeyHex k) = Some key"
proof (cases km)
  case (SoftKM m)
  then show ?thesis using assms
    by (auto simp: Init_def factory_crypto_def NewEncryptorFromKeyManager_def KeyManager_GetKey_def NewEncryptor_def
        split: if_splits option.splits)
qed (use assms in \<open>simp_all add: NewEncryptorFromKeyManager_def KeyManager_GetKey_def\<close>)

lemma Built_stages:
  assumes "Build e g c = Built p"
  obtains km where "hasScheme (sc_Addr (cfg_Server c)) \<noteq> None" "Init (factory_crypto (cfg_Crypto c)) g = Inr km"
    "NewEncryptorFromKeyManager km = Inr (bp_key p)" "cfg_HTTPgw c \<noteq> None" "cfg_Biz c \<noteq> None"
  using assms by (auto simp: Build_def build_clients_def Let_def split: option.splits sum.splits)

text \<open>C36.  Which validated configurations start a Biz Pod.  Let a configuration of the Biz component load, and let the
  database, the migration and Redis be available.  The factory builds the pod exactly when the key manager
  is the soft one, the configuration has a section for the HTTP gateway, and the listen address does not
  have seven characters (unless it is the bare scheme); the pod then encrypts its sessions under the
  master key of the configuration.  So a Vault or a SoftHSM configuration passes the validation and
  never starts, and the two other cases end in a panic.\<close>

theorem biz_pod_starts_iff:
  assumes "Config_Load getenv ReadFile Unmarshal path = Inr c" and "cfg_Component c = ComponentBiz"
    and "e = \<lparr>be_pool = None, be_migrate = None, be_redis = None\<rparr>"
  shows "((\<exists>p. Build e None c = Built p) \<longleftrightarrow>
      cc_KeyManager (cfg_Crypto c) = ''soft'' \<and> cfg_HTTPgw c \<noteq> None \<and>
      (length (sc_Addr (cfg_Server c)) = 7 \<longrightarrow> sc_Addr (cfg_Server c) = ''http://'')) \<and>
    (\<forall>p. Build e None c = Built p \<longrightarrow> DecodeString (cc_MasterKeyHex (cfg_Crypto c)) = Some (bp_key p) \<and> length (bp_key p) = 32)"
proof -
  note v = Load_validated [OF assms(1)]
  obtain b where b: "cfg_Biz c = Some b"
    using biz_error_None [of "cfg_Biz c"] Validate_component [OF v] assms(2) by (auto simp: component_error_def)
  have soft: "\<exists>key. DecodeString (cc_MasterKeyHex (cfg_Crypto c)) = Some key \<and> length key = 32" if "cc_KeyManager (cfg_Crypto c) = ''soft''"
    using Validate_crypto [OF v] assms(2) that unfolding soft_error_None [symmetric] by (simp add: crypto_error_def)
  have "\<exists>p. Build e None c = Built p" if s: "cc_KeyManager (cfg_Crypto c) = ''soft''" and g: "cfg_HTTPgw c \<noteq> None"
    and a: "length (sc_Addr (cfg_Server c)) = 7 \<longrightarrow> sc_Addr (cfg_Server c) = ''http://''"
  proof -
    obtain key where key: "DecodeString (cc_MasterKeyHex (cfg_Crypto c)) = Some key" "length key = 32" using soft [OF s] by blast
    then obtain m where m: "Init (factory_crypto (cfg_Crypto c)) None = Inr (SoftKM m)" "km_masterKey m = key"
      using Init_soft [of "factory_crypto (cfg_Crypto c)" key] s by (auto simp: factory_crypto_def)
    obtain scheme where "hasScheme (sc_Addr (cfg_Server c)) = Some scheme" using a hasScheme_panic by fastforce
    then show ?thesis using m key g b assms(3)
      by (auto simp: Build_def build_clients_def NewEncryptorFromKeyManager_def KeyManager_GetKey_def NewEncryptor_def Let_def)
  qed
  moreover have "cc_KeyManager (cfg_Crypto c) = ''soft'' \<and> cfg_HTTPgw c \<noteq> None \<and>
      (length (sc_Addr (cfg_Server c)) = 7 \<longrightarrow> sc_Addr (cfg_Server c) = ''http://'') \<and>
      DecodeString (cc_MasterKeyHex (cfg_Crypto c)) = Some (bp_key p) \<and> length (bp_key p) = 32" if "Build e None c = Built p" for p
    using that
  proof (cases rule: Built_stages)
    case (1 km)
    then show ?thesis using encryptor_soft [OF 1(2,3)] soft hasScheme_panic [of "sc_Addr (cfg_Server c)"] by fastforce
  qed
  ultimately show ?thesis by blast
qed

definition soft_config :: Config where
  "soft_config = vault_config\<lparr>cfg_HTTPgw := Some \<lparr>gc_BizServiceURL = '''', gc_DiscoveryURL = '''', gc_AuthDisabled = None, gc_TLS = None\<rparr>,
     cfg_Crypto := \<lparr>cc_KeyManager = ''soft'', cc_MasterKeyHex = EncodeToString (replicate 32 7), cc_VaultConfig = None,
       cc_SoftHSMConfig = None, cc_KEKOverlapDays = 0\<rparr>\<rparr>"

lemma soft_config_loads:
  "Config_Load (\<lambda>k. '''') (\<lambda>p. Inr '''') (\<lambda>s. Inr soft_config) ''biz.yaml'' = Inr (applyDefaults (\<lambda>k. '''') soft_config)"
proof -
  have k: "EncodeToString (replicate 32 7) \<noteq> ''''" by (simp add: EncodeToString_def)
  have "soft_error (EncodeToString (replicate 32 7)) = None" unfolding soft_error_None by (intro exI conjI) (rule Decode_EncodeToString, simp)
  then show ?thesis
    by (simp add: Config_Load_def Config_Validate_def component_error_def biz_error_def crypto_error_def k
      applyDefaults_def crypto_defaults_def or_default_def soft_config_def vault_config_def Let_def)
qed

text \<open>A soft configuration starts, and the same configuration with a Vault key manager loads and does not.\<close>

theorem biz_pod_starts_iff_witness:
  "(\<exists>c p. Config_Load (\<lambda>k. '''') (\<lambda>p. Inr '''') (\<lambda>s. Inr soft_config) ''biz.yaml'' = Inr c \<and>
      Build \<lparr>be_pool = None, be_migrate = None, be_redis = None\<rparr> None c = Built p \<and> bp_key p = replicate 32 7) \<and>
   (\<exists>c. Config_Load (\<lambda>k. '''') (\<lambda>p. Inr '''') (\<lambda>s. Inr vault_config) ''biz.yaml'' = Inr c \<and>
      (\<nexists>p. Build \<lparr>be_pool = None, be_migrate = None, be_redis = None\<rparr> None c = Built p))"
proof -
  let ?c = "applyDefaults (\<lambda>k. '''') soft_config" and ?v = "applyDefaults (\<lambda>k. '''') vault_config"
  have s: "cfg_Component ?c = ComponentBiz" "cc_KeyManager (cfg_Crypto ?c) = ''soft''" "cfg_HTTPgw ?c \<noteq> None"
    "sc_Addr (cfg_Server ?c) = '':8080''"
    by (simp_all add: applyDefaults_def soft_config_def vault_config_def zero_config_def crypto_defaults_def server_defaults_def or_default_def Let_def)
  have k: "cc_MasterKeyHex (cfg_Crypto ?c) = EncodeToString (replicate 32 7)"
    by (simp add: applyDefaults_def soft_config_def crypto_defaults_def or_default_def Let_def EncodeToString_def)
  have v: "cfg_Component ?v = ComponentBiz" "cc_KeyManager (cfg_Crypto ?v) \<noteq> ''soft''"
    by (simp_all add: applyDefaults_def vault_config_def crypto_defaults_def or_default_def Let_def)
  show ?thesis
    using biz_pod_starts_iff [OF soft_config_loads s(1) refl] biz_pod_starts_iff [OF vault_config_loads v(1) refl] s v k
      soft_config_loads vault_config_loads by fastforce
qed

text \<open>What is wrapped by Vault is unwrapped again, where the transit engine decrypts what it encrypted.\<close>

lemma vault_roundtrip:
  assumes "\<And>auth text body ct. vault ''POST'' (vkm_address m @ ''/v1/transit/encrypt/'' @ vkm_keyName m) auth text = Inr (200, body, TransitText ct) \<Longrightarrow>
      \<exists>body'. vault ''POST'' (vkm_address m @ ''/v1/transit/decrypt/'' @ vkm_keyName m) auth ct = Inr (200, body', TransitText text)"
    and "Vault_Wrap ReadFile vault dek m = Inr (wrapped, ver)" and "wrapped \<noteq> []"
  shows "Vault_Unwrap ReadFile vault m wrapped = Inr dek"
proof -
  obtain auth body dec ct where w: "setAuthHeader ReadFile m = Inr auth"
    "vault ''POST'' (vkm_address m @ ''/v1/transit/encrypt/'' @ vkm_keyName m) auth (b64_encode dek) = Inr (200, body, dec)"
    "transit_text dec = Inr ct" "wrapped = bytes_of ct"
    using assms(2) by (auto simp: Vault_Wrap_def split: sum.splits if_splits)
  have "dec = TransitText ct" using w(3,4) assms(3) by (cases dec) (auto simp: transit_text_def bytes_of_def)
  then obtain body' where "vault ''POST'' (vkm_address m @ ''/v1/transit/decrypt/'' @ vkm_keyName m) auth ct = Inr (200, body', TransitText (b64_encode dek))"
    using assms(1) w(2) by blast
  then show ?thesis using w(1,4) by (simp add: Vault_Unwrap_def transit_text_def)
qed

end
