(* ===== verification/Http_Clients.thy ===== *)
theory Http_Clients
  imports Config Gateway
begin

text \<open>
  The clients between the components (\<^verbatim>\<open>internal/httpclient\<close>): from the Biz Pod to the AAA gateway, from the HTTP
  gateway to the Biz Pods, and through the proxy of the HTTP gateway, with their retries and circuit
  breakers.  What the network does to an attempt, the random choices, the contexts and the JSON codec are
  arguments; the metrics are left out.
\<close>

section \<open>Attempts\<close>

text \<open>What one attempt ends in: no request is built, the call fails, the body breaks off, an answer.\<close>

datatype http_attempt = NoRequest string | CallFailed string | BodyBroken int bytes string | Answered int bytes

text \<open>\<^verbatim>\<open>doPost\<close> and \<^verbatim>\<open>doRequest\<close>: a status with an error, or a status with a body.\<close>

definition do_outcome :: "http_attempt \<Rightarrow> (int \<times> string, int \<times> bytes) result" where
  "do_outcome a =
    (case a of
       NoRequest err \<Rightarrow> Inl (0, err)
     | CallFailed err \<Rightarrow> Inl (503, err)
     | BodyBroken status body err \<Rightarrow> Inl (0, err)
     | Answered status body \<Rightarrow> Inr (status, body))"

text \<open>The variables that the closures of the clients share, and the number of attempts.\<close>

record attempts =
  at_n :: nat
  at_status :: int
  at_body :: bytes
  at_err :: "string option"

definition no_attempts :: attempts where
  "no_attempts = \<lparr>at_n = 0, at_status = 0, at_body = [], at_err = None\<rparr>"

definition native_attempt :: "(nat \<Rightarrow> http_attempt) \<Rightarrow> attempts \<Rightarrow> attempts \<times> string option" where
  "native_attempt net s =
    (let s' = s\<lparr>at_n := Suc (at_n s)\<rparr> in
     case do_outcome (net (at_n s)) of
       Inl (status, err) \<Rightarrow> (s'\<lparr>at_err := Some err, at_status := status\<rparr>, Some err)
     | Inr (status, body) \<Rightarrow>
         let s' = s'\<lparr>at_status := status, at_body := body, at_err := None\<rparr> in
         if status \<ge> 400 \<and> status < 500 then (s', None)
         else if IsRetryable status then
           let lastErr = ''retryable status: '' @ show_int status in (s'\<lparr>at_err := Some lastErr\<rparr>, Some lastErr)
         else (s', None))"

section \<open>From the Biz Pod to the AAA gateway\<close>

record NativeAAAClient =
  na_aaaGatewayURL :: string
  na_healthURL :: string
  na_cbRegistry :: Registry
  na_retryCfg :: RetryConfig

definition NewNativeAAAClient :: "string \<Rightarrow> NativeCommConfig \<Rightarrow> NativeAAAClient" where
  "NewNativeAAAClient url cfg =
    \<lparr>na_aaaGatewayURL = url, na_healthURL = nat_KeepalivedHealthURL cfg, na_cbRegistry = NewRegistry 3 (15 * Second) 2,
     na_retryCfg = \<lparr>rt_MaxAttempts = 2, rt_BaseDelay = or_default 0 (500 * Millisecond) (rt_BaseDelay (nat_Retry cfg)), rt_MaxDelay = 10 * Second\<rparr>\<rparr>"

text \<open>The number of requests sent, and the response, which is missing where the code returns nil for both.\<close>

definition ForwardEAP ::
  "(AaaForwardRequest \<Rightarrow> (string, bytes) result) \<Rightarrow> (bytes \<Rightarrow> (string, AaaForwardResponse) result) \<Rightarrow> (nat \<Rightarrow> bool) \<Rightarrow> (nat \<Rightarrow> http_attempt) \<Rightarrow>
   time \<Rightarrow> time \<Rightarrow> AaaForwardRequest \<Rightarrow> NativeAAAClient \<Rightarrow> NativeAAAClient \<times> nat \<times> (string, AaaForwardResponse option) result" where
  "ForwardEAP marshal unmarshal cancelled net now later req c =
    (case marshal req of
       Inl err \<Rightarrow> (c, 0, Inl (''failed to marshal request: '' @ err))
     | Inr body \<Rightarrow>
         let url = na_aaaGatewayURL c; (reg, cb) = Registry_Get (na_cbRegistry c) url; (cb', ok) = Allow cb now;
             c = c\<lparr>na_cbRegistry := reg\<lparr>reg_breakers := gm_put url cb' (reg_breakers reg)\<rparr>\<rparr> in
         if \<not> ok then (c, 0, Inl (''circuit breaker open for '' @ url))
         else case Do cancelled (na_retryCfg c) (native_attempt net) no_attempts of
           (s, r, _) \<Rightarrow>
             if r \<noteq> DoOk then
               (c\<lparr>na_cbRegistry := Registry_update url (\<lambda>cb. RecordFailure cb later) (na_cbRegistry c)\<rparr>, at_n s,
                case at_err s of Some err \<Rightarrow> Inl err | None \<Rightarrow> Inr None)
             else
               (c\<lparr>na_cbRegistry := Registry_update url RecordSuccess (na_cbRegistry c)\<rparr>, at_n s,
                case unmarshal (at_body s) of
                  Inl err \<Rightarrow> Inl (''failed to unmarshal response: '' @ err)
                | Inr resp \<Rightarrow> Inr (Some resp)))"

definition checkVIPState :: "http_attempt \<Rightarrow> (string, string) result" where
  "checkVIPState a =
    (case a of
       NoRequest err \<Rightarrow> Inl err
     | CallFailed err \<Rightarrow> Inl err
     | BodyBroken status _ _ \<Rightarrow> Inr (if status = 200 then ''MASTER'' else ''BACKUP'')
     | Answered status _ \<Rightarrow> Inr (if status = 200 then ''MASTER'' else ''BACKUP''))"

text \<open>A tick of the health check, with the state seen before.\<close>

definition vip_tick :: "http_attempt \<Rightarrow> string \<times> NativeAAAClient \<Rightarrow> string \<times> NativeAAAClient" where
  "vip_tick a w =
    (case w of (prevState, c) \<Rightarrow>
       (case checkVIPState a of
          Inl err \<Rightarrow> (prevState, c)
        | Inr state \<Rightarrow>
            (state,
             if state \<noteq> prevState \<and> prevState \<noteq> ''unknown''
             then c\<lparr>na_cbRegistry := Registry_update (na_aaaGatewayURL c) CircuitBreaker_Reset (na_cbRegistry c)\<rparr> else c)))"

text \<open>The ticks of \<^verbatim>\<open>StartVIPHealthCheck\<close>; without a URL there are none.\<close>

definition StartVIPHealthCheck :: "http_attempt list \<Rightarrow> NativeAAAClient \<Rightarrow> NativeAAAClient" where
  "StartVIPHealthCheck answers c = (if na_healthURL c = '''' then c else snd (fold vip_tick answers (''unknown'', c)))"

section \<open>From the HTTP gateway to one Biz Pod\<close>

record nativeBizClient =
  nb_baseURL :: string
  nb_cbRegistry :: Registry
  nb_retryCfg :: RetryConfig

definition retry_defaults :: "RetryConfig \<Rightarrow> RetryConfig" where
  "retry_defaults r = \<lparr>rt_MaxAttempts = or_default 0 (rt_MaxAttempts DefaultRetryConfig) (rt_MaxAttempts r),
     rt_BaseDelay = or_default 0 (rt_BaseDelay DefaultRetryConfig) (rt_BaseDelay r),
     rt_MaxDelay = or_default 0 (rt_MaxDelay DefaultRetryConfig) (rt_MaxDelay r)\<rparr>"

definition biz_breakers :: "CircuitBreakerConfig \<Rightarrow> Registry" where
  "biz_breakers cfg =
    NewRegistry (or_default 0 5 (cbc_FailureThreshold cfg)) (or_default 0 (30 * Second) (cbc_RecoveryTimeout cfg)) (or_default 0 3 (cbc_SuccessThreshold cfg))"

definition newNativeBizClient :: "string \<Rightarrow> NativeCommConfig \<Rightarrow> nativeBizClient" where
  "newNativeBizClient baseURL cfg = \<lparr>nb_baseURL = baseURL, nb_cbRegistry = biz_breakers (nat_CB cfg), nb_retryCfg = retry_defaults (nat_Retry cfg)\<rparr>"

text \<open>The number of requests, and what the code returns: body, status and error.\<close>

definition nativeBiz_ForwardRequest ::
  "(nat \<Rightarrow> bool) \<Rightarrow> (nat \<Rightarrow> http_attempt) \<Rightarrow> time \<Rightarrow> time \<Rightarrow> nativeBizClient \<Rightarrow> nativeBizClient \<times> nat \<times> bytes \<times> int \<times> string option" where
  "nativeBiz_ForwardRequest cancelled net now later c =
    (let url = nb_baseURL c; (reg, cb) = Registry_Get (nb_cbRegistry c) url; (cb', ok) = Allow cb now;
         c = c\<lparr>nb_cbRegistry := reg\<lparr>reg_breakers := gm_put url cb' (reg_breakers reg)\<rparr>\<rparr> in
     if \<not> ok then (c, 0, [], 503, Some (''circuit breaker open for '' @ url))
     else case Do cancelled (nb_retryCfg c) (native_attempt net) no_attempts of
       (s, r, _) \<Rightarrow>
         if r \<noteq> DoOk
         then (c\<lparr>nb_cbRegistry := Registry_update url (\<lambda>cb. RecordFailure cb later) (nb_cbRegistry c)\<rparr>, at_n s, at_body s, at_status s, at_err s)
         else (c\<lparr>nb_cbRegistry := Registry_update url RecordSuccess (nb_cbRegistry c)\<rparr>, at_n s, at_body s, at_status s, None))"

section \<open>From the HTTP gateway to the registered Biz Pods\<close>

record BizRegistry =
  br_staticURL :: string
  br_cbRegistry :: Registry
  br_retryCfg :: RetryConfig

definition NewBizRegistry :: "string \<Rightarrow> NativeCommConfig \<Rightarrow> BizRegistry" where
  "NewBizRegistry staticURL cfg = \<lparr>br_staticURL = staticURL, br_cbRegistry = biz_breakers (nat_CB cfg), br_retryCfg = retry_defaults (nat_Retry cfg)\<rparr>"

text \<open>The pods of one page of the scan; \<^verbatim>\<open>now\<close> is in seconds.\<close>

definition live_pods ::
  "(string \<Rightarrow> (string, string option) result) \<Rightarrow> (string \<Rightarrow> (string, BizPodEntry) result) \<Rightarrow> int \<Rightarrow> string list \<Rightarrow> string list" where
  "live_pods get unmarshal now keys =
    List.map_filter (\<lambda>key. case get key of
        Inr (Some data) \<Rightarrow>
          (case unmarshal data of
             Inr entry \<Rightarrow> if now - bpe_LastSeen entry < 60 then Some (bpe_URL entry) else None
           | Inl _ \<Rightarrow> None)
      | _ \<Rightarrow> None) keys"

definition getLivePods ::
  "(string \<Rightarrow> (string, string option) result) \<Rightarrow> (string \<Rightarrow> (string, BizPodEntry) result) \<Rightarrow> int \<Rightarrow> (string, string list) result list \<Rightarrow> (string, string list) result" where
  "getLivePods get unmarshal now pages = scan_pages (live_pods get unmarshal now) pages"

text \<open>\<^verbatim>\<open>rand n\<close> is the random index below \<^verbatim>\<open>n\<close>.\<close>

definition selectRandomLivePod :: "(nat \<Rightarrow> nat) \<Rightarrow> (string, string list) result \<Rightarrow> (string, string) result" where
  "selectRandomLivePod rand pods =
    (case pods of
       Inl err \<Rightarrow> Inl err
     | Inr pods \<Rightarrow> if pods = [] then Inl ''no live pods'' else Inr (pods ! rand (length pods)))"

text \<open>What an attempt meets: the time, the first and the second choice of a pod, and the network.\<close>

record biz_turn =
  bt_now :: time
  bt_first :: "(string, string) result"
  bt_second :: "(string, string) result"
  bt_net :: "string \<Rightarrow> http_attempt"

text \<open>A call of \<^verbatim>\<open>Allow\<close> on the breaker of a URL.\<close>

definition allow_url :: "time \<Rightarrow> string \<Rightarrow> Registry \<Rightarrow> Registry \<times> bool" where
  "allow_url now url reg =
    (case Registry_Get reg url of (reg, cb) \<Rightarrow>
       (case Allow cb now of (cb', ok) \<Rightarrow> (reg\<lparr>reg_breakers := gm_put url cb' (reg_breakers reg)\<rparr>, ok)))"

text \<open>The pod that is called: the first choice, or the second if the breaker of the first is open.\<close>

definition choose_pod :: "string \<Rightarrow> biz_turn \<Rightarrow> Registry \<Rightarrow> Registry \<times> string \<times> string option" where
  "choose_pod static t reg =
    (let target = (case bt_first t of Inr u \<Rightarrow> u | Inl _ \<Rightarrow> static) in
     case allow_url (bt_now t) target reg of
       (reg, True) \<Rightarrow> (reg, target, Some target)
     | (reg, False) \<Rightarrow>
         (case bt_second t of
            Inl _ \<Rightarrow> (reg, target, None)
          | Inr alt \<Rightarrow> (case allow_url (bt_now t) alt reg of (reg, ok) \<Rightarrow> (reg, target, if ok then Some alt else None))))"

text \<open>An answer: failures go to the breaker of the pod that was called, successes to that of the first choice.\<close>

definition biz_answer ::
  "time \<Rightarrow> string \<Rightarrow> string \<Rightarrow> int \<Rightarrow> bytes \<Rightarrow> attempts \<times> Registry \<Rightarrow> (attempts \<times> Registry) \<times> string option" where
  "biz_answer now first target status body w =
    (case w of (s, reg) \<Rightarrow>
      (let s = s\<lparr>at_status := status, at_body := body\<rparr> in
       if status \<ge> 400 \<and> status < 500 then ((s, Registry_update first RecordSuccess reg), None)
       else if IsRetryable status then
         let lastErr = ''server error: '' @ show_int status in
         ((s\<lparr>at_err := Some lastErr\<rparr>, Registry_update target (\<lambda>cb. RecordFailure cb now) reg), Some lastErr)
       else ((s, Registry_update first RecordSuccess reg), None)))"

definition biz_attempt :: "string \<Rightarrow> (nat \<Rightarrow> biz_turn) \<Rightarrow> attempts \<times> Registry \<Rightarrow> (attempts \<times> Registry) \<times> string option" where
  "biz_attempt static turn w =
    (case w of (s, reg) \<Rightarrow>
      (let t = turn (at_n s); s = s\<lparr>at_n := Suc (at_n s)\<rparr> in
       case choose_pod static t reg of
         (reg, first, None) \<Rightarrow>
           ((s\<lparr>at_err := Some ''circuit breaker open, no live pods''\<rparr>, reg), Some ''circuit breaker open, no live pods'')
       | (reg, first, Some target) \<Rightarrow>
           (case bt_net t target of
              NoRequest err \<Rightarrow> ((s, reg), Some err)
            | CallFailed err \<Rightarrow> ((s\<lparr>at_err := Some err\<rparr>, Registry_update target (\<lambda>cb. RecordFailure cb (bt_now t)) reg), Some err)
            | BodyBroken status body _ \<Rightarrow> biz_answer (bt_now t) first target status body (s, reg)
            | Answered status body \<Rightarrow> biz_answer (bt_now t) first target status body (s, reg))))"

definition BizRegistry_ForwardRequest ::
  "(nat \<Rightarrow> bool) \<Rightarrow> (nat \<Rightarrow> biz_turn) \<Rightarrow> BizRegistry \<Rightarrow> BizRegistry \<times> bytes \<times> int \<times> string option" where
  "BizRegistry_ForwardRequest cancelled turn b =
    (case Do cancelled (br_retryCfg b) (biz_attempt (br_staticURL b) turn) (no_attempts, br_cbRegistry b) of
       ((s, reg), r, _) \<Rightarrow> (b\<lparr>br_cbRegistry := reg\<rparr>, at_body s, at_status s, if r \<noteq> DoOk then at_err s else None))"

section \<open>Through the proxy of the HTTP gateway\<close>

definition proxy_attempt :: "(nat \<Rightarrow> http_attempt) \<Rightarrow> attempts \<Rightarrow> attempts \<times> string option" where
  "proxy_attempt net s =
    (let s' = s\<lparr>at_n := Suc (at_n s)\<rparr>;
         answer = (\<lambda>status body.
           let s' = s'\<lparr>at_status := status, at_body := body\<rparr> in
           if status \<ge> 400 \<and> status < 500 then (s', None)
           else if status \<ge> 500 then
             let lastErr = ''server error: '' @ show_int status in (s'\<lparr>at_err := Some lastErr\<rparr>, Some lastErr)
           else (s', None)) in
     case net (at_n s) of
       NoRequest err \<Rightarrow> (s', Some err)
     | CallFailed err \<Rightarrow> (s'\<lparr>at_err := Some err\<rparr>, Some err)
     | BodyBroken status body _ \<Rightarrow> answer status body
     | Answered status body \<Rightarrow> answer status body)"

text \<open>The URL is \<^verbatim>\<open>gatewayURL + "/internal/" + targetNF + path\<close>.\<close>

definition proxy_url :: "string \<Rightarrow> string \<Rightarrow> string \<Rightarrow> string" where
  "proxy_url gatewayURL targetNF path = gatewayURL @ ''/internal/'' @ targetNF @ path"

definition ProxyClient_call :: "RetryConfig \<Rightarrow> (nat \<Rightarrow> bool) \<Rightarrow> (nat \<Rightarrow> http_attempt) \<Rightarrow> int \<times> bytes \<times> string option" where
  "ProxyClient_call retryCfg cancelled net =
    (case Do cancelled (retry_defaults retryCfg) (proxy_attempt net) no_attempts of
       (s, r, _) \<Rightarrow> (at_status s, at_body s, if r \<noteq> DoOk then at_err s else None))"

section \<open>Without retries\<close>

definition istioAAA_ForwardEAP ::
  "(AaaForwardRequest \<Rightarrow> (string, bytes) result) \<Rightarrow> (bytes \<Rightarrow> (string, AaaForwardResponse) result) \<Rightarrow> bool \<Rightarrow> http_attempt \<Rightarrow> AaaForwardRequest \<Rightarrow>
   (string, AaaForwardResponse) result" where
  "istioAAA_ForwardEAP marshal unmarshal deadline a req =
    (case marshal req of
       Inl err \<Rightarrow> Inl (''failed to marshal request: '' @ err)
     | Inr body \<Rightarrow>
         let answer = (\<lambda>status text.
           if status \<noteq> 200 then Inl (''aaa gateway returned '' @ show_int status)
           else case unmarshal text of Inl err \<Rightarrow> Inl (''failed to decode response: '' @ err) | Inr resp \<Rightarrow> Inr resp) in
         case a of
           NoRequest err \<Rightarrow> Inl (''failed to create request: '' @ err)
         | CallFailed err \<Rightarrow> Inl (if deadline then ''context deadline exceeded'' else ''aaa gateway unavailable: '' @ err)
         | BodyBroken status text _ \<Rightarrow> answer status text
         | Answered status text \<Rightarrow> answer status text)"

definition istioBiz_ForwardRequest :: "bool \<Rightarrow> http_attempt \<Rightarrow> bytes \<times> int \<times> string option" where
  "istioBiz_ForwardRequest deadline a =
    (case a of
       NoRequest err \<Rightarrow> ([], 0, Some err)
     | CallFailed err \<Rightarrow> if deadline then ([], 504, Some ''context deadline exceeded'') else ([], 503, Some err)
     | BodyBroken _ _ err \<Rightarrow> ([], 0, Some err)
     | Answered status body \<Rightarrow> (body, status, None))"

text \<open>The mode of the factory.\<close>

datatype comm_mode = ModeNative | ModeIstio

definition NewFactory_mode :: "(string \<Rightarrow> string) \<Rightarrow> InternalCommConfig \<Rightarrow> comm_mode" where
  "NewFactory_mode getenv cfg = (if icc_Mode cfg = ''istio'' \<or> getenv ''ISTIO_MTLS'' = ''1'' then ModeIstio else ModeNative)"

section \<open>What a forwarded EAP message ends in\<close>

text \<open>An answer that ends the retries.\<close>

definition final_answer :: "http_attempt \<Rightarrow> bool" where
  "final_answer a = (case a of Answered status body \<Rightarrow> status < 500 | _ \<Rightarrow> False)"

lemma native_attempt_final:
  assumes "final_answer (net (at_n s))"
  obtains status body where "net (at_n s) = Answered status body"
    "native_attempt net s = (s\<lparr>at_n := Suc (at_n s), at_status := status, at_body := body, at_err := None\<rparr>, None)"
proof (cases "net (at_n s)")
  case (Answered status body)
  then have "native_attempt net s = (s\<lparr>at_n := Suc (at_n s), at_status := status, at_body := body, at_err := None\<rparr>, None)"
    using assms by (auto simp: final_answer_def native_attempt_def do_outcome_def IsRetryable_def Let_def)
  then show ?thesis by (rule that [OF Answered])
qed (use assms in \<open>simp_all add: final_answer_def\<close>)

lemma native_attempt_failed:
  assumes "\<not> final_answer (net (at_n s))"
  obtains s' err where "native_attempt net s = (s', Some err)" "at_n s' = Suc (at_n s)" "at_err s' = Some err"
  using assms that
  by (cases "net (at_n s)") (auto simp: final_answer_def native_attempt_def do_outcome_def IsRetryable_def Let_def)

definition answer_body :: "http_attempt \<Rightarrow> bytes" where
  "answer_body a = (case a of Answered status body \<Rightarrow> body | _ \<Rightarrow> [])"

lemma native_two_attempts:
  assumes "rt_MaxAttempts cfg = 2"
  shows "\<exists>s r pauses. Do (\<lambda>_. False) cfg (native_attempt net) no_attempts = (s, r, pauses) \<and>
    at_n s = (if final_answer (net 0) then 1 else 2) \<and>
    (if final_answer (net 0) then r = DoOk \<and> at_body s = answer_body (net 0)
     else if final_answer (net 1) then r = DoOk \<and> at_body s = answer_body (net 1)
     else r \<noteq> DoOk \<and> (\<exists>err. at_err s = Some err))"
proof -
  have n: "rt_MaxAttempts (Do_config cfg) = int (Suc (Suc 0))" using assms by (simp add: Do_config_def Let_def)
  have two: "nat (rt_MaxAttempts (Do_config cfg)) = Suc (Suc 0)" unfolding n by (rule nat_int)
  show ?thesis
  proof (cases "final_answer (net 0)")
    case True
    then obtain status body where "net 0 = Answered status body"
      "native_attempt net no_attempts = (no_attempts\<lparr>at_n := Suc 0, at_status := status, at_body := body, at_err := None\<rparr>, None)"
      using native_attempt_final [of net no_attempts] by (auto simp: no_attempts_def)
    then show ?thesis using True by (simp add: Do_def Let_def two retry_loop.simps answer_body_def)
  next
    case False
    then obtain s1 e1 where 1: "native_attempt net no_attempts = (s1, Some e1)" "at_n s1 = 1" "at_err s1 = Some e1"
      using native_attempt_failed [of net no_attempts] by (auto simp: no_attempts_def)
    show ?thesis
    proof (cases "final_answer (net 1)")
      case True
      then obtain status body where "net 1 = Answered status body"
        "native_attempt net s1 = (s1\<lparr>at_n := Suc 1, at_status := status, at_body := body, at_err := None\<rparr>, None)"
        using native_attempt_final [of net s1] 1 by auto
      then show ?thesis using 1 False True by (simp add: Do_def Let_def two retry_loop.simps answer_body_def)
    next
      case f: False
      then obtain s2 e2 where "native_attempt net s1 = (s2, Some e2)" "at_n s2 = 2" "at_err s2 = Some e2"
        using native_attempt_failed [of net s1] 1 by (auto simp: numeral_2_eq_2)
      then show ?thesis using 1 False f by (simp add: Do_def Let_def two retry_loop.simps)
    qed
  qed
qed

text \<open>The breaker of the gateway before the call, once \<^verbatim>\<open>Allow\<close> has looked at it.\<close>

abbreviation aaa_breaker :: "NativeAAAClient \<Rightarrow> CircuitBreaker" where
  "aaa_breaker c \<equiv> snd (Registry_Get (na_cbRegistry c) (na_aaaGatewayURL c))"

lemma Registry_Get_put:
  "Registry_Get (reg\<lparr>reg_breakers := gm_put url cb m\<rparr>) url = (reg\<lparr>reg_breakers := gm_put url cb m\<rparr>, cb)"
  by (simp add: Registry_Get_def gm_get_put_any)

lemma Registry_update_put:
  "snd (Registry_Get (Registry_update url f (reg\<lparr>reg_breakers := gm_put url cb m\<rparr>)) url) = f cb"
  unfolding Registry_update_def Registry_Get_put Let_def prod.case by (simp add: Registry_Get_def gm_get_put_any)

text \<open>C37.  Forwarding an EAP message to the AAA gateway.  A client whose breaker does not admit the request sends nothing
  and reports an error.  Otherwise it sends the request once, and a second time exactly when the first
  attempt failed or was answered with a status of 500 or more; the first answer below 500 is decoded and
  counts as one success for the breaker, whatever its status; two failed attempts give an error and count as
  one failure.\<close>

theorem forward_eap_outcome:
  assumes "marshal req = Inr body" and "rt_MaxAttempts (na_retryCfg c) = 2"
    and "ForwardEAP marshal unmarshal (\<lambda>_. False) net now later req c = (c', n, r)"
  shows "case Allow (aaa_breaker c) now of (cb, ok) \<Rightarrow>
    if \<not> ok then n = 0 \<and> (\<exists>err. r = Inl err) \<and> aaa_breaker c' = cb
    else if final_answer (net 0) \<or> final_answer (net 1) then
      n = (if final_answer (net 0) then 1 else 2) \<and> aaa_breaker c' = RecordSuccess cb \<and>
      r = (case unmarshal (answer_body (if final_answer (net 0) then net 0 else net 1)) of
             Inl err \<Rightarrow> Inl (''failed to unmarshal response: '' @ err)
           | Inr resp \<Rightarrow> Inr (Some resp))
    else n = 2 \<and> aaa_breaker c' = RecordFailure cb later \<and> (\<exists>err. r = Inl err)"
proof -
  obtain reg cb where g: "Registry_Get (na_cbRegistry c) (na_aaaGatewayURL c) = (reg, cb)" by fastforce
  obtain cb' ok where a: "Allow cb now = (cb', ok)" by fastforce
  obtain s d ps where do: "Do (\<lambda>_. False) (na_retryCfg c) (native_attempt net) no_attempts = (s, d, ps)" by (metis prod_cases3)
  note two = native_two_attempts [OF assms(2), of net, unfolded do]
  show ?thesis
    using assms(1,3) g a do two
    by (auto simp: ForwardEAP_def Let_def Registry_Get_put Registry_update_put split: if_splits)
qed

definition ex_request :: AaaForwardRequest where
  "ex_request = \<lparr>fq_Version = ''1.0'', fq_SessionID = ''s'', fq_AuthCtxID = ''a'', fq_GPSI = '''', fq_TransportType = ''RADIUS'',
     fq_Sst = 1, fq_Sd = '''', fq_Direction = ''CLIENT_INITIATED'', fq_Payload = []\<rparr>"

definition ex_reply :: AaaForwardResponse where
  "ex_reply = \<lparr>fp_Version = ''1.0'', fp_SessionID = ''s'', fp_AuthCtxID = ''a'', fp_Payload = []\<rparr>"

definition ex_client :: NativeAAAClient where
  "ex_client = NewNativeAAAClient ''http://gw'' (icc_Native (cfg_InternalComm zero_config))"

text \<open>A first attempt that is answered with 503, and a second with 200.\<close>

definition ex_net :: "nat \<Rightarrow> http_attempt" where
  "ex_net k = (if k = 0 then Answered 503 [] else Answered 200 [])"

theorem forward_eap_outcome_witness:
  "rt_MaxAttempts (na_retryCfg ex_client) = 2 \<and>
   snd (ForwardEAP (\<lambda>_. Inr []) (\<lambda>_. Inr ex_reply) (\<lambda>_. False) ex_net 0 1 ex_request ex_client) = (2, Inr (Some ex_reply))"
proof -
  have m: "rt_MaxAttempts (na_retryCfg ex_client) = 2" by (simp add: ex_client_def NewNativeAAAClient_def)
  have a: "Allow (aaa_breaker ex_client) 0 = (aaa_breaker ex_client, True)"
    by (simp add: ex_client_def NewNativeAAAClient_def NewRegistry_def Registry_Get_def NewCircuitBreaker_def Allow_def Let_def)
  obtain c' n r where f: "ForwardEAP (\<lambda>_. Inr []) (\<lambda>_. Inr ex_reply) (\<lambda>_. False) ex_net 0 1 ex_request ex_client = (c', n, r)"
    by (metis prod_cases3)
  have "final_answer (ex_net 1)" "\<not> final_answer (ex_net 0)" by (simp_all add: final_answer_def ex_net_def)
  then show ?thesis using forward_eap_outcome [OF refl m f] a m f by simp
qed

section \<open>Successes of an alternative pod\<close>

lemma allow_url_other:
  assumes "gm_get (reg_breakers reg) v = Some cb" and "u \<noteq> v"
  shows "gm_get (reg_breakers (fst (allow_url now u reg))) v = Some cb"
  using assms by (auto simp: allow_url_def Registry_Get_def gm_get_put_any Let_def split: option.splits prod.splits)

lemma Registry_update_other:
  assumes "gm_get (reg_breakers reg) v = Some cb" and "u \<noteq> v"
  shows "gm_get (reg_breakers (Registry_update u f reg)) v = Some cb"
  using assms by (auto simp: Registry_update_def Registry_Get_def gm_get_put_any Let_def split: option.splits)

text \<open> Successes of an alternative pod are credited to the wrong breaker.  Let the first choice of a pod have an open
  breaker and let the second choice, another pod with a closed breaker, answer the request with a status
  below 500.  The attempt succeeds, but the breaker of the pod that answered is left as it was: its count of
  failures is not reset, so failures that are not consecutive add up until it opens.\<close>

theorem alternative_success_lost:
  assumes "bt_first (turn (at_n s)) = Inr u" and "bt_second (turn (at_n s)) = Inr v" and "u \<noteq> v"
    and "\<not> snd (allow_url (bt_now (turn (at_n s))) u reg)"
    and "gm_get (reg_breakers reg) v = Some cb" and "cb_state cb = StateClosed"
    and "bt_net (turn (at_n s)) v = Answered status body" and "status < 500"
    and "biz_attempt static turn (s, reg) = ((s', reg'), r)"
  shows "r = None \<and> at_status s' = status \<and> at_body s' = body \<and> gm_get (reg_breakers reg') v = Some cb \<and>
    (cb_failures cb + 1 \<ge> cb_failureThreshold cb \<longrightarrow> cb_state (RecordFailure cb later) = StateOpen)"
proof -
  let ?t = "turn (at_n s)"
  obtain reg1 where a1: "allow_url (bt_now ?t) u reg = (reg1, False)" using assms(4) by (metis prod.collapse)
  have v1: "gm_get (reg_breakers reg1) v = Some cb" using allow_url_other [OF assms(5,3), of "bt_now ?t"] a1 by simp
  then have a2: "allow_url (bt_now ?t) v reg1 = (reg1\<lparr>reg_breakers := gm_put v cb (reg_breakers reg1)\<rparr>, True)"
    using assms(6) by (simp add: allow_url_def Registry_Get_def Allow_def)
  let ?reg2 = "reg1\<lparr>reg_breakers := gm_put v cb (reg_breakers reg1)\<rparr>"
  have "choose_pod static ?t reg = (?reg2, u, Some v)"
    using assms(1,2) a1 a2 by (simp add: choose_pod_def)
  then have "biz_attempt static turn (s, reg) =
      ((s\<lparr>at_n := Suc (at_n s), at_status := status, at_body := body\<rparr>, Registry_update u RecordSuccess ?reg2), None)"
    using assms(7,8) by (simp add: biz_attempt_def biz_answer_def IsRetryable_def Let_def)
  moreover have "gm_get (reg_breakers (Registry_update u RecordSuccess ?reg2)) v = Some cb"
    by (rule Registry_update_other [OF _ assms(3)]) (simp add: gm_get_put_any)
  moreover have "cb_failures cb + 1 \<ge> cb_failureThreshold cb \<longrightarrow> cb_state (RecordFailure cb later) = StateOpen"
    using assms(6) by (simp add: RecordFailure_def Let_def)
  ultimately show ?thesis using assms(9) by auto
qed

definition ex_open_breaker :: CircuitBreaker where
  "ex_open_breaker = (NewCircuitBreaker 5 (30 * Second) 3)\<lparr>cb_state := StateOpen, cb_openedAt := 0\<rparr>"

definition ex_weak_breaker :: CircuitBreaker where
  "ex_weak_breaker = (NewCircuitBreaker 5 (30 * Second) 3)\<lparr>cb_failures := 4\<rparr>"

definition ex_breakers :: Registry where
  "ex_breakers = (NewRegistry 5 (30 * Second) 3)\<lparr>reg_breakers := [(''http://a'', ex_open_breaker), (''http://b'', ex_weak_breaker)]\<rparr>"

definition ex_turn :: biz_turn where
  "ex_turn = \<lparr>bt_now = 1 * Second, bt_first = Inr ''http://a'', bt_second = Inr ''http://b'', bt_net = \<lambda>u. Answered 200 []\<rparr>"

text \<open>A request that cannot be built fails every attempt, and is reported without an error and with status 0.\<close>

lemma unsendable_not_reported:
  assumes "\<And>k. \<exists>err. net k = NoRequest err"
  shows "ProxyClient_call cfg cancelled net = (0, [], None)"
proof -
  have "at_status (fst (retry_loop c cancelled (proxy_attempt net) n a le s)) = at_status s \<and>
    at_body (fst (retry_loop c cancelled (proxy_attempt net) n a le s)) = at_body s \<and>
    at_err (fst (retry_loop c cancelled (proxy_attempt net) n a le s)) = at_err s" for c n a le s
  proof (induction n arbitrary: a le s)
    case (Suc n)
    obtain err where "net (at_n s) = NoRequest err" using assms by blast
    then have p: "proxy_attempt net s = (s\<lparr>at_n := Suc (at_n s)\<rparr>, Some err)" by (simp add: proxy_attempt_def)
    show ?case using Suc [of "Suc a" "Some err" "s\<lparr>at_n := Suc (at_n s)\<rparr>"]
      by (auto simp: retry_loop.simps p Let_def split: prod.splits)
  qed (simp add: retry_loop.simps)
  then have "case Do cancelled (retry_defaults cfg) (proxy_attempt net) no_attempts of
      (s, r, _) \<Rightarrow> at_status s = 0 \<and> at_body s = [] \<and> at_err s = None"
    unfolding Do_def Let_def by (simp add: no_attempts_def split_beta)
  then show ?thesis by (auto simp: ProxyClient_call_def split: prod.splits)
qed

end
