(* ===== verification/Postgres.thy ===== *)
theory Postgres
  imports Storage_Pg
begin

text \<open>
  The other repositories of \<^verbatim>\<open>internal/storage/postgres\<close>: the generic session repository (\<^verbatim>\<open>session.go\<close>), the AAA
  configurations with the fallback look-up of the database (\<^verbatim>\<open>aaa_config.go\<close> and its migration), the audit log
  (\<^verbatim>\<open>audit.go\<close>), and the reconnecting pool and the transactions (\<^verbatim>\<open>reconnect.go\<close>, \<^verbatim>\<open>pool.go\<close>).  As in
  \<^verbatim>\<open>Storage_Pg\<close> a table is the list of its rows, and a statement takes effect as written or fails with an error
  given as an argument.
\<close>

section \<open>The session repository\<close>

record pg_session =
  ps_AuthCtxID :: string
  ps_GPSI :: string
  ps_Supi :: string
  ps_SnssaiSST :: byte
  ps_SnssaiSD :: string
  ps_AMFInstanceID :: string
  ps_AMFIP :: "string option"
  ps_AMFRegion :: string
  ps_AAAConfigID :: "string option"
  ps_EAPSessionState :: bytes
  ps_NssaaStatus :: NssaaStatus
  ps_AuthResult :: NssaaStatus
  ps_EAPRounds :: int
  ps_MaxEAPRounds :: int
  ps_EAPLastNonce :: string
  ps_FailureReason :: string
  ps_FailureCause :: string
  ps_ReauthNotifURI :: string
  ps_RevocNotifURI :: string
  ps_CreatedAt :: time
  ps_UpdatedAt :: time
  ps_ExpiresAt :: time
  ps_CompletedAt :: "time option"
  ps_TerminatedAt :: "time option"

text \<open>A row has the columns of the session, the identities and the state encrypted, and the hash of the GPSI.\<close>

type_synonym session_table = "(pg_session \<times> string) list"

datatype repo_error = ErrSessionNotFound | RepoError string

text \<open>The nonces of the three encryptions of a write and whether its statement fails.\<close>

record repo_env =
  re_state :: "bytes option"
  re_gpsi :: "bytes option"
  re_supi :: "bytes option"
  re_fault :: "string option"

text \<open>The columns as a write computes them.\<close>

definition encrypt_session :: "pg_cfg \<Rightarrow> repo_env \<Rightarrow> string \<Rightarrow> pg_session \<Rightarrow> (repo_error, pg_session \<times> string) result" where
  "encrypt_session c e op s =
    (case encryptState (pc_seal c) (re_state e) (pc_enc c) (ps_EAPSessionState s) of
       Inl _ \<Rightarrow> Inl (RepoError (''session '' @ op @ '': encrypt state''))
     | Inr stateCiphertext \<Rightarrow>
         (case encryptField (pc_seal c) (re_gpsi e) (pc_enc c) (ps_GPSI s) of
            Inl _ \<Rightarrow> Inl (RepoError (''session '' @ op @ '': encrypt gpsi''))
          | Inr encryptedGPSI \<Rightarrow>
              (case encryptField (pc_seal c) (re_supi e) (pc_enc c) (ps_Supi s) of
                 Inl _ \<Rightarrow> Inl (RepoError (''session '' @ op @ '': encrypt supi''))
               | Inr encryptedSUPI \<Rightarrow>
                   Inr (s\<lparr>ps_EAPSessionState := stateCiphertext, ps_GPSI := encryptedGPSI, ps_Supi := encryptedSUPI\<rparr>,
                        HashGPSI (pc_sha256 c) (ps_GPSI s)))))"

text \<open>The key of the table is the context and the time of creation.\<close>

definition Repository_Create :: "pg_cfg \<Rightarrow> repo_env \<Rightarrow> pg_session \<Rightarrow> session_table \<Rightarrow> session_table \<times> repo_error option" where
  "Repository_Create c e s t =
    (case encrypt_session c e ''create'' s of
       Inl err \<Rightarrow> (t, Some err)
     | Inr (row, hash) \<Rightarrow>
         (case re_fault e of
            Some err \<Rightarrow> (t, Some (RepoError err))
          | None \<Rightarrow>
              if list_ex (\<lambda>r. ps_AuthCtxID (fst r) = ps_AuthCtxID s \<and> ps_CreatedAt (fst r) = ps_CreatedAt s) t
              then (t, Some (RepoError ''duplicate key value violates unique constraint''))
              else (t @ [(row\<lparr>ps_CompletedAt := None, ps_TerminatedAt := None\<rparr>, hash)], None)))"

text \<open>The columns of the two queries and the destinations of the two scans.\<close>

definition get_columns :: "string list" where
  "get_columns = [''auth_ctx_id'', ''gpsi'', ''gpsi_hash'', ''supi'', ''snssai_sst'', ''snssai_sd'', ''amf_instance_id'', ''amf_ip'', ''amf_region'',
     ''reauth_notif_uri'', ''revoc_notif_uri'', ''aaa_config_id'', ''eap_session_state'', ''eap_rounds'', ''max_eap_rounds'', ''eap_last_nonce'',
     ''nssaa_status'', ''auth_result'', ''failure_reason'', ''failure_cause'', ''created_at'', ''updated_at'', ''expires_at'', ''completed_at'', ''terminated_at'']"

definition list_columns :: "string list" where
  "list_columns = [''auth_ctx_id'', ''gpsi'', ''supi'', ''snssai_sst'', ''snssai_sd'', ''amf_instance_id'', ''amf_ip'', ''amf_region'',
     ''reauth_notif_uri'', ''revoc_notif_uri'', ''aaa_config_id'', ''eap_session_state'', ''eap_rounds'', ''max_eap_rounds'', ''eap_last_nonce'',
     ''nssaa_status'', ''auth_result'', ''failure_reason'', ''failure_cause'', ''created_at'', ''updated_at'', ''expires_at'', ''completed_at'', ''terminated_at'']"

definition scan_destinations :: "string list" where
  "scan_destinations = [''s.AuthCtxID'', ''rawGPSI'', ''rawGPSIHash'', ''rawSUPI'', ''s.SnssaiSST'', ''s.SnssaiSD'', ''s.AMFInstanceID'', ''amfIP'', ''s.AMFRegion'',
     ''s.ReauthNotifURI'', ''s.RevocNotifURI'', ''aaaConfigID'', ''stateBytes'', ''s.EAPRounds'', ''s.MaxEAPRounds'', ''s.EAPLastNonce'',
     ''s.NssaaStatus'', ''s.AuthResult'', ''s.FailureReason'', ''s.FailureCause'', ''s.CreatedAt'', ''s.UpdatedAt'', ''s.ExpiresAt'', ''completedAt'', ''terminatedAt'']"

text \<open>\<^verbatim>\<open>scanSession\<close> and \<^verbatim>\<open>scanSessionFromRows\<close>.  The driver refuses a scan into a number of destinations other than
  the number of columns.  \<^verbatim>\<open>inet\<close> and \<^verbatim>\<open>uuid\<close> give the text of an address and of an identifier as the database
  returns it; the nil identifier counts as absent.  Errors of the decryption are dropped.\<close>

definition scanSession ::
  "pg_cfg \<Rightarrow> (string \<Rightarrow> string) \<Rightarrow> (string \<Rightarrow> string) \<Rightarrow> string list \<Rightarrow> pg_session \<times> string \<Rightarrow> (repo_error, pg_session) result" where
  "scanSession c inet uuid columns r =
    (if length columns \<noteq> length scan_destinations
     then Inl (RepoError ''number of field descriptions must equal number of destinations'')
     else
       let s = fst r in
       Inr (s\<lparr>ps_GPSI := value_or_zero (decryptField (pc_open c) (pc_enc c) (ps_GPSI s)),
              ps_Supi := value_or_zero (decryptField (pc_open c) (pc_enc c) (ps_Supi s)),
              ps_AMFIP := map_option inet (ps_AMFIP s),
              ps_AAAConfigID := (case ps_AAAConfigID s of
                  None \<Rightarrow> None
                | Some i \<Rightarrow> if uuid i = ''00000000-0000-0000-0000-000000000000'' then None else Some (uuid i)),
              ps_EAPSessionState := (if ps_EAPSessionState s \<noteq> []
                then value_or_zero (decryptState (pc_open c) (pc_enc c) (ps_EAPSessionState s)) else [])\<rparr>))"

definition GetByAuthCtxID ::
  "pg_cfg \<Rightarrow> (string \<Rightarrow> string) \<Rightarrow> (string \<Rightarrow> string) \<Rightarrow> string option \<Rightarrow> string \<Rightarrow> session_table \<Rightarrow> (repo_error, pg_session) result" where
  "GetByAuthCtxID c inet uuid fault authCtxID t =
    (case fault of
       Some err \<Rightarrow> Inl (RepoError (''session get: '' @ err))
     | None \<Rightarrow>
         (case find_row (ps_AuthCtxID \<circ> fst) authCtxID t of
            None \<Rightarrow> Inl ErrSessionNotFound
          | Some r \<Rightarrow> (case scanSession c inet uuid get_columns r of Inl err \<Rightarrow> Inl err | Inr s \<Rightarrow> Inr s)))"

definition session_row_update :: "pg_session \<Rightarrow> string \<Rightarrow> pg_session \<times> string \<Rightarrow> pg_session \<times> string" where
  "session_row_update s hash old =
    ((fst old)\<lparr>ps_GPSI := ps_GPSI s, ps_Supi := ps_Supi s, ps_SnssaiSST := ps_SnssaiSST s, ps_SnssaiSD := ps_SnssaiSD s,
       ps_EAPSessionState := ps_EAPSessionState s, ps_EAPRounds := ps_EAPRounds s, ps_EAPLastNonce := ps_EAPLastNonce s,
       ps_NssaaStatus := ps_NssaaStatus s, ps_AuthResult := ps_AuthResult s, ps_FailureReason := ps_FailureReason s,
       ps_FailureCause := ps_FailureCause s, ps_UpdatedAt := ps_UpdatedAt s, ps_ExpiresAt := ps_ExpiresAt s,
       ps_CompletedAt := ps_CompletedAt s, ps_TerminatedAt := ps_TerminatedAt s\<rparr>, hash)"

definition Repository_Update :: "pg_cfg \<Rightarrow> repo_env \<Rightarrow> pg_session \<Rightarrow> session_table \<Rightarrow> session_table \<times> repo_error option" where
  "Repository_Update c e s t =
    (case encrypt_session c e ''update'' s of
       Inl err \<Rightarrow> (t, Some err)
     | Inr (row, hash) \<Rightarrow>
         (case re_fault e of
            Some err \<Rightarrow> (t, Some (RepoError (''session update: '' @ err)))
          | None \<Rightarrow>
              if \<not> list_ex (\<lambda>r. ps_AuthCtxID (fst r) = ps_AuthCtxID s) t then (t, Some ErrSessionNotFound)
              else (map (\<lambda>r. if ps_AuthCtxID (fst r) = ps_AuthCtxID s then session_row_update row hash r else r) t, None)))"

definition Repository_Delete :: "string option \<Rightarrow> string \<Rightarrow> session_table \<Rightarrow> session_table \<times> repo_error option" where
  "Repository_Delete fault authCtxID t =
    (case fault of
       Some err \<Rightarrow> (t, Some (RepoError (''session delete: '' @ err)))
     | None \<Rightarrow>
         if \<not> list_ex (\<lambda>r. ps_AuthCtxID (fst r) = authCtxID) t then (t, Some ErrSessionNotFound)
         else (filter (\<lambda>r. ps_AuthCtxID (fst r) \<noteq> authCtxID) t, None))"

text \<open>The rows of a query are scanned one after the other, and the first error ends the loop.\<close>

fun scan_all :: "('r \<Rightarrow> ('e, 'a) result) \<Rightarrow> 'r list \<Rightarrow> ('e, 'a list) result" where
  "scan_all scan [] = Inr []"
| "scan_all scan (r # rows) =
    (case scan r of Inl err \<Rightarrow> Inl err | Inr x \<Rightarrow> (case scan_all scan rows of Inl err \<Rightarrow> Inl err | Inr xs \<Rightarrow> Inr (x # xs)))"

definition Repository_List ::
  "pg_cfg \<Rightarrow> (string \<Rightarrow> string) \<Rightarrow> (string \<Rightarrow> string) \<Rightarrow> string option \<Rightarrow> string \<Rightarrow> session_table \<Rightarrow> (repo_error, pg_session list) result" where
  "Repository_List c inet uuid fault gpsi t =
    (case fault of
       Some err \<Rightarrow> Inl (RepoError (''session list: '' @ err))
     | None \<Rightarrow>
         (let rows = sort_key (\<lambda>r. - ps_CreatedAt (fst r)) (filter (\<lambda>r. snd r = HashGPSI (pc_sha256 c) gpsi) t) in
          case scan_all (scanSession c inet uuid list_columns) rows of
            Inl _ \<Rightarrow> Inl (RepoError ''session list scan'')
          | Inr sessions \<Rightarrow> Inr sessions))"

definition pending_status :: "NssaaStatus \<Rightarrow> bool" where
  "pending_status s = (s \<in> {''PENDING'', ''NOT_EXECUTED''})"

definition CountPending :: "string option \<Rightarrow> session_table \<Rightarrow> (repo_error, nat) result" where
  "CountPending fault t =
    (case fault of
       Some err \<Rightarrow> Inl (RepoError (''count pending: '' @ err))
     | None \<Rightarrow> Inr (length (filter (\<lambda>r. pending_status (ps_NssaaStatus (fst r))) t)))"

definition stale :: "time \<Rightarrow> pg_session \<Rightarrow> bool" where
  "stale now s = (ps_ExpiresAt s < now \<and> \<not> pending_status (ps_NssaaStatus s))"

definition ExpireStale :: "string option \<Rightarrow> time \<Rightarrow> session_table \<Rightarrow> session_table \<times> (repo_error, nat) result" where
  "ExpireStale fault now t =
    (case fault of
       Some err \<Rightarrow> (t, Inl (RepoError (''session expire: '' @ err)))
     | None \<Rightarrow>
         (map (\<lambda>r. if stale now (fst r)
                   then ((fst r)\<lparr>ps_NssaaStatus := ''EAP_FAILURE'', ps_AuthResult := ''EAP_FAILURE'', ps_TerminatedAt := Some now,
                                 ps_FailureReason := ''Session expired''\<rparr>, snd r)
                   else r) t,
          Inr (length (filter (\<lambda>r. stale now (fst r)) t))))"

section \<open>AAA configurations\<close>

record AAAServerConfig =
  asc_ID :: string
  asc_SnssaiSST :: byte
  asc_SnssaiSD :: string
  asc_Protocol :: string
  asc_AAAServerHost :: string
  asc_AAAServerPort :: int
  asc_AAAProxyHost :: string
  asc_AAAProxyPort :: int
  asc_SharedSecret :: bytes
  asc_AllowReauth :: bool
  asc_AllowRevoke :: bool
  asc_Priority :: int
  asc_Weight :: int
  asc_Enabled :: bool
  asc_Description :: string
  asc_CreatedAt :: int
  asc_UpdatedAt :: int

text \<open>A row: the slice differentiator and the proxy may be NULL, the slice type may not; the secret is base64 text.\<close>

record aaa_row =
  ar_id :: string
  ar_snssai_sst :: int
  ar_snssai_sd :: "string option"
  ar_protocol :: string
  ar_host :: string
  ar_port :: int
  ar_proxy_host :: "string option"
  ar_proxy_port :: "int option"
  ar_shared_secret :: string
  ar_allow_reauth :: bool
  ar_allow_revoke :: bool
  ar_priority :: int
  ar_weight :: int
  ar_enabled :: bool
  ar_description :: string
  ar_created_at :: int
  ar_updated_at :: int

text \<open>\<^verbatim>\<open>scanConfig\<close> and \<^verbatim>\<open>scanConfigFromRows\<close>; the secret is scanned and dropped.\<close>

definition scanConfig :: "aaa_row \<Rightarrow> AAAServerConfig" where
  "scanConfig r =
    \<lparr>asc_ID = ar_id r, asc_SnssaiSST = of_int (ar_snssai_sst r), asc_SnssaiSD = (case ar_snssai_sd r of Some sd \<Rightarrow> sd | None \<Rightarrow> ''''),
     asc_Protocol = ar_protocol r, asc_AAAServerHost = ar_host r, asc_AAAServerPort = ar_port r,
     asc_AAAProxyHost = (case ar_proxy_host r of Some h \<Rightarrow> h | None \<Rightarrow> ''''), asc_AAAProxyPort = (case ar_proxy_port r of Some p \<Rightarrow> p | None \<Rightarrow> 0),
     asc_SharedSecret = [], asc_AllowReauth = ar_allow_reauth r, asc_AllowRevoke = ar_allow_revoke r, asc_Priority = ar_priority r,
     asc_Weight = ar_weight r, asc_Enabled = ar_enabled r, asc_Description = ar_description r,
     asc_CreatedAt = ar_created_at r, asc_UpdatedAt = ar_updated_at r\<rparr>"

datatype config_error = ErrConfigNotFound | ConfigError string

definition GetByID :: "string option \<Rightarrow> string \<Rightarrow> aaa_row list \<Rightarrow> (config_error, AAAServerConfig) result" where
  "GetByID fault i t =
    (case fault of
       Some err \<Rightarrow> Inl (ConfigError err)
     | None \<Rightarrow> (case find (\<lambda>r. ar_id r = i \<and> ar_enabled r) t of None \<Rightarrow> Inl ErrConfigNotFound | Some r \<Rightarrow> Inr (scanConfig r)))"

text \<open>\<^verbatim>\<open>ORDER BY priority ASC, weight DESC\<close>\<close>

definition by_priority :: "aaa_row list \<Rightarrow> aaa_row list" where
  "by_priority t = sort_key ar_priority (sort_key (\<lambda>r. - ar_weight r) t)"

definition best :: "(aaa_row \<Rightarrow> bool) \<Rightarrow> aaa_row list \<Rightarrow> aaa_row option" where
  "best P t = (case by_priority (filter P t) of [] \<Rightarrow> None | r # _ \<Rightarrow> Some r)"

text \<open>The function of the database.  Its third level asks for rows without a slice type, which the table cannot have.\<close>

definition get_aaa_config :: "int \<Rightarrow> string \<Rightarrow> aaa_row list \<Rightarrow> aaa_row option" where
  "get_aaa_config p_sst p_sd t =
    (case best (\<lambda>r. ar_snssai_sst r = p_sst \<and> ar_snssai_sd r = Some p_sd \<and> ar_enabled r) t of
       Some r \<Rightarrow> Some r
     | None \<Rightarrow>
         (case best (\<lambda>r. ar_snssai_sst r = p_sst \<and> ar_snssai_sd r = None \<and> ar_enabled r) t of
            Some r \<Rightarrow> Some r
          | None \<Rightarrow> best (\<lambda>r. False) t))"

definition GetBySnssai :: "string option \<Rightarrow> byte \<Rightarrow> string \<Rightarrow> aaa_row list \<Rightarrow> (config_error, AAAServerConfig) result" where
  "GetBySnssai fault sst sd t =
    (case fault of
       Some err \<Rightarrow> Inl (ConfigError err)
     | None \<Rightarrow> (case get_aaa_config (uint sst) sd t of None \<Rightarrow> Inl ErrConfigNotFound | Some r \<Rightarrow> Inr (scanConfig r)))"

definition ListAll :: "string option \<Rightarrow> aaa_row list \<Rightarrow> (config_error, AAAServerConfig list) result" where
  "ListAll fault t =
    (case fault of
       Some err \<Rightarrow> Inl (ConfigError err)
     | None \<Rightarrow> Inr (map scanConfig (by_priority (filter ar_enabled t))))"

definition encryptSecret :: "gcm_seal \<Rightarrow> (bytes \<Rightarrow> bytes) \<Rightarrow> bytes option \<Rightarrow> bytes \<Rightarrow> string \<Rightarrow> (CryptoError, bytes) result" where
  "encryptSecret gcm_seal sha256 rnd plaintext passphrase = EncryptConcat gcm_seal rnd plaintext (FromPassphrase sha256 passphrase)"

definition decryptSecret :: "gcm_open \<Rightarrow> (bytes \<Rightarrow> bytes) \<Rightarrow> bytes \<Rightarrow> string \<Rightarrow> (CryptoError, bytes) result" where
  "decryptSecret gcm_open sha256 ciphertext passphrase = DecryptConcat gcm_open ciphertext (FromPassphrase sha256 passphrase)"

text \<open>\<^verbatim>\<open>Upsert\<close>: a conflict is a row with the same slice type and the same differentiator; two NULL differentiators
  do not conflict.  \<^verbatim>\<open>fresh\<close> is the new identifier, \<^verbatim>\<open>now\<close> the time in seconds.\<close>

definition upsert_row :: "string \<Rightarrow> int \<Rightarrow> string \<Rightarrow> AAAServerConfig \<Rightarrow> aaa_row" where
  "upsert_row fresh now secretB64 c =
    \<lparr>ar_id = (if asc_ID c = '''' then fresh else asc_ID c), ar_snssai_sst = uint (asc_SnssaiSST c),
     ar_snssai_sd = (if asc_SnssaiSD c = '''' then None else Some (asc_SnssaiSD c)), ar_protocol = asc_Protocol c,
     ar_host = asc_AAAServerHost c, ar_port = asc_AAAServerPort c,
     ar_proxy_host = (if asc_AAAProxyHost c = '''' then None else Some (asc_AAAProxyHost c)),
     ar_proxy_port = (if asc_AAAProxyPort c > 0 then Some (asc_AAAProxyPort c) else None), ar_shared_secret = secretB64,
     ar_allow_reauth = asc_AllowReauth c, ar_allow_revoke = asc_AllowRevoke c, ar_priority = asc_Priority c, ar_weight = asc_Weight c,
     ar_enabled = asc_Enabled c, ar_description = asc_Description c, ar_created_at = now, ar_updated_at = now\<rparr>"

definition conflicts :: "aaa_row \<Rightarrow> aaa_row \<Rightarrow> bool" where
  "conflicts r x = (ar_snssai_sst r = ar_snssai_sst x \<and> ar_snssai_sd r \<noteq> None \<and> ar_snssai_sd r = ar_snssai_sd x)"

definition Upsert ::
  "gcm_seal \<Rightarrow> (bytes \<Rightarrow> bytes) \<Rightarrow> bytes option \<Rightarrow> string option \<Rightarrow> string \<Rightarrow> int \<Rightarrow> AAAServerConfig \<Rightarrow> string \<Rightarrow> aaa_row list \<Rightarrow> aaa_row list \<times> config_error option" where
  "Upsert gcm_seal sha256 rnd fault fresh now c passphrase t =
    (case (if asc_SharedSecret c \<noteq> [] \<and> passphrase \<noteq> ''''
           then rbind (encryptSecret gcm_seal sha256 rnd (asc_SharedSecret c) passphrase) (\<lambda>x. Inr (b64_encode x)) else Inr '''') of
       Inl _ \<Rightarrow> (t, Some (ConfigError ''encrypt secret''))
     | Inr secretB64 \<Rightarrow>
         (let row = upsert_row fresh now secretB64 c in
          case fault of
            Some err \<Rightarrow> (t, Some (ConfigError err))
          | None \<Rightarrow>
              if list_ex (conflicts row) t
              then (map (\<lambda>r. if conflicts row r then row\<lparr>ar_id := ar_id r, ar_created_at := ar_created_at r\<rparr> else r) t, None)
              else if list_ex (\<lambda>r. ar_id r = ar_id row) t then (t, Some (ConfigError ''duplicate key value violates unique constraint''))
              else (t @ [row], None)))"

section \<open>The audit log\<close>

record pg_audit_entry =
  pae_ID :: int
  pae_AuthCtxID :: string
  pae_GPSIHash :: string
  pae_SnssaiSST :: int
  pae_SnssaiSD :: string
  pae_AMFInstanceID :: string
  pae_AMFIP :: string
  pae_Action :: string
  pae_NssaaStatus :: string
  pae_ErrorCode :: int
  pae_ErrorMessage :: string
  pae_RequestID :: string
  pae_CorrelationID :: string
  pae_ClientIP :: string
  pae_UserAgent :: string
  pae_CreatedAt :: time

text \<open>The database gives the next identifier and the time.\<close>

definition Audit_Append :: "string option \<Rightarrow> int \<Rightarrow> time \<Rightarrow> pg_audit_entry \<Rightarrow> pg_audit_entry list \<Rightarrow> pg_audit_entry list \<times> string option" where
  "Audit_Append fault next now e t =
    (case fault of
       Some err \<Rightarrow> (t, Some (''audit append: '' @ err))
     | None \<Rightarrow> (t @ [e\<lparr>pae_ID := next, pae_CreatedAt := now\<rparr>], None))"

definition audit_page :: "int \<Rightarrow> pg_audit_entry list \<Rightarrow> pg_audit_entry list" where
  "audit_page limit t = take (nat (if limit \<le> 0 then 100 else limit)) (sort_key (\<lambda>e. - pae_CreatedAt e) t)"

definition ListByAuthCtxID :: "string option \<Rightarrow> string \<Rightarrow> int \<Rightarrow> pg_audit_entry list \<Rightarrow> (string, pg_audit_entry list) result" where
  "ListByAuthCtxID fault authCtxID limit t =
    (case fault of
       Some err \<Rightarrow> Inl (''audit list: '' @ err)
     | None \<Rightarrow> Inr (audit_page limit (filter (\<lambda>e. pae_AuthCtxID e = authCtxID) t)))"

definition ListByGPSIHash :: "string option \<Rightarrow> string \<Rightarrow> time \<Rightarrow> int \<Rightarrow> pg_audit_entry list \<Rightarrow> (string, pg_audit_entry list) result" where
  "ListByGPSIHash fault gpsiHash since limit t =
    (case fault of
       Some err \<Rightarrow> Inl (''audit list by gpsi: '' @ err)
     | None \<Rightarrow> Inr (audit_page limit (filter (\<lambda>e. pae_GPSIHash e = gpsiHash \<and> pae_CreatedAt e \<ge> since) t)))"

section \<open>Reconnection\<close>

text \<open>An error of the driver: one of the server with its code, one of the network, or another.\<close>

datatype db_error = PgError string | NetOpError string | OtherDbError string

definition connectionErrorCodes :: "string list" where
  "connectionErrorCodes = [''08000'', ''08003'', ''08006'', ''08001'', ''08004'', ''57P01'', ''57P02'', ''57P03'', ''40001'']"

definition IsConnectionError :: "db_error option \<Rightarrow> bool" where
  "IsConnectionError err =
    (case err of
       None \<Rightarrow> False
     | Some (PgError sqlstate) \<Rightarrow> sqlstate \<in> set connectionErrorCodes
     | Some (NetOpError _) \<Rightarrow> True
     | Some (OtherDbError _) \<Rightarrow> False)"

datatype retry_outcome = RetryOk | RetryError db_error | RetryCancelled | RetryExhausted "db_error option"

text \<open>\<^verbatim>\<open>ExecuteWithRetry\<close>: \<^verbatim>\<open>left\<close> attempts remain and \<^verbatim>\<open>attempt\<close> were made; \<^verbatim>\<open>fn\<close> is the function on the state of the
  database, \<^verbatim>\<open>cancelled\<close> tells whether the context ends in the pause after an attempt, \<^verbatim>\<open>reconnect\<close> gives the
  error of the reconnection after it.  The pauses are listed.\<close>

fun execute_retry ::
  "('w \<Rightarrow> 'w \<times> db_error option) \<Rightarrow> (nat \<Rightarrow> bool) \<Rightarrow> (nat \<Rightarrow> db_error option) \<Rightarrow> nat \<Rightarrow> nat \<Rightarrow> db_error option \<Rightarrow> 'w \<Rightarrow> 'w \<times> retry_outcome \<times> duration list" where
  "execute_retry fn cancelled reconnect 0 attempt lastErr w = (w, RetryExhausted lastErr, [])"
| "execute_retry fn cancelled reconnect (Suc left) attempt lastErr w =
    (case fn w of
       (w, None) \<Rightarrow> (w, RetryOk, [])
     | (w, Some err) \<Rightarrow>
         if \<not> IsConnectionError (Some err) then (w, RetryError err, [])
         else if cancelled attempt then (w, RetryCancelled, [])
         else
           let pause = int (attempt + 1) * Second;
               lastErr = (case reconnect attempt of Some e \<Rightarrow> Some e | None \<Rightarrow> Some err);
               (w, r, pauses) = execute_retry fn cancelled reconnect left (Suc attempt) lastErr w in
           (w, r, pause # pauses))"

definition ExecuteWithRetry ::
  "('w \<Rightarrow> 'w \<times> db_error option) \<Rightarrow> (nat \<Rightarrow> bool) \<Rightarrow> (nat \<Rightarrow> db_error option) \<Rightarrow> int \<Rightarrow> 'w \<Rightarrow> 'w \<times> retry_outcome \<times> duration list" where
  "ExecuteWithRetry fn cancelled reconnect maxRetries w = execute_retry fn cancelled reconnect (nat maxRetries) 0 None w"

section \<open>Transactions\<close>

text \<open>\<^verbatim>\<open>ExecTx\<close>: the function is given a pool over the same connections, so what it does is not part of the transaction.
  The arguments are the outcomes of opening, rolling back and committing.\<close>

definition ExecTx ::
  "string option \<Rightarrow> string option \<Rightarrow> string option \<Rightarrow> ('w \<Rightarrow> 'w \<times> string option) \<Rightarrow> 'w \<Rightarrow> 'w \<times> string option" where
  "ExecTx begin_err rollback_err commit_err fn w =
    (case begin_err of
       Some err \<Rightarrow> (w, Some (''begin transaction: '' @ err))
     | None \<Rightarrow>
         (case fn w of
            (w, Some err) \<Rightarrow>
              (w, Some (case rollback_err of Some rb \<Rightarrow> ''rollback failed: '' @ rb @ '' (original error: '' @ err @ '')'' | None \<Rightarrow> err))
          | (w, None) \<Rightarrow> (w, map_option (\<lambda>err. ''commit transaction: '' @ err) commit_err)))"

section \<open>What is stored is read back\<close>

definition repo_env_ok :: "repo_env \<Rightarrow> bool" where
  "repo_env_ok e = (reads (re_state e) 12 \<and> reads (re_gpsi e) 12 \<and> reads (re_supi e) 12)"

lemma get_columns_fit: "length get_columns = length scan_destinations"
  by (simp add: get_columns_def scan_destinations_def)

lemma list_columns_short: "length list_columns \<noteq> length scan_destinations"
  by (simp add: list_columns_def scan_destinations_def)

lemma scan_encrypt:
  assumes "aead_ok (pc_seal c) (pc_open c)" "repo_env_ok e" "encrypt_session c e op s = Inr (row, hash)"
    and "row' = row\<lparr>ps_CompletedAt := x, ps_TerminatedAt := y\<rparr>"
    and "ps_AMFIP s = map_option inet (ps_AMFIP s)"
    and "\<And>i. ps_AAAConfigID s = Some i \<Longrightarrow> uuid i = i \<and> i \<noteq> ''00000000-0000-0000-0000-000000000000''"
  shows "scanSession c inet uuid get_columns (row', hash) = Inr (s\<lparr>ps_CompletedAt := x, ps_TerminatedAt := y\<rparr>)"
proof -
  obtain st g u where st: "encryptState (pc_seal c) (re_state e) (pc_enc c) (ps_EAPSessionState s) = Inr st"
    and g: "encryptField (pc_seal c) (re_gpsi e) (pc_enc c) (ps_GPSI s) = Inr g"
    and u: "encryptField (pc_seal c) (re_supi e) (pc_enc c) (ps_Supi s) = Inr u"
    and row: "row = s\<lparr>ps_EAPSessionState := st, ps_GPSI := g, ps_Supi := u\<rparr>"
    using assms(3) by (auto simp: encrypt_session_def split: sum.splits)
  have n: "st \<noteq> []" using st assms(2) EncryptConcat_nonempty by (auto simp: encryptState_def repo_env_ok_def)
  have d: "decryptState (pc_open c) (pc_enc c) st = Inr (ps_EAPSessionState s)" "decryptField (pc_open c) (pc_enc c) g = Inr (ps_GPSI s)"
    "decryptField (pc_open c) (pc_enc c) u = Inr (ps_Supi s)"
    using assms(1,2) st g u decryptState_encryptState decryptField_encryptField by (auto simp: repo_env_ok_def)
  have i: "(case ps_AAAConfigID s of None \<Rightarrow> None
      | Some i \<Rightarrow> if uuid i = ''00000000-0000-0000-0000-000000000000'' then None else Some (uuid i)) = ps_AAAConfigID s"
    using assms(6) by (cases "ps_AAAConfigID s") auto
  show ?thesis
    unfolding scanSession_def assms(4) row by (simp add: get_columns_fit n d i value_or_zero_def assms(5) [symmetric] Let_def)
qed

lemma find_row_new: "\<not> list_ex (\<lambda>r. rid r = i) t \<Longrightarrow> rid x = i \<Longrightarrow> find_row rid i (t @ [x]) = Some x"
  by (induction t) (auto simp: find_row_def)

text \<open>A session that was created is read back as it was, without times of completion and termination.\<close>

lemma create_get:
  assumes "aead_ok (pc_seal c) (pc_open c)" "repo_env_ok e" "Repository_Create c e s t = (t', None)"
    and "\<not> list_ex (\<lambda>r. ps_AuthCtxID (fst r) = ps_AuthCtxID s) t"
    and "ps_AMFIP s = map_option inet (ps_AMFIP s)"
    and "\<And>i. ps_AAAConfigID s = Some i \<Longrightarrow> uuid i = i \<and> i \<noteq> ''00000000-0000-0000-0000-000000000000''"
  shows "GetByAuthCtxID c inet uuid None (ps_AuthCtxID s) t' = Inr (s\<lparr>ps_CompletedAt := None, ps_TerminatedAt := None\<rparr>)"
proof -
  obtain row hash where enc: "encrypt_session c e ''create'' s = Inr (row, hash)"
    and t': "t' = t @ [(row\<lparr>ps_CompletedAt := None, ps_TerminatedAt := None\<rparr>, hash)]"
    using assms(3) by (auto simp: Repository_Create_def split: sum.splits option.splits if_splits)
  have "ps_AuthCtxID row = ps_AuthCtxID s" using enc by (auto simp: encrypt_session_def split: sum.splits)
  then have "find_row (ps_AuthCtxID \<circ> fst) (ps_AuthCtxID s) t' = Some (row\<lparr>ps_CompletedAt := None, ps_TerminatedAt := None\<rparr>, hash)"
    unfolding t' using assms(4) by (intro find_row_new) simp_all
  then show ?thesis
    using scan_encrypt [where x = None and y = None, OF assms(1,2) enc refl assms(5,6)] by (simp add: GetByAuthCtxID_def)
qed

section \<open>Listing and expiring sessions\<close>

lemma sort_key_Nil: "sort_key f xs = [] \<longleftrightarrow> xs = []"
  by (metis length_0_conv length_sort)

lemma scan_all_fails: "rows \<noteq> [] \<Longrightarrow> (\<And>r. scan r = Inl err) \<Longrightarrow> scan_all scan rows = Inl err"
  by (cases rows) simp_all

text \<open> The sessions of a subscriber cannot be listed.  The query of \<^verbatim>\<open>List\<close> selects one column less than the scan has
  destinations, so the listing fails as soon as one session of the subscriber is stored, and is empty
  otherwise.\<close>

theorem session_list_fails:
  "Repository_List c inet uuid None gpsi t =
    (if list_ex (\<lambda>r. snd r = HashGPSI (pc_sha256 c) gpsi) t then Inl (RepoError ''session list scan'') else Inr [])"
proof -
  let ?rows = "sort_key (\<lambda>r. - ps_CreatedAt (fst r)) (filter (\<lambda>r. snd r = HashGPSI (pc_sha256 c) gpsi) t)"
  have "scanSession c inet uuid list_columns r = Inl (RepoError ''number of field descriptions must equal number of destinations'')" for r
    by (simp add: scanSession_def list_columns_short)
  then have "?rows \<noteq> [] \<Longrightarrow> scan_all (scanSession c inet uuid list_columns) ?rows =
      Inl (RepoError ''number of field descriptions must equal number of destinations'')"
    by (simp add: scan_all_fails)
  moreover have "?rows = [] \<longleftrightarrow> \<not> list_ex (\<lambda>r. snd r = HashGPSI (pc_sha256 c) gpsi) t"
    by (simp add: sort_key_Nil filter_empty_conv list_ex_iff)
  ultimately show ?thesis by (cases "?rows = []") (simp_all add: Repository_List_def Let_def)
qed


definition ex_pg_session :: "string \<Rightarrow> pg_session" where
  "ex_pg_session status = \<lparr>ps_AuthCtxID = ''a'', ps_GPSI = '''', ps_Supi = '''', ps_SnssaiSST = 1, ps_SnssaiSD = '''', ps_AMFInstanceID = '''', ps_AMFIP = None,
     ps_AMFRegion = '''', ps_AAAConfigID = None, ps_EAPSessionState = [], ps_NssaaStatus = status, ps_AuthResult = status, ps_EAPRounds = 1,
     ps_MaxEAPRounds = 20, ps_EAPLastNonce = '''', ps_FailureReason = '''', ps_FailureCause = '''', ps_ReauthNotifURI = '''', ps_RevocNotifURI = '''',
     ps_CreatedAt = 0, ps_UpdatedAt = 0, ps_ExpiresAt = 10, ps_CompletedAt = None, ps_TerminatedAt = None\<rparr>"


section \<open>The look-up of a configuration\<close>

lemma best_None: "best P t = None \<longleftrightarrow> (\<forall>r \<in> set t. \<not> P r)"
proof -
  have "best P t = None \<longleftrightarrow> by_priority (filter P t) = []" by (simp add: best_def split: list.splits)
  then show ?thesis by (simp add: by_priority_def sort_key_Nil filter_empty_conv)
qed

lemma best_Some:
  assumes "best P t = Some r"
  shows "r \<in> set t \<and> P r \<and> (\<forall>x \<in> set t. P x \<longrightarrow> ar_priority r \<le> ar_priority x)"
proof -
  obtain rest where s: "by_priority (filter P t) = r # rest" using assms by (auto simp: best_def split: list.splits)
  have m: "set (r # rest) = set (filter P t)" unfolding s [symmetric] by_priority_def by simp
  have "sorted (map ar_priority (r # rest))" unfolding s [symmetric] by_priority_def by (rule sorted_sort_key)
  then have "\<forall>x \<in> set (r # rest). ar_priority r \<le> ar_priority x" by auto
  then show ?thesis using m by auto
qed


definition ex_aaa_row :: aaa_row where
  "ex_aaa_row = \<lparr>ar_id = ''i'', ar_snssai_sst = 1, ar_snssai_sd = None, ar_protocol = ''RADIUS'', ar_host = ''h'', ar_port = 1812, ar_proxy_host = None,
     ar_proxy_port = None, ar_shared_secret = ''c2VjcmV0'', ar_allow_reauth = True, ar_allow_revoke = True, ar_priority = 100, ar_weight = 1,
     ar_enabled = True, ar_description = '''', ar_created_at = 0, ar_updated_at = 0\<rparr>"


text \<open>Writing a configuration for a slice type without a differentiator never finds the earlier one.\<close>

lemma wildcard_upsert_duplicates:
  assumes "asc_SnssaiSD c = ''''" "asc_SharedSecret c = []" "\<not> list_ex (\<lambda>r. ar_id r = (if asc_ID c = '''' then fresh else asc_ID c)) t"
  shows "Upsert gcm_seal sha256 rnd None fresh now c passphrase t = (t @ [upsert_row fresh now '''' c], None)"
proof -
  have "\<not> list_ex (conflicts (upsert_row fresh now '''' c)) t" by (simp add: conflicts_def upsert_row_def assms(1) list_ex_iff)
  then show ?thesis using assms(2,3) by (simp add: Upsert_def Let_def upsert_row_def)
qed

text \<open>There are at most as many pauses as attempts were asked for, and the last failed attempt is followed by one too.\<close>

lemma execute_retry_pauses: "length (snd (snd (execute_retry fn cancelled reconnect n a le w))) \<le> n"
proof (induction n arbitrary: a le w)
  case (Suc n)
  obtain w' r where "fn w = (w', r)" by fastforce
  then show ?case using Suc.IH [of "Suc a" _ w'] by (cases r) (simp_all add: Let_def split_beta)
qed simp

lemma execute_retry_exhausted:
  assumes "\<And>w. \<exists>w' err. fn w = (w', Some err) \<and> IsConnectionError (Some err)" and "\<And>k. \<not> cancelled k"
  shows "length (snd (snd (execute_retry fn cancelled reconnect n a le w))) = n"
proof (induction n arbitrary: a le w)
  case (Suc n)
  obtain w' err where "fn w = (w', Some err)" "IsConnectionError (Some err)" using assms(1) by blast
  then show ?case using Suc.IH assms(2) by (simp add: Let_def split_beta)
qed simp

end
