(* ===== verification/Spec2Isabelle.thy ===== *)
theory Spec2Isabelle
  imports Prelude Encodings Common Types Stores Eap_Codec Eap_Fragment Eap_Session Eap_Engine
    Resilience Radius Gateway_Registry Gateway_Radius Gateway Storage Crypto Storage_Pg
    Biz Api_Common Api_Nssaa Api_Aiw Redis Cache Amf Nrm Restconf Diameter Gateway_Diameter Auth Nrf Config Migrate Startup Http_Clients Postgres
begin

text \<open>
  The Network Slice-Specific Authentication and Authorization Function (NSSAAF).

  The program authenticates a device for a network slice.  The AMF posts EAP messages to
  the N58 interface, the engine keeps one EAP session per authentication context and
  forwards the messages to the AAA side, and the AAA gateway speaks RADIUS or Diameter to
  the server.
\<close>

end
